(* ===== verification/Prelude.thy ===== *)
theory Prelude
  imports Complex_Main "HOL-Library.Word" "HOL-Library.Signed_Division"
begin

text \<open>
  What Go gives every component: \<^verbatim>\<open>int64\<close> with its wrap-around and its truncating
  division, maps of strings, \<^verbatim>\<open>strings.Split\<close>, and the slice functions the driver
  uses.
\<close>

named_theorems handler_defs \<open>definitions unfolded to run a handler one branch at a time\<close>
named_theorems int64_simps \<open>reading 64-bit words as signed integers\<close>

section \<open>Machine integers\<close>

type_synonym int64 = "64 word"

text \<open>Go's \<^verbatim>\<open>/\<close> on \<^verbatim>\<open>int64\<close>: truncation towards zero, wrapped to the width.\<close>

definition go_div :: "int64 \<Rightarrow> int64 \<Rightarrow> int64" where
  "go_div a b = word_of_int (sint a sdiv sint b)"

lemma sint_int64_bounds:
  fixes a :: int64
  shows "- (2 ^ 63) \<le> sint a" and "sint a < 2 ^ 63"
  using sint_ge [of a] sint_lt [of a] by simp_all

lemma sint_word_of_int64 [int64_simps]:
  "- (2 ^ 63) \<le> k \<Longrightarrow> k < 2 ^ 63 \<Longrightarrow> sint (word_of_int k :: int64) = k"
  by (simp add: sint_sbintrunc' signed_take_bit_int_eq_self)

lemma sint_add_int64:
  fixes a b :: int64
  assumes "- (2 ^ 63) \<le> sint a + sint b" and "sint a + sint b < 2 ^ 63"
  shows "sint (a + b) = sint a + sint b"
  using assms by (simp add: sint_word_ariths signed_take_bit_int_eq_self)

lemma sint_add_int64_overflow:
  fixes a b :: int64
  assumes "2 ^ 63 \<le> sint a + sint b"
  shows "sint (a + b) = sint a + sint b - 2 ^ 64"
proof -
  have "word_of_int (sint a + sint b - 2 ^ 64) = (word_of_int (sint a) + word_of_int (sint b) - word_of_int (2 ^ 64) :: int64)"
    by (simp only: of_int_diff of_int_add)
  also have "\<dots> = a + b" by simp
  finally have eq: "a + b = word_of_int (sint a + sint b - 2 ^ 64)" ..
  show ?thesis
    unfolding eq using assms sint_int64_bounds [of a] sint_int64_bounds [of b]
    by (intro sint_word_of_int64) simp_all
qed

lemma sint_diff_int64:
  fixes a b :: int64
  assumes "- (2 ^ 63) \<le> sint a - sint b" and "sint a - sint b < 2 ^ 63"
  shows "sint (a - b) = sint a - sint b"
  using assms by (simp add: sint_word_ariths signed_take_bit_int_eq_self)

lemma sint_mult_int64:
  fixes a b :: int64
  assumes "- (2 ^ 63) \<le> sint a * sint b" and "sint a * sint b < 2 ^ 63"
  shows "sint (a * b) = sint a * sint b"
  using assms by (simp add: sint_word_ariths signed_take_bit_int_eq_self)

lemma sdiv_nonneg: "0 \<le> a \<Longrightarrow> 0 < b \<Longrightarrow> a sdiv b = a div b" for a b :: int
  by (cases "a = 0") (simp_all add: signed_divide_int_def sgn_if)

lemma sdiv_neg: "a < 0 \<Longrightarrow> 0 < b \<Longrightarrow> a sdiv b = - ((- a) div b)" for a b :: int
  by (simp add: signed_divide_int_def sgn_if)

section \<open>Strings and string maps\<close>

type_synonym strmap = "string \<rightharpoonup> string"

text \<open>Go's \<^verbatim>\<open>m[k]\<close> on a map of strings: the empty string for a missing key.\<close>

definition go_lookup :: "strmap \<Rightarrow> string \<Rightarrow> string" where
  "go_lookup m k = (case m k of Some v \<Rightarrow> v | None \<Rightarrow> '''')"

lemma go_lookup_simps [simp]:
  "m k = Some v \<Longrightarrow> go_lookup m k = v"
  "m k = None \<Longrightarrow> go_lookup m k = ''''"
  by (simp_all add: go_lookup_def)

text \<open>\<^verbatim>\<open>strings.Split(s, sep)\<close> for a separator of one character.\<close>

fun go_split :: "char \<Rightarrow> string \<Rightarrow> string list" where
  "go_split c [] = [[]]"
| "go_split c (x # xs) =
     (if x = c then [] # go_split c xs
      else (case go_split c xs of [] \<Rightarrow> [[x]] | p # ps \<Rightarrow> (x # p) # ps))"

fun go_join :: "char \<Rightarrow> string list \<Rightarrow> string" where
  "go_join c [] = []"
| "go_join c [p] = p"
| "go_join c (p # ps) = p @ c # go_join c ps"

lemma go_split_nonempty [simp]: "go_split c s \<noteq> []"
  by (induction s) (auto split: list.splits)

lemma go_join_Cons: "ps \<noteq> [] \<Longrightarrow> go_join c (p # ps) = p @ c # go_join c ps"
  by (cases ps) auto

lemma go_join_extend: "go_join c ((x # p) # ps) = x # go_join c (p # ps)"
  by (cases ps) auto

lemma go_join_split: "go_join c (go_split c s) = s"
  by (induction s) (auto simp: go_join_Cons go_join_extend split: list.splits)

lemma go_split_pieces: "p \<in> set (go_split c s) \<Longrightarrow> c \<notin> set p"
  by (induction s arbitrary: p) (auto split: if_splits list.splits)

lemma length_go_split: "length (go_split c s) = Suc (count_list s c)"
  by (induction s) (auto split: list.splits)

section \<open>Slices\<close>

text \<open>\<^verbatim>\<open>slices.IndexFunc\<close>: the first index that satisfies the predicate, or -1.\<close>

fun IndexFunc :: "('a \<Rightarrow> bool) \<Rightarrow> 'a list \<Rightarrow> int" where
  "IndexFunc f [] = -1"
| "IndexFunc f (x # xs) =
     (if f x then 0 else (let i = IndexFunc f xs in if i < 0 then -1 else i + 1))"

text \<open>\<^verbatim>\<open>slices.Delete(s, i, j)\<close>, for indices within the slice.\<close>

definition slices_Delete :: "'a list \<Rightarrow> nat \<Rightarrow> nat \<Rightarrow> 'a list" where
  "slices_Delete xs i j = take i xs @ drop j xs"

lemma IndexFunc_ge: "- 1 \<le> IndexFunc f xs"
  by (induction xs) (auto simp: Let_def)

lemma IndexFunc_neg_iff: "IndexFunc f xs < 0 \<longleftrightarrow> (\<forall>x \<in> set xs. \<not> f x)"
  by (induction xs) (auto simp: Let_def)

text \<open>A non-negative index splits the slice at the first element that satisfies the predicate.\<close>

lemma IndexFunc_split:
  assumes "0 \<le> IndexFunc f xs"
  obtains ys y zs where "xs = ys @ y # zs" and "\<forall>x \<in> set ys. \<not> f x" and "f y"
    and "nat (IndexFunc f xs) = length ys"
proof -
  have "\<exists>ys y zs. xs = ys @ y # zs \<and> (\<forall>x \<in> set ys. \<not> f x) \<and> f y \<and> nat (IndexFunc f xs) = length ys"
    using assms
  proof (induction xs)
    case Nil
    then show ?case by simp
  next
    case (Cons x xs)
    show ?case
    proof (cases "f x")
      case True
      then show ?thesis by (intro exI [of _ "[]"] exI [of _ x] exI [of _ xs]) simp
    next
      case False
      with Cons.prems have "0 \<le> IndexFunc f xs" by (auto simp: Let_def split: if_splits)
      with Cons.IH obtain ys y zs where
        "xs = ys @ y # zs" "\<forall>x \<in> set ys. \<not> f x" "f y" "nat (IndexFunc f xs) = length ys" by blast
      with False \<open>0 \<le> IndexFunc f xs\<close> show ?thesis
        by (intro exI [of _ "x # ys"] exI [of _ y] exI [of _ zs]) (simp add: Let_def nat_add_distrib)
    qed
  qed
  then show ?thesis using that by blast
qed

lemma slices_Delete_middle [simp]: "slices_Delete (ys @ y # zs) (length ys) (Suc (length ys)) = ys @ zs"
  by (simp add: slices_Delete_def)

lemma find_append: "find P (xs @ ys) = (case find P xs of None \<Rightarrow> find P ys | Some x \<Rightarrow> Some x)"
  by (induction xs) auto

lemma find_SomeD: "find P xs = Some x \<Longrightarrow> P x"
  by (induction xs) (auto split: if_splits)

end
