(* ===== verification/Csi_Types.thy ===== *)
theory Csi_Types
  imports Prelude
begin

text \<open>
  The CSI messages the driver reads and builds, with the fields it uses, and the constants of
  \<^verbatim>\<open>pkg/driver/constants.go\<close>.  A protobuf pointer that may be \<^verbatim>\<open>nil\<close> is an
  \<open>option\<close>; the generated \<^verbatim>\<open>GetX\<close> accessors are nil-safe, so they read a
  default from \<open>None\<close>.
\<close>

section \<open>constants.go\<close>

definition FSTypeExt4 :: string where "FSTypeExt4 = ''ext4''"
definition DefaultVolumeSize :: int64 where "DefaultVolumeSize = 10 * (1024 * 1024 * 1024)"
definition ParameterType :: string where "ParameterType = ''type''"
definition ParameterFSType :: string where "ParameterFSType = ''fstype''"
definition ParameterVolumePool :: string where "ParameterVolumePool = ''volume_pool''"
definition ParameterVolumeID :: string where "ParameterVolumeID = ''volume_id''"
definition ParameterVolumeName :: string where "ParameterVolumeName = ''volume_name''"
definition ParameterCreationTime :: string where "ParameterCreationTime = ''creation_time''"
definition ParameterNodeID :: string where "ParameterNodeID = ''node_id''"
definition ParameterDeviceName :: string where "ParameterDeviceName = ''device_name''"
definition ParameterReadOnly :: string where "ParameterReadOnly = ''readOnly''"
definition ParameterMkfsOptions :: string where "ParameterMkfsOptions = ''mkfs_options''"
definition CSIDriverName :: string where "CSIDriverName = ''csi.ironcore.dev''"
definition topologyKey :: string where
  "topologyKey = ''topology.'' @ CSIDriverName @ ''/zone''"
definition volumeFieldOwner :: string where "volumeFieldOwner = ''csi.ironcore.dev/volume''"
definition snapshotFieldOwner :: string where "snapshotFieldOwner = ''csi.ironcore.dev/snapshot''"

text \<open>Durations are nanoseconds, as in Go's \<^verbatim>\<open>time.Duration\<close>.\<close>

definition waitInitDelay :: int where "waitInitDelay = 1 * 1000000000"
definition waitFactor :: rat where "waitFactor = 11 / 10"
definition waitActiveSteps :: nat where "waitActiveSteps = 5"

lemmas parameter_defs =
  ParameterType_def ParameterFSType_def ParameterVolumePool_def ParameterVolumeID_def
  ParameterVolumeName_def ParameterCreationTime_def ParameterNodeID_def ParameterDeviceName_def
  ParameterReadOnly_def ParameterMkfsOptions_def

section \<open>Messages shared by several calls\<close>

record CapacityRange =
  RequiredBytes :: int64
  LimitBytes :: int64

definition GetRequiredBytes :: "CapacityRange option \<Rightarrow> int64" where
  "GetRequiredBytes c = (case c of None \<Rightarrow> 0 | Some r \<Rightarrow> RequiredBytes r)"

definition GetLimitBytes :: "CapacityRange option \<Rightarrow> int64" where
  "GetLimitBytes c = (case c of None \<Rightarrow> 0 | Some r \<Rightarrow> LimitBytes r)"

lemma capacity_getters [simp]:
  "GetRequiredBytes (Some r) = RequiredBytes r" "GetRequiredBytes None = 0"
  "GetLimitBytes (Some r) = LimitBytes r" "GetLimitBytes None = 0"
  by (simp_all add: GetRequiredBytes_def GetLimitBytes_def)

datatype AccessModeMode = UNKNOWN | SINGLE_NODE_WRITER | SINGLE_NODE_READER_ONLY
  | MULTI_NODE_READER_ONLY | MULTI_NODE_SINGLE_WRITER | MULTI_NODE_MULTI_WRITER
  | SINGLE_NODE_SINGLE_WRITER | SINGLE_NODE_MULTI_WRITER

record MountVolume =
  FsType :: string
  MountFlags :: "string list"

datatype AccessType = BlockAccess | MountAccess MountVolume

record VolumeCapability =
  AccessMode :: "AccessModeMode option"
  cap_AccessType :: "AccessType option"

text \<open>\<^verbatim>\<open>GetMode\<close> on a possibly nil access mode; \<^verbatim>\<open>GetMount\<close> and
  \<^verbatim>\<open>GetMountFlags\<close> on a possibly nil capability.\<close>

definition GetMode :: "AccessModeMode option \<Rightarrow> AccessModeMode" where
  "GetMode m = (case m of None \<Rightarrow> UNKNOWN | Some x \<Rightarrow> x)"

definition GetMount :: "VolumeCapability option \<Rightarrow> MountVolume option" where
  "GetMount c = (case c of None \<Rightarrow> None | Some cap \<Rightarrow>
     (case cap_AccessType cap of Some (MountAccess m) \<Rightarrow> Some m | _ \<Rightarrow> None))"

definition GetMountFlags :: "MountVolume option \<Rightarrow> string list" where
  "GetMountFlags m = (case m of None \<Rightarrow> [] | Some v \<Rightarrow> MountFlags v)"

record Topology =
  Segments :: strmap

record TopologyRequirement =
  Requisite :: "Topology list"
  Preferred :: "Topology list"

datatype VolumeContentSource = ContentFromSnapshot string | ContentFromVolume string

section \<open>Controller requests and responses\<close>

record CreateVolumeRequest =
  cv_Name :: string
  cv_CapacityRange :: "CapacityRange option"
  cv_VolumeCapabilities :: "VolumeCapability list"
  cv_Parameters :: strmap
  cv_VolumeContentSource :: "VolumeContentSource option"
  cv_AccessibilityRequirements :: "TopologyRequirement option"

record CsiVolume =
  VolumeId :: string
  CapacityBytes :: int64
  VolumeContext :: strmap
  ContentSource :: "VolumeContentSource option"
  AccessibleTopology :: "Topology list"

record PublishRequest =
  cp_VolumeId :: string
  cp_NodeId :: string

record CreateSnapshotRequest =
  cs_Name :: string
  cs_SourceVolumeId :: string

record CsiSnapshot =
  SnapshotId :: string
  SourceVolumeId :: string
  SnapshotCreationTime :: int64
  ReadyToUse :: bool

record ControllerExpandRequest =
  ce_VolumeId :: string
  ce_CapacityRange :: "CapacityRange option"

record ControllerExpandResponse =
  ce_CapacityBytes :: int64
  NodeExpansionRequired :: bool

record ValidateCapsRequest =
  vvc_VolumeId :: string
  vvc_VolumeCapabilities :: "VolumeCapability list"

datatype ControllerCapability = CREATE_DELETE_VOLUME | PUBLISH_UNPUBLISH_VOLUME | LIST_VOLUMES
  | GET_CAPACITY | CREATE_DELETE_SNAPSHOT | LIST_SNAPSHOTS | CLONE_VOLUME | PUBLISH_READONLY
  | CTL_EXPAND_VOLUME | LIST_VOLUMES_PUBLISHED_NODES | CTL_VOLUME_CONDITION | CTL_GET_VOLUME
  | CTL_SINGLE_NODE_MULTI_WRITER | MODIFY_VOLUME

section \<open>Node requests and responses\<close>

record NodeStageRequest =
  ns_VolumeId :: string
  ns_PublishContext :: strmap
  ns_StagingTargetPath :: string
  ns_VolumeCapability :: "VolumeCapability option"
  ns_VolumeContext :: strmap

record NodePublishRequest =
  np_VolumeId :: string
  np_StagingTargetPath :: string
  np_TargetPath :: string
  np_VolumeCapability :: "VolumeCapability option"
  np_Readonly :: bool
  np_VolumeContext :: strmap

record NodeUnstageRequest =
  nus_VolumeId :: string
  nus_StagingTargetPath :: string

record NodeUnpublishRequest =
  nup_VolumeId :: string
  nup_TargetPath :: string

record NodeExpandRequest =
  ne_VolumeId :: string
  ne_VolumePath :: string
  ne_CapacityRange :: "CapacityRange option"
  ne_VolumeCapability :: "VolumeCapability option"

record NodeStatsRequest =
  nst_VolumeId :: string
  nst_VolumePath :: string

datatype UsageUnit = UNIT_UNKNOWN | BYTES | INODES

record VolumeUsage =
  Unit :: UsageUnit
  Total :: int64
  Available :: int64
  Used :: int64

record NodeInfo =
  NodeId :: string
  ni_AccessibleTopology :: "Topology option"

datatype NodeCapability = STAGE_UNSTAGE_VOLUME | GET_VOLUME_STATS | EXPAND_VOLUME
  | VOLUME_CONDITION | NODE_SINGLE_NODE_MULTI_WRITER | VOLUME_MOUNT_GROUP

datatype PluginCapability = CONTROLLER_SERVICE | VOLUME_ACCESSIBILITY_CONSTRAINTS

end
