(* ===== verification/Errors.thy ===== *)
theory Errors
  imports Csi_Types
begin

text \<open>
  Errors as values, and the result of a handler.

  The driver only ever looks at an error it did not build itself through four questions: its text,
  \<^verbatim>\<open>apierrors.IsNotFound\<close>, \<^verbatim>\<open>os.IsNotExist\<close> and
  \<^verbatim>\<open>wait.Interrupted\<close>.  An error of code outside the repository is therefore a record
  of the answers to these questions (\<open>ext_error\<close>), left arbitrary by every theorem.  An error the
  driver builds is kept symbolic: its gRPC code, its format string and the arguments of the format.
\<close>

record ext_error =
  err_text :: string
  err_notFound :: bool
  err_notExist :: bool
  err_interrupted :: bool

text \<open>\<^verbatim>\<open>google.golang.org/grpc/codes\<close>.\<close>

datatype code = OK | Canceled | Unknown | InvalidArgument | DeadlineExceeded | NotFound
  | AlreadyExists | PermissionDenied | ResourceExhausted | FailedPrecondition | Aborted
  | OutOfRange | Unimplemented | Internal | Unavailable | DataLoss | Unauthenticated

text \<open>
  \<open>Status\<close> is \<^verbatim>\<open>status.Error\<close> and \<^verbatim>\<open>status.Errorf\<close>, \<open>Errorf\<close> is
  \<^verbatim>\<open>fmt.Errorf\<close>, \<open>BadRequest\<close> is \<^verbatim>\<open>apierrors.NewBadRequest\<close>; \<open>Ext\<close> is an
  error of outside code handed on unchanged.  The arguments are those of the format: a string, an
  integer, an object key, an error, a volume capability.
\<close>

datatype error =
    Ext ext_error
  | Status code string "fmt_arg list"
  | Errorf string "fmt_arg list"
  | BadRequest string "fmt_arg list"
and fmt_arg = A_Str string | A_Int int64 | A_Key string string | A_Err error | A_Cap VolumeCapability

datatype 'a result = Ok 'a | Err error | Panic string

text \<open>The gRPC code of an error that is a gRPC status, and \<open>None\<close> for every other error.\<close>

fun status_code :: "error \<Rightarrow> code option" where
  "status_code (Status c m args) = Some c"
| "status_code _ = None"

fun result_code :: "'a result \<Rightarrow> code option" where
  "result_code (Ok _) = Some OK"
| "result_code (Err e) = status_code e"
| "result_code (Panic _) = None"

definition is_ok :: "'a result \<Rightarrow> bool" where
  "is_ok r = (case r of Ok _ \<Rightarrow> True | _ \<Rightarrow> False)"

lemma is_ok_simps [simp]: "is_ok (Ok x)" "\<not> is_ok (Err e)" "\<not> is_ok (Panic p)"
  by (simp_all add: is_ok_def)

lemma is_ok_iff: "is_ok r \<longleftrightarrow> (\<exists>x. r = Ok x)"
  by (cases r) simp_all

lemmas outcome_splits = prod.splits sum.splits option.splits result.splits if_splits

end
