(* ===== verification/Kube_Types.thy ===== *)
theory Kube_Types
  imports Errors
begin

text \<open>
  The Kubernetes and ironcore objects with the fields the driver reads or writes, and the interface
  of \<^verbatim>\<open>client.Client\<close> it calls them through.

  The client is code outside the repository: every one of its calls is an arbitrary function of its
  arguments and of the state of the world \<open>'w\<close>, which it may change in any way.  \<open>Get\<close> decodes the
  object into the caller's variable, and \<open>Patch\<close> decodes the server's reply into it, so both return
  the object; an error returns no object and leaves the caller's variable alone.
\<close>

section \<open>Objects\<close>

record ObjectKey =
  key_Namespace :: string
  key_Name :: string

text \<open>A \<^verbatim>\<open>resource.Quantity\<close>, seen only through \<^verbatim>\<open>NewQuantity\<close> and \<^verbatim>\<open>Value\<close>.\<close>

datatype Quantity = NewQuantity (quantity_Value: int64)

type_synonym ResourceList = "string \<rightharpoonup> Quantity"

definition ResourceStorage :: string where "ResourceStorage = ''storage''"
definition VolumeStateAvailable :: string where "VolumeStateAvailable = ''Available''"
definition VolumeSnapshotStateReady :: string where "VolumeSnapshotStateReady = ''Ready''"
definition ResizePolicyExpandOnly :: string where "ResizePolicyExpandOnly = ''ExpandOnly''"
definition LabelFailureDomainBetaZone :: string where
  "LabelFailureDomainBetaZone = ''failure-domain.beta.kubernetes.io/zone''"
definition LabelTopologyZone :: string where
  "LabelTopologyZone = ''topology.kubernetes.io/zone''"

record VolumeSpec =
  Resources :: ResourceList
  VolumeClassRef :: "string option"
  VolumePoolRef :: "string option"

record VolumeAccess =
  Handle :: string
  VolumeAttributes :: "strmap option"

record Volume =
  vol_Namespace :: string
  vol_Name :: string
  vol_CreationTimestamp :: int64
  vol_Spec :: VolumeSpec
  vol_State :: string
  vol_Access :: "VolumeAccess option"

record VolumeSnapshot =
  vs_Namespace :: string
  vs_Name :: string
  vs_CreationTimestamp :: int64
  vs_State :: string

record VolumeClass =
  vc_Name :: string
  vc_ResizePolicy :: string

record VolumePool =
  vp_Name :: string

record MachineVolume =
  mv_Name :: string
  mv_Device :: "string option"
  mv_VolumeRef :: "string option"

record Machine =
  m_Namespace :: string
  m_Name :: string
  m_Volumes :: "MachineVolume list"

record Node =
  n_Name :: string
  n_Labels :: "strmap option"

text \<open>The apply configurations sent by \<^verbatim>\<open>Apply\<close>.\<close>

record VolumeApplyConfig =
  va_Name :: string
  va_Namespace :: string
  va_Kind :: string
  va_Spec :: VolumeSpec

record SnapshotApplyConfig =
  sa_Name :: string
  sa_Namespace :: string
  sa_VolumeRef :: string

section \<open>The client\<close>

record 'w Client =
  GetVolume :: "ObjectKey \<Rightarrow> 'w \<Rightarrow> (ext_error + Volume) \<times> 'w"
  GetVolumePool :: "ObjectKey \<Rightarrow> 'w \<Rightarrow> (ext_error + VolumePool) \<times> 'w"
  GetVolumeClass :: "ObjectKey \<Rightarrow> 'w \<Rightarrow> (ext_error + VolumeClass) \<times> 'w"
  GetVolumeSnapshot :: "ObjectKey \<Rightarrow> 'w \<Rightarrow> (ext_error + VolumeSnapshot) \<times> 'w"
  GetMachine :: "ObjectKey \<Rightarrow> 'w \<Rightarrow> (ext_error + Machine) \<times> 'w"
  GetNode :: "ObjectKey \<Rightarrow> 'w \<Rightarrow> (ext_error + Node) \<times> 'w"
  ApplyVolume :: "VolumeApplyConfig \<Rightarrow> string \<Rightarrow> bool \<Rightarrow> 'w \<Rightarrow> ext_error option \<times> 'w"
  ApplySnapshot :: "SnapshotApplyConfig \<Rightarrow> string \<Rightarrow> bool \<Rightarrow> 'w \<Rightarrow> ext_error option \<times> 'w"
  DeleteVolumeObject :: "ObjectKey \<Rightarrow> 'w \<Rightarrow> ext_error option \<times> 'w"
  DeleteSnapshotObject :: "ObjectKey \<Rightarrow> 'w \<Rightarrow> ext_error option \<times> 'w"
  PatchMachine :: "Machine \<Rightarrow> Machine \<Rightarrow> 'w \<Rightarrow> (ext_error + Machine) \<times> 'w"
  PatchVolume :: "Volume \<Rightarrow> Volume \<Rightarrow> 'w \<Rightarrow> (ext_error + Volume) \<times> 'w"

definition volume_key :: "Volume \<Rightarrow> ObjectKey" where
  "volume_key v = \<lparr>key_Namespace = vol_Namespace v, key_Name = vol_Name v\<rparr>"

definition snapshot_key :: "VolumeSnapshot \<Rightarrow> ObjectKey" where
  "snapshot_key v = \<lparr>key_Namespace = vs_Namespace v, key_Name = vs_Name v\<rparr>"

text \<open>\<^verbatim>\<open>client.ObjectKeyFromObject\<close> as the argument of an error message.\<close>

definition key_arg :: "ObjectKey \<Rightarrow> fmt_arg" where
  "key_arg k = A_Key (key_Namespace k) (key_Name k)"

definition machine_key :: "Machine \<Rightarrow> ObjectKey" where
  "machine_key m = \<lparr>key_Namespace = m_Namespace m, key_Name = m_Name m\<rparr>"

text \<open>The key of a zero object, such as one that a failed \<^verbatim>\<open>Get\<close> has not filled.\<close>

definition empty_key :: ObjectKey where
  "empty_key = \<lparr>key_Namespace = '''', key_Name = ''''\<rparr>"

end
