(* ===== verification/Os_Utils.thy ===== *)
theory Os_Utils
  imports Errors
begin

text \<open>
  \<^verbatim>\<open>pkg/utils/os/osutils_unix.go\<close>: the interface \<^verbatim>\<open>OSWrapper\<close> the node
  service calls the operating system through, and its implementation \<^verbatim>\<open>OsOps\<close>, which
  forwards to the packages \<^verbatim>\<open>os\<close>, \<^verbatim>\<open>unix\<close> and
  \<^verbatim>\<open>k8s.io/utils/path\<close>.  Those packages are the parameter \<open>OsPkg\<close>: arbitrary
  functions of their arguments and of the world.
\<close>

datatype whence = SeekStart | SeekCurrent | SeekEnd

record 'w File =
  Seek :: "int64 \<Rightarrow> whence \<Rightarrow> 'w \<Rightarrow> (int64 \<times> ext_error option) \<times> 'w"
  Close :: "'w \<Rightarrow> ext_error option \<times> 'w"

record Statfs_t =
  Bsize :: int64
  Blocks :: int64
  Bfree :: int64
  Bavail :: int64
  Files :: int64
  Ffree :: int64

definition zero_Statfs :: Statfs_t where
  "zero_Statfs = \<lparr>Bsize = 0, Blocks = 0, Bfree = 0, Bavail = 0, Files = 0, Ffree = 0\<rparr>"

datatype LinkTreatment = CheckFollowSymlink | CheckSymlinkOnly

text \<open>The interface: \<^verbatim>\<open>OSWrapper\<close>.\<close>

record 'w OSWrapper =
  MkdirAll :: "string \<Rightarrow> nat \<Rightarrow> 'w \<Rightarrow> ext_error option \<times> 'w"
  RemoveAll :: "string \<Rightarrow> 'w \<Rightarrow> ext_error option \<times> 'w"
  Stat :: "string \<Rightarrow> 'w \<Rightarrow> ext_error option \<times> 'w"
  IsNotExist :: "ext_error option \<Rightarrow> bool"
  Open :: "string \<Rightarrow> 'w \<Rightarrow> (ext_error + 'w File) \<times> 'w"
  Statfs :: "string \<Rightarrow> Statfs_t \<Rightarrow> 'w \<Rightarrow> (ext_error option \<times> Statfs_t) \<times> 'w"
  Exists :: "LinkTreatment \<Rightarrow> string \<Rightarrow> 'w \<Rightarrow> (bool \<times> ext_error option) \<times> 'w"

text \<open>The packages behind it.\<close>

record 'w OsPkg =
  os_MkdirAll :: "string \<Rightarrow> nat \<Rightarrow> 'w \<Rightarrow> ext_error option \<times> 'w"
  os_RemoveAll :: "string \<Rightarrow> 'w \<Rightarrow> ext_error option \<times> 'w"
  os_Stat :: "string \<Rightarrow> 'w \<Rightarrow> ext_error option \<times> 'w"
  os_Open :: "string \<Rightarrow> 'w \<Rightarrow> (ext_error + 'w File) \<times> 'w"
  unix_Statfs :: "string \<Rightarrow> Statfs_t \<Rightarrow> 'w \<Rightarrow> (ext_error option \<times> Statfs_t) \<times> 'w"
  utilpath_Exists :: "LinkTreatment \<Rightarrow> string \<Rightarrow> 'w \<Rightarrow> (bool \<times> ext_error option) \<times> 'w"

text \<open>\<^verbatim>\<open>os.IsNotExist\<close>, false of \<^verbatim>\<open>nil\<close>.\<close>

definition os_IsNotExist :: "ext_error option \<Rightarrow> bool" where
  "os_IsNotExist err = (case err of None \<Rightarrow> False | Some e \<Rightarrow> err_notExist e)"

lemma os_IsNotExist_simps [simp]:
  "\<not> os_IsNotExist None" "os_IsNotExist (Some e) = err_notExist e"
  by (simp_all add: os_IsNotExist_def)

definition OsOps :: "'w OsPkg \<Rightarrow> 'w OSWrapper" where
  "OsOps p =
     \<lparr>MkdirAll = (\<lambda>path perm. os_MkdirAll p path perm),
      RemoveAll = (\<lambda>name. os_RemoveAll p name),
      Stat = (\<lambda>path. os_Stat p path),
      IsNotExist = (\<lambda>err. os_IsNotExist err),
      Open = (\<lambda>path. os_Open p path),
      Statfs = (\<lambda>path buf. unix_Statfs p path buf),
      Exists = (\<lambda>linkBehavior filename. utilpath_Exists p CheckFollowSymlink filename)\<rparr>"

section \<open>The contract the node service relies on\<close>

text \<open>
  \<^verbatim>\<open>IsNotExist\<close> answers by the class of the error, and never says a
  \<^verbatim>\<open>nil\<close> error is a missing file; a path is looked up through its symbolic links.
\<close>

locale os_wrapper =
  fixes os :: "'w OSWrapper"
  assumes IsNotExist_class: "IsNotExist os err = os_IsNotExist err"
    and Exists_follows: "Exists os link path w = Exists os CheckFollowSymlink path w"
begin

lemma IsNotExist_nil [simp]: "\<not> IsNotExist os None"
  by (simp add: IsNotExist_class)

lemma IsNotExist_Some [simp]: "IsNotExist os (Some e) = err_notExist e"
  by (simp add: IsNotExist_class)

lemma Exists_link_irrelevant: "Exists os l1 path w = Exists os l2 path w"
  using Exists_follows [of l1 path w] Exists_follows [of l2 path w] by simp

end

interpretation osops: os_wrapper "OsOps p" for p :: "'w OsPkg"
  by unfold_locales (simp_all add: OsOps_def)

end
