(* ===== verification/Mount_Utils.thy ===== *)
theory Mount_Utils
  imports Errors
begin

text \<open>
  \<^verbatim>\<open>pkg/utils/mount\<close>: the interface \<^verbatim>\<open>MountWrapper\<close> the node service
  mounts through, its implementation \<^verbatim>\<open>NodeMounter\<close> (a
  \<^verbatim>\<open>SafeFormatAndMount\<close> of \<^verbatim>\<open>k8s.io/mount-utils\<close> with one method
  added), and \<^verbatim>\<open>DeviceStats\<close>.  The mount library is the parameter
  \<open>SafeFormatAndMount\<close>.
\<close>

record MountPoint =
  Device :: string
  Path :: string

record 'w Resizefs =
  Resize :: "string \<Rightarrow> string \<Rightarrow> 'w \<Rightarrow> (bool \<times> ext_error option) \<times> 'w"

record 'w MountWrapper =
  IsLikelyNotMountPoint :: "string \<Rightarrow> 'w \<Rightarrow> (bool \<times> ext_error option) \<times> 'w"
  Mount :: "string \<Rightarrow> string \<Rightarrow> string \<Rightarrow> string list \<Rightarrow> 'w \<Rightarrow> ext_error option \<times> 'w"
  Unmount :: "string \<Rightarrow> 'w \<Rightarrow> ext_error option \<times> 'w"
  ListMounts :: "'w \<Rightarrow> (ext_error + MountPoint list) \<times> 'w"
  FormatAndMountSensitiveWithFormatOptions ::
    "string \<Rightarrow> string \<Rightarrow> string \<Rightarrow> string list \<Rightarrow> string list \<Rightarrow> string list \<Rightarrow> 'w
       \<Rightarrow> ext_error option \<times> 'w"
  NewResizeFs :: "'w \<Rightarrow> (ext_error + 'w Resizefs) \<times> 'w"

text \<open>
  The mount library: the mounter of \<^verbatim>\<open>k8smountutils.New("")\<close> with the executor of
  \<^verbatim>\<open>utilexec.New()\<close>, and the resizer \<^verbatim>\<open>k8smountutils.NewResizeFs\<close>
  builds over that executor.
\<close>

record 'w SafeFormatAndMount =
  sfm_IsLikelyNotMountPoint :: "string \<Rightarrow> 'w \<Rightarrow> (bool \<times> ext_error option) \<times> 'w"
  sfm_Mount :: "string \<Rightarrow> string \<Rightarrow> string \<Rightarrow> string list \<Rightarrow> 'w \<Rightarrow> ext_error option \<times> 'w"
  sfm_Unmount :: "string \<Rightarrow> 'w \<Rightarrow> ext_error option \<times> 'w"
  sfm_List :: "'w \<Rightarrow> (ext_error + MountPoint list) \<times> 'w"
  sfm_FormatAndMount ::
    "string \<Rightarrow> string \<Rightarrow> string \<Rightarrow> string list \<Rightarrow> string list \<Rightarrow> string list \<Rightarrow> 'w
       \<Rightarrow> ext_error option \<times> 'w"
  sfm_NewResizeFs :: "'w Resizefs"

definition NodeMounter_NewResizeFs ::
    "'w SafeFormatAndMount \<Rightarrow> 'w \<Rightarrow> (ext_error + 'w Resizefs) \<times> 'w" where
  "NodeMounter_NewResizeFs m w = (Inr (sfm_NewResizeFs m), w)"

text \<open>The methods of the embedded struct are promoted to \<^verbatim>\<open>NodeMounter\<close>.\<close>

definition NodeMounter :: "'w SafeFormatAndMount \<Rightarrow> 'w MountWrapper" where
  "NodeMounter m =
     \<lparr>IsLikelyNotMountPoint = sfm_IsLikelyNotMountPoint m,
      Mount = sfm_Mount m,
      Unmount = sfm_Unmount m,
      ListMounts = sfm_List m,
      FormatAndMountSensitiveWithFormatOptions = sfm_FormatAndMount m,
      NewResizeFs = NodeMounter_NewResizeFs m\<rparr>"

definition NewNodeMounter :: "'w SafeFormatAndMount \<Rightarrow> ext_error + 'w MountWrapper" where
  "NewNodeMounter m = Inr (NodeMounter m)"

record DeviceStats =
  AvailableBytes :: int64
  TotalBytes :: int64
  UsedBytes :: int64
  AvailableInodes :: int64
  TotalInodes :: int64
  UsedInodes :: int64

section \<open>The contract of a mounter\<close>

text \<open>Asking for a resizer never fails and does nothing else.\<close>

locale mount_wrapper =
  fixes mounter :: "'w MountWrapper" and resizer :: "'w Resizefs"
  assumes NewResizeFs_total: "NewResizeFs mounter w = (Inr resizer, w)"
begin

lemma NewResizeFs_pure: "snd (NewResizeFs mounter w) = w"
  by (simp add: NewResizeFs_total)

lemma NewResizeFs_no_error: "fst (NewResizeFs mounter w) \<noteq> Inl e"
  by (simp add: NewResizeFs_total)

end

interpretation nodemounter: mount_wrapper "NodeMounter m" "sfm_NewResizeFs m"
  for m :: "'w SafeFormatAndMount"
  by unfold_locales (simp add: NodeMounter_def NodeMounter_NewResizeFs_def)

end
