(* ===== verification/Driver.thy ===== *)
theory Driver
  imports Kube_Types Os_Utils Mount_Utils
begin

text \<open>
  \<^verbatim>\<open>pkg/driver/driver.go\<close>, \<^verbatim>\<open>pkg/driver/version.go\<close>,
  \<^verbatim>\<open>pkg/driver/identity.go\<close> and \<^verbatim>\<open>cmd/options/options.go\<close>: the
  driver value every call is a method of, its construction, and the identity service.

  \<open>Runtime\<close> collects what the handlers take from the Go runtime and depends on the process they
  run in: \<^verbatim>\<open>filepath.EvalSymlinks\<close>, the rendering of a time in the local zone, and
  the build information.
\<close>

record Config =
  cfg_NodeID :: string
  cfg_NodeName :: string
  DriverNamespace :: string

record 'w driver =
  d_mounter :: "'w MountWrapper"
  d_os :: "'w OSWrapper"
  d_targetClient :: "'w Client"
  d_ironcoreClient :: "'w Client"
  d_config :: Config
  d_name :: string

record 'w Runtime =
  EvalSymlinks :: "string \<Rightarrow> 'w \<Rightarrow> (ext_error + string) \<times> 'w"
  UnixTimeString :: "int64 \<Rightarrow> string"
  ReadBuildInfo :: "string option \<times> bool"

text \<open>\<^verbatim>\<open>debug.ReadBuildInfo\<close> gives the main module's version, or a nil info.\<close>

definition Version :: "'w Runtime \<Rightarrow> string" where
  "Version rt =
     (let (info, ok) = ReadBuildInfo rt in
      if \<not> ok \<or> info = None \<or> info = Some '''' then ''(unknown)'' else the info)"

text \<open>\<^verbatim>\<open>panic\<close> when there is no node mounter.\<close>

definition NewDriver ::
    "'w SafeFormatAndMount \<Rightarrow> 'w OsPkg \<Rightarrow> Config \<Rightarrow> 'w Client \<Rightarrow> 'w Client \<Rightarrow> string
       \<Rightarrow> 'w driver result" where
  "NewDriver mountpkg ospkg config targetClient ironCoreClient driverName =
     (case NewNodeMounter mountpkg of
        Inl err \<Rightarrow> Panic ''error creating node mounter''
      | Inr nodeMounter \<Rightarrow>
          Ok \<lparr>d_mounter = nodeMounter, d_os = OsOps ospkg, d_targetClient = targetClient,
              d_ironcoreClient = ironCoreClient, d_config = config, d_name = driverName\<rparr>)"

definition BeforeServe :: "'w driver \<Rightarrow> 'w \<Rightarrow> error option \<times> 'w" where
  "BeforeServe d w = (None, w)"

section \<open>The identity service\<close>

record PluginInfo =
  pi_Name :: string
  pi_VendorVersion :: string

definition GetPluginInfo :: "'w Runtime \<Rightarrow> 'w driver \<Rightarrow> PluginInfo result" where
  "GetPluginInfo rt d = Ok \<lparr>pi_Name = d_name d, pi_VendorVersion = Version rt\<rparr>"

definition GetPluginCapabilities :: "'w driver \<Rightarrow> PluginCapability list result" where
  "GetPluginCapabilities d = Ok [CONTROLLER_SERVICE, VOLUME_ACCESSIBILITY_CONSTRAINTS]"

definition Probe :: "'w driver \<Rightarrow> unit result" where
  "Probe d = Ok ()"

section \<open>A constructed driver\<close>

lemma NewDriver_total:
  "NewDriver mp op config tc ic name =
     Ok \<lparr>d_mounter = NodeMounter mp, d_os = OsOps op, d_targetClient = tc,
         d_ironcoreClient = ic, d_config = config, d_name = name\<rparr>"
  by (simp add: NewDriver_def NewNodeMounter_def)

lemma Version_nonempty: "Version rt \<noteq> ''''"
  by (auto simp: Version_def split: prod.splits)

text \<open>\<open>production d\<close>: the driver was built by \<open>NewDriver\<close>, so it runs on the real wrappers.\<close>

definition production :: "'w driver \<Rightarrow> bool" where
  "production d \<longleftrightarrow> (\<exists>mp op. d_mounter d = NodeMounter mp \<and> d_os d = OsOps op)"

lemma NewDriver_production: "NewDriver mp op config tc ic name = Ok d \<Longrightarrow> production d"
  by (auto simp: NewDriver_total production_def)

section \<open>Checking a request before acting on it\<close>

text \<open>
  The contract the calls of the driver share: a request that the call's own \<open>check\<close> rejects is
  answered with that error, which is a gRPC status, and the world is left exactly as it was.
\<close>

fun run_all :: "('req \<Rightarrow> 'w \<Rightarrow> 'a result \<times> 'w) \<Rightarrow> 'req list \<Rightarrow> 'w \<Rightarrow> 'a result list \<times> 'w" where
  "run_all call [] w = ([], w)"
| "run_all call (r # rs) w =
     (case call r w of (x, w') \<Rightarrow> (case run_all call rs w' of (xs, w'') \<Rightarrow> (x # xs, w'')))"

locale checked_call =
  fixes check :: "'req \<Rightarrow> error option"
    and call :: "'req \<Rightarrow> 'w \<Rightarrow> 'a result \<times> 'w"
  assumes rejects: "check r = Some e \<Longrightarrow> call r w = (Err e, w)"
    and rejects_status: "check r = Some e \<Longrightarrow> \<exists>c. status_code e = Some c \<and> c \<noteq> OK"
begin

lemma ok_accepted: "call r w = (Ok x, w') \<Longrightarrow> check r = None"
  by (cases "check r") (auto dest: rejects [where w = w])

lemma effect_accepted: "snd (call r w) \<noteq> w \<Longrightarrow> check r = None"
  by (cases "check r") (auto dest: rejects [where w = w])

lemma rejected_code: "check r = Some e \<Longrightarrow> \<exists>c. result_code (fst (call r w)) = Some c \<and> c \<noteq> OK"
  using rejects [of r e w] rejects_status [of r e] by simp

lemma rejected_run: "\<forall>r \<in> set rs. check r \<noteq> None \<Longrightarrow> snd (run_all call rs w) = w"
proof (induction rs arbitrary: w)
  case Nil
  then show ?case by simp
next
  case (Cons r rs)
  then obtain e where "check r = Some e" by auto
  then have "call r w = (Err e, w)" by (rule rejects)
  with Cons show ?case by (simp split: prod.splits) (metis snd_conv)
qed

end

text \<open>A client that answers a \<^verbatim>\<open>Get\<close> with the object it was asked for.\<close>

definition answers_key ::
    "(ObjectKey \<Rightarrow> 'w \<Rightarrow> (ext_error + 'a) \<times> 'w) \<Rightarrow> ('a \<Rightarrow> ObjectKey) \<Rightarrow> bool" where
  "answers_key get key \<longleftrightarrow> (\<forall>k w v w'. get k w = (Inr v, w') \<longrightarrow> key v = k)"

lemma answers_keyD: "answers_key get key \<Longrightarrow> get k w = (Inr v, w') \<Longrightarrow> key v = k"
  unfolding answers_key_def by blast

lemma answers_keyD_fst: "answers_key get key \<Longrightarrow> fst (get k w) = Inr v \<Longrightarrow> key v = k"
  by (metis answers_keyD prod.collapse)

end
