(* ===== verification/Bootstrap.thy ===== *)
theory Bootstrap
  imports Driver
begin

text \<open>
  Start-up, \<^verbatim>\<open>cmd/main.go\<close>: reading the configuration from the environment, removing a
  stale socket, building the two clients and handing the driver to the CSI server.

  Outside code is a parameter: \<^verbatim>\<open>csictx.LookupEnv\<close>,
  \<^verbatim>\<open>csiutils.ParseProtoAddr\<close>, \<^verbatim>\<open>common.CleanupSocketIfExists\<close>,
  \<^verbatim>\<open>configutils.GetConfig\<close> and \<^verbatim>\<open>client.New\<close>.
\<close>

record ('w, 'k) Startup =
  LookupEnv :: "string \<Rightarrow> string option"
  ParseProtoAddr :: "string \<Rightarrow> ext_error + (string \<times> string)"
  CleanupSocketIfExists :: "string \<Rightarrow> 'w \<Rightarrow> ext_error option \<times> 'w"
  GetConfig :: "string \<Rightarrow> 'w \<Rightarrow> (ext_error + 'k) \<times> 'w"
  NewClient :: "'k \<Rightarrow> 'w \<Rightarrow> (ext_error + 'w Client) \<times> 'w"

record Flags =
  targetKubeconfig :: string
  ironcoreKubeconfig :: string
  driverName :: string

definition removeUnixSocketIfExists ::
    "('w, 'k) Startup \<Rightarrow> string \<Rightarrow> 'w \<Rightarrow> error option \<times> 'w" where
  "removeUnixSocketIfExists su endpoint w =
     (case ParseProtoAddr su endpoint of
        Inl err \<Rightarrow> (Some (Errorf ''could not parse CSI endpoint: %w'' [A_Err (Ext err)]), w)
      | Inr (proto, addr) \<Rightarrow>
          if proto = ''unix''
          then (case CleanupSocketIfExists su addr w of
                  (Some err, w1) \<Rightarrow>
                    (Some (Errorf ''error cleaning up socket: %w'' [A_Err (Ext err)]), w1)
                | (None, w1) \<Rightarrow> (None, w1))
          else (None, w))"

text \<open>A variable that is not set reads as the empty string.\<close>

definition envString :: "string option \<Rightarrow> string" where
  "envString v = (case v of Some s \<Rightarrow> s | None \<Rightarrow> '''')"

definition initialConfiguration ::
    "('w, 'k) Startup \<Rightarrow> 'w \<Rightarrow> (error + Config) \<times> 'w" where
  "initialConfiguration su w =
     (case LookupEnv su ''X_CSI_MODE'' of
        None \<Rightarrow> (Inl (Errorf ''failed to determin CSI mode'' []), w)
      | Some mode \<Rightarrow>
          if mode \<noteq> ''node'' \<and> mode \<noteq> ''controller''
          then (Inl (Errorf ''invalid driver mode %s (only 'node' or 'controller' are supported)''
                  [A_Str mode]), w)
          else
     (let nodeName = LookupEnv su ''KUBE_NODE_NAME'';
          driverNamespace = LookupEnv su ''VOLUME_NS'';
          csiEndpoint = LookupEnv su ''CSI_ENDPOINT''
      in if nodeName = None \<and> mode = ''node''
         then (Inl (Errorf ''no node name has been provided to driver node'' []), w)
         else if driverNamespace = None \<and> mode = ''controller''
         then (Inl (Errorf ''no ironcore driver namespace has been provided to driver controller'' []), w)
         else (case csiEndpoint of
                 None \<Rightarrow> (Inl (Errorf ''no CSI endpoint has been provided'' []), w)
               | Some endpoint \<Rightarrow>
              (case removeUnixSocketIfExists su endpoint w of
                 (Some err, w1) \<Rightarrow>
                   (Inl (Errorf ''failed to remove existing socket: %w'' [A_Err err]), w1)
               | (None, w1) \<Rightarrow>
                   (Inr \<lparr>cfg_NodeID = envString nodeName, cfg_NodeName = envString nodeName,
                         DriverNamespace = envString driverNamespace\<rparr>, w1)))))"

definition buildKubernetesClient ::
    "('w, 'k) Startup \<Rightarrow> string \<Rightarrow> 'w \<Rightarrow> (error + 'w Client) \<times> 'w" where
  "buildKubernetesClient su kubeconfig w =
     (case GetConfig su kubeconfig w of
        (Inl err, w1) \<Rightarrow> (Inl (Errorf ''unable to load kubeconfig: %w'' [A_Err (Ext err)]), w1)
      | (Inr cfg, w1) \<Rightarrow>
     (case NewClient su cfg w1 of
        (Inl err, w2) \<Rightarrow> (Inl (Errorf ''failed to create client: %w'' [A_Err (Ext err)]), w2)
      | (Inr c, w2) \<Rightarrow> (Inr c, w2)))"

definition initClients ::
    "('w, 'k) Startup \<Rightarrow> Flags \<Rightarrow> 'w \<Rightarrow> (error + ('w Client \<times> 'w Client)) \<times> 'w" where
  "initClients su flags w =
     (case buildKubernetesClient su (targetKubeconfig flags) w of
        (Inl err, w1) \<Rightarrow> (Inl (Errorf ''error getting target client %w'' [A_Err err]), w1)
      | (Inr targetClient, w1) \<Rightarrow>
     (case buildKubernetesClient su (ironcoreKubeconfig flags) w1 of
        (Inl err, w2) \<Rightarrow> (Inl (Errorf ''error getting ironCore client %w'' [A_Err err]), w2)
      | (Inr ironCoreClient, w2) \<Rightarrow> (Inr (targetClient, ironCoreClient), w2)))"

text \<open>
  What \<^verbatim>\<open>main\<close> ends in: exit code 1, a panic, or serving a driver with the listed
  environment settings (request validation and serial volume access of the CSI server).
\<close>

datatype GocsiEnvVar = EnvVarSpecReqValidation | EnvVarSerialVolAccess

datatype 'w start = Exit nat | Crash string | Serve "'w driver" "(GocsiEnvVar \<times> string) list"

definition serveEnv :: "(GocsiEnvVar \<times> string) list" where
  "serveEnv = [(EnvVarSpecReqValidation, ''true''), (EnvVarSerialVolAccess, ''true'')]"

definition main_start ::
    "('w, 'k) Startup \<Rightarrow> 'w SafeFormatAndMount \<Rightarrow> 'w OsPkg \<Rightarrow> Flags \<Rightarrow> 'w \<Rightarrow> 'w start \<times> 'w" where
  "main_start su mountpkg ospkg flags w =
     (case initialConfiguration su w of
        (Inl err, w1) \<Rightarrow> (Exit 1, w1)
      | (Inr config, w1) \<Rightarrow>
     (case initClients su flags w1 of
        (Inl err, w2) \<Rightarrow> (Exit 1, w2)
      | (Inr (targetClient, ironCoreClient), w2) \<Rightarrow>
     (case NewDriver mountpkg ospkg config targetClient ironCoreClient (driverName flags) of
        Ok drv \<Rightarrow> (Serve drv serveEnv, w2)
      | Err err \<Rightarrow> (Exit 1, w2)
      | Panic p \<Rightarrow> (Crash p, w2))))"

end
