(* ===== verification/Wait.thy ===== *)
theory Wait
  imports Kube_Types
begin

text \<open>
  Polling for a volume or a snapshot: \<^verbatim>\<open>waitForVolumeAvailability\<close> and
  \<^verbatim>\<open>waitForVolumeSnapshotReady\<close> of \<^verbatim>\<open>pkg/driver/controller.go\<close>.

  \<^verbatim>\<open>wait.ExponentialBackoffWithContext\<close> is library code and stays a parameter.  The
  condition the driver hands it decodes the object into a variable of the caller, so the state it
  runs on is that variable together with the world.  Its documented behaviour is the predicate
  \<open>backoff_contract\<close>: the condition is tried at most \<^verbatim>\<open>Steps\<close> times; the first try that
  is done or fails ends the loop with that answer; between two tries other parties may change the
  world (\<open>env\<close>), never the caller's variable; and the loop may be interrupted before any try, with
  an error that \<^verbatim>\<open>wait.Interrupted\<close> recognises.
\<close>

record Backoff =
  bo_Duration :: int
  bo_Factor :: rat
  bo_Steps :: nat

type_synonym 's backoff_fn =
  "Backoff \<Rightarrow> ('s \<Rightarrow> (bool \<times> ext_error option) \<times> 's) \<Rightarrow> 's \<Rightarrow> ext_error option \<times> 's"

section \<open>The two wait functions\<close>

definition wait_backoff :: Backoff where
  "wait_backoff =
     \<lparr>bo_Duration = waitInitDelay, bo_Factor = waitFactor, bo_Steps = waitActiveSteps\<rparr>"

definition volume_condition ::
    "'w Client \<Rightarrow> Volume \<times> 'w \<Rightarrow> (bool \<times> ext_error option) \<times> (Volume \<times> 'w)" where
  "volume_condition ironcoreClient = (\<lambda>(volume, w).
     (case GetVolume ironcoreClient (volume_key volume) w of
        (Inr fetched, w') \<Rightarrow> ((vol_State fetched = VolumeStateAvailable, None), (fetched, w'))
      | (Inl err, w') \<Rightarrow> ((False, Some err), (volume, w'))))"

definition waitForVolumeAvailability ::
    "(Volume \<times> 'w) backoff_fn \<Rightarrow> 'w Client \<Rightarrow> Volume \<Rightarrow> 'w \<Rightarrow> error option \<times> (Volume \<times> 'w)" where
  "waitForVolumeAvailability ExponentialBackoffWithContext ironcoreClient volume w =
     (case ExponentialBackoffWithContext wait_backoff (volume_condition ironcoreClient) (volume, w) of
        (None, s) \<Rightarrow> (None, s)
      | (Some err, (volume', w')) \<Rightarrow>
          if err_interrupted err
          then (Some (Errorf ''volume %s did not reach '%s' state within the defined timeout: %w''
                  [key_arg (volume_key volume'), A_Str VolumeStateAvailable, A_Err (Ext err)]),
                (volume', w'))
          else (Some (Ext err), (volume', w')))"

definition snapshot_condition ::
    "'w Client \<Rightarrow> VolumeSnapshot \<times> 'w \<Rightarrow> (bool \<times> ext_error option) \<times> (VolumeSnapshot \<times> 'w)" where
  "snapshot_condition ironcoreClient = (\<lambda>(vs, w).
     (case GetVolumeSnapshot ironcoreClient (snapshot_key vs) w of
        (Inr fetched, w') \<Rightarrow> ((vs_State fetched = VolumeSnapshotStateReady, None), (fetched, w'))
      | (Inl err, w') \<Rightarrow> ((False, Some err), (vs, w'))))"

definition waitForVolumeSnapshotReady ::
    "(VolumeSnapshot \<times> 'w) backoff_fn \<Rightarrow> 'w Client \<Rightarrow> VolumeSnapshot \<Rightarrow> 'w
       \<Rightarrow> error option \<times> (VolumeSnapshot \<times> 'w)" where
  "waitForVolumeSnapshotReady ExponentialBackoffWithContext ironcoreClient vs w =
     (case ExponentialBackoffWithContext wait_backoff (snapshot_condition ironcoreClient) (vs, w) of
        (None, s) \<Rightarrow> (None, s)
      | (Some err, (vs', w')) \<Rightarrow>
          if err_interrupted err
          then (Some (Errorf ''volume snapshot %s did not reach '%s' state within the defined timeout: %w''
                  [key_arg (snapshot_key vs'), A_Str VolumeSnapshotStateReady, A_Err (Ext err)]),
                (vs', w'))
          else (Some (Ext err), (vs', w')))"

section \<open>The documented behaviour of the backoff loop\<close>

inductive poll_run ::
    "('s \<Rightarrow> 's \<Rightarrow> bool) \<Rightarrow> ('s \<Rightarrow> (bool \<times> ext_error option) \<times> 's) \<Rightarrow>
       nat \<Rightarrow> 's \<Rightarrow> ext_error option \<Rightarrow> 's \<Rightarrow> bool"
  for env cond where
  poll_done: "cond s = ((True, None), s') \<Longrightarrow> poll_run env cond (Suc n) s None s'"
| poll_failed: "cond s = ((b, Some e), s') \<Longrightarrow> poll_run env cond (Suc n) s (Some e) s'"
| poll_again: "cond s = ((False, None), s') \<Longrightarrow> env s' s'' \<Longrightarrow> poll_run env cond n s'' r t
     \<Longrightarrow> poll_run env cond (Suc n) s r t"
| poll_interrupted: "err_interrupted e \<Longrightarrow> poll_run env cond n s (Some e) s"

inductive_cases poll_run_successE: "poll_run env cond n s None t"
inductive_cases poll_run_zeroE: "poll_run env cond 0 s r t"
inductive_simps poll_run_zero_iff: "poll_run env cond 0 s r t"

text \<open>Other parties change the world while the loop sleeps, but not the caller's variable.\<close>

definition others_only :: "('a \<times> 'w \<Rightarrow> 'a \<times> 'w \<Rightarrow> bool) \<Rightarrow> bool" where
  "others_only env \<longleftrightarrow> (\<forall>s t. env s t \<longrightarrow> fst s = fst t)"

lemma others_onlyD: "others_only env \<Longrightarrow> env (a, w) (a', w') \<Longrightarrow> a' = a"
  by (fastforce simp: others_only_def)

definition backoff_contract :: "('s \<Rightarrow> 's \<Rightarrow> bool) \<Rightarrow> 's backoff_fn \<Rightarrow> bool" where
  "backoff_contract env eb \<longleftrightarrow>
     (\<forall>b cond s. poll_run env cond (bo_Steps b) s (fst (eb b cond s)) (snd (eb b cond s)))"

text \<open>Success comes from a try of the condition that was done.\<close>

lemma poll_run_success:
  assumes "poll_run env cond n s r t" and "r = None"
  shows "\<exists>s'. cond s' = ((True, None), t)"
  using assms by (induction rule: poll_run.induct) auto

lemma poll_run_success_steps: "poll_run env cond n s None t \<Longrightarrow> 0 < n"
  by (auto elim: poll_run_successE)

lemma poll_run_error:
  assumes "poll_run env cond n s r t" and "r = Some e" and "\<not> err_interrupted e"
  shows "\<exists>s' b. cond s' = ((b, Some e), t)"
  using assms by (induction rule: poll_run.induct) auto

text \<open>Whatever every try of the condition and every step of the others keeps, the loop keeps.\<close>

lemma poll_run_invariant:
  assumes "poll_run env cond n s r t" and "I s"
    and "\<And>s a s'. I s \<Longrightarrow> cond s = (a, s') \<Longrightarrow> I s'"
    and "\<And>s s'. I s \<Longrightarrow> env s s' \<Longrightarrow> I s'"
  shows "I t"
  using assms by (induction rule: poll_run.induct) blast+

section \<open>The contract of waiting\<close>

text \<open>
  A wait function over a backoff loop \<open>eb\<close>, with the \<open>key\<close> of its object and when it is
  \<open>ready\<close>: if the loop keeps its contract, it succeeds only with an object a \<open>fetch\<close> returned
  ready, and its object always has the key it was started with as long as the server answers a
  \<open>fetch\<close> with the object it was asked for.
\<close>

locale wait_loop =
  fixes legal :: "'e \<Rightarrow> bool"
    and wait :: "'e \<Rightarrow> 'a \<Rightarrow> 'w \<Rightarrow> error option \<times> ('a \<times> 'w)"
    and fetch :: "'a \<Rightarrow> 'w \<Rightarrow> (ext_error + 'a) \<times> 'w"
    and ready :: "'a \<Rightarrow> bool"
    and key :: "'a \<Rightarrow> ObjectKey"
  assumes wait_fetched: "legal eb \<Longrightarrow> wait eb v w = (None, (v', w')) \<Longrightarrow>
      \<exists>u w0. fetch u w0 = (Inr v', w') \<and> ready v'"
    and wait_failed: "legal eb \<Longrightarrow> wait eb v w = (Some (Ext e), (v', w')) \<Longrightarrow>
      \<exists>u w0. fetch u w0 = (Inl e, w')"
    and wait_key: "legal eb \<Longrightarrow>
      (\<And>u w0 u' w1. fetch u w0 = (Inr u', w1) \<Longrightarrow> key u' = key u) \<Longrightarrow>
      wait eb v w = (r, (v', w')) \<Longrightarrow> key v' = key v"
begin

lemma wait_ready: "legal eb \<Longrightarrow> wait eb v w = (None, (v', w')) \<Longrightarrow> ready v'"
  by (blast dest: wait_fetched)

lemma wait_not_ready: "legal eb \<Longrightarrow> wait eb v w = (r, (v', w')) \<Longrightarrow> \<not> ready v' \<Longrightarrow> r \<noteq> None"
  by (cases r) (auto dest: wait_ready)

lemma wait_fetched_same:
  assumes "legal eb"
    and "\<And>u w0 u' w1. fetch u w0 = (Inr u', w1) \<Longrightarrow> key u' = key u"
    and "wait eb v w = (None, (v', w'))"
  obtains u w0 where "fetch u w0 = (Inr v', w')" and "key u = key v" and "ready v'"
proof -
  obtain u w0 where u: "fetch u w0 = (Inr v', w')" "ready v'"
    using wait_fetched [OF assms(1,3)] by blast
  have "key u = key v"
    using assms(2) [OF u(1)] wait_key [OF assms(1) assms(2) assms(3)] by simp
  with u that show thesis by blast
qed

lemma wait_success:
  assumes "legal eb"
    and "\<And>u w0 u' w1. fetch u w0 = (Inr u', w1) \<Longrightarrow> key u' = key u"
    and "wait eb v w = (None, (v', w'))"
  shows "ready v' \<and> key v' = key v"
  using wait_ready [OF assms(1,3)] wait_key [OF assms(1) assms(2) assms(3)] by simp

end

text \<open>Both wait functions of the driver provide it, for every backoff loop that keeps its contract.\<close>

definition volume_available :: "Volume \<Rightarrow> bool" where
  "volume_available v \<longleftrightarrow> vol_State v = VolumeStateAvailable"

definition snapshot_ready :: "VolumeSnapshot \<Rightarrow> bool" where
  "snapshot_ready v \<longleftrightarrow> vs_State v = VolumeSnapshotStateReady"

lemma volume_condition_done:
  "volume_condition c (v, w) = ((True, None), (v', w')) \<Longrightarrow>
     GetVolume c (volume_key v) w = (Inr v', w') \<and> volume_available v'"
  by (auto simp: volume_condition_def volume_available_def split: prod.splits sum.splits)

lemma volume_condition_failed:
  "volume_condition c (v, w) = ((b, Some e), (v', w')) \<Longrightarrow>
     GetVolume c (volume_key v) w = (Inl e, w')"
  by (auto simp: volume_condition_def split: prod.splits sum.splits)

lemma snapshot_condition_done:
  "snapshot_condition c (v, w) = ((True, None), (v', w')) \<Longrightarrow>
     GetVolumeSnapshot c (snapshot_key v) w = (Inr v', w') \<and> snapshot_ready v'"
  by (auto simp: snapshot_condition_def snapshot_ready_def split: prod.splits sum.splits)

lemma snapshot_condition_failed:
  "snapshot_condition c (v, w) = ((b, Some e), (v', w')) \<Longrightarrow>
     GetVolumeSnapshot c (snapshot_key v) w = (Inl e, w')"
  by (auto simp: snapshot_condition_def split: prod.splits sum.splits)

text \<open>The loop keeps its contract towards some behaviour of the other parties.\<close>

definition backoff_legal :: "('a \<times> 'w) backoff_fn \<Rightarrow> bool" where
  "backoff_legal eb \<longleftrightarrow> (\<exists>env. others_only env \<and> backoff_contract env eb)"

lemma backoff_legalE:
  assumes "backoff_legal eb" and "eb b cond s = (r, t)"
  obtains env where "others_only env" and "poll_run env cond (bo_Steps b) s r t"
  using assms unfolding backoff_legal_def backoff_contract_def by (metis fst_conv snd_conv)

text \<open>The three laws for one loop, from what its condition does in one try.\<close>

lemma backoff_success:
  assumes "backoff_legal eb" and "eb b cond s = (None, t)"
  shows "\<exists>s'. cond s' = ((True, None), t)"
  using assms by (rule backoff_legalE) (rule poll_run_success [OF _ refl])

lemma backoff_failure:
  assumes "backoff_legal eb" and "eb b cond s = (Some e, t)" and "\<not> err_interrupted e"
  shows "\<exists>s' x. cond s' = ((x, Some e), t)"
  using assms(1,2) by (rule backoff_legalE) (blast dest: poll_run_error [OF _ refl assms(3)])

lemma backoff_keeps:
  assumes "backoff_legal eb" and "eb b cond (v, w) = (r, (v', w'))"
    and "\<And>v w a v' w'. cond (v, w) = (a, (v', w')) \<Longrightarrow> key v' = key v"
  shows "key v' = key v"
proof -
  obtain env where "others_only env" and run: "poll_run env cond (bo_Steps b) (v, w) r (v', w')"
    using assms(1,2) by (rule backoff_legalE)
  then have "key (fst (v', w')) = key v"
    by (intro poll_run_invariant [where I = "\<lambda>s. key (fst s) = key v", OF run])
      (auto dest: others_onlyD assms(3))
  then show ?thesis by simp
qed

interpretation volume_wait: wait_loop backoff_legal
    "\<lambda>eb. waitForVolumeAvailability eb c" "\<lambda>v. GetVolume c (volume_key v)"
    volume_available volume_key
  for c :: "'w Client"
proof unfold_locales
  fix eb v w v' w'
  assume "backoff_legal eb" and "waitForVolumeAvailability eb c v w = (None, (v', w'))"
  then show "\<exists>u w0. GetVolume c (volume_key u) w0 = (Inr v', w') \<and> volume_available v'"
    by (auto simp: waitForVolumeAvailability_def split: outcome_splits
        dest!: backoff_success volume_condition_done)
next
  fix eb v w v' w' e
  assume "backoff_legal eb" and "waitForVolumeAvailability eb c v w = (Some (Ext e), (v', w'))"
  then show "\<exists>u w0. GetVolume c (volume_key u) w0 = (Inl e, w')"
    by (auto simp: waitForVolumeAvailability_def split: outcome_splits
        dest!: backoff_failure volume_condition_failed)
next
  fix eb v w r v' w'
  assume legal: "backoff_legal eb"
    and fetch: "\<And>u w0 u' w1. GetVolume c (volume_key u) w0 = (Inr u', w1) \<Longrightarrow> volume_key u' = volume_key u"
    and wait: "waitForVolumeAvailability eb c v w = (r, (v', w'))"
  from wait obtain r' where "eb wait_backoff (volume_condition c) (v, w) = (r', (v', w'))"
    by (auto simp: waitForVolumeAvailability_def split: outcome_splits)
  with legal show "volume_key v' = volume_key v"
    by (rule backoff_keeps) (auto simp: volume_condition_def split: outcome_splits dest: fetch)
qed

interpretation snapshot_wait: wait_loop backoff_legal
    "\<lambda>eb. waitForVolumeSnapshotReady eb c" "\<lambda>v. GetVolumeSnapshot c (snapshot_key v)"
    snapshot_ready snapshot_key
  for c :: "'w Client"
proof unfold_locales
  fix eb v w v' w'
  assume "backoff_legal eb" and "waitForVolumeSnapshotReady eb c v w = (None, (v', w'))"
  then show "\<exists>u w0. GetVolumeSnapshot c (snapshot_key u) w0 = (Inr v', w') \<and> snapshot_ready v'"
    by (auto simp: waitForVolumeSnapshotReady_def split: outcome_splits
        dest!: backoff_success snapshot_condition_done)
next
  fix eb v w v' w' e
  assume "backoff_legal eb" and "waitForVolumeSnapshotReady eb c v w = (Some (Ext e), (v', w'))"
  then show "\<exists>u w0. GetVolumeSnapshot c (snapshot_key u) w0 = (Inl e, w')"
    by (auto simp: waitForVolumeSnapshotReady_def split: outcome_splits
        dest!: backoff_failure snapshot_condition_failed)
next
  fix eb v w r v' w'
  assume legal: "backoff_legal eb"
    and fetch: "\<And>u w0 u' w1. GetVolumeSnapshot c (snapshot_key u) w0 = (Inr u', w1) \<Longrightarrow> snapshot_key u' = snapshot_key u"
    and wait: "waitForVolumeSnapshotReady eb c v w = (r, (v', w'))"
  from wait obtain r' where "eb wait_backoff (snapshot_condition c) (v, w) = (r', (v', w'))"
    by (auto simp: waitForVolumeSnapshotReady_def split: outcome_splits)
  with legal show "snapshot_key v' = snapshot_key v"
    by (rule backoff_keeps) (auto simp: snapshot_condition_def split: outcome_splits dest: fetch)
qed

end
