(* ===== verification/Trace.thy ===== *)
theory Trace
  imports Wait Driver "HOL-Library.Sublist"
begin

text \<open>
  Observing what a handler does.  The handlers are functions of arbitrary external operations over an
  arbitrary world, so they can be run over instrumented ones: \<open>traced\<close> turns a driver over the world
  \<open>'w\<close> into a driver over \<open>'w \<times> Call list\<close> that behaves in the same way and appends every external
  call, with the outcome the ordering properties need, to the list.  Nothing in the handlers knows
  about it.

  \<open>guarded P Q tr\<close> says that no call of kind \<open>Q\<close> happens before a call of kind \<open>P\<close>.
\<close>

section \<open>External calls\<close>

datatype Call =
    C_GetVolume ObjectKey | C_GetVolumePool ObjectKey | C_GetVolumeClass ObjectKey
  | C_GetVolumeSnapshot ObjectKey | C_GetMachine ObjectKey | C_GetNode ObjectKey
  | C_ApplyVolume VolumeApplyConfig string bool | C_ApplySnapshot SnapshotApplyConfig string bool
  | C_DeleteVolume ObjectKey | C_DeleteSnapshot ObjectKey
  | C_PatchMachine Machine Machine | C_PatchVolume Volume Volume
  | C_MkdirAll string "ext_error option" | C_RemoveAll string "ext_error option"
  | C_Stat string "ext_error option" | C_Open string bool | C_Seek | C_Close
  | C_Statfs string | C_Exists string
  | C_IsLikelyNotMountPoint string bool "ext_error option"
  | C_Mount string string string "string list" "ext_error option"
  | C_Unmount string "ext_error option" | C_ListMounts
  | C_FormatAndMount string string string "string list" "string list" "ext_error option"
  | C_NewResizeFs | C_Resize string string "ext_error option"
  | C_EvalSymlinks string

type_synonym 'w tworld = "'w \<times> Call list"

text \<open>Run an operation and append the call it made; the call may mention the outcome.\<close>

definition logged :: "('r \<Rightarrow> Call) \<Rightarrow> ('w \<Rightarrow> 'r \<times> 'w) \<Rightarrow> 'w tworld \<Rightarrow> 'r \<times> 'w tworld" where
  "logged c f = (\<lambda>(w, tr). case f w of (r, w') \<Rightarrow> (r, (w', tr @ [c r])))"

lemma logged_eq: "logged c f (w, tr) = (fst (f w), (snd (f w), tr @ [c (fst (f w))]))"
  by (simp add: logged_def split: prod.splits)

definition traced_client :: "'w Client \<Rightarrow> 'w tworld Client" where
  "traced_client c =
     \<lparr>GetVolume = (\<lambda>k. logged (\<lambda>_. C_GetVolume k) (GetVolume c k)),
      GetVolumePool = (\<lambda>k. logged (\<lambda>_. C_GetVolumePool k) (GetVolumePool c k)),
      GetVolumeClass = (\<lambda>k. logged (\<lambda>_. C_GetVolumeClass k) (GetVolumeClass c k)),
      GetVolumeSnapshot = (\<lambda>k. logged (\<lambda>_. C_GetVolumeSnapshot k) (GetVolumeSnapshot c k)),
      GetMachine = (\<lambda>k. logged (\<lambda>_. C_GetMachine k) (GetMachine c k)),
      GetNode = (\<lambda>k. logged (\<lambda>_. C_GetNode k) (GetNode c k)),
      ApplyVolume = (\<lambda>a o' f. logged (\<lambda>_. C_ApplyVolume a o' f) (ApplyVolume c a o' f)),
      ApplySnapshot = (\<lambda>a o' f. logged (\<lambda>_. C_ApplySnapshot a o' f) (ApplySnapshot c a o' f)),
      DeleteVolumeObject = (\<lambda>k. logged (\<lambda>_. C_DeleteVolume k) (DeleteVolumeObject c k)),
      DeleteSnapshotObject = (\<lambda>k. logged (\<lambda>_. C_DeleteSnapshot k) (DeleteSnapshotObject c k)),
      PatchMachine = (\<lambda>b m. logged (\<lambda>_. C_PatchMachine b m) (PatchMachine c b m)),
      PatchVolume = (\<lambda>b v. logged (\<lambda>_. C_PatchVolume b v) (PatchVolume c b v))\<rparr>"

definition traced_file :: "'w File \<Rightarrow> 'w tworld File" where
  "traced_file f =
     \<lparr>Seek = (\<lambda>off wh. logged (\<lambda>_. C_Seek) (Seek f off wh)),
      Close = logged (\<lambda>_. C_Close) (Close f)\<rparr>"

definition traced_os :: "'w OSWrapper \<Rightarrow> 'w tworld OSWrapper" where
  "traced_os os =
     \<lparr>MkdirAll = (\<lambda>p perm. logged (\<lambda>r. C_MkdirAll p r) (MkdirAll os p perm)),
      RemoveAll = (\<lambda>p. logged (\<lambda>r. C_RemoveAll p r) (RemoveAll os p)),
      Stat = (\<lambda>p. logged (\<lambda>r. C_Stat p r) (Stat os p)),
      IsNotExist = IsNotExist os,
      Open = (\<lambda>p s. apfst (map_sum id traced_file)
                (logged (\<lambda>r. C_Open p (\<not> isl r)) (Open os p) s)),
      Statfs = (\<lambda>p buf. logged (\<lambda>_. C_Statfs p) (Statfs os p buf)),
      Exists = (\<lambda>l p. logged (\<lambda>_. C_Exists p) (Exists os l p))\<rparr>"

definition traced_resizer :: "'w Resizefs \<Rightarrow> 'w tworld Resizefs" where
  "traced_resizer fs = \<lparr>Resize = (\<lambda>dev p. logged (\<lambda>r. C_Resize dev p (snd r)) (Resize fs dev p))\<rparr>"

definition traced_mounter :: "'w MountWrapper \<Rightarrow> 'w tworld MountWrapper" where
  "traced_mounter m =
     \<lparr>IsLikelyNotMountPoint = (\<lambda>p.
        logged (\<lambda>r. C_IsLikelyNotMountPoint p (fst r) (snd r)) (IsLikelyNotMountPoint m p)),
      Mount = (\<lambda>s t f opts. logged (\<lambda>r. C_Mount s t f opts r) (Mount m s t f opts)),
      Unmount = (\<lambda>p. logged (\<lambda>r. C_Unmount p r) (Unmount m p)),
      ListMounts = logged (\<lambda>_. C_ListMounts) (ListMounts m),
      FormatAndMountSensitiveWithFormatOptions = (\<lambda>s t f opts sens fopts.
        logged (\<lambda>r. C_FormatAndMount s t f opts fopts r)
          (FormatAndMountSensitiveWithFormatOptions m s t f opts sens fopts)),
      NewResizeFs = (\<lambda>s. apfst (map_sum id traced_resizer)
                (logged (\<lambda>_. C_NewResizeFs) (NewResizeFs m) s))\<rparr>"

definition traced_runtime :: "'w Runtime \<Rightarrow> 'w tworld Runtime" where
  "traced_runtime rt =
     \<lparr>EvalSymlinks = (\<lambda>p. logged (\<lambda>_. C_EvalSymlinks p) (EvalSymlinks rt p)),
      UnixTimeString = UnixTimeString rt, ReadBuildInfo = ReadBuildInfo rt\<rparr>"

definition traced :: "'w driver \<Rightarrow> 'w tworld driver" where
  "traced d =
     \<lparr>d_mounter = traced_mounter (d_mounter d), d_os = traced_os (d_os d),
      d_targetClient = traced_client (d_targetClient d),
      d_ironcoreClient = traced_client (d_ironcoreClient d),
      d_config = d_config d, d_name = d_name d\<rparr>"

lemma traced_driver_simps [simp]:
  "d_mounter (traced d) = traced_mounter (d_mounter d)"
  "d_os (traced d) = traced_os (d_os d)"
  "d_targetClient (traced d) = traced_client (d_targetClient d)"
  "d_ironcoreClient (traced d) = traced_client (d_ironcoreClient d)"
  "d_config (traced d) = d_config d"
  by (simp_all add: traced_def)

lemma traced_client_simps [simp]:
  "GetVolume (traced_client c) k = logged (\<lambda>_. C_GetVolume k) (GetVolume c k)"
  "GetVolumePool (traced_client c) k = logged (\<lambda>_. C_GetVolumePool k) (GetVolumePool c k)"
  "GetVolumeClass (traced_client c) k = logged (\<lambda>_. C_GetVolumeClass k) (GetVolumeClass c k)"
  "GetVolumeSnapshot (traced_client c) k = logged (\<lambda>_. C_GetVolumeSnapshot k) (GetVolumeSnapshot c k)"
  "GetMachine (traced_client c) k = logged (\<lambda>_. C_GetMachine k) (GetMachine c k)"
  "GetNode (traced_client c) k = logged (\<lambda>_. C_GetNode k) (GetNode c k)"
  "ApplyVolume (traced_client c) a ow f = logged (\<lambda>_. C_ApplyVolume a ow f) (ApplyVolume c a ow f)"
  "ApplySnapshot (traced_client c) b ow f = logged (\<lambda>_. C_ApplySnapshot b ow f) (ApplySnapshot c b ow f)"
  "DeleteVolumeObject (traced_client c) k = logged (\<lambda>_. C_DeleteVolume k) (DeleteVolumeObject c k)"
  "DeleteSnapshotObject (traced_client c) k = logged (\<lambda>_. C_DeleteSnapshot k) (DeleteSnapshotObject c k)"
  "PatchMachine (traced_client c) m m' = logged (\<lambda>_. C_PatchMachine m m') (PatchMachine c m m')"
  "PatchVolume (traced_client c) v v' = logged (\<lambda>_. C_PatchVolume v v') (PatchVolume c v v')"
  by (simp_all add: traced_client_def)

lemma traced_os_simps [simp]:
  "MkdirAll (traced_os os) p perm = logged (\<lambda>r. C_MkdirAll p r) (MkdirAll os p perm)"
  "RemoveAll (traced_os os) p = logged (\<lambda>r. C_RemoveAll p r) (RemoveAll os p)"
  "Stat (traced_os os) p = logged (\<lambda>r. C_Stat p r) (Stat os p)"
  "IsNotExist (traced_os os) = IsNotExist os"
  "Open (traced_os os) p s = apfst (map_sum id traced_file) (logged (\<lambda>r. C_Open p (\<not> isl r)) (Open os p) s)"
  "Statfs (traced_os os) p buf = logged (\<lambda>_. C_Statfs p) (Statfs os p buf)"
  "Exists (traced_os os) l p = logged (\<lambda>_. C_Exists p) (Exists os l p)"
  by (simp_all add: traced_os_def)

lemma traced_mounter_simps [simp]:
  "IsLikelyNotMountPoint (traced_mounter m) p =
     logged (\<lambda>r. C_IsLikelyNotMountPoint p (fst r) (snd r)) (IsLikelyNotMountPoint m p)"
  "Mount (traced_mounter m) s t f opts = logged (\<lambda>r. C_Mount s t f opts r) (Mount m s t f opts)"
  "Unmount (traced_mounter m) p = logged (\<lambda>r. C_Unmount p r) (Unmount m p)"
  "ListMounts (traced_mounter m) = logged (\<lambda>_. C_ListMounts) (ListMounts m)"
  "FormatAndMountSensitiveWithFormatOptions (traced_mounter m) s t f opts sens fopts =
     logged (\<lambda>r. C_FormatAndMount s t f opts fopts r)
       (FormatAndMountSensitiveWithFormatOptions m s t f opts sens fopts)"
  "NewResizeFs (traced_mounter m) tw =
     apfst (map_sum id traced_resizer) (logged (\<lambda>_. C_NewResizeFs) (NewResizeFs m) tw)"
  by (simp_all add: traced_mounter_def)

lemma traced_runtime_simps [simp]:
  "EvalSymlinks (traced_runtime rt) p = logged (\<lambda>_. C_EvalSymlinks p) (EvalSymlinks rt p)"
  "UnixTimeString (traced_runtime rt) = UnixTimeString rt"
  "Seek (traced_file f) off wh = logged (\<lambda>_. C_Seek) (Seek f off wh)"
  "Close (traced_file f) = logged (\<lambda>_. C_Close) (Close f)"
  "Resize (traced_resizer fs) dev p = logged (\<lambda>r. C_Resize dev p (snd r)) (Resize fs dev p)"
  by (simp_all add: traced_runtime_def traced_file_def traced_resizer_def)

lemmas traced_simps = logged_eq apfst_def map_prod_def

section \<open>Ordering of calls\<close>

fun guarded :: "('c \<Rightarrow> bool) \<Rightarrow> ('c \<Rightarrow> bool) \<Rightarrow> 'c list \<Rightarrow> bool" where
  "guarded P Q [] = True"
| "guarded P Q (c # cs) = (\<not> Q c \<and> (P c \<or> guarded P Q cs))"

lemma guarded_before:
  assumes "guarded P Q tr" and "tr = ys @ c # zs" and "Q c"
  shows "\<exists>b \<in> set ys. P b"
  using assms by (induction tr arbitrary: ys) (auto simp: Cons_eq_append_conv)

lemma guarded_append: "guarded P Q xs \<Longrightarrow> guarded P Q ys \<Longrightarrow> guarded P Q (xs @ ys)"
  by (induction xs) auto

section \<open>Kinds of calls\<close>

fun is_read :: "Call \<Rightarrow> bool" where
  "is_read (C_GetVolume k) = True"
| "is_read (C_GetVolumePool k) = True"
| "is_read (C_GetVolumeClass k) = True"
| "is_read (C_GetVolumeSnapshot k) = True"
| "is_read (C_GetMachine k) = True"
| "is_read (C_GetNode k) = True"
| "is_read (C_Stat p e) = True"
| "is_read (C_Statfs p) = True"
| "is_read (C_Exists p) = True"
| "is_read (C_IsLikelyNotMountPoint p b e) = True"
| "is_read C_ListMounts = True"
| "is_read (C_EvalSymlinks p) = True"
| "is_read _ = False"

text \<open>The namespace and name a call writes to on the API server.\<close>

fun write_target :: "Call \<Rightarrow> ObjectKey option" where
  "write_target (C_ApplyVolume a ow f) = Some \<lparr>key_Namespace = va_Namespace a, key_Name = va_Name a\<rparr>"
| "write_target (C_ApplySnapshot a ow f) = Some \<lparr>key_Namespace = sa_Namespace a, key_Name = sa_Name a\<rparr>"
| "write_target (C_DeleteVolume k) = Some k"
| "write_target (C_DeleteSnapshot k) = Some k"
| "write_target (C_PatchMachine b m) = Some (machine_key m)"
| "write_target (C_PatchVolume b v) = Some (volume_key v)"
| "write_target _ = None"

section \<open>The trace of a wait\<close>

text \<open>A backoff loop whose other parties neither touch the caller's variable nor the record of its calls.\<close>

definition quiet :: "('a \<times> 'w tworld \<Rightarrow> 'a \<times> 'w tworld \<Rightarrow> bool) \<Rightarrow> bool" where
  "quiet env \<longleftrightarrow> (\<forall>s t. env s t \<longrightarrow> fst s = fst t \<and> snd (snd s) = snd (snd t))"

definition quiet_backoff :: "('a \<times> 'w tworld) backoff_fn \<Rightarrow> bool" where
  "quiet_backoff eb \<longleftrightarrow> (\<exists>env. quiet env \<and> backoff_contract env eb)"

lemma quietD: "quiet env \<Longrightarrow> env s t \<Longrightarrow> fst s = fst t \<and> snd (snd s) = snd (snd t)"
  unfolding quiet_def by blast

text \<open>
  A condition that makes the one call \<open>C (key v)\<close> per try and keeps the key of its object makes at
  most as many calls as it has tries, and at least one when the loop succeeds.
\<close>

lemma poll_trace:
  assumes "poll_run env cond n s r t" and "quiet env"
    and "\<And>v w tr a v' w' tr'. cond (v, (w, tr)) = (a, (v', (w', tr'))) \<Longrightarrow>
        tr' = tr @ [C (key v)] \<and> key v' = key v"
  shows "\<exists>k \<le> n. snd (snd t) = snd (snd s) @ replicate k (C (key (fst s))) \<and>
      key (fst t) = key (fst s) \<and> (r = None \<longrightarrow> 0 < k)"
  using assms(1)
proof (induction rule: poll_run.induct)
  case (poll_done s s' n)
  then show ?case
    using assms(3) [of "fst s" "fst (snd s)" "snd (snd s)" _ "fst s'" "fst (snd s')" "snd (snd s')"]
    by (intro exI [of _ 1]) simp
next
  case (poll_failed s b e s' n)
  then show ?case
    using assms(3) [of "fst s" "fst (snd s)" "snd (snd s)" _ "fst s'" "fst (snd s')" "snd (snd s')"]
    by (intro exI [of _ 1]) simp
next
  case (poll_again s s' s'' n r t)
  then obtain k where k: "k \<le> n" "snd (snd t) = snd (snd s'') @ replicate k (C (key (fst s'')))"
    "key (fst t) = key (fst s'')" "r = None \<longrightarrow> 0 < k" by blast
  have step: "snd (snd s') = snd (snd s) @ [C (key (fst s))]" "key (fst s') = key (fst s)"
    using poll_again.hyps(1)
      assms(3) [of "fst s" "fst (snd s)" "snd (snd s)" _ "fst s'" "fst (snd s')" "snd (snd s')"]
    by simp_all
  show ?case
    using k step quietD [OF assms(2) poll_again.hyps(2)]
    by (intro exI [of _ "Suc k"]) simp
next
  case (poll_interrupted e n s)
  then show ?case by (intro exI [of _ 0]) simp
qed

lemma volume_condition_trace:
  assumes "answers_key (GetVolume c) volume_key"
    and "volume_condition (traced_client c) (v, (w, tr)) = (a, (v', (w', tr')))"
  shows "tr' = tr @ [C_GetVolume (volume_key v)] \<and> volume_key v' = volume_key v"
  using assms(2)
  by (auto simp: volume_condition_def traced_simps split: outcome_splits
      dest: answers_keyD_fst [OF assms(1)])

lemma snapshot_condition_trace:
  assumes "answers_key (GetVolumeSnapshot c) snapshot_key"
    and "snapshot_condition (traced_client c) (v, (w, tr)) = (a, (v', (w', tr')))"
  shows "tr' = tr @ [C_GetVolumeSnapshot (snapshot_key v)] \<and> snapshot_key v' = snapshot_key v"
  using assms(2)
  by (auto simp: snapshot_condition_def traced_simps split: outcome_splits
      dest: answers_keyD_fst [OF assms(1)])

lemma backoff_trace:
  assumes "quiet_backoff eb" and "eb b cond (v, (w, tr)) = (r, (v', (w', tr')))"
    and "\<And>v w tr a v' w' tr'. cond (v, (w, tr)) = (a, (v', (w', tr'))) \<Longrightarrow>
        tr' = tr @ [C (key v)] \<and> key v' = key v"
  shows "\<exists>k \<le> bo_Steps b. tr' = tr @ replicate k (C (key v)) \<and> (r = None \<longrightarrow> 0 < k)"
proof -
  obtain env where env: "quiet env" "backoff_contract env eb"
    using assms(1) unfolding quiet_backoff_def by blast
  then have run: "poll_run env cond (bo_Steps b) (v, (w, tr)) r (v', (w', tr'))"
    using assms(2) unfolding backoff_contract_def by (metis fst_conv snd_conv)
  have "\<exists>k \<le> bo_Steps b. snd (snd (v', (w', tr'))) = snd (snd (v, (w, tr))) @
        replicate k (C (key (fst (v, (w, tr))))) \<and>
      key (fst (v', (w', tr'))) = key (fst (v, (w, tr))) \<and> (r = None \<longrightarrow> 0 < k)"
    by (rule poll_trace [OF run env(1)]) (rule assms(3))
  then show ?thesis by auto
qed

lemma waitForVolume_trace:
  assumes "quiet_backoff eb" and "answers_key (GetVolume c) volume_key"
    and "waitForVolumeAvailability eb (traced_client c) v (w, tr) = (r, (v', (w', tr')))"
  shows "\<exists>k \<le> waitActiveSteps. tr' = tr @ replicate k (C_GetVolume (volume_key v)) \<and> (r = None \<longrightarrow> 0 < k)"
proof -
  obtain r' where eb: "eb wait_backoff (volume_condition (traced_client c)) (v, (w, tr)) = (r', (v', (w', tr')))"
    and r: "r = None \<longleftrightarrow> r' = None"
    using assms(3) by (auto simp: waitForVolumeAvailability_def split: outcome_splits)
  have "\<exists>k \<le> bo_Steps wait_backoff. tr' = tr @ replicate k (C_GetVolume (volume_key v)) \<and> (r' = None \<longrightarrow> 0 < k)"
    by (rule backoff_trace [OF assms(1) eb]) (rule volume_condition_trace [OF assms(2)])
  then show ?thesis by (simp add: r wait_backoff_def)
qed

lemma waitForSnapshot_trace:
  assumes "quiet_backoff eb" and "answers_key (GetVolumeSnapshot c) snapshot_key"
    and "waitForVolumeSnapshotReady eb (traced_client c) v (w, tr) = (r, (v', (w', tr')))"
  shows "\<exists>k \<le> waitActiveSteps. tr' = tr @ replicate k (C_GetVolumeSnapshot (snapshot_key v)) \<and>
    (r = None \<longrightarrow> 0 < k)"
proof -
  obtain r' where eb: "eb wait_backoff (snapshot_condition (traced_client c)) (v, (w, tr)) = (r', (v', (w', tr')))"
    and r: "r = None \<longleftrightarrow> r' = None"
    using assms(3) by (auto simp: waitForVolumeSnapshotReady_def split: outcome_splits)
  have "\<exists>k \<le> bo_Steps wait_backoff. tr' = tr @ replicate k (C_GetVolumeSnapshot (snapshot_key v)) \<and> (r' = None \<longrightarrow> 0 < k)"
    by (rule backoff_trace [OF assms(1) eb]) (rule snapshot_condition_trace [OF assms(2)])
  then show ?thesis by (simp add: r wait_backoff_def)
qed

end
