(* ===== verification/Sim.thy ===== *)
theory Sim
  imports Wait Trace
begin

text \<open>
  Test doubles for the witnesses, in the role the mocks of \<^verbatim>\<open>go.uber.org/mock\<close> and the
  test API server have in the repository's own tests: external operations that do nothing, to be
  overridden one by one, and a backoff loop that polls without waiting.  No property depends on
  them; the witnesses use them to show that the hypotheses of the properties can hold.
\<close>

definition not_found :: ext_error where
  "not_found = \<lparr>err_text = ''not found'', err_notFound = True, err_notExist = False, err_interrupted = False\<rparr>"

definition no_such_file :: ext_error where
  "no_such_file = \<lparr>err_text = ''no such file'', err_notFound = False, err_notExist = True, err_interrupted = False\<rparr>"

definition timed_out :: ext_error where
  "timed_out = \<lparr>err_text = ''timed out'', err_notFound = False, err_notExist = False, err_interrupted = True\<rparr>"

definition io_error :: ext_error where
  "io_error = \<lparr>err_text = ''input/output error'', err_notFound = False, err_notExist = False, err_interrupted = False\<rparr>"

lemmas sim_errors [simp] = not_found_def no_such_file_def timed_out_def io_error_def

definition nop_client :: "'w Client" where
  "nop_client =
     \<lparr>GetVolume = (\<lambda>k w. (Inl not_found, w)),
      GetVolumePool = (\<lambda>k w. (Inl not_found, w)),
      GetVolumeClass = (\<lambda>k w. (Inl not_found, w)),
      GetVolumeSnapshot = (\<lambda>k w. (Inl not_found, w)),
      GetMachine = (\<lambda>k w. (Inl not_found, w)),
      GetNode = (\<lambda>k w. (Inl not_found, w)),
      ApplyVolume = (\<lambda>a ow f w. (None, w)),
      ApplySnapshot = (\<lambda>a ow f w. (None, w)),
      DeleteVolumeObject = (\<lambda>k w. (Some not_found, w)),
      DeleteSnapshotObject = (\<lambda>k w. (Some not_found, w)),
      PatchMachine = (\<lambda>b m w. (Inr m, w)),
      PatchVolume = (\<lambda>b v w. (Inr v, w))\<rparr>"

definition nop_os :: "'w OSWrapper" where
  "nop_os =
     \<lparr>MkdirAll = (\<lambda>p perm w. (None, w)), RemoveAll = (\<lambda>p w. (None, w)), Stat = (\<lambda>p w. (None, w)),
      IsNotExist = os_IsNotExist, Open = (\<lambda>p w. (Inl no_such_file, w)),
      Statfs = (\<lambda>p buf w. ((None, buf), w)), Exists = (\<lambda>l p w. ((True, None), w))\<rparr>"

definition nop_mounter :: "'w MountWrapper" where
  "nop_mounter =
     \<lparr>IsLikelyNotMountPoint = (\<lambda>p w. ((True, None), w)), Mount = (\<lambda>s t f opts w. (None, w)),
      Unmount = (\<lambda>p w. (None, w)), ListMounts = (\<lambda>w. (Inr [], w)),
      FormatAndMountSensitiveWithFormatOptions = (\<lambda>s t f opts sens fopts w. (None, w)),
      NewResizeFs = (\<lambda>w. (Inr \<lparr>Resize = (\<lambda>dev p w. ((True, None), w))\<rparr>, w))\<rparr>"

definition nop_runtime :: "'w Runtime" where
  "nop_runtime =
     \<lparr>EvalSymlinks = (\<lambda>p w. (Inr p, w)), UnixTimeString = (\<lambda>t. ''now''), ReadBuildInfo = (None, False)\<rparr>"

definition sim_config :: Config where
  "sim_config = \<lparr>cfg_NodeID = ''node'', cfg_NodeName = ''node'', DriverNamespace = ''ns''\<rparr>"

definition nop_driver :: "'w driver" where
  "nop_driver =
     \<lparr>d_mounter = nop_mounter, d_os = nop_os, d_targetClient = nop_client,
      d_ironcoreClient = nop_client, d_config = sim_config, d_name = CSIDriverName\<rparr>"

lemmas sim_defs = nop_client_def nop_os_def nop_mounter_def nop_runtime_def sim_config_def nop_driver_def

section \<open>A backoff loop\<close>

fun sim_loop :: "nat \<Rightarrow> ('s \<Rightarrow> (bool \<times> ext_error option) \<times> 's) \<Rightarrow> 's \<Rightarrow> ext_error option \<times> 's" where
  "sim_loop 0 cond s = (Some timed_out, s)"
| "sim_loop (Suc n) cond s =
     (case cond s of
        ((_, Some e), s') \<Rightarrow> (Some e, s')
      | ((True, None), s') \<Rightarrow> (None, s')
      | ((False, None), s') \<Rightarrow> sim_loop n cond s')"

definition sim_backoff :: "'s backoff_fn" where
  "sim_backoff b cond s = sim_loop (bo_Steps b) cond s"

lemma sim_loop_poll: "poll_run (=) cond n s (fst (sim_loop n cond s)) (snd (sim_loop n cond s))"
proof (induction n arbitrary: s)
  case 0
  show ?case by (simp add: poll_interrupted)
next
  case (Suc n)
  obtain b r s' where c: "cond s = ((b, r), s')" by (metis surj_pair)
  show ?case
    using c Suc.IH [of s']
    by (cases r; cases b) (auto intro: poll_run.intros)
qed

lemma sim_backoff_contract: "backoff_contract (=) sim_backoff"
  by (simp add: backoff_contract_def sim_backoff_def sim_loop_poll)

lemma sim_backoff_legal: "backoff_legal sim_backoff"
  unfolding backoff_legal_def using sim_backoff_contract
  by (intro exI [of _ "(=)"]) (simp add: others_only_def)

lemma sim_backoff_quiet: "quiet_backoff sim_backoff"
  unfolding quiet_backoff_def using sim_backoff_contract
  by (intro exI [of _ "(=)"]) (simp add: quiet_def)

section \<open>A server with every volume available\<close>

definition sim_volume :: "ObjectKey \<Rightarrow> Volume" where
  "sim_volume k =
     \<lparr>vol_Namespace = key_Namespace k, vol_Name = key_Name k, vol_CreationTimestamp = 0,
      vol_Spec = \<lparr>Resources = [ResourceStorage \<mapsto> NewQuantity (5 * 1024 * 1024 * 1024)],
                  VolumeClassRef = Some ''expand-only'', VolumePoolRef = None\<rparr>,
      vol_State = VolumeStateAvailable,
      vol_Access = Some \<lparr>Handle = ''bar'', VolumeAttributes = Some Map.empty\<rparr>\<rparr>"

definition ready_client :: "'w Client" where
  "ready_client = nop_client
     \<lparr>GetVolume := (\<lambda>k w. (Inr (sim_volume k), w)),
      GetVolumePool := (\<lambda>k w. (Inr \<lparr>vp_Name = key_Name k\<rparr>, w)),
      GetVolumeClass := (\<lambda>k w. (Inr \<lparr>vc_Name = key_Name k, vc_ResizePolicy = ResizePolicyExpandOnly\<rparr>, w)),
      GetVolumeSnapshot := (\<lambda>k w. (Inr \<lparr>vs_Namespace = key_Namespace k, vs_Name = key_Name k,
        vs_CreationTimestamp = 0, vs_State = VolumeSnapshotStateReady\<rparr>, w)),
      GetNode := (\<lambda>k w. (Inr \<lparr>n_Name = key_Name k, n_Labels = Some [LabelTopologyZone \<mapsto> ''foo'']\<rparr>, w))\<rparr>"

definition ready_driver :: "'w driver" where
  "ready_driver = nop_driver\<lparr>d_ironcoreClient := ready_client, d_targetClient := ready_client\<rparr>"

lemmas ready_defs = sim_volume_def ready_client_def ready_driver_def sim_defs

lemma ready_answers: "answers_key (GetVolume (d_ironcoreClient ready_driver)) volume_key"
  "answers_key (GetVolumeSnapshot (d_ironcoreClient ready_driver)) snapshot_key"
  by (simp_all add: answers_key_def ready_defs volume_key_def snapshot_key_def)

definition sim_create :: CreateVolumeRequest where
  "sim_create =
     \<lparr>cv_Name = ''volume'',
      cv_CapacityRange = Some \<lparr>RequiredBytes = 5 * 1024 * 1024 * 1024, LimitBytes = 0\<rparr>,
      cv_VolumeCapabilities = [],
      cv_Parameters = [ParameterType \<mapsto> ''expand-only'', ParameterFSType \<mapsto> ''ext4'',
        ParameterVolumePool \<mapsto> ''volumepool''],
      cv_VolumeContentSource = None,
      cv_AccessibilityRequirements = None\<rparr>"

end
