(* ===== verification/Bootstrap_Props.thy ===== *)
theory Bootstrap_Props
  imports Bootstrap Sim
begin

text \<open>
  What start-up guarantees: which environments are accepted and with which configuration, and that a
  driver which is served runs on the real wrappers with both clients.
\<close>

section \<open>The configuration\<close>

text \<open>
  initialConfiguration accepts exactly the environments in which the mode is node with a node name
  or controller with a volume namespace, and in which an endpoint is given that parses and, for a unix
  socket, could be cleaned up; the configuration is then the node name, twice, and the namespace, an
  unset variable counting as empty.  Unless the endpoint is a unix socket, or when the environment is
  rejected before the endpoint is looked at, nothing is removed.
\<close>

lemma initialConfiguration_spec:
  "initialConfiguration su w = (Inr config, w') \<longleftrightarrow>
     (\<exists>mode endpoint proto addr.
        LookupEnv su ''X_CSI_MODE'' = Some mode \<and>
        (mode = ''node'' \<and> LookupEnv su ''KUBE_NODE_NAME'' \<noteq> None \<or>
         mode = ''controller'' \<and> LookupEnv su ''VOLUME_NS'' \<noteq> None) \<and>
        LookupEnv su ''CSI_ENDPOINT'' = Some endpoint \<and>
        ParseProtoAddr su endpoint = Inr (proto, addr) \<and>
        (if proto = ''unix'' then CleanupSocketIfExists su addr w = (None, w') else w' = w) \<and>
        config = \<lparr>cfg_NodeID = envString (LookupEnv su ''KUBE_NODE_NAME''),
                  cfg_NodeName = envString (LookupEnv su ''KUBE_NODE_NAME''),
                  DriverNamespace = envString (LookupEnv su ''VOLUME_NS'')\<rparr>)"
  by (auto simp: initialConfiguration_def removeUnixSocketIfExists_def Let_def split: outcome_splits)

lemma main_startE:
  assumes "main_start su mp op flags w = (Serve drv env, w')"
  obtains config w1 tc ic where "initialConfiguration su w = (Inr config, w1)"
    and "initClients su flags w1 = (Inr (tc, ic), w')"
    and "NewDriver mp op config tc ic (driverName flags) = Ok drv" and "env = serveEnv"
  using assms that by (auto simp: main_start_def split: outcome_splits)

text \<open>
  A driver that is served was built over the real mounter and operating system, with the
  configuration of the environment, two clients from the two kubeconfigs, in that order, and the name
  of the flag; and the CSI server is told to validate requests and to serialise the calls on a volume.
  Start-up never panics: every failure ends it with exit code 1.
\<close>

lemma main_serves_production_driver:
  assumes "fst (main_start su mp op flags w) = outcome"
  shows "(\<exists>drv. outcome = Serve drv [(EnvVarSpecReqValidation, ''true''), (EnvVarSerialVolAccess, ''true'')]
      \<and> d_mounter drv = NodeMounter mp \<and> d_os drv = OsOps op \<and> d_name drv = driverName flags
      \<and> (\<exists>w1 w2 w3. initialConfiguration su w = (Inr (d_config drv), w1)
          \<and> buildKubernetesClient su (targetKubeconfig flags) w1 = (Inr (d_targetClient drv), w2)
          \<and> buildKubernetesClient su (ironcoreKubeconfig flags) w2 = (Inr (d_ironcoreClient drv), w3)))
    \<or> outcome = Exit 1"
  using assms
  by (auto simp: main_start_def initClients_def NewDriver_total serveEnv_def split: outcome_splits)

section \<open>The identity service\<close>

text \<open>
  The identity service never fails and names the driver it was started as: the plugin's name is
  the driver name given at start-up, its version is never empty (the CSI specification requires one),
  and it announces a controller service and topology.
\<close>

lemma identity_service:
  assumes "NewDriver mp op config tc ic name = Ok d"
  shows "\<exists>v. GetPluginInfo rt d = Ok \<lparr>pi_Name = name, pi_VendorVersion = v\<rparr> \<and> v \<noteq> '''' \<and>
    GetPluginCapabilities d = Ok [CONTROLLER_SERVICE, VOLUME_ACCESSIBILITY_CONSTRAINTS] \<and> Probe d = Ok ()"
  using assms
  by (auto simp: NewDriver_total GetPluginInfo_def GetPluginCapabilities_def Probe_def Version_nonempty)

section \<open>Witnesses\<close>

definition sim_startup :: "(unit, unit) Startup" where
  "sim_startup =
     \<lparr>LookupEnv = [''X_CSI_MODE'' \<mapsto> ''controller'', ''VOLUME_NS'' \<mapsto> ''ns'', ''CSI_ENDPOINT'' \<mapsto> ''/csi.sock''],
      ParseProtoAddr = (\<lambda>e. Inr (''unix'', e)), CleanupSocketIfExists = (\<lambda>a w. (None, w)),
      GetConfig = (\<lambda>k w. (Inr (), w)), NewClient = (\<lambda>k w. (Inr nop_client, w))\<rparr>"

definition sim_flags :: Flags where
  "sim_flags = \<lparr>targetKubeconfig = '''', ironcoreKubeconfig = '''', driverName = CSIDriverName\<rparr>"

definition nop_mountpkg :: "'w SafeFormatAndMount" where
  "nop_mountpkg =
     \<lparr>sfm_IsLikelyNotMountPoint = (\<lambda>p w. ((True, None), w)), sfm_Mount = (\<lambda>s t f opts w. (None, w)),
      sfm_Unmount = (\<lambda>p w. (None, w)), sfm_List = (\<lambda>w. (Inr [], w)),
      sfm_FormatAndMount = (\<lambda>s t f opts sens fopts w. (None, w)),
      sfm_NewResizeFs = \<lparr>Resize = (\<lambda>dev p w. ((True, None), w))\<rparr>\<rparr>"

definition nop_ospkg :: "'w OsPkg" where
  "nop_ospkg =
     \<lparr>os_MkdirAll = (\<lambda>p perm w. (None, w)), os_RemoveAll = (\<lambda>p w. (None, w)), os_Stat = (\<lambda>p w. (None, w)),
      os_Open = (\<lambda>p w. (Inl no_such_file, w)), unix_Statfs = (\<lambda>p buf w. ((None, buf), w)),
      utilpath_Exists = (\<lambda>l p w. ((True, None), w))\<rparr>"

theorem main_serves_production_driver_witness:
  "\<exists>drv env. fst (main_start sim_startup nop_mountpkg nop_ospkg sim_flags ()) = Serve drv env
     \<and> d_name drv = ''csi.ironcore.dev''"
proof -
  have "fst (main_start sim_startup nop_mountpkg nop_ospkg sim_flags ()) \<noteq> Exit 1"
    by (simp add: main_start_def initialConfiguration_def removeUnixSocketIfExists_def initClients_def
        buildKubernetesClient_def NewDriver_total sim_startup_def sim_flags_def Let_def)
  with main_serves_production_driver [OF refl, of sim_startup nop_mountpkg nop_ospkg sim_flags "()"] show ?thesis
    by (auto simp: sim_flags_def CSIDriverName_def)
qed

end
