(* ===== verification/Process.thy ===== *)
theory Process
  imports Bootstrap_Props
begin

text \<open>
  The process around the driver, \<^verbatim>\<open>cmd/main.go\<close>: registering the API types and the flags
  (\<^verbatim>\<open>init\<close>), parsing the command line, the signal handler, and \<^verbatim>\<open>main\<close> up to the
  call of \<^verbatim>\<open>gocsi.Run\<close>, with the arguments it is given.

  Parameters are the three \<^verbatim>\<open>AddToScheme\<close> functions and the flags that other linked packages
  register.  \<^verbatim>\<open>flag.Parse\<close> belongs to the standard library and is written out as it works for
  this program's flags, all of which take a string.
\<close>

section \<open>Registration of the API types\<close>

datatype ApiGroup = ClientGoScheme | ComputeV1alpha1 | StorageV1alpha1

text \<open>\<^verbatim>\<open>utilruntime.Must\<close> panics on an error; the types are registered in this order.\<close>

fun mustAll :: "(ApiGroup \<Rightarrow> ext_error option) \<Rightarrow> ApiGroup list \<Rightarrow> unit result" where
  "mustAll AddToScheme [] = Ok ()"
| "mustAll AddToScheme (g # gs) =
     (case AddToScheme g of Some err \<Rightarrow> Panic (err_text err) | None \<Rightarrow> mustAll AddToScheme gs)"

definition registerTypes :: "(ApiGroup \<Rightarrow> ext_error option) \<Rightarrow> unit result" where
  "registerTypes AddToScheme = mustAll AddToScheme [ClientGoScheme, ComputeV1alpha1, StorageV1alpha1]"

section \<open>The command line\<close>

definition defaultFlags :: Flags where
  "defaultFlags = \<lparr>targetKubeconfig = '''', ironcoreKubeconfig = '''', driverName = CSIDriverName\<rparr>"

definition setFlag :: "string \<Rightarrow> string \<Rightarrow> Flags \<Rightarrow> Flags" where
  "setFlag name v f =
     (if name = ''target-kubeconfig'' then f\<lparr>targetKubeconfig := v\<rparr>
      else if name = ''ironcore-kubeconfig'' then f\<lparr>ironcoreKubeconfig := v\<rparr>
      else if name = ''driver-name'' then f\<lparr>driverName := v\<rparr>
      else f)"

definition ownFlags :: "string list" where
  "ownFlags = [''target-kubeconfig'', ''ironcore-kubeconfig'', ''driver-name'']"

text \<open>A flag of another package: whether it is a switch, and which values it accepts.\<close>

record OtherFlag =
  isSwitch :: bool
  acceptsValue :: "string \<Rightarrow> bool"

definition lookupFlag :: "(string \<Rightarrow> OtherFlag option) \<Rightarrow> string \<Rightarrow> OtherFlag option" where
  "lookupFlag others name =
     (if name \<in> set ownFlags then Some \<lparr>isSwitch = False, acceptsValue = (\<lambda>v. True)\<rparr> else others name)"

datatype CommandLine = Parsed Flags | UsageRequested | BadUsage

text \<open>
  One argument after the other: parsing stops at the first argument that is not a flag and after
  \<^verbatim>\<open>--\<close>; one or two dashes, \<^verbatim>\<open>-name=value\<close> or \<^verbatim>\<open>-name value\<close>.
\<close>

fun parseFlags :: "(string \<Rightarrow> OtherFlag option) \<Rightarrow> Flags \<Rightarrow> string list \<Rightarrow> CommandLine" where
  "parseFlags others f [] = Parsed f"
| "parseFlags others f (s # rest) =
     (if length s < 2 \<or> hd s \<noteq> CHR ''-'' \<or> s = ''--'' then Parsed f
      else
     (let body = (if s ! 1 = CHR ''-'' then drop 2 s else drop 1 s);
          name = takeWhile (\<lambda>c. c \<noteq> CHR ''='') body;
          hasValue = CHR ''='' \<in> set body;
          v = drop (Suc (length name)) body
      in if hd body = CHR ''-'' \<or> name = '''' then BadUsage
         else (case lookupFlag others name of
                 None \<Rightarrow> if name = ''help'' \<or> name = ''h'' then UsageRequested else BadUsage
               | Some fl \<Rightarrow>
                   if hasValue
                   then (if acceptsValue fl v then parseFlags others (setFlag name v f) rest else BadUsage)
                   else if isSwitch fl then parseFlags others f rest
                   else (case rest of
                           [] \<Rightarrow> BadUsage
                         | v' # rest' \<Rightarrow>
                             if acceptsValue fl v' then parseFlags others (setFlag name v' f) rest'
                             else BadUsage))))"

section \<open>Signals\<close>

datatype Signal = SIGINT | SIGTERM | OtherSignal nat

datatype ContextState = Running | Cancelled

text \<open>The goroutine waits for the first notified signal and cancels the context; it is then gone.\<close>

fun handleSignals :: "ContextState \<Rightarrow> Signal list \<Rightarrow> ContextState" where
  "handleSignals c [] = c"
| "handleSignals Cancelled (s # ss) = Cancelled"
| "handleSignals Running (s # ss) =
     (if s = SIGINT \<or> s = SIGTERM then Cancelled else handleSignals Running ss)"

section \<open>main\<close>

text \<open>
  What the process ends in, or the call of \<^verbatim>\<open>gocsi.Run\<close>: the name, the description and
  the usage text of the plugin, the driver that serves all three services, and the settings.  The
  context that is passed along is that of the signal handler.
\<close>

record 'w RunCall =
  run_name :: string
  run_description :: string
  run_usage :: string
  run_driver :: "'w driver"
  run_env :: "(GocsiEnvVar \<times> string) list"

datatype 'w process = ProcessExit nat | ProcessCrash string | Run "'w RunCall"

definition main_process ::
    "(ApiGroup \<Rightarrow> ext_error option) \<Rightarrow> (string \<Rightarrow> OtherFlag option) \<Rightarrow> ('w, 'k) Startup \<Rightarrow>
       'w SafeFormatAndMount \<Rightarrow> 'w OsPkg \<Rightarrow> string list \<Rightarrow> 'w \<Rightarrow> 'w process \<times> 'w" where
  "main_process AddToScheme others su mountpkg ospkg args w =
     (case registerTypes AddToScheme of
        Panic p \<Rightarrow> (ProcessCrash p, w)
      | Err err \<Rightarrow> (ProcessExit 1, w)
      | Ok _ \<Rightarrow>
     (case parseFlags others defaultFlags args of
        UsageRequested \<Rightarrow> (ProcessExit 0, w)
      | BadUsage \<Rightarrow> (ProcessExit 2, w)
      | Parsed flags \<Rightarrow>
     (case main_start su mountpkg ospkg flags w of
        (Exit n, w1) \<Rightarrow> (ProcessExit n, w1)
      | (Crash p, w1) \<Rightarrow> (ProcessCrash p, w1)
      | (Serve drv env, w1) \<Rightarrow>
          (Run \<lparr>run_name = driverName flags, run_description = ''ironcore CSI Driver Plugin'', run_usage = '''',
                run_driver = drv, run_env = env\<rparr>, w1))))"

section \<open>What the command line means\<close>

definition flagArg :: "string \<Rightarrow> string \<Rightarrow> string" where
  "flagArg name v = ''--'' @ name @ ''='' @ v"

lemma takeWhile_flag: "CHR ''='' \<notin> set name \<Longrightarrow> takeWhile (\<lambda>c. c \<noteq> CHR ''='') (name @ CHR ''='' # v) = name"
  by (induction name) auto

lemma parse_own_flag:
  assumes "name \<in> set ownFlags"
  shows "parseFlags others f (flagArg name v # rest) = parseFlags others (setFlag name v f) rest"
proof -
  have name: "CHR ''='' \<notin> set name" "name \<noteq> ''''" "hd (name @ ''='' @ v) \<noteq> CHR ''-''"
    using assms by (auto simp: ownFlags_def)
  have body: "drop 2 (flagArg name v) = name @ CHR ''='' # v" "flagArg name v ! 1 = CHR ''-''"
      "\<not> length (flagArg name v) < 2" "hd (flagArg name v) = CHR ''-''" "flagArg name v \<noteq> ''--''"
    by (simp_all add: flagArg_def)
  show ?thesis
    by (subst parseFlags.simps(2)) (use assms name body in \<open>simp add: takeWhile_flag lookupFlag_def Let_def del: parseFlags.simps\<close>)
qed
text \<open>
  C40: The command line means what it says: a list of the driver's own flags, each given as
  --name=value with any value, sets exactly these flags, a later one overriding an earlier
  one; a flag that is not given keeps its default, which for the driver name is csi.ironcore.dev and for
  the two kubeconfigs the empty path; the first argument that is not a flag ends the flags.
\<close>

theorem command_line_roundtrip:
  assumes "\<forall>(name, v) \<in> set fs. name \<in> {''target-kubeconfig'', ''ironcore-kubeconfig'', ''driver-name''}"
    and "rest = [] \<or> hd rest = '''' \<or> hd (hd rest) \<noteq> CHR ''-''"
  shows "parseFlags others defaultFlags (map (\<lambda>(name, v). ''--'' @ name @ ''='' @ v) fs @ rest) =
    Parsed \<lparr>targetKubeconfig = (case map_of (rev fs) ''target-kubeconfig'' of Some v \<Rightarrow> v | None \<Rightarrow> ''''),
      ironcoreKubeconfig = (case map_of (rev fs) ''ironcore-kubeconfig'' of Some v \<Rightarrow> v | None \<Rightarrow> ''''),
      driverName = (case map_of (rev fs) ''driver-name'' of Some v \<Rightarrow> v | None \<Rightarrow> ''csi.ironcore.dev'')\<rparr>"
proof -
  have stop: "parseFlags others f rest = Parsed f" for f
    using assms(2) by (cases rest) auto
  have run: "parseFlags others f (map (\<lambda>(name, v). flagArg name v) fs @ rest) = Parsed (foldl (\<lambda>f (name, v). setFlag name v f) f fs)" for f
    using assms(1)
  proof (induction fs arbitrary: f)
    case Nil
    then show ?case by (simp add: stop)
  next
    case (Cons x fs)
    obtain name v where x: "x = (name, v)" by (cases x)
    with Cons.prems have "name \<in> set ownFlags" by (auto simp: ownFlags_def)
    from parse_own_flag [OF this] Cons x show ?case by (simp del: parseFlags.simps)
  qed
  have "foldl (\<lambda>f (name, v). setFlag name v f) f fs =
    \<lparr>targetKubeconfig = (case map_of (rev fs) ''target-kubeconfig'' of Some v \<Rightarrow> v | None \<Rightarrow> targetKubeconfig f),
      ironcoreKubeconfig = (case map_of (rev fs) ''ironcore-kubeconfig'' of Some v \<Rightarrow> v | None \<Rightarrow> ironcoreKubeconfig f),
      driverName = (case map_of (rev fs) ''driver-name'' of Some v \<Rightarrow> v | None \<Rightarrow> driverName f)\<rparr>" for f
    by (induction fs rule: rev_induct) (auto simp: setFlag_def split: option.splits)
  from this [of defaultFlags] show ?thesis
    unfolding flagArg_def [symmetric] run
    by (simp add: defaultFlags_def CSIDriverName_def split: option.split)
qed

section \<open>What the process ends in\<close>

text \<open>A configuration that fits the mode: a node knows its name, a controller its namespace.\<close>

definition serves_configuration :: "('w, 'k) Startup \<Rightarrow> Config \<Rightarrow> bool" where
  "serves_configuration su config \<longleftrightarrow>
     LookupEnv su ''X_CSI_MODE'' = Some ''node'' \<and> LookupEnv su ''KUBE_NODE_NAME'' = Some (cfg_NodeName config) \<and>
       cfg_NodeID config = cfg_NodeName config \<or>
     LookupEnv su ''X_CSI_MODE'' = Some ''controller'' \<and> LookupEnv su ''VOLUME_NS'' = Some (DriverNamespace config)"

lemma served_configuration:
  "initialConfiguration su w = (Inr config, w') \<Longrightarrow> serves_configuration su config"
  by (auto simp: initialConfiguration_spec serves_configuration_def envString_def)

lemma registerTypes_ok: "registerTypes AddToScheme = Ok () \<longleftrightarrow> (\<forall>g. AddToScheme g = None)"
  unfolding registerTypes_def
  by (auto split: option.splits) (metis ApiGroup.exhaust)

lemma mustAll_cases: "mustAll AddToScheme gs = Ok () \<or> (\<exists>g \<in> set gs. \<exists>e. AddToScheme g = Some e \<and> mustAll AddToScheme gs = Panic (err_text e))"
  by (induction gs) (auto split: option.splits)

text \<open>
  C32: How the process can end before it serves: it crashes only when an API type cannot be registered,
  before anything else is done; a command line that is not understood ends it with code 2 and a request
  for help with code 0, before the environment is looked at; any failure of the configuration or of a
  client ends it with code 1.  Otherwise it calls gocsi.Run with the driver name of the
  command line, both as the name of the plugin and as that of the driver, and with a driver over the
  real wrappers, whose clients come from the two kubeconfigs of the command line, in that order, and
  whose configuration fits the mode: a node plugin knows its node, a controller its namespace.
\<close>

theorem main_process_outcomes:
  "case fst (main_process AddToScheme others su mountpkg ospkg args w) of
     ProcessCrash p \<Rightarrow> (\<exists>g e. AddToScheme g = Some e \<and> p = err_text e) \<and>
       snd (main_process AddToScheme others su mountpkg ospkg args w) = w
   | ProcessExit n \<Rightarrow>
       (n = 2 \<and> parseFlags others defaultFlags args = BadUsage \<or>
        n = 0 \<and> parseFlags others defaultFlags args = UsageRequested \<or>
        n = 1 \<and> (\<exists>flags. parseFlags others defaultFlags args = Parsed flags)) \<and>
       (n \<noteq> 1 \<longrightarrow> snd (main_process AddToScheme others su mountpkg ospkg args w) = w)
   | Run c \<Rightarrow> (\<forall>g. AddToScheme g = None) \<and>
       run_name c = d_name (run_driver c) \<and> production (run_driver c) \<and>
       serves_configuration su (d_config (run_driver c)) \<and>
       (\<exists>flags w1 w2 w3. parseFlags others defaultFlags args = Parsed flags \<and> run_name c = driverName flags \<and>
          initialConfiguration su w = (Inr (d_config (run_driver c)), w1) \<and>
          buildKubernetesClient su (targetKubeconfig flags) w1 = (Inr (d_targetClient (run_driver c)), w2) \<and>
          buildKubernetesClient su (ironcoreKubeconfig flags) w2 = (Inr (d_ironcoreClient (run_driver c)), w3)) \<and>
       run_env c = [(EnvVarSpecReqValidation, ''true''), (EnvVarSerialVolAccess, ''true'')]"
proof (cases "registerTypes AddToScheme")
  case (Panic p)
  then show ?thesis
    using mustAll_cases [of AddToScheme "[ClientGoScheme, ComputeV1alpha1, StorageV1alpha1]"]
    by (auto simp: main_process_def registerTypes_def)
next
  case (Err e)
  then show ?thesis
    using mustAll_cases [of AddToScheme "[ClientGoScheme, ComputeV1alpha1, StorageV1alpha1]"]
    by (auto simp: registerTypes_def)
next
  case (Ok u)
  have never: "main_start su mountpkg ospkg flags w \<noteq> (Crash p, w')" for flags p w'
    by (auto simp: main_start_def NewDriver_total split: outcome_splits)
  have exit: "n = 1" if "main_start su mountpkg ospkg flags w = (Exit n, w')" for flags n w'
    using that by (auto simp: main_start_def NewDriver_total split: outcome_splits)
  have serve: "d_name drv = driverName flags \<and> production drv \<and>
      env = [(EnvVarSpecReqValidation, ''true''), (EnvVarSerialVolAccess, ''true'')] \<and>
      (\<exists>w1 w2 w3. initialConfiguration su w = (Inr (d_config drv), w1) \<and>
         buildKubernetesClient su (targetKubeconfig flags) w1 = (Inr (d_targetClient drv), w2) \<and>
         buildKubernetesClient su (ironcoreKubeconfig flags) w2 = (Inr (d_ironcoreClient drv), w3))"
    if "main_start su mountpkg ospkg flags w = (Serve drv env, w')" for flags drv env w'
    using that
    by (auto simp: main_start_def initClients_def NewDriver_total production_def serveEnv_def split: outcome_splits)
  have config: "serves_configuration su config" if "initialConfiguration su w = (Inr config, w')" for config w'
    using that by (rule served_configuration)
  have reg: "\<forall>g. AddToScheme g = None" using Ok registerTypes_ok by simp
  show ?thesis
  proof (cases "parseFlags others defaultFlags args")
    case (Parsed flags)
    obtain st w1 where "main_start su mountpkg ospkg flags w = (st, w1)" by (metis surj_pair)
    with Ok Parsed reg show ?thesis
      by (cases st) (auto simp: main_process_def never dest: exit serve config)
  qed (simp_all add: main_process_def Ok)
qed

text \<open>The context is cancelled exactly when one of the two signals has come.\<close>

lemma handleSignals_iff: "handleSignals Running sigs = Cancelled \<longleftrightarrow> SIGINT \<in> set sigs \<or> SIGTERM \<in> set sigs"
proof (induction sigs)
  case (Cons s ss)
  have "handleSignals Cancelled ss = Cancelled" by (cases ss) simp_all
  with Cons show ?case by auto
qed simp

section \<open>Witnesses\<close>

theorem command_line_roundtrip_witness:
  "parseFlags (\<lambda>n. None) defaultFlags [''--driver-name=a'', ''--driver-name=b=c'', ''x'', ''--bad''] =
     Parsed \<lparr>targetKubeconfig = '''', ironcoreKubeconfig = '''', driverName = ''b=c''\<rparr>"
  using command_line_roundtrip [where fs = "[(''driver-name'', ''a''), (''driver-name'', ''b=c'')]"
      and rest = "[''x'', ''--bad'']" and others = "\<lambda>n. None"]
  by (simp del: parseFlags.simps)

definition sim_args :: "string list" where
  "sim_args = [''--driver-name=csi.example'']"

theorem main_process_outcomes_witness:
  "\<exists>c. fst (main_process (\<lambda>g. None) (\<lambda>n. None) sim_startup nop_mountpkg nop_ospkg sim_args ()) = Run c \<and>
     d_name (run_driver c) = run_name c"
proof -
  have "\<exists>c. fst (main_process (\<lambda>g. None) (\<lambda>n. None) sim_startup nop_mountpkg nop_ospkg sim_args ()) = Run c"
    by (simp add: main_process_def registerTypes_def sim_args_def lookupFlag_def ownFlags_def Let_def main_start_def
        initialConfiguration_def removeUnixSocketIfExists_def initClients_def buildKubernetesClient_def
        NewDriver_total sim_startup_def)
  then obtain c where c: "fst (main_process (\<lambda>g. None) (\<lambda>n. None) sim_startup nop_mountpkg nop_ospkg sim_args ()) = Run c"
    by blast
  from main_process_outcomes [where AddToScheme = "\<lambda>g. None" and others = "\<lambda>n. None" and su = sim_startup
      and mountpkg = nop_mountpkg and ospkg = nop_ospkg and args = sim_args and w = "()"] show ?thesis
    unfolding c by (simp add: c)
qed

end
