(* ===== verification/Sizes.thy ===== *)
theory Sizes
  imports Prelude
begin

text \<open>
  \<^verbatim>\<open>pkg/utils/util.go\<close>: rounding a size in bytes up to whole GiB, on wrapping 64-bit
  integers.  The interface the callers rely on is the locale \<open>rounding\<close> (the result is a multiple
  of the unit, at least the argument, less than one unit above it), proved for
  \<open>RoundUpBytes\<close> on the arguments that do not overflow; the overflowing arguments are
  described exactly by \<open>RoundUpBytes_overflow\<close>.
\<close>

definition GiB :: int64 where
  "GiB = 1024 * 1024 * 1024"

text \<open>The only callers pass the constant \<open>GiB\<close>, so Go's division by zero cannot happen here.\<close>

definition roundUpSize :: "int64 \<Rightarrow> int64 \<Rightarrow> int64" where
  "roundUpSize volumeSizeBytes allocationUnitBytes =
     go_div (volumeSizeBytes + allocationUnitBytes - 1) allocationUnitBytes"

definition RoundUpBytes :: "int64 \<Rightarrow> int64" where
  "RoundUpBytes volumeSizeBytes = roundUpSize volumeSizeBytes GiB * GiB"

definition RoundUpGiB :: "int64 \<Rightarrow> int64" where
  "RoundUpGiB volumeSizeBytes = roundUpSize volumeSizeBytes GiB"

definition BytesToGiB :: "int64 \<Rightarrow> int64" where
  "BytesToGiB volumeSizeBytes = go_div volumeSizeBytes GiB"

definition GiBToBytes :: "int64 \<Rightarrow> int64" where
  "GiBToBytes volumeSizeGiB = volumeSizeGiB * GiB"

section \<open>The interface of rounding\<close>

locale rounding =
  fixes unit :: int
    and fits :: "int64 \<Rightarrow> bool"
    and rnd :: "int64 \<Rightarrow> int64"
  assumes unit_pos: "0 < unit"
    and rnd_dvd: "fits v \<Longrightarrow> unit dvd sint (rnd v)"
    and rnd_ge: "fits v \<Longrightarrow> sint v \<le> sint (rnd v)"
    and rnd_lt: "fits v \<Longrightarrow> sint (rnd v) < sint v + unit"
    and fits_rnd: "fits v \<Longrightarrow> fits (rnd v)"
begin

lemma rnd_least:
  assumes "fits v" and "unit dvd m" and "sint v \<le> m"
  shows "sint (rnd v) \<le> m"
proof (rule ccontr)
  assume "\<not> ?thesis"
  then have less: "m < sint (rnd v)" by simp
  have "unit dvd sint (rnd v) - m"
    using rnd_dvd assms(1,2) by (simp add: dvd_diff)
  with less have "unit \<le> sint (rnd v) - m"
    by (simp add: zdvd_imp_le)
  with rnd_lt [OF assms(1)] assms(3) show False by simp
qed

lemma rnd_fixed: "fits v \<Longrightarrow> unit dvd sint v \<Longrightarrow> rnd v = v"
  by (rule signed_word_eqI) (rule antisym [OF rnd_least rnd_ge], simp_all)

lemma rnd_idem: "fits v \<Longrightarrow> rnd (rnd v) = rnd v"
  by (simp add: rnd_fixed rnd_dvd fits_rnd)

lemma rnd_mono:
  assumes "fits v" and "fits u" and "sint v \<le> sint u"
  shows "sint (rnd v) \<le> sint (rnd u)"
proof (rule rnd_least [OF assms(1)])
  show "unit dvd sint (rnd u)" by (rule rnd_dvd [OF assms(2)])
  show "sint v \<le> sint (rnd u)" using assms(3) rnd_ge [OF assms(2)] by linarith
qed

end

section \<open>RoundUpBytes provides it\<close>

definition round_fits :: "int64 \<Rightarrow> bool" where
  "round_fits v \<longleftrightarrow> 0 \<le> sint v \<and> sint v \<le> 2 ^ 63 - 2 ^ 30"

lemma sint_GiB [int64_simps]: "sint GiB = 2 ^ 30"
  by (simp add: GiB_def)

lemma sint_add_GiB:
  assumes "sint v \<le> 2 ^ 63 - 2 ^ 30"
  shows "sint (v + GiB - 1) = sint v + (2 ^ 30 - 1)"
proof -
  have eq: "v + GiB - 1 = v + (GiB - 1)" by simp
  have "sint (GiB - 1) = 2 ^ 30 - 1" by (simp add: GiB_def)
  then show ?thesis
    unfolding eq using assms sint_int64_bounds [of v] by (subst sint_add_int64) simp_all
qed

lemma ceil_GiB_range:
  fixes s :: int
  assumes "0 \<le> s" and "s \<le> 2 ^ 63 - 2 ^ 30"
  shows "0 \<le> (s + (2 ^ 30 - 1)) div 2 ^ 30" and "(s + (2 ^ 30 - 1)) div 2 ^ 30 \<le> 2 ^ 33 - 1"
proof -
  show "0 \<le> (s + (2 ^ 30 - 1)) div 2 ^ 30"
    using assms(1) by (simp add: pos_imp_zdiv_nonneg_iff)
  have "(s + (2 ^ 30 - 1)) div 2 ^ 30 \<le> (2 ^ 63 - 1) div 2 ^ 30"
    using assms(2) by (intro zdiv_mono1) simp_all
  then show "(s + (2 ^ 30 - 1)) div 2 ^ 30 \<le> 2 ^ 33 - 1" by simp
qed

lemma sint_roundUpSize:
  assumes "round_fits v"
  shows "sint (roundUpSize v GiB) = (sint v + (2 ^ 30 - 1)) div 2 ^ 30"
proof -
  let ?q = "(sint v + (2 ^ 30 - 1)) div 2 ^ 30"
  have range: "- (2 ^ 63) \<le> ?q" "?q < 2 ^ 63"
    using assms ceil_GiB_range [of "sint v"] by (simp_all add: round_fits_def)
  have "roundUpSize v GiB = word_of_int ?q"
    using assms unfolding roundUpSize_def go_div_def round_fits_def
    by (simp add: sint_add_GiB sint_GiB sdiv_nonneg)
  then show ?thesis using range by (simp add: sint_word_of_int64)
qed

lemma sint_RoundUpBytes:
  assumes "round_fits v"
  shows "sint (RoundUpBytes v) = (sint v + (2 ^ 30 - 1)) div 2 ^ 30 * 2 ^ 30"
proof -
  let ?q = "(sint v + (2 ^ 30 - 1)) div 2 ^ 30"
  have "0 \<le> ?q * 2 ^ 30" and "?q * 2 ^ 30 < 2 ^ 63"
    using assms ceil_GiB_range [of "sint v"] unfolding round_fits_def by simp_all
  then show ?thesis
    unfolding RoundUpBytes_def using assms
    by (subst sint_mult_int64) (simp_all add: sint_roundUpSize sint_GiB)
qed

interpretation gib: rounding "2 ^ 30" round_fits RoundUpBytes
proof unfold_locales
  show "(0::int) < 2 ^ 30" by simp
next
  fix v
  assume fits: "round_fits v"
  note val = sint_RoundUpBytes [OF fits]
  show "2 ^ 30 dvd sint (RoundUpBytes v)" unfolding val by simp
  show "sint v \<le> sint (RoundUpBytes v)" unfolding val by simp
  show "sint (RoundUpBytes v) < sint v + 2 ^ 30" unfolding val by simp
  show "round_fits (RoundUpBytes v)"
    using fits ceil_GiB_range [of "sint v"] unfolding round_fits_def val by simp
qed

text \<open>
  Past the last whole number of GiB that 64 bits can hold, the sum wraps to a negative number and
  so does the result.
\<close>

lemma roundUpSize_overflow:
  assumes "2 ^ 63 - 2 ^ 30 < sint v"
  shows "sint (roundUpSize v GiB) = - ((2 ^ 63 - (sint v - (2 ^ 63 - 2 ^ 30) - 1)) div 2 ^ 30)"
proof -
  let ?s = "sint v + (2 ^ 30 - 1) - 2 ^ 64"
  have eq: "v + GiB - 1 = v + (GiB - 1)" by simp
  have unit: "sint (GiB - 1) = 2 ^ 30 - 1" by (simp add: GiB_def)
  have sum: "sint (v + GiB - 1) = ?s"
    unfolding eq using assms by (subst sint_add_int64_overflow) (simp_all add: unit)
  have "?s < 0" using sint_int64_bounds [of v] by simp
  then have quot: "?s sdiv 2 ^ 30 = - ((- ?s) div 2 ^ 30)" by (rule sdiv_neg) simp
  have eq: "roundUpSize v GiB = word_of_int (- ((- ?s) div 2 ^ 30))"
    unfolding roundUpSize_def go_div_def sint_GiB sum quot ..
  have "0 \<le> (- ?s) div 2 ^ 30" "(- ?s) div 2 ^ 30 \<le> (2 ^ 63) div 2 ^ 30"
    using assms sint_int64_bounds [of v] by (simp_all add: pos_imp_zdiv_nonneg_iff zdiv_mono1)
  then have "sint (roundUpSize v GiB) = - ((- ?s) div 2 ^ 30)"
    unfolding eq by (intro sint_word_of_int64) simp_all
  moreover have "- ?s = 2 ^ 63 - (sint v - (2 ^ 63 - 2 ^ 30) - 1)" by simp
  ultimately show ?thesis by (simp only:)
qed

lemma RoundUpBytes_overflow:
  assumes "2 ^ 63 - 2 ^ 30 < sint v"
  shows "sint (RoundUpBytes v) \<le> 2 ^ 30 - 2 ^ 63"
proof -
  let ?n = "2 ^ 63 - (sint v - (2 ^ 63 - 2 ^ 30) - 1)"
  have lo: "(2 ^ 63 - 2 ^ 30) div 2 ^ 30 \<le> ?n div 2 ^ 30"
    using sint_int64_bounds [of v] by (intro zdiv_mono1) simp_all
  have hi: "?n div 2 ^ 30 \<le> 2 ^ 63 div 2 ^ 30"
    using assms by (intro zdiv_mono1) simp_all
  have "sint (RoundUpBytes v) = - (?n div 2 ^ 30) * 2 ^ 30"
    unfolding RoundUpBytes_def using roundUpSize_overflow [OF assms] lo hi
    by (subst sint_mult_int64) (simp_all add: sint_GiB)
  with lo show ?thesis by simp
qed

end
