(* ===== verification/Controller_Volume.thy ===== *)
theory Controller_Volume
  imports Driver Wait Sizes
begin

text \<open>
  The volume life cycle of the controller service, \<^verbatim>\<open>pkg/driver/controller.go\<close>:
  \<^verbatim>\<open>CreateVolume\<close>, \<^verbatim>\<open>DeleteVolume\<close> and the functions they use
  (\<^verbatim>\<open>getVolSizeBytes\<close>, \<^verbatim>\<open>getAZFromTopology\<close>).

  \<^verbatim>\<open>CreateVolume\<close> first works out its arguments from the request alone
  (\<open>create_args\<close>, lines 52 to 86) and then talks to the API server (\<open>provisionVolume\<close>, lines 89 to
  170); \<open>CreateVolume\<close> composes the two as the source does.
\<close>

section \<open>Size and zone\<close>

definition getVolSizeBytes :: "CreateVolumeRequest \<Rightarrow> error + int64" where
  "getVolSizeBytes req =
     (case cv_CapacityRange req of
        None \<Rightarrow> Inr DefaultVolumeSize
      | Some capRange \<Rightarrow>
          (let volSizeBytes = RoundUpBytes (GetRequiredBytes (Some capRange));
               maxVolSize = GetLimitBytes (Some capRange)
           in if 0 < sint maxVolSize \<and> sint maxVolSize < sint volSizeBytes
              then Inl (Status InvalidArgument
                     ''after round-up, volume size exceeds the limit specified'' [])
              else Inr volSizeBytes))"

text \<open>One of the two loops of \<^verbatim>\<open>getAZFromTopology\<close>: the first topology that has a zone.\<close>

fun firstZone :: "Topology list \<Rightarrow> string option" where
  "firstZone [] = None"
| "firstZone (topology # rest) =
     (case Segments topology topologyKey of Some zone \<Rightarrow> Some zone | None \<Rightarrow> firstZone rest)"

definition getAZFromTopology :: "TopologyRequirement \<Rightarrow> string" where
  "getAZFromTopology requirement =
     (case firstZone (Preferred requirement) of
        Some zone \<Rightarrow> zone
      | None \<Rightarrow> (case firstZone (Requisite requirement) of Some zone \<Rightarrow> zone | None \<Rightarrow> ''''))"

section \<open>CreateVolume\<close>

record CreateArgs =
  ca_volSizeBytes :: int64
  ca_fstype :: string
  ca_mkfsOptions :: string
  ca_volumeClass :: string
  ca_volumePoolName :: string
  ca_accessibleTopology :: "Topology list"

definition create_args :: "CreateVolumeRequest \<Rightarrow> error + CreateArgs" where
  "create_args req =
     (case getVolSizeBytes req of
        Inl err \<Rightarrow> Inl err
      | Inr volSizeBytes \<Rightarrow>
     (let params = cv_Parameters req;
          fstype = (case params ParameterFSType of Some v \<Rightarrow> v | None \<Rightarrow> FSTypeExt4);
          mkfsOptions = (case params ParameterMkfsOptions of Some v \<Rightarrow> v | None \<Rightarrow> '''')
      in case params ParameterType of
           None \<Rightarrow> Inl (Status Internal ''Required parameter %s is missing'' [A_Str ParameterType])
         | Some volumeClass \<Rightarrow>
     (let volumePoolName = go_lookup params ParameterVolumePool
      in if volumePoolName = ''''
         then (case cv_AccessibilityRequirements req of
                 None \<Rightarrow> Inl (Status Internal
                           ''Neither volume pool nor topology provided for volume'' [])
               | Some topology \<Rightarrow>
                   (let zone = getAZFromTopology topology
                    in Inr \<lparr>ca_volSizeBytes = volSizeBytes, ca_fstype = fstype,
                            ca_mkfsOptions = mkfsOptions, ca_volumeClass = volumeClass,
                            ca_volumePoolName = zone,
                            ca_accessibleTopology = [\<lparr>Segments = [topologyKey \<mapsto> zone]\<rparr>]\<rparr>))
         else Inr \<lparr>ca_volSizeBytes = volSizeBytes, ca_fstype = fstype,
                   ca_mkfsOptions = mkfsOptions, ca_volumeClass = volumeClass,
                   ca_volumePoolName = volumePoolName, ca_accessibleTopology = []\<rparr>)))"

text \<open>The spec of the volume; the pool is left to the scheduler when no pool was found.\<close>

definition volumeSpec :: "CreateArgs \<Rightarrow> string \<Rightarrow> VolumeSpec" where
  "volumeSpec a volumePoolName =
     \<lparr>Resources = [ResourceStorage \<mapsto> NewQuantity (ca_volSizeBytes a)],
      VolumeClassRef = Some (ca_volumeClass a),
      VolumePoolRef = (if volumePoolName \<noteq> '''' then Some volumePoolName else None)\<rparr>"

definition volumeObject :: "'w driver \<Rightarrow> CreateVolumeRequest \<Rightarrow> CreateArgs \<Rightarrow> string \<Rightarrow> Volume" where
  "volumeObject d req a volumePoolName =
     \<lparr>vol_Namespace = DriverNamespace (d_config d), vol_Name = cv_Name req,
      vol_CreationTimestamp = -62135596800, vol_Spec = volumeSpec a volumePoolName,
      vol_State = '''', vol_Access = None\<rparr>"

definition volumeApplyConfig ::
    "'w driver \<Rightarrow> CreateVolumeRequest \<Rightarrow> CreateArgs \<Rightarrow> string \<Rightarrow> VolumeApplyConfig" where
  "volumeApplyConfig d req a volumePoolName =
     \<lparr>va_Name = cv_Name req, va_Namespace = DriverNamespace (d_config d), va_Kind = ''Volume'',
      va_Spec = volumeSpec a volumePoolName\<rparr>"

definition createResponse ::
    "'w Runtime \<Rightarrow> CreateVolumeRequest \<Rightarrow> CreateArgs \<Rightarrow> string \<Rightarrow> Volume \<Rightarrow> CsiVolume" where
  "createResponse rt req a volumePoolName volume =
     \<lparr>VolumeId = cv_Name req,
      CapacityBytes = ca_volSizeBytes a,
      VolumeContext =
        [ParameterVolumeID \<mapsto> cv_Name req,
         ParameterVolumeName \<mapsto> cv_Name req,
         ParameterVolumePool \<mapsto> volumePoolName,
         ParameterCreationTime \<mapsto> UnixTimeString rt (vol_CreationTimestamp volume),
         ParameterFSType \<mapsto> ca_fstype a,
         ParameterMkfsOptions \<mapsto> ca_mkfsOptions a],
      ContentSource = cv_VolumeContentSource req,
      AccessibleTopology = ca_accessibleTopology a\<rparr>"

text \<open>Lines 91 to 98: keep the pool name if the pool exists, clear it if there is none.\<close>

definition resolvePool :: "'w driver \<Rightarrow> string \<Rightarrow> 'w \<Rightarrow> (error + string) \<times> 'w" where
  "resolvePool d volumePoolName w =
     (case GetVolumePool (d_ironcoreClient d) \<lparr>key_Namespace = '''', key_Name = volumePoolName\<rparr> w of
        (Inr pool, w') \<Rightarrow> (Inr volumePoolName, w')
      | (Inl err, w') \<Rightarrow>
          if err_notFound err then (Inr '''', w')
          else (Inl (Status Internal ''failed to get volume pool %s: %v''
                       [A_Str volumePoolName, A_Err (Ext err)]), w'))"

definition provisionVolume ::
    "'w Runtime \<Rightarrow> (Volume \<times> 'w) backoff_fn \<Rightarrow> 'w driver \<Rightarrow> CreateVolumeRequest \<Rightarrow> CreateArgs \<Rightarrow> 'w
       \<Rightarrow> CsiVolume result \<times> 'w" where
  "provisionVolume rt eb d req a w =
     (case resolvePool d (ca_volumePoolName a) w of
        (Inl err, w1) \<Rightarrow> (Err err, w1)
      | (Inr volumePoolName, w1) \<Rightarrow>
     (let volume = volumeObject d req a volumePoolName
      in case ApplyVolume (d_ironcoreClient d) (volumeApplyConfig d req a volumePoolName)
                volumeFieldOwner True w1 of
           (Some err, w2) \<Rightarrow>
             (Err (Status Internal ''Failed to apply volume %s: %v''
                [key_arg (volume_key volume), A_Err (Ext err)]), w2)
         | (None, w2) \<Rightarrow>
     (case waitForVolumeAvailability eb (d_ironcoreClient d) volume w2 of
        (Some err, (volume', w3)) \<Rightarrow>
          (Err (Errorf ''failed to confirm availability of the volume: %w'' [A_Err err]), w3)
      | (None, (volume', w3)) \<Rightarrow>
          (Ok (createResponse rt req a volumePoolName volume'), w3))))"

definition CreateVolume ::
    "'w Runtime \<Rightarrow> (Volume \<times> 'w) backoff_fn \<Rightarrow> 'w driver \<Rightarrow> CreateVolumeRequest \<Rightarrow> 'w
       \<Rightarrow> CsiVolume result \<times> 'w" where
  "CreateVolume rt eb d req w =
     (case create_args req of
        Inl err \<Rightarrow> (Err err, w)
      | Inr a \<Rightarrow> provisionVolume rt eb d req a w)"

section \<open>DeleteVolume\<close>

definition DeleteVolume :: "'w driver \<Rightarrow> string \<Rightarrow> 'w \<Rightarrow> unit result \<times> 'w" where
  "DeleteVolume d volumeId w =
     (if volumeId = ''''
      then (Err (Status InvalidArgument ''Required parameter 'volumeID' is missing'' []), w)
      else
     (let vol = \<lparr>key_Namespace = DriverNamespace (d_config d), key_Name = volumeId\<rparr>
      in case DeleteVolumeObject (d_ironcoreClient d) vol w of
           (Some err, w') \<Rightarrow>
             if err_notFound err then (Ok (), w')
             else (Err (Status Internal ''Failed to delete volume %s: %v''
                     [key_arg vol, A_Err (Ext err)]), w')
         | (None, w') \<Rightarrow> (Ok (), w')))"

end
