(* ===== verification/Controller_Volume_Props.thy ===== *)
theory Controller_Volume_Props
  imports Controller_Volume Trace Sim
begin

text \<open>
  What creating and deleting a volume guarantees: the size that is provisioned, the checks that come
  before any call to the API server, what a successful creation has done, and which calls can be
  made at all.
\<close>

section \<open>Arguments\<close>

lemma default_size: "sint DefaultVolumeSize = 10 * 2 ^ 30"
  by (simp add: DefaultVolumeSize_def)

lemma create_args_size: "create_args req = Inr a \<Longrightarrow> getVolSizeBytes req = Inr (ca_volSizeBytes a)"
  by (auto simp: create_args_def Let_def split: outcome_splits)

lemma create_args_class: "create_args req = Inr a \<Longrightarrow> cv_Parameters req ParameterType = Some (ca_volumeClass a)"
  by (auto simp: create_args_def Let_def split: outcome_splits)

lemma CreateVolume_okE:
  assumes "CreateVolume rt eb d req w = (Ok resp, w')"
  obtains a pool w1 w2 v where "create_args req = Inr a"
    and "resolvePool d (ca_volumePoolName a) w = (Inr pool, w1)"
    and "ApplyVolume (d_ironcoreClient d) (volumeApplyConfig d req a pool) volumeFieldOwner True w1 = (None, w2)"
    and "waitForVolumeAvailability eb (d_ironcoreClient d) (volumeObject d req a pool) w2 = (None, (v, w'))"
    and "resp = createResponse rt req a pool v"
  using assms that by (auto simp: CreateVolume_def provisionVolume_def Let_def split: outcome_splits)

section \<open>The size that is provisioned\<close>

lemma getVolSizeBytes_range:
  assumes "getVolSizeBytes req = Inr size_b" and "cv_CapacityRange req = Some r"
  shows "size_b = RoundUpBytes (RequiredBytes r)"
    and "0 < sint (LimitBytes r) \<Longrightarrow> sint size_b \<le> sint (LimitBytes r)"
  using assms by (auto simp: getVolSizeBytes_def Let_def split: if_splits)

text \<open>
  C10: A volume is created with a whole number of GiB, at least the required bytes, less than one GiB
  above them, and within the limit when one is given; without a capacity range it has 10 GiB.  The
  required bytes range over all sizes whose rounding fits in 64 bits.
\<close>

theorem CreateVolume_capacity:
  assumes "CreateVolume rt eb d req w = (Ok resp, w')"
  shows "case cv_CapacityRange req of
      None \<Rightarrow> sint (CapacityBytes resp) = 10 * 2 ^ 30
    | Some r \<Rightarrow> round_fits (RequiredBytes r) \<longrightarrow>
        2 ^ 30 dvd sint (CapacityBytes resp) \<and>
        sint (RequiredBytes r) \<le> sint (CapacityBytes resp) \<and>
        sint (CapacityBytes resp) < sint (RequiredBytes r) + 2 ^ 30 \<and>
        (0 < sint (LimitBytes r) \<longrightarrow> sint (CapacityBytes resp) \<le> sint (LimitBytes r))"
proof -
  obtain a where "create_args req = Inr a" and "CapacityBytes resp = ca_volSizeBytes a"
    using assms by (rule CreateVolume_okE) (simp add: createResponse_def)
  then have size_eq: "getVolSizeBytes req = Inr (CapacityBytes resp)"
    by (simp add: create_args_size)
  show ?thesis
  proof (cases "cv_CapacityRange req")
    case None
    with size_eq show ?thesis by (simp add: getVolSizeBytes_def default_size)
  next
    case (Some r)
    note range = getVolSizeBytes_range [OF size_eq Some]
    show ?thesis
      unfolding Some option.case using range gib.rnd_dvd gib.rnd_ge gib.rnd_lt by simp
  qed
qed

section \<open>The checks that come first\<close>

text \<open>The specification of the checks, in the order a caller sees them.\<close>

definition checkCreate :: "CreateVolumeRequest \<Rightarrow> error option" where
  "checkCreate req =
     (if \<exists>r \<in> set_option (cv_CapacityRange req). 0 < sint (LimitBytes r) \<and>
           sint (LimitBytes r) < sint (RoundUpBytes (RequiredBytes r))
      then Some (Status InvalidArgument ''after round-up, volume size exceeds the limit specified'' [])
      else if cv_Parameters req ParameterType = None
      then Some (Status Internal ''Required parameter %s is missing'' [A_Str ParameterType])
      else if go_lookup (cv_Parameters req) ParameterVolumePool = '''' \<and>
        cv_AccessibilityRequirements req = None
      then Some (Status Internal ''Neither volume pool nor topology provided for volume'' [])
      else None)"

lemma create_args_check: "create_args req = Inl e \<longleftrightarrow> checkCreate req = Some e"
  by (auto simp: create_args_def checkCreate_def getVolSizeBytes_def Let_def split: outcome_splits)

interpretation create_check: checked_call checkCreate "CreateVolume rt eb d"
  for rt :: "'w Runtime" and eb d
proof unfold_locales
  fix req e w
  assume c: "checkCreate req = Some e"
  then show "CreateVolume rt eb d req w = (Err e, w)"
    by (simp add: CreateVolume_def flip: create_args_check)
  from c show "\<exists>c. status_code e = Some c \<and> c \<noteq> OK"
    by (auto simp: checkCreate_def split: if_splits)
qed

section \<open>The calls a creation makes\<close>

lemma resolvePool_trace:
  "resolvePool (traced d) pool (w, tr) = (r, (w', tr')) \<Longrightarrow>
     tr' = tr @ [C_GetVolumePool \<lparr>key_Namespace = '''', key_Name = pool\<rparr>]"
  by (auto simp: resolvePool_def traced_simps split: outcome_splits)

lemma provisionVolume_trace:
  assumes "quiet_backoff eb" and "answers_key (GetVolume (d_ironcoreClient d)) volume_key"
    and "provisionVolume rt eb (traced d) req a (w, []) = (r, (w', tr))"
  shows "\<exists>k \<le> 5. \<exists>pool.
      prefix tr ([C_GetVolumePool \<lparr>key_Namespace = '''', key_Name = ca_volumePoolName a\<rparr>,
          C_ApplyVolume (volumeApplyConfig d req a pool) volumeFieldOwner True] @
        replicate k (C_GetVolume \<lparr>key_Namespace = DriverNamespace (d_config d), key_Name = cv_Name req\<rparr>))
      \<and> (is_ok r \<longrightarrow> 0 < k \<and> length tr = k + 2)"
proof -
  obtain pr w1 tr1 where pool: "resolvePool (traced d) (ca_volumePoolName a) (w, []) = (pr, (w1, tr1))"
    by (metis surj_pair)
  note tr1 = resolvePool_trace [OF pool]
  have cfg: "volumeApplyConfig (traced d) req a p = volumeApplyConfig d req a p"
    "volumeObject (traced d) req a p = volumeObject d req a p" for p
    by (simp_all add: volumeApplyConfig_def volumeObject_def)
  have key: "volume_key (volumeObject d req a p)
      = \<lparr>key_Namespace = DriverNamespace (d_config d), key_Name = cv_Name req\<rparr>" for p
    by (simp add: volume_key_def volumeObject_def)
  show ?thesis
  proof (cases pr)
    case (Inl e)
    then show ?thesis
      using assms(3) pool tr1 by (intro exI [of _ 0]) (auto simp: provisionVolume_def)
  next
    case (Inr p)
    let ?calls = "[C_GetVolumePool \<lparr>key_Namespace = '''', key_Name = ca_volumePoolName a\<rparr>,
        C_ApplyVolume (volumeApplyConfig d req a p) volumeFieldOwner True]"
    obtain ar w2 where ap: "ApplyVolume (d_ironcoreClient d) (volumeApplyConfig d req a p) volumeFieldOwner True w1 = (ar, w2)"
      by (metis surj_pair)
    obtain wr v' w3 tr3 where wait: "waitForVolumeAvailability eb (traced_client (d_ironcoreClient d))
        (volumeObject d req a p) (w2, ?calls) = (wr, (v', (w3, tr3)))"
      by (metis surj_pair)
    obtain k where k: "k \<le> 5" "tr3 = ?calls @ replicate k (C_GetVolume
        \<lparr>key_Namespace = DriverNamespace (d_config d), key_Name = cv_Name req\<rparr>)" "wr = None \<longrightarrow> 0 < k"
      using waitForVolume_trace [OF assms(1,2) wait] by (auto simp: key waitActiveSteps_def)
    show ?thesis
      using assms(3) pool tr1 Inr ap wait k
      by (intro exI [of _ k] conjI exI [of _ p])
        (auto simp: provisionVolume_def Let_def logged_eq cfg split: outcome_splits)
  qed
qed

text \<open>
  C12: The API calls of CreateVolume, whatever the server answers and whatever happens meanwhile: at
  most one look at the pool, then at most one forced apply of the volume under the driver's field
  owner and in the driver's namespace, then at most five reads of that volume; in this order, and
  nothing else.  A request rejected by its checks makes no call at all, and a success has read the
  volume at least once after applying it.
\<close>

theorem CreateVolume_calls:
  assumes "quiet_backoff eb" and "answers_key (GetVolume (d_ironcoreClient d)) volume_key"
    and "CreateVolume rt eb (traced d) req (w, []) = (r, (w', tr))"
  shows "(checkCreate req \<noteq> None \<longrightarrow> tr = [])
    \<and> (\<exists>k \<le> 5. \<exists>poolKey spec.
        prefix tr ([C_GetVolumePool poolKey,
          C_ApplyVolume \<lparr>va_Name = cv_Name req, va_Namespace = DriverNamespace (d_config d),
            va_Kind = ''Volume'', va_Spec = spec\<rparr> volumeFieldOwner True] @
          replicate k (C_GetVolume \<lparr>key_Namespace = DriverNamespace (d_config d), key_Name = cv_Name req\<rparr>))
        \<and> (is_ok r \<longrightarrow> 0 < k \<and> length tr = k + 2))"
proof (cases "create_args req")
  case (Inl e)
  then show ?thesis using assms(3) by (auto simp: CreateVolume_def)
next
  case (Inr a)
  then have checked: "checkCreate req = None"
    using create_args_check [of req] by (cases "checkCreate req") auto
  then show ?thesis
    using provisionVolume_trace [OF assms(1,2)] assms(3) Inr
    by (simp add: CreateVolume_def volumeApplyConfig_def) blast
qed

section \<open>A run on the test doubles\<close>

lemma sim_create_args:
  "create_args sim_create = Inr \<lparr>ca_volSizeBytes = 5368709120, ca_fstype = ''ext4'', ca_mkfsOptions = '''',
     ca_volumeClass = ''expand-only'', ca_volumePoolName = ''volumepool'', ca_accessibleTopology = []\<rparr>"
  by (simp add: create_args_def getVolSizeBytes_def sim_create_def parameter_defs Let_def
      RoundUpBytes_def roundUpSize_def GiB_def go_div_def signed_divide_int_def FSTypeExt4_def)

lemmas create_run = CreateVolume_def sim_create_args provisionVolume_def resolvePool_def ready_defs
  traced_simps waitForVolumeAvailability_def sim_backoff_def wait_backoff_def waitActiveSteps_def
  eval_nat_numeral volume_condition_def Let_def

lemma sim_create_ok: "is_ok (fst (CreateVolume nop_runtime sim_backoff ready_driver sim_create w))"
  by (simp add: create_run)

lemma sim_create_traced_ok:
  "is_ok (fst (CreateVolume nop_runtime sim_backoff (traced ready_driver) sim_create (w, [])))"
  by (simp add: create_run)

theorem CreateVolume_capacity_witness:
  "\<exists>resp w'. CreateVolume nop_runtime sim_backoff ready_driver sim_create () = (Ok resp, w')
     \<and> 2 ^ 30 dvd sint (CapacityBytes resp)"
proof -
  obtain resp w' where run: "CreateVolume nop_runtime sim_backoff ready_driver sim_create () = (Ok resp, w')"
    using sim_create_ok [of "()"] by (metis is_ok_iff prod.collapse)
  show ?thesis
    using run CreateVolume_capacity [OF run]
    by (auto simp: sim_create_def round_fits_def)
qed

theorem CreateVolume_calls_witness:
  "\<exists>resp w' tr. CreateVolume nop_runtime sim_backoff (traced ready_driver) sim_create ((), []) = (Ok resp, (w', tr))
     \<and> 3 \<le> length tr \<and> length tr \<le> 7"
proof -
  obtain resp w' tr where run:
    "CreateVolume nop_runtime sim_backoff (traced ready_driver) sim_create ((), []) = (Ok resp, (w', tr))"
    using sim_create_traced_ok [of "()"] by (metis is_ok_iff prod.collapse)
  show ?thesis
    using run CreateVolume_calls [OF sim_backoff_quiet ready_answers(1) run] by auto
qed

section \<open>What a successful creation has done\<close>

text \<open>
  C6: A successful CreateVolume has applied, by force and under the driver's field owner, a volume of
  exactly the reported capacity and of the class of the type parameter, in the pool it reports (and
  without a pool when it reports none), and the last thing it did was to read that volume back from
  the server in state Available; the reported creation time is that of the volume it read.
\<close>

theorem CreateVolume_success:
  assumes "backoff_legal eb" and "answers_key (GetVolume (d_ironcoreClient d)) volume_key"
    and "CreateVolume rt eb d req w = (Ok resp, w')"
  shows "\<exists>pool w1 w2 w3 v.
    ApplyVolume (d_ironcoreClient d)
      \<lparr>va_Name = cv_Name req, va_Namespace = DriverNamespace (d_config d), va_Kind = ''Volume'',
       va_Spec = \<lparr>Resources = [ResourceStorage \<mapsto> NewQuantity (CapacityBytes resp)],
         VolumeClassRef = cv_Parameters req ParameterType,
         VolumePoolRef = (if pool = '''' then None else Some pool)\<rparr>\<rparr>
      volumeFieldOwner True w1 = (None, w2)
    \<and> GetVolume (d_ironcoreClient d)
        \<lparr>key_Namespace = DriverNamespace (d_config d), key_Name = cv_Name req\<rparr> w3 = (Inr v, w')
    \<and> vol_State v = VolumeStateAvailable
    \<and> VolumeId resp = cv_Name req
    \<and> VolumeContext resp ParameterVolumePool = Some pool
    \<and> VolumeContext resp ParameterCreationTime = Some (UnixTimeString rt (vol_CreationTimestamp v))"
proof -
  obtain a pool w1 w2 v where args: "create_args req = Inr a"
    and applied: "ApplyVolume (d_ironcoreClient d) (volumeApplyConfig d req a pool) volumeFieldOwner True w1 = (None, w2)"
    and waited: "waitForVolumeAvailability eb (d_ironcoreClient d) (volumeObject d req a pool) w2 = (None, (v, w'))"
    and resp: "resp = createResponse rt req a pool v"
    using assms(3) by (rule CreateVolume_okE)
  obtain u w3 where read: "GetVolume (d_ironcoreClient d) (volume_key u) w3 = (Inr v, w')"
      "volume_key u = volume_key (volumeObject d req a pool)" "volume_available v"
    by (rule volume_wait.wait_fetched_same [OF assms(1) _ waited]) (auto dest: answers_keyD [OF assms(2)])
  show ?thesis
    by (rule exI [of _ pool], rule exI [of _ w1], rule exI [of _ w2], rule exI [of _ w3], rule exI [of _ v])
      (use applied read create_args_class [OF args] in
        \<open>auto simp: resp createResponse_def volumeApplyConfig_def volumeSpec_def volumeObject_def
          volume_key_def volume_available_def parameter_defs\<close>)
qed

theorem CreateVolume_success_witness:
  "\<exists>resp w'. CreateVolume nop_runtime sim_backoff ready_driver sim_create () = (Ok resp, w')
     \<and> VolumeId resp = ''volume''"
proof -
  obtain resp w' where run: "CreateVolume nop_runtime sim_backoff ready_driver sim_create () = (Ok resp, w')"
    using sim_create_ok [of "()"] by (metis is_ok_iff prod.collapse)
  then have "VolumeId resp = cv_Name sim_create"
    using CreateVolume_success [OF sim_backoff_legal ready_answers(1) run] by blast
  with run show ?thesis by (simp add: sim_create_def)
qed

section \<open>Pool and zone\<close>

lemma firstZone_find:
  "firstZone ts = (case find (\<lambda>t. Segments t topologyKey \<noteq> None) ts of
     None \<Rightarrow> None | Some t \<Rightarrow> Segments t topologyKey)"
  by (induction ts) (auto split: option.splits)

text \<open>
  getAZFromTopology gives the zone of the first topology that has one, looking through all the
  preferred topologies before the requisite ones, and the empty string when none has a zone.
\<close>

lemma getAZFromTopology_first:
  "getAZFromTopology req =
     (case find (\<lambda>t. topologyKey \<in> dom (Segments t)) (Preferred req @ Requisite req) of
        None \<Rightarrow> '''' | Some t \<Rightarrow> go_lookup (Segments t) topologyKey)"
proof -
  have dom: "(\<lambda>t. topologyKey \<in> dom (Segments t)) = (\<lambda>t. Segments t topologyKey \<noteq> None)"
    by (simp add: domIff)
  show ?thesis
    unfolding getAZFromTopology_def dom
    by (auto simp: firstZone_find find_append go_lookup_def split: option.splits dest: find_SomeD)
qed

text \<open>The pool a request asks for: the parameter, or the zone of its topology.\<close>

definition requestedPool :: "CreateVolumeRequest \<Rightarrow> string" where
  "requestedPool req =
     (let p = go_lookup (cv_Parameters req) ParameterVolumePool
      in if p \<noteq> '''' then p
         else (case cv_AccessibilityRequirements req of None \<Rightarrow> '''' | Some t \<Rightarrow> getAZFromTopology t))"

lemma create_args_pool:
  "create_args req = Inr a \<Longrightarrow> ca_volumePoolName a = requestedPool req \<and>
     ca_accessibleTopology a =
       (if go_lookup (cv_Parameters req) ParameterVolumePool \<noteq> '''' then []
        else [\<lparr>Segments = [topologyKey \<mapsto> requestedPool req]\<rparr>])"
  by (auto simp: create_args_def requestedPool_def Let_def split: outcome_splits)

text \<open>
  The pool of a created volume: the requested pool if the server has it, and no pool at all (the
  scheduler decides) if the server has no such pool.  The accessible topology is reported from the
  request whatever the server answered: the requested zone when the pool came from the topology,
  nothing when it came from the parameter.
\<close>

lemma CreateVolume_pool:
  assumes "CreateVolume rt eb d req w = (Ok resp, w')"
  shows "VolumeContext resp ParameterVolumePool = Some
      (case fst (GetVolumePool (d_ironcoreClient d) \<lparr>key_Namespace = '''', key_Name = requestedPool req\<rparr> w) of
         Inr pool \<Rightarrow> requestedPool req | Inl e \<Rightarrow> '''')
    \<and> AccessibleTopology resp =
        (if go_lookup (cv_Parameters req) ParameterVolumePool \<noteq> '''' then []
         else [\<lparr>Segments = [topologyKey \<mapsto> requestedPool req]\<rparr>])"
proof -
  obtain a pool w1 w2 v where args: "create_args req = Inr a"
    and pool: "resolvePool d (ca_volumePoolName a) w = (Inr pool, w1)"
    and resp: "resp = createResponse rt req a pool v"
    using assms by (rule CreateVolume_okE)
  from pool show ?thesis
    using create_args_pool [OF args]
    by (auto simp: resp createResponse_def resolvePool_def parameter_defs split: outcome_splits)
qed

theorem CreateVolume_pool_witness:
  "\<exists>resp w'. CreateVolume nop_runtime sim_backoff ready_driver sim_create () = (Ok resp, w')
     \<and> VolumeContext resp ParameterVolumePool = Some ''volumepool'' \<and> AccessibleTopology resp = []"
proof -
  obtain resp w' where run: "CreateVolume nop_runtime sim_backoff ready_driver sim_create () = (Ok resp, w')"
    using sim_create_ok [of "()"] by (metis is_ok_iff prod.collapse)
  from run CreateVolume_pool [OF run] show ?thesis
    by (simp add: ready_defs sim_create_def requestedPool_def parameter_defs Let_def)
qed

section \<open>Sizes that overflow\<close>

lemma getVolSizeBytes_overflow:
  assumes "cv_CapacityRange req = Some r" and "2 ^ 63 - 2 ^ 30 < sint (RequiredBytes r)"
  shows "getVolSizeBytes req = Inr (RoundUpBytes (RequiredBytes r))"
  using assms RoundUpBytes_overflow [OF assms(2)] by (simp add: getVolSizeBytes_def Let_def)

text \<open>
  C33: A required size less than one GiB below the largest 64-bit integer wraps when it is rounded up:
  whatever limit the request sets, the limit check passes, and a volume that is created reports and
  was applied with a negative capacity.
\<close>

theorem CreateVolume_overflow:
  assumes "cv_CapacityRange req = Some r" and "2 ^ 63 - 2 ^ 30 < sint (RequiredBytes r)"
  shows "getVolSizeBytes req = Inr (RoundUpBytes (RequiredBytes r))
    \<and> (\<forall>resp w'. CreateVolume rt eb d req w = (Ok resp, w') \<longrightarrow> sint (CapacityBytes resp) < 0)"
proof (intro conjI allI impI)
  show size_eq: "getVolSizeBytes req = Inr (RoundUpBytes (RequiredBytes r))"
    using assms by (rule getVolSizeBytes_overflow)
  fix resp w'
  assume "CreateVolume rt eb d req w = (Ok resp, w')"
  then obtain a where "create_args req = Inr a" and "CapacityBytes resp = ca_volSizeBytes a"
    by (rule CreateVolume_okE) (simp add: createResponse_def)
  then show "sint (CapacityBytes resp) < 0"
    using size_eq create_args_size [of req a] RoundUpBytes_overflow [OF assms(2)] by simp
qed

definition sim_create_huge :: CreateVolumeRequest where
  "sim_create_huge = sim_create\<lparr>cv_CapacityRange :=
     Some \<lparr>RequiredBytes = 9223372036854775807, LimitBytes = 10737418240\<rparr>\<rparr>"

lemma sim_create_huge_ok: "is_ok (fst (CreateVolume nop_runtime sim_backoff ready_driver sim_create_huge w))"
proof -
  have "getVolSizeBytes sim_create_huge = Inr (RoundUpBytes 9223372036854775807)"
    by (subst getVolSizeBytes_overflow [where r = "\<lparr>RequiredBytes = 9223372036854775807, LimitBytes = 10737418240\<rparr>"])
      (simp_all add: sim_create_huge_def)
  then have "\<exists>a. create_args sim_create_huge = Inr a"
    by (simp add: create_args_def sim_create_huge_def sim_create_def parameter_defs Let_def)
  then show ?thesis by (auto simp: create_run)
qed

theorem CreateVolume_overflow_witness:
  "\<exists>resp w'. CreateVolume nop_runtime sim_backoff ready_driver sim_create_huge () = (Ok resp, w')
     \<and> sint (CapacityBytes resp) < 0"
proof -
  obtain resp w' where run: "CreateVolume nop_runtime sim_backoff ready_driver sim_create_huge () = (Ok resp, w')"
    using sim_create_huge_ok [of "()"] by (metis is_ok_iff prod.collapse)
  moreover have "cv_CapacityRange sim_create_huge =
      Some \<lparr>RequiredBytes = 9223372036854775807, LimitBytes = 10737418240\<rparr>"
    by (simp add: sim_create_huge_def)
  ultimately show ?thesis
    using CreateVolume_overflow [of sim_create_huge
        "\<lparr>RequiredBytes = 9223372036854775807, LimitBytes = 10737418240\<rparr>"] by fastforce
qed

section \<open>Content sources\<close>

text \<open>
  CreateVolume ignores the content source of the request: the calls it makes, the volume it
  applies, its errors and its answer are those of the same request without a source, except that the
  answer repeats the source.  A volume requested from a snapshot is therefore created like an empty
  one, and reported as having the snapshot's content.
\<close>

lemma CreateVolume_ignores_source:
  "CreateVolume rt eb d (req\<lparr>cv_VolumeContentSource := src\<rparr>) w =
     apfst (map_result (\<lambda>resp. resp\<lparr>ContentSource := src\<rparr>))
       (CreateVolume rt eb d (req\<lparr>cv_VolumeContentSource := None\<rparr>) w)"
proof -
  have args: "create_args (req\<lparr>cv_VolumeContentSource := s\<rparr>) = create_args req" for s
    by (auto simp: create_args_def getVolSizeBytes_def Let_def split: outcome_splits)
  have objs: "volumeObject d (req\<lparr>cv_VolumeContentSource := s\<rparr>) a p = volumeObject d req a p"
    "volumeApplyConfig d (req\<lparr>cv_VolumeContentSource := s\<rparr>) a p = volumeApplyConfig d req a p" for s a p
    by (simp_all add: volumeObject_def volumeApplyConfig_def)
  show ?thesis
    unfolding CreateVolume_def args provisionVolume_def objs
    by (simp add: createResponse_def Let_def split: outcome_splits)
qed

section \<open>DeleteVolume\<close>

text \<open>
  DeleteVolume makes exactly one call, the deletion of the volume in the driver's namespace (none
  for an empty id, which is an invalid argument), and succeeds exactly when the server deleted the
  volume or does not know it; every other failure is an internal error.
\<close>

lemma DeleteVolume_calls:
  assumes "DeleteVolume (traced d) vid (w, []) = (r, (w', tr))"
  shows "if vid = '''' then tr = [] \<and> result_code r = Some InvalidArgument
    else (let key = \<lparr>key_Namespace = DriverNamespace (d_config d), key_Name = vid\<rparr> in
      tr = [C_DeleteVolume key] \<and>
      result_code r = Some (case fst (DeleteVolumeObject (d_ironcoreClient d) key w) of
        None \<Rightarrow> OK | Some e \<Rightarrow> if err_notFound e then OK else Internal))"
  using assms by (auto simp: DeleteVolume_def traced_simps Let_def split: outcome_splits)

theorem DeleteVolume_calls_witness:
  "result_code (fst (DeleteVolume (traced nop_driver) ''v'' ((), []))) = Some OK"
proof -
  obtain r w' tr where run: "DeleteVolume (traced nop_driver) ''v'' ((), []) = (r, (w', tr))"
    by (metis surj_pair)
  from DeleteVolume_calls [OF run] run show ?thesis
    by (simp add: Let_def sim_defs)
qed

end
