(* ===== verification/Controller_Publish.thy ===== *)
theory Controller_Publish
  imports Driver
begin

text \<open>
  Attaching and detaching volumes, \<^verbatim>\<open>pkg/driver/controller.go\<close>:
  \<^verbatim>\<open>ControllerPublishVolume\<close>, \<^verbatim>\<open>ControllerUnpublishVolume\<close> and
  the functions they use (\<^verbatim>\<open>volumeAttachmentIndex\<close>,
  \<^verbatim>\<open>validateDeviceName\<close>, \<^verbatim>\<open>nodeExists\<close>), on the attachment list
  of a machine.
\<close>

section \<open>The attachment list\<close>

definition volumeAttachmentIndex :: "MachineVolume list \<Rightarrow> string \<Rightarrow> int" where
  "volumeAttachmentIndex volumes volumeAttachmentName =
     IndexFunc (\<lambda>volume. mv_Name volume = volumeAttachmentName) volumes"

definition attachmentName :: "string \<Rightarrow> string" where
  "attachmentName volumeId = volumeId @ ''-attachment''"

text \<open>Lines 232 to 239 and line 294: the list with the attachment appended, and with it removed.\<close>

definition appendAttachment :: "string \<Rightarrow> MachineVolume list \<Rightarrow> MachineVolume list" where
  "appendAttachment volumeId volumes =
     volumes @ [\<lparr>mv_Name = attachmentName volumeId, mv_Device = None, mv_VolumeRef = Some volumeId\<rparr>]"

definition deleteAttachment :: "nat \<Rightarrow> MachineVolume list \<Rightarrow> MachineVolume list" where
  "deleteAttachment idx volumes = slices_Delete volumes idx (idx + 1)"

section \<open>The device name\<close>

text \<open>The loop of \<^verbatim>\<open>validateDeviceName\<close>: the first named attachment with a device.\<close>

fun attachedDevice :: "MachineVolume list \<Rightarrow> string \<Rightarrow> string option" where
  "attachedDevice [] vaName = None"
| "attachedDevice (va # rest) vaName =
     (let device = (case mv_Device va of Some dev \<Rightarrow> dev | None \<Rightarrow> '''')
      in if mv_Name va = vaName \<and> device \<noteq> '''' then Some device else attachedDevice rest vaName)"

definition deviceName :: "string \<Rightarrow> string \<Rightarrow> string" where
  "deviceName device handle =
     (let name = device @ ''-'' @ handle in if 20 < length name then take 20 name else name)"

definition devicePrefix :: string where
  "devicePrefix = ''/dev/disk/by-id/virtio-''"

definition validateDeviceName :: "Volume \<Rightarrow> Machine \<Rightarrow> string \<Rightarrow> error + string" where
  "validateDeviceName volume machine vaName =
     (let failed = Inl (Errorf ''failed to get device name of volume %s from machine %s''
                          [key_arg (volume_key volume), key_arg (machine_key machine)])
      in case vol_Access volume of
           Some access \<Rightarrow>
             if VolumeAttributes access \<noteq> None
             then (case attachedDevice (m_Volumes machine) vaName of
                     Some device \<Rightarrow> Inr (devicePrefix @ deviceName device (Handle access))
                   | None \<Rightarrow> failed)
             else failed
         | None \<Rightarrow> failed)"

section \<open>ControllerPublishVolume\<close>

definition machineKeyOf :: "'w driver \<Rightarrow> PublishRequest \<Rightarrow> ObjectKey" where
  "machineKeyOf d req = \<lparr>key_Namespace = DriverNamespace (d_config d), key_Name = cp_NodeId req\<rparr>"

definition volumeKeyOf :: "'w driver \<Rightarrow> PublishRequest \<Rightarrow> ObjectKey" where
  "volumeKeyOf d req = \<lparr>key_Namespace = DriverNamespace (d_config d), key_Name = cp_VolumeId req\<rparr>"

text \<open>
  Lines 223 to 243: get the machine and make sure it lists the attachment.  The machine that goes on
  is the server's reply to the patch where there was one.
\<close>

definition attachToMachine :: "'w driver \<Rightarrow> PublishRequest \<Rightarrow> 'w \<Rightarrow> (error + Machine) \<times> 'w" where
  "attachToMachine d req w =
     (case GetMachine (d_ironcoreClient d) (machineKeyOf d req) w of
        (Inl err, w1) \<Rightarrow>
          (Inl (Status Internal ''Failed to get machine %s: %v''
             [key_arg empty_key, A_Err (Ext err)]), w1)
      | (Inr machine, w1) \<Rightarrow>
          if volumeAttachmentIndex (m_Volumes machine) (attachmentName (cp_VolumeId req)) < 0
          then (let machineBase = machine;
                    machine' = machine\<lparr>m_Volumes := appendAttachment (cp_VolumeId req) (m_Volumes machine)\<rparr>
                in case PatchMachine (d_ironcoreClient d) machineBase machine' w1 of
                     (Inl err, w2) \<Rightarrow>
                       (Inl (Status Internal ''Failed to patch machine %s: %v''
                          [key_arg (machine_key machine'), A_Err (Ext err)]), w2)
                   | (Inr patched, w2) \<Rightarrow> (Inr patched, w2))
          else (Inr machine, w1))"

definition ControllerPublishVolume ::
    "'w driver \<Rightarrow> PublishRequest \<Rightarrow> 'w \<Rightarrow> strmap result \<times> 'w" where
  "ControllerPublishVolume d req w =
     (case attachToMachine d req w of
        (Inl err, w2) \<Rightarrow> (Err err, w2)
      | (Inr machine, w2) \<Rightarrow>
     (case GetVolume (d_ironcoreClient d) (volumeKeyOf d req) w2 of
        (Inl err, w3) \<Rightarrow>
          if err_notFound err
          then (Err (Status Internal ''Volume %s could not be found: %v''
                  [key_arg empty_key, A_Err (Ext err)]), w3)
          else (Err (Status Internal ''Failed to get volume %s: %v''
                  [key_arg empty_key, A_Err (Ext err)]), w3)
      | (Inr volume, w3) \<Rightarrow>
          if vol_State volume \<noteq> VolumeStateAvailable
          then (Err (Status Internal ''Volume is not in state available or is already bound'' []), w3)
          else (case validateDeviceName volume machine (attachmentName (cp_VolumeId req)) of
                  Inl err \<Rightarrow>
                    (Err (Status Internal ''Failed to validate device name for volume attachment %s: %v''
                       [A_Str (attachmentName (cp_VolumeId req)), A_Err err]), w3)
                | Inr devName \<Rightarrow>
                    (Ok [ParameterNodeID \<mapsto> cp_NodeId req,
                         ParameterVolumeID \<mapsto> cp_VolumeId req,
                         ParameterDeviceName \<mapsto> devName], w3))))"

section \<open>ControllerUnpublishVolume\<close>

definition nodeExists :: "string \<Rightarrow> 'w Client \<Rightarrow> 'w \<Rightarrow> (error + bool) \<times> 'w" where
  "nodeExists nodeName c w =
     (case GetNode c \<lparr>key_Namespace = '''', key_Name = nodeName\<rparr> w of
        (Inl err, w') \<Rightarrow>
          if err_notFound err then (Inr False, w')
          else (Inl (Errorf ''could not get node %s: %w'' [A_Str nodeName, A_Err (Ext err)]), w')
      | (Inr node, w') \<Rightarrow> (Inr True, w'))"

definition detachFromMachine :: "'w driver \<Rightarrow> PublishRequest \<Rightarrow> 'w \<Rightarrow> unit result \<times> 'w" where
  "detachFromMachine d req w =
     (case GetMachine (d_ironcoreClient d) (machineKeyOf d req) w of
        (Inl err, w1) \<Rightarrow>
          (Err (Status Internal ''Failed to get machine %s: %v''
             [key_arg empty_key, A_Err (Ext err)]), w1)
      | (Inr machine, w1) \<Rightarrow>
     (let idx = volumeAttachmentIndex (m_Volumes machine) (attachmentName (cp_VolumeId req))
      in if 0 \<le> idx
         then (let machineBase = machine;
                   machine' = machine\<lparr>m_Volumes := deleteAttachment (nat idx) (m_Volumes machine)\<rparr>
               in case PatchMachine (d_ironcoreClient d) machineBase machine' w1 of
                    (Inl err, w2) \<Rightarrow>
                      (Err (Status Internal ''Failed to patch machine %s: %v''
                         [key_arg (machine_key machine'), A_Err (Ext err)]), w2)
                  | (Inr patched, w2) \<Rightarrow> (Ok (), w2))
         else (Ok (), w1)))"

definition ControllerUnpublishVolume ::
    "'w driver \<Rightarrow> PublishRequest \<Rightarrow> 'w \<Rightarrow> unit result \<times> 'w" where
  "ControllerUnpublishVolume d req w =
     (case nodeExists (cp_NodeId req) (d_targetClient d) w of
        (Inl err, w1) \<Rightarrow>
          (Err (Status Internal ''Failed to check if the node %s exists: %v''
             [A_Str (cp_NodeId req), A_Err err]), w1)
      | (Inr exists, w1) \<Rightarrow> if \<not> exists then (Ok (), w1) else detachFromMachine d req w1)"

end
