(* ===== verification/Controller_Publish_Props.thy ===== *)
theory Controller_Publish_Props
  imports Controller_Publish Sim "HOL-Library.Multiset"
begin

text \<open>
  What attaching and detaching guarantees: the list operations on a machine's attachments, the
  device path handed to the node, the calls that are made, and the invariant of the attachment lists
  of all machines under any interleaving of calls and of other parties.
\<close>

section \<open>The attachment list\<close>

text \<open>
  The interface the two calls rely on: looking a name up, adding the attachment of a volume and
  deleting at an index, seen through the names in the list.
\<close>

locale attachment_list =
  fixes index :: "'l \<Rightarrow> string \<Rightarrow> int"
    and add :: "string \<Rightarrow> 'l \<Rightarrow> 'l"
    and del :: "nat \<Rightarrow> 'l \<Rightarrow> 'l"
    and names :: "'l \<Rightarrow> string list"
    and nm :: "string \<Rightarrow> string"
  assumes index_neg: "index l n < 0 \<longleftrightarrow> n \<notin> set (names l)"
    and names_add: "names (add v l) = names l @ [nm v]"
    and names_del: "0 \<le> index l n \<Longrightarrow> names (del (nat (index l n)) l) = remove1 n (names l)"
    and nm_inj: "nm u = nm v \<longleftrightarrow> u = v"
begin

lemma index_nonneg: "0 \<le> index l n \<longleftrightarrow> n \<in> set (names l)"
  using index_neg [of l n] by linarith

lemma add_distinct: "distinct (names l) \<Longrightarrow> index l (nm v) < 0 \<Longrightarrow> distinct (names (add v l))"
  by (simp add: names_add index_neg)

lemma add_member: "0 \<le> index (add v l) (nm v)"
  by (simp add: index_nonneg names_add)

lemma add_others: "u \<noteq> v \<Longrightarrow> nm u \<in> set (names (add v l)) \<longleftrightarrow> nm u \<in> set (names l)"
  by (simp add: names_add nm_inj)

lemma del_distinct: "distinct (names l) \<Longrightarrow> 0 \<le> index l n \<Longrightarrow> distinct (names (del (nat (index l n)) l))"
  by (simp add: names_del)

lemma del_absent: "distinct (names l) \<Longrightarrow> 0 \<le> index l n \<Longrightarrow> index (del (nat (index l n)) l) n < 0"
  by (simp add: index_neg names_del)

lemma del_others: "0 \<le> index l n \<Longrightarrow> m \<noteq> n \<Longrightarrow>
    m \<in> set (names (del (nat (index l n)) l)) \<longleftrightarrow> m \<in> set (names l)"
  by (simp add: names_del)

lemma del_add: "index l (nm v) < 0 \<Longrightarrow>
    names (del (nat (index (add v l) (nm v))) (add v l)) = names l"
  by (simp add: names_del add_member) (simp add: names_add index_neg remove1_append)

end

definition attachmentNames :: "MachineVolume list \<Rightarrow> string list" where
  "attachmentNames vols = map mv_Name vols"

lemma attachmentName_inj [simp]: "attachmentName u = attachmentName v \<longleftrightarrow> u = v"
  by (simp add: attachmentName_def)

lemma deleteAttachment_split:
  assumes "0 \<le> volumeAttachmentIndex vols n"
  obtains ys y zs where "vols = ys @ y # zs" and "mv_Name y = n" and "n \<notin> set (attachmentNames ys)"
    and "deleteAttachment (nat (volumeAttachmentIndex vols n)) vols = ys @ zs"
proof -
  from assms obtain ys y zs where s: "vols = ys @ y # zs" "\<forall>x \<in> set ys. mv_Name x \<noteq> n" "mv_Name y = n"
      "nat (volumeAttachmentIndex vols n) = length ys"
    unfolding volumeAttachmentIndex_def by (rule IndexFunc_split)
  then show thesis
    by (intro that) (auto simp: attachmentNames_def deleteAttachment_def)
qed

interpretation machine_volumes: attachment_list volumeAttachmentIndex appendAttachment
    deleteAttachment attachmentNames attachmentName
proof unfold_locales
  show "volumeAttachmentIndex l n < 0 \<longleftrightarrow> n \<notin> set (attachmentNames l)" for l n
    by (auto simp: volumeAttachmentIndex_def IndexFunc_neg_iff attachmentNames_def)
  show "attachmentNames (appendAttachment v l) = attachmentNames l @ [attachmentName v]" for v l
    by (simp add: attachmentNames_def appendAttachment_def)
  show "attachmentNames (deleteAttachment (nat (volumeAttachmentIndex l n)) l) = remove1 n (attachmentNames l)"
    if idx: "0 \<le> volumeAttachmentIndex l n" for l n
    using idx by (rule deleteAttachment_split) (simp add: attachmentNames_def remove1_append)
  show "attachmentName u = attachmentName v \<longleftrightarrow> u = v" for u v by simp
qed

section \<open>The device path\<close>

lemma deviceName_take: "deviceName device handle = take 20 (device @ ''-'' @ handle)"
  by (simp add: deviceName_def Let_def)

lemma attachedDevice_find:
  "attachedDevice vols n =
     (case find (\<lambda>va. mv_Name va = n \<and> mv_Device va \<noteq> None \<and> mv_Device va \<noteq> Some '''') vols of
        None \<Rightarrow> None | Some va \<Rightarrow> mv_Device va)"
  by (induction vols) (auto simp: Let_def split: option.splits)

text \<open>
  validateDeviceName succeeds exactly when the volume has access attributes and the machine lists
  an attachment of that name with a non-empty device; the path is then the by-id prefix and the first
  20 bytes of device, dash and handle, for the first such attachment, and so at most 43 bytes long.
\<close>

lemma validateDeviceName_spec:
  "validateDeviceName volume machine n = Inr path \<longleftrightarrow>
     (\<exists>access device. vol_Access volume = Some access \<and> VolumeAttributes access \<noteq> None \<and>
        find (\<lambda>va. mv_Name va = n \<and> mv_Device va \<noteq> None \<and> mv_Device va \<noteq> Some '''') (m_Volumes machine)
          = Some device \<and>
        path = devicePrefix @ take 20 (the (mv_Device device) @ ''-'' @ Handle access) \<and>
        length path \<le> 43)"
  by (auto simp: validateDeviceName_def attachedDevice_find deviceName_take devicePrefix_def Let_def
      split: option.splits dest!: find_SomeD)

lemma take_dash_inj:
  assumes "CHR ''-'' \<notin> set a" and "CHR ''-'' \<notin> set b" and "length a < n" and "length b < n"
    and "take n (a @ ''-'' @ h) = take n (b @ ''-'' @ g)"
  shows "a = b"
proof -
  have "takeWhile (\<lambda>c. c \<noteq> CHR ''-'') (take n (x @ ''-'' @ h)) = x"
    if "CHR ''-'' \<notin> set x" "length x < n" for x h
  proof -
    have "take n (x @ ''-'' @ h) = x @ CHR ''-'' # take (n - length x - 1) h"
      using that(2) by (simp add: take_Cons')
    then show ?thesis using that(1) by (simp add: takeWhile_append)
  qed
  from this [of a h] this [of b g] assms show ?thesis by simp
qed

text \<open>
  Device paths do not collide although they are cut at 20 bytes: two attachments of a machine
  with different devices, neither of which contains a dash nor fills the 20 bytes, get different paths
  whatever the handles of their volumes are.
\<close>

lemma validateDeviceName_distinct:
  assumes "validateDeviceName v1 m n1 = Inr p1" and "validateDeviceName v2 m n2 = Inr p2"
    and "attachedDevice (m_Volumes m) n1 = Some d1" and "attachedDevice (m_Volumes m) n2 = Some d2"
    and "CHR ''-'' \<notin> set d1" and "CHR ''-'' \<notin> set d2" and "length d1 < 20" and "length d2 < 20"
    and "d1 \<noteq> d2"
  shows "p1 \<noteq> p2"
  using assms take_dash_inj [OF assms(5-8)]
  by (auto simp: validateDeviceName_def deviceName_take Let_def split: option.splits if_splits)

theorem validateDeviceName_distinct_witness:
  "devicePrefix @ ''oda-bar'' \<noteq> devicePrefix @ ''odb-bar''"
proof (rule validateDeviceName_distinct [of "sim_volume empty_key"
      "\<lparr>m_Namespace = ''ns'', m_Name = ''node'', m_Volumes =
        [\<lparr>mv_Name = ''a'', mv_Device = Some ''oda'', mv_VolumeRef = None\<rparr>,
         \<lparr>mv_Name = ''b'', mv_Device = Some ''odb'', mv_VolumeRef = None\<rparr>]\<rparr>" "''a''" _
      "sim_volume empty_key" "''b''" _ "''oda''" "''odb''"])
qed (simp_all add: validateDeviceName_def sim_volume_def deviceName_def Let_def)

section \<open>The calls that are made\<close>

text \<open>
  C26: The API calls of ControllerPublishVolume: it reads the machine of the node and, unless that fails,
  patches this machine as it was read if and only if it does not list the attachment; the patch appends
  that attachment and changes nothing else.  Unless the patch fails it then reads the volume; there is no
  other call.  It succeeds if and only if the volume is read in state Available and the machine, as the
  patch returned it or else as it was read, gives it a valid device path; then it returns the node, the
  volume and that path.  Every failure is Internal.
\<close>

theorem ControllerPublishVolume_calls:
  assumes "ControllerPublishVolume (traced d) req (w, []) = (r, (w', tr))"
  shows "case GetMachine (d_ironcoreClient d) (machineKeyOf d req) w of
      (Inl e, w1) \<Rightarrow> tr = [C_GetMachine (machineKeyOf d req)] \<and> result_code r = Some Internal
    | (Inr machine, w1) \<Rightarrow>
        (let new = machine\<lparr>m_Volumes := m_Volumes machine @
               [\<lparr>mv_Name = attachmentName (cp_VolumeId req), mv_Device = None,
                 mv_VolumeRef = Some (cp_VolumeId req)\<rparr>]\<rparr>
         in case (if attachmentName (cp_VolumeId req) \<in> set (attachmentNames (m_Volumes machine))
                  then ([], Inr machine, w1)
                  else ([C_PatchMachine machine new], PatchMachine (d_ironcoreClient d) machine new w1)) of
              (patch, Inl e, w2) \<Rightarrow> tr = C_GetMachine (machineKeyOf d req) # patch \<and> result_code r = Some Internal
            | (patch, Inr served, w2) \<Rightarrow>
                tr = C_GetMachine (machineKeyOf d req) # patch @ [C_GetVolume (volumeKeyOf d req)] \<and>
                (\<forall>ctx. r = Ok ctx \<longleftrightarrow>
                  (\<exists>volume path. fst (GetVolume (d_ironcoreClient d) (volumeKeyOf d req) w2) = Inr volume \<and>
                     vol_State volume = VolumeStateAvailable \<and>
                     validateDeviceName volume served (attachmentName (cp_VolumeId req)) = Inr path \<and>
                     ctx = [ParameterNodeID \<mapsto> cp_NodeId req, ParameterVolumeID \<mapsto> cp_VolumeId req,
                       ParameterDeviceName \<mapsto> path])) \<and>
                result_code r \<in> {Some OK, Some Internal})"
proof -
  have keys: "machineKeyOf (traced d) req = machineKeyOf d req" "volumeKeyOf (traced d) req = volumeKeyOf d req"
    by (simp_all add: machineKeyOf_def volumeKeyOf_def)
  show ?thesis
    using assms
    by (auto simp: ControllerPublishVolume_def attachToMachine_def keys logged_eq Let_def
          machine_volumes.index_neg machine_volumes.index_nonneg appendAttachment_def
          split: outcome_splits)
qed

text \<open>
  C27: The API calls of ControllerUnpublishVolume: it asks the target cluster for the node first, and
  if the node is gone it succeeds at once without looking at the machine.  Otherwise it reads the machine
  and, unless that fails, patches it as it was read if and only if it lists the attachment; the patch
  takes out the first attachment of the name and changes nothing else.  There is no other call.  It
  succeeds when nothing was to be done or the patch succeeded; every failure is Internal.
\<close>

theorem ControllerUnpublishVolume_calls:
  assumes "ControllerUnpublishVolume (traced d) req (w, []) = (r, (w', tr))"
  shows "case GetNode (d_targetClient d) \<lparr>key_Namespace = '''', key_Name = cp_NodeId req\<rparr> w of
      (Inl e, w1) \<Rightarrow> tr = [C_GetNode \<lparr>key_Namespace = '''', key_Name = cp_NodeId req\<rparr>] \<and>
        result_code r = Some (if err_notFound e then OK else Internal)
    | (Inr node, w1) \<Rightarrow>
        (case GetMachine (d_ironcoreClient d) (machineKeyOf d req) w1 of
           (Inl e, w2) \<Rightarrow> result_code r = Some Internal \<and>
             tr = [C_GetNode \<lparr>key_Namespace = '''', key_Name = cp_NodeId req\<rparr>, C_GetMachine (machineKeyOf d req)]
         | (Inr machine, w2) \<Rightarrow>
             if attachmentName (cp_VolumeId req) \<notin> set (attachmentNames (m_Volumes machine))
             then r = Ok () \<and>
               tr = [C_GetNode \<lparr>key_Namespace = '''', key_Name = cp_NodeId req\<rparr>, C_GetMachine (machineKeyOf d req)]
             else \<exists>ys a zs. m_Volumes machine = ys @ a # zs \<and> mv_Name a = attachmentName (cp_VolumeId req) \<and>
               attachmentName (cp_VolumeId req) \<notin> set (attachmentNames ys) \<and>
               tr = [C_GetNode \<lparr>key_Namespace = '''', key_Name = cp_NodeId req\<rparr>, C_GetMachine (machineKeyOf d req),
                 C_PatchMachine machine (machine\<lparr>m_Volumes := ys @ zs\<rparr>)] \<and>
               result_code r = Some (case fst (PatchMachine (d_ironcoreClient d) machine (machine\<lparr>m_Volumes := ys @ zs\<rparr>) w2)
                 of Inl e \<Rightarrow> Internal | Inr patched \<Rightarrow> OK))"
proof -
  have keys: "machineKeyOf (traced d) req = machineKeyOf d req"
    by (simp add: machineKeyOf_def)
  obtain gn w1 where gn: "GetNode (d_targetClient d) \<lparr>key_Namespace = '''', key_Name = cp_NodeId req\<rparr> w = (gn, w1)"
    by (metis surj_pair)
  obtain gm w2 where gm: "GetMachine (d_ironcoreClient d) (machineKeyOf d req) w1 = (gm, w2)"
    by (metis surj_pair)
  note run = ControllerUnpublishVolume_def nodeExists_def detachFromMachine_def keys logged_eq Let_def
  show ?thesis
  proof (cases "\<exists>node machine. gn = Inr node \<and> gm = Inr machine \<and>
      attachmentName (cp_VolumeId req) \<in> set (attachmentNames (m_Volumes machine))")
    case False
    then show ?thesis
      using assms gn gm
      by (auto simp: run machine_volumes.index_nonneg split: outcome_splits)
  next
    case True
    then obtain node machine where node: "gn = Inr node" and machine: "gm = Inr machine"
      "attachmentName (cp_VolumeId req) \<in> set (attachmentNames (m_Volumes machine))" by blast
    then have idx: "0 \<le> volumeAttachmentIndex (m_Volumes machine) (attachmentName (cp_VolumeId req))"
      by (simp add: machine_volumes.index_nonneg)
    obtain ys a zs where split: "m_Volumes machine = ys @ a # zs" "mv_Name a = attachmentName (cp_VolumeId req)"
        "attachmentName (cp_VolumeId req) \<notin> set (attachmentNames ys)"
        "deleteAttachment (nat (volumeAttachmentIndex (m_Volumes machine) (attachmentName (cp_VolumeId req)))) (m_Volumes machine) = ys @ zs"
      by (rule deleteAttachment_split [OF idx])
    have "tr = [C_GetNode \<lparr>key_Namespace = '''', key_Name = cp_NodeId req\<rparr>, C_GetMachine (machineKeyOf d req),
        C_PatchMachine machine (machine\<lparr>m_Volumes := ys @ zs\<rparr>)] \<and>
      result_code r = Some (case fst (PatchMachine (d_ironcoreClient d) machine (machine\<lparr>m_Volumes := ys @ zs\<rparr>) w2)
        of Inl e \<Rightarrow> Internal | Inr patched \<Rightarrow> OK)"
      using assms gn gm node machine(1) idx split(4) by (auto simp: run split: outcome_splits bool.splits)
    with split(1-3) machine(2) show ?thesis
      by (simp only: gn gm node machine(1) prod.case sum.case simp_thms if_False) blast
  qed
qed

section \<open>The machines of the server\<close>

text \<open>
  What is assumed of the API server about machines, for a function \<open>store\<close> that reads the stored
  machines out of the world: reads change no machine and answer with what is stored; a patch touches
  the patched machine only, and if the stored machine was the base of the patch, its attachments are
  afterwards those of the patch, in any order and with any devices the server assigns.  A patch that
  reports an error may have been applied or not.
\<close>

definition refs :: "MachineVolume list \<Rightarrow> (string \<times> string option) multiset" where
  "refs vols = mset (map (\<lambda>v. (mv_Name v, mv_VolumeRef v)) vols)"

definition patch_effect ::
    "(ObjectKey \<Rightarrow> Machine option) \<Rightarrow> Machine \<Rightarrow> Machine \<Rightarrow> ext_error + Machine \<Rightarrow>
       (ObjectKey \<Rightarrow> Machine option) \<Rightarrow> bool" where
  "patch_effect before base m r after \<longleftrightarrow>
     (\<exists>m'. after = before(machine_key m \<mapsto> m') \<and> machine_key m' = machine_key m \<and>
        (before (machine_key base) = Some base \<longrightarrow> refs (m_Volumes m') = refs (m_Volumes m)) \<and>
        (\<forall>x. r = Inr x \<longrightarrow> x = m'))
     \<or> after = before \<and> isl r"

definition machine_server :: "'w Client \<Rightarrow> ('w \<Rightarrow> ObjectKey \<Rightarrow> Machine option) \<Rightarrow> bool" where
  "machine_server c store \<longleftrightarrow>
     (\<forall>k w r w'. GetMachine c k w = (r, w') \<longrightarrow>
        store w' = store w \<and> (\<forall>m. r = Inr m \<longrightarrow> store w k = Some m)) \<and>
     (\<forall>k w r w'. GetVolume c k w = (r, w') \<longrightarrow> store w' = store w) \<and>
     (\<forall>base m w r w'. PatchMachine c base m w = (r, w') \<longrightarrow> patch_effect (store w) base m r (store w'))"

definition node_server :: "'w Client \<Rightarrow> ('w \<Rightarrow> ObjectKey \<Rightarrow> Machine option) \<Rightarrow> bool" where
  "node_server c store \<longleftrightarrow> (\<forall>k w r w'. GetNode c k w = (r, w') \<longrightarrow> store w' = store w)"

lemma machine_serverD:
  assumes "machine_server c store"
  shows "GetMachine c k w = (r, w') \<Longrightarrow> store w' = store w"
    and "GetMachine c k w = (Inr m, w') \<Longrightarrow> store w k = Some m"
    and "GetVolume c k w = (rv, w') \<Longrightarrow> store w' = store w"
    and "PatchMachine c base m w = (r, w') \<Longrightarrow> patch_effect (store w) base m r (store w')"
  using assms unfolding machine_server_def by blast+

lemma node_serverD: "node_server c store \<Longrightarrow> GetNode c k w = (r, w') \<Longrightarrow> store w' = store w"
  unfolding node_server_def by blast

section \<open>The invariant of the attachment lists\<close>

definition well_attached :: "(string \<times> string option) multiset \<Rightarrow> bool" where
  "well_attached R \<longleftrightarrow> (\<forall>n. count (image_mset fst R) n \<le> 1) \<and>
     (\<forall>v r. (attachmentName v, r) \<in># R \<longrightarrow> r = Some v)"

definition store_ok :: "(ObjectKey \<Rightarrow> Machine option) \<Rightarrow> bool" where
  "store_ok s \<longleftrightarrow> (\<forall>k m. s k = Some m \<longrightarrow> machine_key m = k \<and> well_attached (refs (m_Volumes m)))"

lemma refs_append: "refs (appendAttachment v vols) = add_mset (attachmentName v, Some v) (refs vols)"
  by (simp add: refs_def appendAttachment_def)

lemma refs_delete:
  assumes "0 \<le> volumeAttachmentIndex vols n"
  obtains r where "refs vols = add_mset (n, r) (refs (deleteAttachment (nat (volumeAttachmentIndex vols n)) vols))"
  using assms by (rule deleteAttachment_split) (auto simp: refs_def intro: that)

lemma names_refs: "image_mset fst (refs vols) = mset (attachmentNames vols)"
  by (simp add: refs_def attachmentNames_def image_mset.compositionality o_def)

lemma absent_refs: "n \<notin> set (attachmentNames vols) \<longleftrightarrow> count (image_mset fst (refs vols)) n = 0"
  unfolding names_refs by (simp add: count_eq_zero_iff)

lemma well_attached_distinct: "well_attached (refs vols) \<Longrightarrow> distinct (attachmentNames vols)"
  unfolding well_attached_def names_refs
  by (metis count_eq_zero_iff distinct_count_atmost_1 le_antisym less_one linorder_le_less_linear set_mset_mset)

lemma well_attached_add:
  assumes "well_attached R" and "count (image_mset fst R) (attachmentName v) = 0"
  shows "well_attached (add_mset (attachmentName v, Some v) R)"
  using assms by (simp add: well_attached_def)

lemma well_attached_sub:
  assumes "well_attached (add_mset x R)"
  shows "well_attached R"
proof -
  have one: "\<And>n. count (image_mset fst (add_mset x R)) n \<le> 1"
    and ref: "\<And>v r. (attachmentName v, r) \<in># add_mset x R \<Longrightarrow> r = Some v"
    using assms unfolding well_attached_def by blast+
  have "count (image_mset fst R) n \<le> count (image_mset fst (add_mset x R)) n" for n by simp
  with one have "\<forall>n. count (image_mset fst R) n \<le> 1" by (meson le_trans)
  moreover have "\<forall>v r. (attachmentName v, r) \<in># R \<longrightarrow> r = Some v"
    using ref by simp
  ultimately show ?thesis unfolding well_attached_def ..
qed

lemma store_ok_patch:
  assumes "store_ok s" and "patch_effect s base m r s'" and "s (machine_key base) = Some base"
    and "well_attached (refs (m_Volumes m))"
  shows "store_ok s'"
proof (cases "s' = s")
  case True
  with assms(1) show ?thesis by simp
next
  case False
  then obtain m' where "s' = s(machine_key m \<mapsto> m')" "machine_key m' = machine_key m"
      "refs (m_Volumes m') = refs (m_Volumes m)"
    using assms(2,3) unfolding patch_effect_def by blast
  then show ?thesis
    using assms(1,4) unfolding store_ok_def by simp
qed

lemma refs_filter_absent:
  assumes "n \<notin> set (attachmentNames vols)"
  shows "{#x \<in># refs vols. fst x \<noteq> n#} = refs vols"
proof -
  have "fst x \<noteq> n" if "x \<in># refs vols" for x
    using assms that by (auto simp: refs_def attachmentNames_def)
  then show ?thesis by (simp add: filter_mset_eq_conv)
qed

lemma refs_deleted:
  assumes "well_attached (refs vols)" and "n \<in> set (attachmentNames vols)"
  shows "well_attached (refs (deleteAttachment (nat (volumeAttachmentIndex vols n)) vols)) \<and>
    n \<notin> set (attachmentNames (deleteAttachment (nat (volumeAttachmentIndex vols n)) vols)) \<and>
    refs (deleteAttachment (nat (volumeAttachmentIndex vols n)) vols) = {#x \<in># refs vols. fst x \<noteq> n#}"
proof -
  let ?del = "deleteAttachment (nat (volumeAttachmentIndex vols n)) vols"
  have idx: "0 \<le> volumeAttachmentIndex vols n"
    using assms(2) by (simp add: machine_volumes.index_nonneg)
  then obtain r where split: "refs vols = add_mset (n, r) (refs ?del)" by (rule refs_delete)
  have absent: "n \<notin> set (attachmentNames ?del)"
    using machine_volumes.del_absent [OF well_attached_distinct [OF assms(1)] idx]
    by (simp add: machine_volumes.index_neg)
  have "well_attached (refs ?del)"
    using assms(1) unfolding split by (rule well_attached_sub)
  with absent show ?thesis
    by (simp add: split refs_filter_absent)
qed

lemma attachToMachine_store:
  assumes "machine_server (d_ironcoreClient d) store" and "store_ok (store w)"
    and "attachToMachine d req w = (r, w')"
  shows "store_ok (store w')
    \<and> (\<forall>k. k \<noteq> machineKeyOf d req \<longrightarrow> store w' k = store w k)
    \<and> (\<forall>m. r = Inr m \<longrightarrow> store w' (machineKeyOf d req) = Some m
        \<and> attachmentName (cp_VolumeId req) \<in> set (attachmentNames (m_Volumes m)))
    \<and> (\<forall>m0 m. r = Inr m \<longrightarrow> store w (machineKeyOf d req) = Some m0 \<longrightarrow>
        refs (m_Volumes m) = (if attachmentName (cp_VolumeId req) \<in> set (attachmentNames (m_Volumes m0))
          then refs (m_Volumes m0)
          else add_mset (attachmentName (cp_VolumeId req), Some (cp_VolumeId req)) (refs (m_Volumes m0))))"
proof -
  note server = machine_serverD [OF assms(1)]
  let ?key = "machineKeyOf d req" and ?n = "attachmentName (cp_VolumeId req)"
  obtain gm w1 where gm: "GetMachine (d_ironcoreClient d) ?key w = (gm, w1)" by (metis surj_pair)
  note same = server(1) [OF gm]
  show ?thesis
  proof (cases gm)
    case (Inl e)
    then show ?thesis using assms(2,3) gm same by (auto simp: attachToMachine_def)
  next
    case (Inr base)
    then have stored: "store w ?key = Some base" using server(2) gm by simp
    then have key: "machine_key base = ?key" and well: "well_attached (refs (m_Volumes base))"
      using assms(2) by (auto simp: store_ok_def)
    show ?thesis
    proof (cases "?n \<in> set (attachmentNames (m_Volumes base))")
      case True
      then show ?thesis
        using assms(2,3) gm same Inr stored
        by (auto simp: attachToMachine_def machine_volumes.index_neg)
    next
      case False
      let ?new = "base\<lparr>m_Volumes := appendAttachment (cp_VolumeId req) (m_Volumes base)\<rparr>"
      have newkey: "machine_key ?new = ?key" using key by (simp add: machine_key_def)
      obtain pm w2 where pm: "PatchMachine (d_ironcoreClient d) base ?new w1 = (pm, w2)" by (metis surj_pair)
      have eff: "patch_effect (store w) base ?new pm (store w2)"
        using server(4) [OF pm] same by simp
      have ok: "store_ok (store w2)"
        by (rule store_ok_patch [OF assms(2) eff])
          (use stored key well False in \<open>simp_all add: refs_append well_attached_add absent_refs\<close>)
      have res: "w' = w2" "r = (case pm of Inl e \<Rightarrow> Inl (Status Internal ''Failed to patch machine %s: %v''
          [key_arg (machine_key ?new), A_Err (Ext e)]) | Inr p \<Rightarrow> Inr p)"
        using assms(3) gm Inr pm False
        by (auto simp: attachToMachine_def machine_volumes.index_neg Let_def split: sum.splits)
      have others: "store w2 k = store w k" if "k \<noteq> ?key" for k
        using eff that newkey by (auto simp: patch_effect_def)
      have post: "store w2 ?key = Some m \<and> refs (m_Volumes m) = refs (m_Volumes ?new)" if "r = Inr m" for m
        using eff that newkey stored key res(2)
        by (auto simp: patch_effect_def split: sum.splits)
      have listed: "?n \<in> set (attachmentNames (m_Volumes m))" if "r = Inr m" for m
        using post [OF that] absent_refs [of ?n "m_Volumes m"] by (auto simp: refs_append)
      show ?thesis
        using ok others post listed res(1) False stored by (auto simp: refs_append)
    qed
  qed
qed

lemma publish_store:
  assumes "machine_server (d_ironcoreClient d) store" and "store_ok (store w)"
    and "ControllerPublishVolume d req w = (r, w')"
  obtains ar w2 where "attachToMachine d req w = (ar, w2)" and "store w' = store w2"
    and "is_ok r \<Longrightarrow> \<exists>m. ar = Inr m"
proof -
  obtain ar w2 where at: "attachToMachine d req w = (ar, w2)" by (metis surj_pair)
  have "store w' = store w2 \<and> (is_ok r \<longrightarrow> (\<exists>m. ar = Inr m))"
    using assms(3) at
    by (auto simp: ControllerPublishVolume_def split: outcome_splits
        dest!: machine_serverD(3) [OF assms(1)])
  with at that show thesis by blast
qed

lemma detachFromMachine_store:
  assumes "machine_server (d_ironcoreClient d) store" and "store_ok (store w)"
    and "detachFromMachine d req w = (r, w')"
  shows "store_ok (store w')
    \<and> (\<forall>k. k \<noteq> machineKeyOf d req \<longrightarrow> store w' k = store w k)
    \<and> (r = Ok () \<longrightarrow> (\<exists>m0 m. store w (machineKeyOf d req) = Some m0 \<and> store w' (machineKeyOf d req) = Some m
        \<and> attachmentName (cp_VolumeId req) \<notin> set (attachmentNames (m_Volumes m))
        \<and> refs (m_Volumes m) = {#x \<in># refs (m_Volumes m0). fst x \<noteq> attachmentName (cp_VolumeId req)#}))"
proof -
  note server = machine_serverD [OF assms(1)]
  let ?key = "machineKeyOf d req" and ?n = "attachmentName (cp_VolumeId req)"
  obtain gm w1 where gm: "GetMachine (d_ironcoreClient d) ?key w = (gm, w1)" by (metis surj_pair)
  note same = server(1) [OF gm]
  show ?thesis
  proof (cases gm)
    case (Inl e)
    then show ?thesis using assms(2,3) gm same by (auto simp: detachFromMachine_def)
  next
    case (Inr base)
    then have stored: "store w ?key = Some base" using server(2) gm by simp
    then have key: "machine_key base = ?key" and well: "well_attached (refs (m_Volumes base))"
      using assms(2) by (auto simp: store_ok_def)
    show ?thesis
    proof (cases "?n \<in> set (attachmentNames (m_Volumes base))")
      case False
      then show ?thesis
        using assms(2,3) gm same Inr stored
        by (auto simp: detachFromMachine_def machine_volumes.index_nonneg refs_filter_absent)
    next
      case True
      define vols where "vols = deleteAttachment (nat (volumeAttachmentIndex (m_Volumes base) ?n)) (m_Volumes base)"
      let ?new = "base\<lparr>m_Volumes := vols\<rparr>"
      have newkey: "machine_key ?new = ?key" using key by (simp add: machine_key_def)
      have del: "well_attached (refs vols)" "?n \<notin> set (attachmentNames vols)"
          "refs vols = {#x \<in># refs (m_Volumes base). fst x \<noteq> ?n#}"
        using refs_deleted [OF well True] unfolding vols_def by blast+
      obtain pm w2 where pm: "PatchMachine (d_ironcoreClient d) base ?new w1 = (pm, w2)" by (metis surj_pair)
      have eff: "patch_effect (store w) base ?new pm (store w2)"
        using server(4) [OF pm] same by simp
      have ok: "store_ok (store w2)"
        by (rule store_ok_patch [OF assms(2) eff]) (use stored key del(1) in simp_all)
      have res: "w' = w2" "r = Ok () \<longrightarrow> (\<exists>p. pm = Inr p)"
        using assms(3) gm Inr pm True
        by (auto simp: detachFromMachine_def machine_volumes.index_nonneg Let_def vols_def split: sum.splits)
      have others: "store w2 k = store w k" if "k \<noteq> ?key" for k
        using eff that newkey by (auto simp: patch_effect_def)
      have post: "\<exists>m. store w2 ?key = Some m \<and> refs (m_Volumes m) = refs vols" if "r = Ok ()"
        using eff that newkey stored key res(2) by (auto simp: patch_effect_def)
      have gone: "?n \<notin> set (attachmentNames (m_Volumes m))" if "refs (m_Volumes m) = refs vols" for m
        using that del(2) by (simp add: absent_refs)
      show ?thesis
        using ok others post gone res(1) stored del(3) by auto
    qed
  qed
qed

section \<open>Interleavings of calls\<close>

text \<open>
  What other parties may do to the machines between two calls: create, delete and change machines at
  will, as long as the names in a list stay distinct (the API server rejects duplicates) and no entry
  under a name of this driver is put into a machine that did not hold it.
\<close>

definition outside :: "(ObjectKey \<Rightarrow> Machine option) \<Rightarrow> (ObjectKey \<Rightarrow> Machine option) \<Rightarrow> bool" where
  "outside s s' \<longleftrightarrow> (\<forall>k m'. s' k = Some m' \<longrightarrow>
     machine_key m' = k \<and> distinct (attachmentNames (m_Volumes m')) \<and>
     (\<forall>v r. (attachmentName v, r) \<in># refs (m_Volumes m') \<longrightarrow>
        (\<exists>m. s k = Some m \<and> (attachmentName v, r) \<in># refs (m_Volumes m))))"

inductive attach_step :: "'w driver \<Rightarrow> ('w \<Rightarrow> ObjectKey \<Rightarrow> Machine option) \<Rightarrow> 'w \<Rightarrow> 'w \<Rightarrow> bool"
  for d :: "'w driver" and store where
  publishes: "ControllerPublishVolume d req w = (r, w') \<Longrightarrow> attach_step d store w w'"
| unpublishes: "ControllerUnpublishVolume d req w = (r, w') \<Longrightarrow> attach_step d store w w'"
| others: "outside (store w) (store w') \<Longrightarrow> attach_step d store w w'"

lemma well_attached_iff:
  "well_attached (refs vols) \<longleftrightarrow> distinct (attachmentNames vols) \<and>
     (\<forall>v r. (attachmentName v, r) \<in># refs vols \<longrightarrow> r = Some v)"
proof
  assume "well_attached (refs vols)"
  with well_attached_distinct [OF this] show "distinct (attachmentNames vols) \<and>
     (\<forall>v r. (attachmentName v, r) \<in># refs vols \<longrightarrow> r = Some v)"
    by (simp add: well_attached_def)
next
  assume r: "distinct (attachmentNames vols) \<and>
     (\<forall>v r. (attachmentName v, r) \<in># refs vols \<longrightarrow> r = Some v)"
  then have "count (mset (attachmentNames vols)) n \<le> 1" for n
    by (subst distinct_count_atmost_1 [THEN iffD1, rule_format]) simp_all
  with r show "well_attached (refs vols)"
    by (simp add: well_attached_def names_refs)
qed

lemma store_ok_outside:
  assumes "store_ok s" and "outside s s'"
  shows "store_ok s'"
  using assms unfolding store_ok_def outside_def well_attached_iff by blast

lemma unpublish_store:
  assumes "machine_server (d_ironcoreClient d) store" and "node_server (d_targetClient d) store"
    and "store_ok (store w)" and "ControllerUnpublishVolume d req w = (r, w')"
  obtains "store w' = store w"
  | w1 where "store w1 = store w" and "detachFromMachine d req w1 = (r, w')"
proof -
  obtain gn w1 where gn: "GetNode (d_targetClient d) \<lparr>key_Namespace = '''', key_Name = cp_NodeId req\<rparr> w = (gn, w1)"
    by (metis surj_pair)
  have "store w1 = store w" by (rule node_serverD [OF assms(2) gn])
  then show thesis
    using assms(4) gn that
    by (auto simp: ControllerUnpublishVolume_def nodeExists_def split: outcome_splits)
qed

lemma attach_step_ok:
  assumes "machine_server (d_ironcoreClient d) store" and "node_server (d_targetClient d) store"
    and "attach_step d store w w'" and "store_ok (store w)"
  shows "store_ok (store w')"
  using assms(3)
proof cases
  case (publishes req r)
  obtain ar w2 where "attachToMachine d req w = (ar, w2)" "store w' = store w2"
    by (rule publish_store [OF assms(1,4) publishes])
  with attachToMachine_store [OF assms(1,4)] show ?thesis by simp
next
  case (unpublishes req r)
  show ?thesis
  proof (rule unpublish_store [OF assms(1,2,4) unpublishes])
    assume "store w' = store w"
    with assms(4) show ?thesis by simp
  next
    fix w1
    assume "store w1 = store w" "detachFromMachine d req w1 = (r, w')"
    with detachFromMachine_store [OF assms(1), of w1 req r w'] assms(4) show ?thesis by simp
  qed
next
  case others
  then show ?thesis by (rule store_ok_outside [OF assms(4)])
qed

text \<open>
  However publish calls, unpublish calls and the doings of other parties interleave, the
  attachment list of every machine keeps distinct names, and an entry under the name of a volume of
  this driver refers to that volume; failed calls and patches that take effect although they report
  an error are included.
\<close>

lemma attachments_invariant:
  assumes "machine_server (d_ironcoreClient d) store" and "node_server (d_targetClient d) store"
    and "store_ok (store w0)" and "(attach_step d store)\<^sup>*\<^sup>* w0 w" and "store w k = Some m"
  shows "distinct (attachmentNames (m_Volumes m)) \<and> machine_key m = k \<and>
    (\<forall>v r. (attachmentName v, r) \<in># refs (m_Volumes m) \<longrightarrow> r = Some v)"
proof -
  have "store_ok (store w)"
    using assms(4) by induction (use assms(3) attach_step_ok [OF assms(1,2)] in auto)
  with assms(5) show ?thesis by (simp add: store_ok_def well_attached_iff)
qed

section \<open>What a call leaves behind\<close>

lemma well_attached_own:
  assumes "well_attached (refs vols)" and "attachmentName v \<in> set (attachmentNames vols)"
  shows "{#x \<in># refs vols. fst x = attachmentName v#} = {#(attachmentName v, Some v)#}"
proof -
  let ?n = "attachmentName v"
  obtain r where split: "refs vols = add_mset (?n, r)
      (refs (deleteAttachment (nat (volumeAttachmentIndex vols ?n)) vols))"
    using refs_delete assms(2) machine_volumes.index_nonneg by metis
  have "{#x \<in># refs (deleteAttachment (nat (volumeAttachmentIndex vols ?n)) vols). fst x = ?n#} = {#}"
    using refs_deleted [OF assms] by (auto simp: filter_mset_eq_conv)
  moreover have "r = Some v"
    using assms(1) split unfolding well_attached_def by (metis union_single_eq_member)
  ultimately show ?thesis by (simp add: split)
qed

lemma own_member: "{#x \<in># R. P x#} = {#y#} \<Longrightarrow> y \<in># R"
  by (metis multiset_partition union_single_eq_member union_mset_add_mset_left)

lemma publish_effect:
  assumes "machine_server (d_ironcoreClient d) store" and "store_ok (store w)"
    and "ControllerPublishVolume d req w = (Ok ctx, w')"
    and "store w (machineKeyOf d req) = Some m0"
  obtains m where "store w' (machineKeyOf d req) = Some m"
    and "{#x \<in># refs (m_Volumes m). fst x = attachmentName (cp_VolumeId req)#}
      = {#(attachmentName (cp_VolumeId req), Some (cp_VolumeId req))#}"
    and "{#x \<in># refs (m_Volumes m). fst x \<noteq> attachmentName (cp_VolumeId req)#}
      = {#x \<in># refs (m_Volumes m0). fst x \<noteq> attachmentName (cp_VolumeId req)#}"
    and "\<forall>k. k \<noteq> machineKeyOf d req \<longrightarrow> store w' k = store w k"
proof -
  obtain ar w2 where attach: "attachToMachine d req w = (ar, w2)" and w2: "store w' = store w2"
      and "\<exists>m. ar = Inr m"
    by (rule publish_store [OF assms(1-3)]) simp
  then obtain m where m: "ar = Inr m" by blast
  note eff = attachToMachine_store [OF assms(1,2) attach]
  from eff m w2 have stored: "store w' (machineKeyOf d req) = Some m"
      and listed: "attachmentName (cp_VolumeId req) \<in> set (attachmentNames (m_Volumes m))"
      and well: "well_attached (refs (m_Volumes m))"
    by (auto simp: store_ok_def)
  show thesis
    by (rule that [OF stored well_attached_own [OF well listed]])
      (use eff m w2 assms(4) in \<open>auto split: if_splits\<close>)
qed

text \<open>
  A successful publish leaves the machine of the node with exactly one entry under the
  attachment's name, which refers to the volume, next to the entries it had before; nothing changes
  if the attachment was there already, so a repeated publish is harmless, and no other machine
  changes.
\<close>

lemma ControllerPublishVolume_effect:
  assumes "machine_server (d_ironcoreClient d) store" and "store_ok (store w)"
    and "ControllerPublishVolume d req w = (Ok ctx, w')"
    and "store w (machineKeyOf d req) = Some m0"
  shows "\<exists>m. store w' (machineKeyOf d req) = Some m \<and>
    {#x \<in># refs (m_Volumes m). fst x = attachmentName (cp_VolumeId req)#}
      = {#(attachmentName (cp_VolumeId req), Some (cp_VolumeId req))#} \<and>
    {#x \<in># refs (m_Volumes m). fst x \<noteq> attachmentName (cp_VolumeId req)#}
      = {#x \<in># refs (m_Volumes m0). fst x \<noteq> attachmentName (cp_VolumeId req)#} \<and>
    (\<forall>k. k \<noteq> machineKeyOf d req \<longrightarrow> store w' k = store w k)"
  by (rule publish_effect [OF assms]) blast

text \<open>
  Unpublishing undoes publishing: after a successful publish of a volume that was not attached
  and a successful unpublish from the still existing node, every machine refers to the volumes it
  referred to before, and the other machines were never touched.
\<close>

lemma publish_unpublish_roundtrip:
  assumes "machine_server (d_ironcoreClient d) store" and "node_server (d_targetClient d) store"
    and "store_ok (store w)"
    and "store w (machineKeyOf d req) = Some m0"
    and "attachmentName (cp_VolumeId req) \<notin> set (attachmentNames (m_Volumes m0))"
    and "ControllerPublishVolume d req w = (Ok ctx, w1)"
    and "GetNode (d_targetClient d) \<lparr>key_Namespace = '''', key_Name = cp_NodeId req\<rparr> w1 = (Inr node, w2)"
    and "ControllerUnpublishVolume d req w1 = (Ok (), w')"
  shows "(\<exists>m. store w' (machineKeyOf d req) = Some m \<and> refs (m_Volumes m) = refs (m_Volumes m0))
    \<and> (\<forall>k. k \<noteq> machineKeyOf d req \<longrightarrow> store w' k = store w k)"
proof -
  let ?key = "machineKeyOf d req" and ?n = "attachmentName (cp_VolumeId req)"
  obtain ar w3 where attach: "attachToMachine d req w = (ar, w3)" and w3: "store w1 = store w3"
    by (rule publish_store [OF assms(1,3,6)])
  have ok1: "store_ok (store w1)"
    using attachToMachine_store [OF assms(1,3) attach] w3 by simp
  have w2: "store w2 = store w1" by (rule node_serverD [OF assms(2,7)])
  have detach: "detachFromMachine d req w2 = (Ok (), w')"
    using assms(8) unfolding ControllerUnpublishVolume_def nodeExists_def by (simp add: assms(7))
  obtain m1 where m1: "store w1 ?key = Some m1"
      "{#x \<in># refs (m_Volumes m1). fst x \<noteq> ?n#} = {#x \<in># refs (m_Volumes m0). fst x \<noteq> ?n#}"
      "\<forall>k. k \<noteq> ?key \<longrightarrow> store w1 k = store w k"
    by (rule publish_effect [OF assms(1,3,6,4)])
  show ?thesis
    using detachFromMachine_store [OF assms(1) _ detach] ok1 w2 m1 refs_filter_absent [OF assms(5)] by auto
qed

text \<open>
  C34: The machine is patched before the volume is looked at: if the attachment goes through and the
  volume cannot be read or is not available, the call fails with Internal and the machine keeps the
  attachment of a volume that was never published.
\<close>

theorem ControllerPublishVolume_leaves_attachment:
  assumes "machine_server (d_ironcoreClient d) store" and "store_ok (store w)"
    and "attachToMachine d req w = (Inr m, w2)"
    and "GetVolume (d_ironcoreClient d) (volumeKeyOf d req) w2 = (rv, w')"
    and "case rv of Inl e \<Rightarrow> True | Inr vol \<Rightarrow> vol_State vol \<noteq> VolumeStateAvailable"
  shows "\<exists>r. ControllerPublishVolume d req w = (r, w') \<and> result_code r = Some Internal \<and>
    store w' (machineKeyOf d req) = Some m \<and>
    (attachmentName (cp_VolumeId req), Some (cp_VolumeId req)) \<in># refs (m_Volumes m)"
proof -
  note eff = attachToMachine_store [OF assms(1-3)]
  have same: "store w' = store w2" by (rule machine_serverD(3) [OF assms(1,4)])
  from eff have listed: "attachmentName (cp_VolumeId req) \<in> set (attachmentNames (m_Volumes m))"
      and well: "well_attached (refs (m_Volumes m))"
    by (auto simp: store_ok_def)
  have "(attachmentName (cp_VolumeId req), Some (cp_VolumeId req)) \<in># refs (m_Volumes m)"
    by (rule own_member [OF well_attached_own [OF well listed]])
  then show ?thesis
    using assms(3-5) eff same
    by (auto simp: ControllerPublishVolume_def split: sum.splits)
qed

section \<open>A server that stores machines\<close>

definition assign_devices :: "MachineVolume list \<Rightarrow> MachineVolume list" where
  "assign_devices = map (\<lambda>v. v\<lparr>mv_Device := Some (case mv_Device v of Some dev \<Rightarrow> dev | None \<Rightarrow> ''oda'')\<rparr>)"

definition store_client :: "(ObjectKey \<Rightarrow> Machine option) Client" where
  "store_client = ready_client
     \<lparr>GetMachine := (\<lambda>k s. (case s k of Some m \<Rightarrow> Inr m | None \<Rightarrow> Inl not_found, s)),
      PatchMachine := (\<lambda>base m s. let m' = m\<lparr>m_Volumes := assign_devices (m_Volumes m)\<rparr>
                                   in (Inr m', s(machine_key m \<mapsto> m')))\<rparr>"

definition store_driver :: "(ObjectKey \<Rightarrow> Machine option) driver" where
  "store_driver = ready_driver\<lparr>d_ironcoreClient := store_client\<rparr>"

definition sim_store :: "ObjectKey \<Rightarrow> Machine option" where
  "sim_store = [\<lparr>key_Namespace = ''ns'', key_Name = ''node''\<rparr> \<mapsto>
     \<lparr>m_Namespace = ''ns'', m_Name = ''node'', m_Volumes = []\<rparr>]"

definition sim_publish :: PublishRequest where
  "sim_publish = \<lparr>cp_VolumeId = ''v'', cp_NodeId = ''node''\<rparr>"

lemma refs_assign [simp]: "refs (assign_devices vols) = refs vols"
  by (simp add: refs_def assign_devices_def o_def)

lemma store_server:
  "machine_server (d_ironcoreClient store_driver) (\<lambda>s. s)" "node_server (d_targetClient store_driver) (\<lambda>s. s)"
  "store_ok sim_store"
  by (auto simp: machine_server_def node_server_def store_driver_def store_client_def patch_effect_def
      machine_key_def Let_def ready_defs sim_store_def store_ok_def well_attached_def
      split: option.splits)
    (auto simp: refs_def)

lemmas store_defs = store_driver_def store_client_def sim_store_def sim_publish_def ready_defs
  machineKeyOf_def volumeKeyOf_def machine_key_def

lemma sim_attach:
  assumes "GetMachine (d_ironcoreClient d) = GetMachine store_client"
    and "PatchMachine (d_ironcoreClient d) = PatchMachine store_client" and "d_config d = sim_config"
  shows "attachToMachine d sim_publish sim_store =
    (Inr \<lparr>m_Namespace = ''ns'', m_Name = ''node'', m_Volumes = assign_devices (appendAttachment ''v'' [])\<rparr>,
     sim_store(\<lparr>key_Namespace = ''ns'', key_Name = ''node''\<rparr> \<mapsto>
       \<lparr>m_Namespace = ''ns'', m_Name = ''node'', m_Volumes = assign_devices (appendAttachment ''v'' [])\<rparr>))"
  using assms by (simp add: attachToMachine_def store_defs machine_volumes.index_neg attachmentNames_def Let_def)

lemma sim_attached: "attachToMachine store_driver sim_publish sim_store =
    (Inr \<lparr>m_Namespace = ''ns'', m_Name = ''node'', m_Volumes = assign_devices (appendAttachment ''v'' [])\<rparr>,
     sim_store(\<lparr>key_Namespace = ''ns'', key_Name = ''node''\<rparr> \<mapsto>
       \<lparr>m_Namespace = ''ns'', m_Name = ''node'', m_Volumes = assign_devices (appendAttachment ''v'' [])\<rparr>))"
  by (rule sim_attach) (simp_all add: store_driver_def sim_defs ready_driver_def)

lemma sim_published: "\<exists>ctx. ControllerPublishVolume store_driver sim_publish sim_store =
    (Ok ctx, snd (attachToMachine store_driver sim_publish sim_store))"
  by (simp add: ControllerPublishVolume_def sim_attached)
    (simp add: store_defs validateDeviceName_def deviceName_def appendAttachment_def assign_devices_def
      attachmentName_def Let_def)

section \<open>Witnesses\<close>

lemmas publish_run = store_defs sim_attach attachmentNames_def machineKeyOf_def Let_def

theorem ControllerPublishVolume_calls_witness:
  "\<exists>r w' machine patched. ControllerPublishVolume (traced store_driver) sim_publish (sim_store, []) =
     (r, (w', [C_GetMachine (machineKeyOf store_driver sim_publish), C_PatchMachine machine patched,
       C_GetVolume (volumeKeyOf store_driver sim_publish)]))"
proof -
  obtain r w' tr where run: "ControllerPublishVolume (traced store_driver) sim_publish (sim_store, []) = (r, (w', tr))"
    by (metis surj_pair)
  from ControllerPublishVolume_calls [OF run] run show ?thesis
    by (auto simp: publish_run)
qed

theorem ControllerUnpublishVolume_calls_witness:
  "\<exists>s w' machine. ControllerUnpublishVolume (traced store_driver) sim_publish (s, []) =
     (Ok (), (w', [C_GetNode \<lparr>key_Namespace = '''', key_Name = ''node''\<rparr>,
       C_GetMachine (machineKeyOf store_driver sim_publish),
       C_PatchMachine machine (machine\<lparr>m_Volumes := []\<rparr>)]))"
proof -
  let ?m = "\<lparr>m_Namespace = ''ns'', m_Name = ''node'', m_Volumes = appendAttachment ''v'' []\<rparr>"
  let ?s = "Map.empty(machineKeyOf store_driver sim_publish \<mapsto> ?m)"
  obtain r w' tr where run: "ControllerUnpublishVolume (traced store_driver) sim_publish (?s, []) = (r, (w', tr))"
    by (metis surj_pair)
  have "r = Ok ()"
    using run by (auto simp: ControllerUnpublishVolume_def nodeExists_def detachFromMachine_def logged_eq
        publish_run split: if_splits)
  moreover have "tr = [C_GetNode \<lparr>key_Namespace = '''', key_Name = ''node''\<rparr>,
      C_GetMachine (machineKeyOf store_driver sim_publish), C_PatchMachine ?m (?m\<lparr>m_Volumes := []\<rparr>)]"
    using ControllerUnpublishVolume_calls [OF run]
    by (auto simp: publish_run appendAttachment_def append_eq_Cons_conv Cons_eq_append_conv)
  ultimately show ?thesis using run by blast
qed

theorem attachments_invariant_witness:
  "\<exists>m. snd (ControllerPublishVolume store_driver sim_publish sim_store)
         \<lparr>key_Namespace = ''ns'', key_Name = ''node''\<rparr> = Some m
     \<and> distinct (attachmentNames (m_Volumes m))"
proof -
  obtain ctx where run: "ControllerPublishVolume store_driver sim_publish sim_store =
      (Ok ctx, snd (attachToMachine store_driver sim_publish sim_store))"
    using sim_published by blast
  have "(attach_step store_driver (\<lambda>s. s))\<^sup>*\<^sup>* sim_store (snd (attachToMachine store_driver sim_publish sim_store))"
    using publishes [OF run, where store = "\<lambda>s. s"] by simp
  note inv = attachments_invariant [where store = "\<lambda>s. s", OF store_server(1,2,3) this]
  have "snd (attachToMachine store_driver sim_publish sim_store) \<lparr>key_Namespace = ''ns'', key_Name = ''node''\<rparr>
      = Some \<lparr>m_Namespace = ''ns'', m_Name = ''node'', m_Volumes = assign_devices (appendAttachment ''v'' [])\<rparr>"
    by (simp add: sim_attached)
  from this inv [OF this] show ?thesis
    unfolding run snd_conv by blast
qed

theorem ControllerPublishVolume_effect_witness:
  "\<exists>ctx w' m. ControllerPublishVolume store_driver sim_publish sim_store = (Ok ctx, w')
     \<and> w' \<lparr>key_Namespace = ''ns'', key_Name = ''node''\<rparr> = Some m
     \<and> {#x \<in># refs (m_Volumes m). fst x = ''v-attachment''#} = {#(''v-attachment'', Some ''v'')#}"
proof -
  obtain ctx where run: "ControllerPublishVolume store_driver sim_publish sim_store =
      (Ok ctx, snd (attachToMachine store_driver sim_publish sim_store))"
    using sim_published by blast
  have key: "machineKeyOf store_driver sim_publish = \<lparr>key_Namespace = ''ns'', key_Name = ''node''\<rparr>"
      "attachmentName ''v'' = ''v-attachment''" "cp_VolumeId sim_publish = ''v''"
    by (simp_all add: store_defs attachmentName_def)
  have "sim_store (machineKeyOf store_driver sim_publish) = Some \<lparr>m_Namespace = ''ns'', m_Name = ''node'', m_Volumes = []\<rparr>"
    by (simp add: store_defs)
  from ControllerPublishVolume_effect [where store = "\<lambda>s. s", OF store_server(1,3) run this] show ?thesis
    unfolding key using run by (elim exE conjE) (intro exI conjI)
qed

theorem publish_unpublish_roundtrip_witness:
  "\<exists>ctx w1 w'. ControllerPublishVolume store_driver sim_publish sim_store = (Ok ctx, w1)
     \<and> ControllerUnpublishVolume store_driver sim_publish w1 = (Ok (), w')
     \<and> (\<exists>m. w' \<lparr>key_Namespace = ''ns'', key_Name = ''node''\<rparr> = Some m \<and> refs (m_Volumes m) = {#})"
proof -
  obtain ctx w1 where run: "ControllerPublishVolume store_driver sim_publish sim_store = (Ok ctx, w1)"
      and w1: "w1 = snd (attachToMachine store_driver sim_publish sim_store)"
    using sim_published by blast
  obtain node w2 where node: "GetNode (d_targetClient store_driver)
      \<lparr>key_Namespace = '''', key_Name = cp_NodeId sim_publish\<rparr> w1 = (Inr node, w2)"
    by (simp add: store_defs)
  obtain w' where run': "ControllerUnpublishVolume store_driver sim_publish w1 = (Ok (), w')"
    unfolding w1 sim_attached
    by (simp add: ControllerUnpublishVolume_def nodeExists_def detachFromMachine_def store_defs Let_def
        volumeAttachmentIndex_def assign_devices_def appendAttachment_def attachmentName_def)
  have m0: "sim_store (machineKeyOf store_driver sim_publish) =
      Some \<lparr>m_Namespace = ''ns'', m_Name = ''node'', m_Volumes = []\<rparr>"
    by (simp add: store_defs)
  from publish_unpublish_roundtrip [where store = "\<lambda>s. s", OF store_server m0 _ run node run'] run run' show ?thesis
    by (auto simp: attachmentNames_def refs_def store_defs)
qed

theorem ControllerPublishVolume_leaves_attachment_witness:
  "\<exists>r w' m. ControllerPublishVolume (store_driver\<lparr>d_ironcoreClient := store_client\<lparr>GetVolume := GetVolume nop_client\<rparr>\<rparr>)
       sim_publish sim_store = (r, w') \<and> result_code r = Some Internal
     \<and> w' \<lparr>key_Namespace = ''ns'', key_Name = ''node''\<rparr> = Some m
     \<and> (''v-attachment'', Some ''v'') \<in># refs (m_Volumes m)"
proof -
  let ?d = "store_driver\<lparr>d_ironcoreClient := store_client\<lparr>GetVolume := GetVolume nop_client\<rparr>\<rparr>"
  have server: "machine_server (d_ironcoreClient ?d) (\<lambda>s. s)"
    using store_server(1) by (simp add: machine_server_def store_driver_def sim_defs)
  note attach = sim_attach [of ?d]
  have key: "machineKeyOf ?d sim_publish = \<lparr>key_Namespace = ''ns'', key_Name = ''node''\<rparr>"
      "attachmentName ''v'' = ''v-attachment''" "cp_VolumeId sim_publish = ''v''"
    by (simp_all add: store_defs attachmentName_def)
  have volume: "GetVolume (d_ironcoreClient ?d) k s = (Inl not_found, s)" for k s
    by (simp add: sim_defs)
  show ?thesis
    using ControllerPublishVolume_leaves_attachment [where store = "\<lambda>s. s", OF server store_server(3) attach volume]
    unfolding key by (auto simp: store_driver_def ready_driver_def sim_defs key)
qed

end
