(* ===== verification/Controller_Snapshot.thy ===== *)
theory Controller_Snapshot
  imports Driver Wait
begin

text \<open>
  Snapshots, \<^verbatim>\<open>pkg/driver/controller.go\<close>: \<^verbatim>\<open>CreateSnapshot\<close> and
  \<^verbatim>\<open>DeleteSnapshot\<close>.
\<close>

definition snapshotObject :: "'w driver \<Rightarrow> CreateSnapshotRequest \<Rightarrow> VolumeSnapshot" where
  "snapshotObject d req =
     \<lparr>vs_Namespace = DriverNamespace (d_config d), vs_Name = cs_Name req,
      vs_CreationTimestamp = -62135596800, vs_State = ''''\<rparr>"

definition snapshotApplyConfig :: "'w driver \<Rightarrow> CreateSnapshotRequest \<Rightarrow> SnapshotApplyConfig" where
  "snapshotApplyConfig d req =
     \<lparr>sa_Name = cs_Name req, sa_Namespace = DriverNamespace (d_config d),
      sa_VolumeRef = cs_SourceVolumeId req\<rparr>"

text \<open>Lines 325 to 338: the checks on the source volume.\<close>

definition checkSourceVolume :: "'w driver \<Rightarrow> CreateSnapshotRequest \<Rightarrow> 'w \<Rightarrow> error option \<times> 'w" where
  "checkSourceVolume d req w =
     (if cs_SourceVolumeId req = ''''
      then (Some (Status InvalidArgument ''source volumeID not provided'' []), w)
      else
     (case GetVolume (d_ironcoreClient d)
             \<lparr>key_Namespace = DriverNamespace (d_config d), key_Name = cs_SourceVolumeId req\<rparr> w of
        (Inl err, w1) \<Rightarrow>
          if err_notFound err
          then (Some (Status NotFound ''source volume not found'' []), w1)
          else (Some (Status Internal ''failed to get source volume with ID %q: %v''
                  [A_Str (cs_SourceVolumeId req), A_Err (Ext err)]), w1)
      | (Inr volume, w1) \<Rightarrow>
          if vol_State volume \<noteq> VolumeStateAvailable
          then (Some (Status FailedPrecondition
                  ''source volume is not in available state, current state: %s''
                  [A_Str (vol_State volume)]), w1)
          else (None, w1)))"

definition CreateSnapshot ::
    "(VolumeSnapshot \<times> 'w) backoff_fn \<Rightarrow> 'w driver \<Rightarrow> CreateSnapshotRequest \<Rightarrow> 'w
       \<Rightarrow> CsiSnapshot result \<times> 'w" where
  "CreateSnapshot eb d req w =
     (case checkSourceVolume d req w of
        (Some err, w1) \<Rightarrow> (Err err, w1)
      | (None, w1) \<Rightarrow>
     (case ApplySnapshot (d_ironcoreClient d) (snapshotApplyConfig d req) snapshotFieldOwner True w1 of
        (Some err, w2) \<Rightarrow>
          (Err (Status Internal ''Failed to apply volume snapshot %s/%s: %v''
             [A_Str (DriverNamespace (d_config d)), A_Str (cs_Name req), A_Err (Ext err)]), w2)
      | (None, w2) \<Rightarrow>
     (case waitForVolumeSnapshotReady eb (d_ironcoreClient d) (snapshotObject d req) w2 of
        (Some err, (vs, w3)) \<Rightarrow>
          (Err (Errorf ''failed to confirm readiness of the volume snapshot: %w'' [A_Err err]), w3)
      | (None, (vs, w3)) \<Rightarrow>
          (Ok \<lparr>SnapshotId = cs_Name req, SourceVolumeId = cs_SourceVolumeId req,
               SnapshotCreationTime = vs_CreationTimestamp vs, ReadyToUse = True\<rparr>, w3))))"

definition DeleteSnapshot :: "'w driver \<Rightarrow> string \<Rightarrow> 'w \<Rightarrow> unit result \<times> 'w" where
  "DeleteSnapshot d snapshotId w =
     (if snapshotId = ''''
      then (Err (Status InvalidArgument ''Required parameter 'snapshotID' is missing'' []), w)
      else
     (let vs = \<lparr>key_Namespace = DriverNamespace (d_config d), key_Name = snapshotId\<rparr>
      in case DeleteSnapshotObject (d_ironcoreClient d) vs w of
           (Some err, w') \<Rightarrow>
             (Err (Status Internal ''failed to delete volume snapshot %s: %v''
                [key_arg vs, A_Err (Ext err)]), w')
         | (None, w') \<Rightarrow> (Ok (), w')))"

end
