(* ===== verification/Controller_Snapshot_Props.thy ===== *)
theory Controller_Snapshot_Props
  imports Controller_Snapshot Controller_Volume Trace Sim
begin

text \<open>
  What creating and deleting a snapshot guarantees: the state of the source volume and of the
  snapshot when a creation succeeds, the calls that are made and the status codes of the failures.
\<close>

section \<open>CreateSnapshot\<close>

definition sourceKey :: "'w driver \<Rightarrow> CreateSnapshotRequest \<Rightarrow> ObjectKey" where
  "sourceKey d req = \<lparr>key_Namespace = DriverNamespace (d_config d), key_Name = cs_SourceVolumeId req\<rparr>"

definition snapshotKeyOf :: "'w driver \<Rightarrow> CreateSnapshotRequest \<Rightarrow> ObjectKey" where
  "snapshotKeyOf d req = \<lparr>key_Namespace = DriverNamespace (d_config d), key_Name = cs_Name req\<rparr>"

lemma snapshot_key_object: "snapshot_key (snapshotObject d req) = snapshotKeyOf d req"
  by (simp add: snapshot_key_def snapshotObject_def snapshotKeyOf_def)

definition checkSnapshot :: "CreateSnapshotRequest \<Rightarrow> error option" where
  "checkSnapshot req =
     (if cs_SourceVolumeId req = '''' then Some (Status InvalidArgument ''source volumeID not provided'' [])
      else None)"

interpretation snapshot_check: checked_call checkSnapshot "CreateSnapshot eb d"
  for eb :: "(VolumeSnapshot \<times> 'w) backoff_fn" and d
  by unfold_locales
    (auto simp: checkSnapshot_def CreateSnapshot_def checkSourceVolume_def split: if_splits)

lemma CreateSnapshot_okE:
  assumes "CreateSnapshot eb d req w = (Ok s, w')"
  obtains volume w1 w2 vs where "GetVolume (d_ironcoreClient d) (sourceKey d req) w = (Inr volume, w1)"
    and "vol_State volume = VolumeStateAvailable"
    and "ApplySnapshot (d_ironcoreClient d) (snapshotApplyConfig d req) snapshotFieldOwner True w1 = (None, w2)"
    and "waitForVolumeSnapshotReady eb (d_ironcoreClient d) (snapshotObject d req) w2 = (None, (vs, w'))"
    and "s = \<lparr>SnapshotId = cs_Name req, SourceVolumeId = cs_SourceVolumeId req,
               SnapshotCreationTime = vs_CreationTimestamp vs, ReadyToUse = True\<rparr>"
  using assms that
  by (auto simp: CreateSnapshot_def checkSourceVolume_def sourceKey_def split: outcome_splits)

text \<open>
  C23: A successful CreateSnapshot found the source volume available, then applied the snapshot of that
  volume by force under the driver's field owner, and the last thing it did was to read the snapshot
  back in state Ready; only then is the snapshot reported ready to use, with the creation time that
  was read.
\<close>

theorem CreateSnapshot_success:
  assumes "backoff_legal eb" and "answers_key (GetVolumeSnapshot (d_ironcoreClient d)) snapshot_key"
    and "CreateSnapshot eb d req w = (Ok s, w')"
  shows "\<exists>volume w1 w2 w3 vs.
    GetVolume (d_ironcoreClient d)
      \<lparr>key_Namespace = DriverNamespace (d_config d), key_Name = cs_SourceVolumeId req\<rparr> w = (Inr volume, w1)
    \<and> vol_State volume = VolumeStateAvailable
    \<and> ApplySnapshot (d_ironcoreClient d)
        \<lparr>sa_Name = cs_Name req, sa_Namespace = DriverNamespace (d_config d), sa_VolumeRef = cs_SourceVolumeId req\<rparr>
        snapshotFieldOwner True w1 = (None, w2)
    \<and> GetVolumeSnapshot (d_ironcoreClient d)
        \<lparr>key_Namespace = DriverNamespace (d_config d), key_Name = cs_Name req\<rparr> w3 = (Inr vs, w')
    \<and> vs_State vs = VolumeSnapshotStateReady
    \<and> s = \<lparr>SnapshotId = cs_Name req, SourceVolumeId = cs_SourceVolumeId req,
           SnapshotCreationTime = vs_CreationTimestamp vs, ReadyToUse = True\<rparr>"
proof -
  obtain volume w1 w2 vs where run: "GetVolume (d_ironcoreClient d) (sourceKey d req) w = (Inr volume, w1)"
      "vol_State volume = VolumeStateAvailable"
      "ApplySnapshot (d_ironcoreClient d) (snapshotApplyConfig d req) snapshotFieldOwner True w1 = (None, w2)"
      "s = \<lparr>SnapshotId = cs_Name req, SourceVolumeId = cs_SourceVolumeId req,
               SnapshotCreationTime = vs_CreationTimestamp vs, ReadyToUse = True\<rparr>"
    and waited: "waitForVolumeSnapshotReady eb (d_ironcoreClient d) (snapshotObject d req) w2 = (None, (vs, w'))"
    using assms(3) by (rule CreateSnapshot_okE)
  obtain u w3 where "GetVolumeSnapshot (d_ironcoreClient d) (snapshot_key u) w3 = (Inr vs, w')"
      "snapshot_key u = snapshot_key (snapshotObject d req)" "snapshot_ready vs"
    by (rule snapshot_wait.wait_fetched_same [OF assms(1) _ waited]) (auto dest: answers_keyD [OF assms(2)])
  then show ?thesis
    using run unfolding snapshot_key_object sourceKey_def snapshotKeyOf_def snapshotApplyConfig_def
      snapshot_ready_def by metis
qed

text \<open>
  The calls of CreateSnapshot, whatever the server answers: it reads the source volume, applies
  the snapshot at most once and then reads the snapshot at most five times.  Without a source id it
  calls nothing and reports an invalid argument; with a source that is missing, unreadable or not
  available it stops after the first read, writes nothing and reports NotFound, Internal or
  FailedPrecondition.
\<close>

lemma CreateSnapshot_calls:
  assumes "quiet_backoff eb" and "answers_key (GetVolumeSnapshot (d_ironcoreClient d)) snapshot_key"
    and "CreateSnapshot eb (traced d) req (w, []) = (r, (w', tr))"
  shows "\<exists>k \<le> 5.
    prefix tr ([C_GetVolume (sourceKey d req),
        C_ApplySnapshot (snapshotApplyConfig d req) snapshotFieldOwner True] @
      replicate k (C_GetVolumeSnapshot (snapshotKeyOf d req)))
    \<and> (is_ok r \<longrightarrow> 0 < k \<and> length tr = k + 2)
    \<and> (if cs_SourceVolumeId req = '''' then tr = [] \<and> result_code r = Some InvalidArgument
       else case fst (GetVolume (d_ironcoreClient d) (sourceKey d req) w) of
         Inl e \<Rightarrow> length tr = 1 \<and> result_code r = Some (if err_notFound e then NotFound else Internal)
       | Inr volume \<Rightarrow> if vol_State volume = VolumeStateAvailable then 2 \<le> length tr
           else length tr = 1 \<and> result_code r = Some FailedPrecondition)"
proof -
  have objs: "snapshotObject (traced d) req = snapshotObject d req"
      "snapshotApplyConfig (traced d) req = snapshotApplyConfig d req"
    by (simp_all add: snapshotObject_def snapshotApplyConfig_def)
  let ?calls = "[C_GetVolume (sourceKey d req), C_ApplySnapshot (snapshotApplyConfig d req) snapshotFieldOwner True]"
  obtain gv w1 where gv: "GetVolume (d_ironcoreClient d) (sourceKey d req) w = (gv, w1)"
    by (metis surj_pair)
  obtain ar w2 where ap: "ApplySnapshot (d_ironcoreClient d) (snapshotApplyConfig d req) snapshotFieldOwner True w1 = (ar, w2)"
    by (metis surj_pair)
  obtain wr v' w3 tr3 where wait: "waitForVolumeSnapshotReady eb (traced_client (d_ironcoreClient d))
      (snapshotObject d req) (w2, ?calls) = (wr, (v', (w3, tr3)))"
    by (metis surj_pair)
  obtain k where k: "k \<le> 5" "tr3 = ?calls @ replicate k (C_GetVolumeSnapshot (snapshotKeyOf d req))"
      "wr = None \<longrightarrow> 0 < k"
    using waitForSnapshot_trace [OF assms(1,2) wait]
    by (auto simp: snapshot_key_object waitActiveSteps_def)
  show ?thesis
    using assms(3) gv ap wait k
    by (intro exI [of _ k] conjI)
      (auto simp: CreateSnapshot_def checkSourceVolume_def sourceKey_def objs logged_eq split: outcome_splits)
qed

section \<open>DeleteSnapshot\<close>

text \<open>
  DeleteSnapshot makes exactly one call, the deletion of the snapshot in the driver's namespace
  (none for an empty id), and succeeds exactly when the server deleted it.  Unlike DeleteVolume it is
  not idempotent: a snapshot the server does not know is an internal error.
\<close>

lemma DeleteSnapshot_calls:
  assumes "DeleteSnapshot (traced d) sid (w, []) = (r, (w', tr))"
  shows "if sid = '''' then tr = [] \<and> result_code r = Some InvalidArgument
    else (let key = \<lparr>key_Namespace = DriverNamespace (d_config d), key_Name = sid\<rparr> in
      tr = [C_DeleteSnapshot key] \<and>
      result_code r = Some (if fst (DeleteSnapshotObject (d_ironcoreClient d) key w) = None then OK else Internal))"
  using assms by (auto simp: DeleteSnapshot_def traced_simps Let_def split: outcome_splits)

theorem DeleteSnapshot_calls_witness:
  "result_code (fst (DeleteSnapshot (traced nop_driver) ''s'' ((), []))) = Some Internal
    \<and> result_code (fst (DeleteVolume (traced nop_driver) ''v'' ((), []))) = Some OK"
proof -
  obtain r w' tr where run: "DeleteSnapshot (traced nop_driver) ''s'' ((), []) = (r, (w', tr))"
    by (metis surj_pair)
  from DeleteSnapshot_calls [OF run] run show ?thesis
    by (simp add: Let_def sim_defs DeleteVolume_def traced_simps)
qed

section \<open>Witnesses\<close>

definition sim_snapshot :: CreateSnapshotRequest where
  "sim_snapshot = \<lparr>cs_Name = ''s'', cs_SourceVolumeId = ''v''\<rparr>"

lemmas snapshot_run = CreateSnapshot_def checkSourceVolume_def sim_snapshot_def ready_defs
  traced_simps waitForVolumeSnapshotReady_def sim_backoff_def wait_backoff_def waitActiveSteps_def
  eval_nat_numeral snapshot_condition_def Let_def

lemma sim_snapshot_ok:
  "is_ok (fst (CreateSnapshot sim_backoff ready_driver sim_snapshot w))"
  "is_ok (fst (CreateSnapshot sim_backoff (traced ready_driver) sim_snapshot (w, [])))"
  by (simp_all add: snapshot_run)

theorem CreateSnapshot_success_witness:
  "\<exists>s w'. CreateSnapshot sim_backoff ready_driver sim_snapshot () = (Ok s, w')
     \<and> SnapshotId s = ''s'' \<and> ReadyToUse s"
proof -
  obtain s w' where run: "CreateSnapshot sim_backoff ready_driver sim_snapshot () = (Ok s, w')"
    using sim_snapshot_ok(1) [of "()"] by (metis is_ok_iff prod.collapse)
  from CreateSnapshot_success [OF sim_backoff_legal ready_answers(2) run] run show ?thesis
    by (auto simp: sim_snapshot_def)
qed

theorem CreateSnapshot_calls_witness:
  "\<exists>s w' tr. CreateSnapshot sim_backoff (traced ready_driver) sim_snapshot ((), []) = (Ok s, (w', tr))
     \<and> 3 \<le> length tr \<and> length tr \<le> 7"
proof -
  obtain s w' tr where run:
    "CreateSnapshot sim_backoff (traced ready_driver) sim_snapshot ((), []) = (Ok s, (w', tr))"
    using sim_snapshot_ok(2) [of "()"] by (metis is_ok_iff prod.collapse)
  from CreateSnapshot_calls [OF sim_backoff_quiet ready_answers(2) run] run show ?thesis by auto
qed

end
