(* ===== verification/Controller_Expand.thy ===== *)
theory Controller_Expand
  imports Driver Sizes
begin

text \<open>
  The rest of the controller service, \<^verbatim>\<open>pkg/driver/controller.go\<close>:
  \<^verbatim>\<open>ControllerExpandVolume\<close>, \<^verbatim>\<open>ValidateVolumeCapabilities\<close>,
  \<^verbatim>\<open>ControllerGetCapabilities\<close> and the calls that are not implemented.
\<close>

section \<open>Capabilities\<close>

definition volumeCaps :: "AccessModeMode option list" where
  "volumeCaps = [Some SINGLE_NODE_WRITER]"

definition controllerCaps :: "ControllerCapability list" where
  "controllerCaps =
     [CREATE_DELETE_VOLUME, PUBLISH_UNPUBLISH_VOLUME, CTL_EXPAND_VOLUME, CREATE_DELETE_SNAPSHOT]"

fun hasSupport :: "AccessModeMode option list \<Rightarrow> VolumeCapability \<Rightarrow> bool" where
  "hasSupport [] cap = False"
| "hasSupport (c # rest) cap =
     (if GetMode c = GetMode (AccessMode cap) then True else hasSupport rest cap)"

text \<open>The loop runs over all capabilities and remembers whether one of them had no support.\<close>

fun capsLoop :: "bool \<Rightarrow> VolumeCapability list \<Rightarrow> bool" where
  "capsLoop foundAll [] = foundAll"
| "capsLoop foundAll (c # rest) =
     capsLoop (if \<not> hasSupport volumeCaps c then False else foundAll) rest"

definition isValidVolumeCapabilities :: "VolumeCapability list \<Rightarrow> bool" where
  "isValidVolumeCapabilities volCaps = capsLoop True volCaps"

text \<open>The \<^verbatim>\<open>Confirmed\<close> field of the response.\<close>

definition ValidateVolumeCapabilities ::
    "'w driver \<Rightarrow> ValidateCapsRequest \<Rightarrow> 'w \<Rightarrow> VolumeCapability list option result \<times> 'w" where
  "ValidateVolumeCapabilities d req w =
     (if length (vvc_VolumeId req) = 0
      then (Err (Status InvalidArgument ''Volume ID not provided'' []), w)
      else if length (vvc_VolumeCapabilities req) = 0
      then (Err (Status InvalidArgument ''Volume capabilities not provided'' []), w)
      else
     (case GetVolume (d_ironcoreClient d)
             \<lparr>key_Namespace = DriverNamespace (d_config d), key_Name = vvc_VolumeId req\<rparr> w of
        (Inl err, w1) \<Rightarrow>
          if err_notFound err then (Err (Status NotFound ''Volume not found'' []), w1)
          else (Err (Status Internal ''Could not get volume with ID %q: %v''
                  [A_Str (vvc_VolumeId req), A_Err (Ext err)]), w1)
      | (Inr volume, w1) \<Rightarrow>
          (Ok (if isValidVolumeCapabilities (vvc_VolumeCapabilities req)
               then Some (vvc_VolumeCapabilities req) else None), w1)))"

fun capabilitiesLoop :: "'a list \<Rightarrow> 'a list \<Rightarrow> 'a list" where
  "capabilitiesLoop caps [] = caps"
| "capabilitiesLoop caps (c # rest) = capabilitiesLoop (caps @ [c]) rest"

definition ControllerGetCapabilities :: "'w driver \<Rightarrow> ControllerCapability list result" where
  "ControllerGetCapabilities d = Ok (capabilitiesLoop [] controllerCaps)"

section \<open>ControllerExpandVolume\<close>

text \<open>Lines 435 to 450: the volume class must allow expansion and the volume must have a size.\<close>

definition checkExpandable :: "'w driver \<Rightarrow> string \<Rightarrow> Volume \<Rightarrow> 'w \<Rightarrow> Quantity result \<times> 'w" where
  "checkExpandable d volumeID volume w =
     (case VolumeClassRef (vol_Spec volume) of
        None \<Rightarrow> (Panic ''nil pointer dereference: volume.Spec.VolumeClassRef'', w)
      | Some volumeClassName \<Rightarrow>
     (case GetVolumeClass (d_ironcoreClient d)
             \<lparr>key_Namespace = DriverNamespace (d_config d), key_Name = volumeClassName\<rparr> w of
        (Inl err, w1) \<Rightarrow>
          if err_notFound err then (Err (Status NotFound ''VolumeClass not found'' []), w1)
          else (Err (Status Internal ''Could not get volume with ID %q: %v''
                  [A_Str volumeID, A_Err (Ext err)]), w1)
      | (Inr volumeClass, w1) \<Rightarrow>
          if vc_ResizePolicy volumeClass \<noteq> ResizePolicyExpandOnly
          then (Err (BadRequest ''volume class resize policy does not allow resizing'' []), w1)
          else (case Resources (vol_Spec volume) ResourceStorage of
                  None \<Rightarrow>
                    (Err (BadRequest ''existing Volume does not contain any capacity information'' []), w1)
                | Some volSize \<Rightarrow> (Ok volSize, w1))))"

definition resizedVolume :: "Volume \<Rightarrow> int64 \<Rightarrow> Volume" where
  "resizedVolume volume newSize =
     volume\<lparr>vol_Spec := (vol_Spec volume)
       \<lparr>Resources := (Resources (vol_Spec volume))(ResourceStorage \<mapsto> NewQuantity newSize)\<rparr>\<rparr>"

definition expandPatch ::
    "'w driver \<Rightarrow> Volume \<Rightarrow> Quantity \<Rightarrow> CapacityRange \<Rightarrow> 'w \<Rightarrow> ControllerExpandResponse result \<times> 'w" where
  "expandPatch d volume volSize capRange w =
     (let newSize = RoundUpBytes (GetRequiredBytes (Some capRange))
      in if sint newSize < sint (quantity_Value volSize)
         then (Err (BadRequest ''new volume size %d can not be less than existing volume size %d''
                 [A_Int newSize, A_Int (quantity_Value volSize)]), w)
         else
        (let volumeBase = volume
         in case PatchVolume (d_ironcoreClient d) volumeBase (resizedVolume volume newSize) w of
              (Inl err, w1) \<Rightarrow>
                (Err (BadRequest ''failed to patch volume with new volume size'' []), w1)
            | (Inr patched, w1) \<Rightarrow>
                (Ok \<lparr>ce_CapacityBytes = newSize, NodeExpansionRequired = True\<rparr>, w1)))"

definition ControllerExpandVolume ::
    "'w driver \<Rightarrow> ControllerExpandRequest \<Rightarrow> 'w \<Rightarrow> ControllerExpandResponse result \<times> 'w" where
  "ControllerExpandVolume d req w =
     (if length (ce_VolumeId req) = 0
      then (Err (Status InvalidArgument ''Volume ID not provided'' []), w)
      else
     (case ce_CapacityRange req of
        None \<Rightarrow> (Err (Status InvalidArgument ''Capacity range not provided'' []), w)
      | Some capRange \<Rightarrow>
     (case GetVolume (d_ironcoreClient d)
             \<lparr>key_Namespace = DriverNamespace (d_config d), key_Name = ce_VolumeId req\<rparr> w of
        (Inl err, w1) \<Rightarrow>
          if err_notFound err then (Err (Status NotFound ''Volume not found'' []), w1)
          else (Err (Status Internal ''Could not get volume with ID %q: %v''
                  [A_Str (ce_VolumeId req), A_Err (Ext err)]), w1)
      | (Inr volume, w1) \<Rightarrow>
     (case checkExpandable d (ce_VolumeId req) volume w1 of
        (Panic p, w2) \<Rightarrow> (Panic p, w2)
      | (Err err, w2) \<Rightarrow> (Err err, w2)
      | (Ok volSize, w2) \<Rightarrow> expandPatch d volume volSize capRange w2))))"

section \<open>Calls that are not implemented\<close>

definition unimplemented :: "string \<Rightarrow> 'a result" where
  "unimplemented method = Err (Status Unimplemented (''Method '' @ method @ '' not implemented'') [])"

definition ControllerGetVolume :: "'w driver \<Rightarrow> unit result" where
  "ControllerGetVolume d = unimplemented ''ControllerGetVolume''"

definition ListVolumes :: "'w driver \<Rightarrow> unit result" where
  "ListVolumes d = unimplemented ''ListVolumes''"

definition ListSnapshots :: "'w driver \<Rightarrow> unit result" where
  "ListSnapshots d = unimplemented ''ListSnapshots''"

definition GetCapacity :: "'w driver \<Rightarrow> unit result" where
  "GetCapacity d = unimplemented ''GetCapacity''"

definition ControllerModifyVolume :: "'w driver \<Rightarrow> unit result" where
  "ControllerModifyVolume d = unimplemented ''ControllerModifyVolume''"

end
