(* ===== verification/Controller_Expand_Props.thy ===== *)
theory Controller_Expand_Props
  imports Controller_Expand Trace Sim
begin

text \<open>
  What expanding a volume guarantees: the new size, the only write it makes, its refusals and the one
  case in which it crashes; and what the capability calls answer.
\<close>

section \<open>The checks that come first\<close>

definition checkExpand :: "ControllerExpandRequest \<Rightarrow> error option" where
  "checkExpand req =
     (if ce_VolumeId req = '''' then Some (Status InvalidArgument ''Volume ID not provided'' [])
      else if ce_CapacityRange req = None
      then Some (Status InvalidArgument ''Capacity range not provided'' [])
      else None)"

interpretation expand_check: checked_call checkExpand "ControllerExpandVolume d"
  for d :: "'w driver"
  by unfold_locales (auto simp: checkExpand_def ControllerExpandVolume_def split: if_splits option.splits)

definition checkValidate :: "ValidateCapsRequest \<Rightarrow> error option" where
  "checkValidate req =
     (if vvc_VolumeId req = '''' then Some (Status InvalidArgument ''Volume ID not provided'' [])
      else if vvc_VolumeCapabilities req = []
      then Some (Status InvalidArgument ''Volume capabilities not provided'' [])
      else None)"

interpretation validate_check: checked_call checkValidate "ValidateVolumeCapabilities d"
  for d :: "'w driver"
  by unfold_locales (auto simp: checkValidate_def ValidateVolumeCapabilities_def split: if_splits)

definition expandKey :: "'w driver \<Rightarrow> ControllerExpandRequest \<Rightarrow> ObjectKey" where
  "expandKey d req = \<lparr>key_Namespace = DriverNamespace (d_config d), key_Name = ce_VolumeId req\<rparr>"

definition classKey :: "'w driver \<Rightarrow> string \<Rightarrow> ObjectKey" where
  "classKey d cls = \<lparr>key_Namespace = DriverNamespace (d_config d), key_Name = cls\<rparr>"

lemma ControllerExpandVolume_okE:
  assumes "ControllerExpandVolume d req w = (Ok resp, w')"
  obtains cap volume w1 cls vc w2 old where "ce_CapacityRange req = Some cap"
    and "GetVolume (d_ironcoreClient d) (expandKey d req) w = (Inr volume, w1)"
    and "VolumeClassRef (vol_Spec volume) = Some cls"
    and "GetVolumeClass (d_ironcoreClient d) (classKey d cls) w1 = (Inr vc, w2)"
    and "vc_ResizePolicy vc = ResizePolicyExpandOnly"
    and "Resources (vol_Spec volume) ResourceStorage = Some old"
    and "expandPatch d volume old cap w2 = (Ok resp, w')"
  using assms that
  by (auto simp: ControllerExpandVolume_def checkExpandable_def expandKey_def classKey_def split: outcome_splits)

lemma expandPatch_okE:
  assumes "expandPatch d volume old cap w = (Ok resp, w')"
  obtains patched where "ce_CapacityBytes resp = RoundUpBytes (RequiredBytes cap)"
    and "NodeExpansionRequired resp" and "sint (quantity_Value old) \<le> sint (ce_CapacityBytes resp)"
    and "PatchVolume (d_ironcoreClient d) volume (resizedVolume volume (ce_CapacityBytes resp)) w = (Inr patched, w')"
  using assms that by (auto simp: expandPatch_def GetRequiredBytes_def Let_def split: outcome_splits)

section \<open>The new size\<close>

text \<open>
  C21: A successful ControllerExpandVolume never shrinks the volume: the new size is at least the size
  the volume had, a whole number of GiB that covers the required bytes with less than one GiB to
  spare, the class of the volume allows expansion, and the one write is the patch that sets exactly
  this size and leaves every other field of the volume as it was read.
\<close>

theorem ControllerExpandVolume_grows:
  assumes "ControllerExpandVolume d req w = (Ok resp, w')"
    and "ce_CapacityRange req = Some cap" and "round_fits (RequiredBytes cap)"
  shows "2 ^ 30 dvd sint (ce_CapacityBytes resp)
    \<and> sint (RequiredBytes cap) \<le> sint (ce_CapacityBytes resp)
    \<and> sint (ce_CapacityBytes resp) < sint (RequiredBytes cap) + 2 ^ 30
    \<and> (\<exists>volume w1 cls vc w2 old patched.
        GetVolume (d_ironcoreClient d) (expandKey d req) w = (Inr volume, w1) \<and>
        VolumeClassRef (vol_Spec volume) = Some cls \<and>
        GetVolumeClass (d_ironcoreClient d) (classKey d cls) w1 = (Inr vc, w2) \<and>
        vc_ResizePolicy vc = ResizePolicyExpandOnly \<and>
        Resources (vol_Spec volume) ResourceStorage = Some old \<and>
        sint (quantity_Value old) \<le> sint (ce_CapacityBytes resp) \<and>
        PatchVolume (d_ironcoreClient d) volume
          (volume\<lparr>vol_Spec := (vol_Spec volume)\<lparr>Resources :=
            (Resources (vol_Spec volume))(ResourceStorage \<mapsto> NewQuantity (ce_CapacityBytes resp))\<rparr>\<rparr>) w2
          = (Inr patched, w'))"
proof -
  obtain cap' volume w1 cls vc w2 old where run: "ce_CapacityRange req = Some cap'"
      "GetVolume (d_ironcoreClient d) (expandKey d req) w = (Inr volume, w1)"
      "VolumeClassRef (vol_Spec volume) = Some cls"
      "GetVolumeClass (d_ironcoreClient d) (classKey d cls) w1 = (Inr vc, w2)"
      "vc_ResizePolicy vc = ResizePolicyExpandOnly"
      "Resources (vol_Spec volume) ResourceStorage = Some old"
    and patch: "expandPatch d volume old cap' w2 = (Ok resp, w')"
    using assms(1) by (rule ControllerExpandVolume_okE)
  from patch obtain patched where patched: "ce_CapacityBytes resp = RoundUpBytes (RequiredBytes cap)"
      "sint (quantity_Value old) \<le> sint (ce_CapacityBytes resp)"
      "PatchVolume (d_ironcoreClient d) volume (resizedVolume volume (ce_CapacityBytes resp)) w2 = (Inr patched, w')"
    using run(1) assms(2) by (auto elim: expandPatch_okE)
  show ?thesis
    using gib.rnd_dvd [OF assms(3)] gib.rnd_ge [OF assms(3)] gib.rnd_lt [OF assms(3)]
      run(2-6) patched(2,3)
    unfolding patched(1) resizedVolume_def by metis
qed

section \<open>The calls an expansion makes\<close>

text \<open>
  The calls of ControllerExpandVolume: it reads the volume, then its class, then patches at most
  once; it patches only if the class allows expansion, the volume states a size and the new size is
  not below it, and the patch changes nothing but that size.  The answer is Ok only if the patch was
  made and accepted.
\<close>

lemma ControllerExpandVolume_calls:
  assumes "ControllerExpandVolume (traced d) req (w, []) = (r, (w', tr))"
  shows "\<exists>volume cls cap. prefix tr
      [C_GetVolume (expandKey d req), C_GetVolumeClass (classKey d cls),
       C_PatchVolume volume (resizedVolume volume (RoundUpBytes (RequiredBytes cap)))]
    \<and> (is_ok r \<longrightarrow> length tr = 3)
    \<and> (length tr = 3 \<longrightarrow> (\<exists>w1 w2 vc old.
        ce_CapacityRange req = Some cap \<and>
        GetVolume (d_ironcoreClient d) (expandKey d req) w = (Inr volume, w1) \<and>
        VolumeClassRef (vol_Spec volume) = Some cls \<and>
        GetVolumeClass (d_ironcoreClient d) (classKey d cls) w1 = (Inr vc, w2) \<and>
        vc_ResizePolicy vc = ResizePolicyExpandOnly \<and>
        Resources (vol_Spec volume) ResourceStorage = Some old \<and>
        sint (quantity_Value old) \<le> sint (RoundUpBytes (RequiredBytes cap))))"
proof (cases "checkExpand req")
  case (Some e)
  then have "tr = []" and "\<not> is_ok r"
    using assms expand_check.rejects [OF Some, of "traced d" "(w, [])"] by auto
  then show ?thesis by simp
next
  case None
  then obtain cap where cap: "ce_CapacityRange req = Some cap" and vid: "ce_VolumeId req \<noteq> ''''"
    by (auto simp: checkExpand_def split: if_splits)
  obtain gv w1 where gv: "GetVolume (d_ironcoreClient d) (expandKey d req) w = (gv, w1)" by (metis surj_pair)
  show ?thesis
  proof (cases gv)
    case (Inl e)
    then show ?thesis
      using assms gv cap vid
      by (auto simp: ControllerExpandVolume_def logged_eq expandKey_def split: outcome_splits)
  next
    case (Inr volume)
    show ?thesis
    proof (cases "VolumeClassRef (vol_Spec volume)")
      case None
      then show ?thesis
        using assms gv cap vid Inr
        by (auto simp: ControllerExpandVolume_def checkExpandable_def logged_eq expandKey_def split: outcome_splits)
    next
      case (Some cls)
      obtain gc w2 where gc: "GetVolumeClass (d_ironcoreClient d) (classKey d cls) w1 = (gc, w2)"
        by (metis surj_pair)
      show ?thesis
        using assms gv gc cap vid Inr Some
        by (intro exI [of _ volume] exI [of _ cls] exI [of _ cap])
          (auto simp: ControllerExpandVolume_def checkExpandable_def expandPatch_def logged_eq expandKey_def
            classKey_def GetRequiredBytes_def Let_def split: outcome_splits)
    qed
  qed
qed

section \<open>Refusals\<close>

text \<open>
  A resize that the driver refuses, because of the class's policy, a volume without a size or a
  size below the present one, changes nothing and is answered with an error of the Kubernetes API
  library that carries no gRPC status, so a CSI client sees the code Unknown and not a final
  InvalidArgument or OutOfRange.
\<close>

lemma ControllerExpandVolume_refusals:
  assumes "ce_VolumeId req \<noteq> ''''" and "ce_CapacityRange req = Some cap"
    and "GetVolume (d_ironcoreClient d) (expandKey d req) w = (Inr volume, w1)"
    and "VolumeClassRef (vol_Spec volume) = Some cls"
    and "GetVolumeClass (d_ironcoreClient d) (classKey d cls) w1 = (Inr vc, w2)"
    and "vc_ResizePolicy vc \<noteq> ResizePolicyExpandOnly \<or> (case Resources (vol_Spec volume) ResourceStorage of
       None \<Rightarrow> True | Some old \<Rightarrow> sint (RoundUpBytes (RequiredBytes cap)) < sint (quantity_Value old))"
  shows "\<exists>m args. ControllerExpandVolume d req w = (Err (BadRequest m args), w2)"
  using assms
  by (auto simp: ControllerExpandVolume_def checkExpandable_def expandPatch_def expandKey_def classKey_def
      GetRequiredBytes_def Let_def split: option.splits)

text \<open>
  ControllerExpandVolume crashes, on a request that passes its checks, exactly when the volume it
  reads has no volume class reference, which the volume type allows.
\<close>

lemma ControllerExpandVolume_panics:
  "(\<exists>p w'. ControllerExpandVolume d req w = (Panic p, w')) \<longleftrightarrow>
     checkExpand req = None \<and>
     (\<exists>volume. fst (GetVolume (d_ironcoreClient d) (expandKey d req) w) = Inr volume \<and>
        VolumeClassRef (vol_Spec volume) = None)"
  by (auto simp: ControllerExpandVolume_def checkExpandable_def expandPatch_def checkExpand_def expandKey_def
      Let_def split: outcome_splits)

text \<open>
  The limit of the requested capacity range plays no part in an expansion: whatever it is, calls,
  errors and answer are the same, so a volume may be grown beyond it.
\<close>

lemma ControllerExpandVolume_ignores_limit:
  "ControllerExpandVolume d (req\<lparr>ce_CapacityRange := Some \<lparr>RequiredBytes = b, LimitBytes = l\<rparr>\<rparr>) w =
   ControllerExpandVolume d (req\<lparr>ce_CapacityRange := Some \<lparr>RequiredBytes = b, LimitBytes = l'\<rparr>\<rparr>) w"
  by (auto simp: ControllerExpandVolume_def expandPatch_def GetRequiredBytes_def Let_def split: outcome_splits)

section \<open>Capabilities\<close>

lemma hasSupport_iff: "hasSupport caps c \<longleftrightarrow> GetMode (AccessMode c) \<in> GetMode ` set caps"
  by (induction caps) auto

lemma capsLoop_iff: "capsLoop b caps \<longleftrightarrow> b \<and> list_all (hasSupport volumeCaps) caps"
  by (induction caps arbitrary: b) auto

lemma isValidVolumeCapabilities_all:
  "isValidVolumeCapabilities caps \<longleftrightarrow> list_all (\<lambda>c. AccessMode c = Some SINGLE_NODE_WRITER) caps"
proof -
  have "hasSupport volumeCaps c \<longleftrightarrow> AccessMode c = Some SINGLE_NODE_WRITER" for c
    by (cases "AccessMode c") (auto simp: hasSupport_iff volumeCaps_def GetMode_def)
  then show ?thesis by (simp add: isValidVolumeCapabilities_def capsLoop_iff cong: list.pred_cong)
qed

text \<open>
  ValidateVolumeCapabilities only reads: it rejects an empty request with InvalidArgument before
  any call, reads the volume once, and then confirms the requested capabilities, unchanged, exactly
  when every one of them has the access mode SINGLE_NODE_WRITER; a missing volume is NotFound.
\<close>

lemma ValidateVolumeCapabilities_spec:
  assumes "ValidateVolumeCapabilities (traced d) req (w, []) = (r, (w', tr))"
  shows "if vvc_VolumeId req = '''' \<or> vvc_VolumeCapabilities req = []
    then tr = [] \<and> result_code r = Some InvalidArgument
    else (let key = \<lparr>key_Namespace = DriverNamespace (d_config d), key_Name = vvc_VolumeId req\<rparr> in
      tr = [C_GetVolume key] \<and>
      (case fst (GetVolume (d_ironcoreClient d) key w) of
         Inl e \<Rightarrow> result_code r = Some (if err_notFound e then NotFound else Internal)
       | Inr volume \<Rightarrow> r = Ok
           (if list_all (\<lambda>c. AccessMode c = Some SINGLE_NODE_WRITER) (vvc_VolumeCapabilities req)
            then Some (vvc_VolumeCapabilities req) else None)))"
  using assms
  by (auto simp: ValidateVolumeCapabilities_def logged_eq isValidVolumeCapabilities_all Let_def
      split: outcome_splits)

lemma capabilitiesLoop_append: "capabilitiesLoop caps xs = caps @ xs"
  by (induction xs arbitrary: caps) simp_all

text \<open>
  What ControllerGetCapabilities advertises and what is implemented agree: creation, publishing,
  expansion and snapshots are advertised once each, and no capability is advertised whose call
  answers Unimplemented.
\<close>

lemma ControllerGetCapabilities_implemented:
  "\<exists>caps. ControllerGetCapabilities d = Ok caps \<and> distinct caps \<and>
     set caps = {CREATE_DELETE_VOLUME, PUBLISH_UNPUBLISH_VOLUME, CTL_EXPAND_VOLUME, CREATE_DELETE_SNAPSHOT} \<and>
     {c. (c, Some Unimplemented) \<in>
        {(CTL_GET_VOLUME, result_code (ControllerGetVolume d)), (LIST_VOLUMES, result_code (ListVolumes d)),
         (LIST_SNAPSHOTS, result_code (ListSnapshots d)), (GET_CAPACITY, result_code (GetCapacity d)),
         (MODIFY_VOLUME, result_code (ControllerModifyVolume d))}}
     = {CTL_GET_VOLUME, LIST_VOLUMES, LIST_SNAPSHOTS, GET_CAPACITY, MODIFY_VOLUME}"
  by (auto simp: ControllerGetCapabilities_def capabilitiesLoop_append controllerCaps_def unimplemented_def
      ControllerGetVolume_def ListVolumes_def ListSnapshots_def GetCapacity_def ControllerModifyVolume_def)

section \<open>Witnesses\<close>

definition sim_expand :: ControllerExpandRequest where
  "sim_expand = \<lparr>ce_VolumeId = ''v'',
     ce_CapacityRange = Some \<lparr>RequiredBytes = 6442450945, LimitBytes = 0\<rparr>\<rparr>"

lemma sim_expand_size: "RoundUpBytes 6442450945 = 7516192768"
  by (simp add: RoundUpBytes_def roundUpSize_def GiB_def go_div_def signed_divide_int_def)

lemmas expand_run = ControllerExpandVolume_def checkExpandable_def expandPatch_def sim_expand_def
  sim_expand_size GetRequiredBytes_def ready_defs logged_eq Let_def

lemma sim_expand_run: "ControllerExpandVolume ready_driver sim_expand () =
    (Ok \<lparr>ce_CapacityBytes = 7516192768, NodeExpansionRequired = True\<rparr>, ())"
  by (simp add: expand_run)

theorem ControllerExpandVolume_grows_witness:
  "\<exists>resp w'. ControllerExpandVolume ready_driver sim_expand () = (Ok resp, w')
     \<and> 2 ^ 30 dvd sint (ce_CapacityBytes resp) \<and> 6442450945 \<le> sint (ce_CapacityBytes resp)"
  using ControllerExpandVolume_grows [OF sim_expand_run, of "\<lparr>RequiredBytes = 6442450945, LimitBytes = 0\<rparr>"]
    sim_expand_run
  by (simp add: sim_expand_def round_fits_def)

theorem ControllerExpandVolume_calls_witness:
  "\<exists>r w' tr. ControllerExpandVolume (traced ready_driver) sim_expand ((), []) = (r, (w', tr)) \<and> length tr = 3"
proof -
  have ok: "is_ok (fst (ControllerExpandVolume (traced ready_driver) sim_expand ((), [])))"
    by (simp add: expand_run)
  obtain r w' tr where run: "ControllerExpandVolume (traced ready_driver) sim_expand ((), []) = (r, (w', tr))"
    by (metis surj_pair)
  from ControllerExpandVolume_calls [OF run] ok run show ?thesis by auto
qed

definition sim_shrink :: ControllerExpandRequest where
  "sim_shrink = \<lparr>ce_VolumeId = ''v'', ce_CapacityRange = Some \<lparr>RequiredBytes = 1, LimitBytes = 0\<rparr>\<rparr>"

lemma sim_shrink_size: "RoundUpBytes 1 = 1073741824"
  by (simp add: RoundUpBytes_def roundUpSize_def GiB_def go_div_def signed_divide_int_def)

theorem ControllerExpandVolume_refusals_witness:
  "result_code (fst (ControllerExpandVolume ready_driver sim_shrink ())) = None"
proof -
  have "\<exists>m args. ControllerExpandVolume ready_driver sim_shrink () = (Err (BadRequest m args), ())"
    by (rule ControllerExpandVolume_refusals [where cap = "\<lparr>RequiredBytes = 1, LimitBytes = 0\<rparr>"
          and volume = "sim_volume (expandKey ready_driver sim_shrink)" and ?w1.0 = "()" and cls = "''expand-only''"
          and vc = "\<lparr>vc_Name = ''expand-only'', vc_ResizePolicy = ResizePolicyExpandOnly\<rparr>"])
      (simp_all add: sim_shrink_def ready_defs classKey_def sim_shrink_size)
  then show ?thesis by auto
qed

theorem ValidateVolumeCapabilities_spec_witness:
  "fst (ValidateVolumeCapabilities (traced ready_driver) \<lparr>vvc_VolumeId = ''v'',
     vvc_VolumeCapabilities = [\<lparr>AccessMode = Some SINGLE_NODE_WRITER, cap_AccessType = None\<rparr>]\<rparr> ((), []))
   = Ok (Some [\<lparr>AccessMode = Some SINGLE_NODE_WRITER, cap_AccessType = None\<rparr>])"
proof -
  obtain r w' tr where run: "ValidateVolumeCapabilities (traced ready_driver) \<lparr>vvc_VolumeId = ''v'',
     vvc_VolumeCapabilities = [\<lparr>AccessMode = Some SINGLE_NODE_WRITER, cap_AccessType = None\<rparr>]\<rparr> ((), []) = (r, (w', tr))"
    by (metis surj_pair)
  from ValidateVolumeCapabilities_spec [OF run] run show ?thesis
    by (simp add: Let_def ready_defs)
qed

end
