(* ===== verification/Node_Stage.thy ===== *)
theory Node_Stage
  imports Driver
begin

text \<open>
  Staging a volume on a node, \<^verbatim>\<open>pkg/driver/node.go\<close>:
  \<^verbatim>\<open>NodeStageVolume\<close>, \<^verbatim>\<open>NodeUnstageVolume\<close> and the lookup
  \<^verbatim>\<open>getMountDeviceName\<close> of the device behind a mount path.
\<close>

section \<open>The device of a mount path\<close>

text \<open>The loop over the mount points: the first one at the path, the empty string if none is.\<close>

fun deviceAt :: "MountPoint list \<Rightarrow> string \<Rightarrow> string" where
  "deviceAt [] target = ''''"
| "deviceAt (mp # rest) target = (if Path mp = target then Device mp else deviceAt rest target)"

definition getMountDeviceName ::
    "'w Runtime \<Rightarrow> 'w driver \<Rightarrow> string \<Rightarrow> 'w \<Rightarrow> (ext_error + string) \<times> 'w" where
  "getMountDeviceName rt d mountPath w =
     (case ListMounts (d_mounter d) w of
        (Inl err, w1) \<Rightarrow> (Inl err, w1)
      | (Inr mountPoints, w1) \<Rightarrow>
     (case EvalSymlinks rt mountPath w1 of
        (Inl err, w2) \<Rightarrow> (Inr (deviceAt mountPoints mountPath), w2)
      | (Inr target, w2) \<Rightarrow> (Inr (deviceAt mountPoints target), w2)))"

section \<open>NodeStageVolume\<close>

definition stageOptions :: "NodeStageRequest \<Rightarrow> string list" where
  "stageOptions req =
     (let mountOptions = GetMountFlags (GetMount (ns_VolumeCapability req));
          readOnlyFlag = (case ns_VolumeContext req ParameterReadOnly of
                            Some readOnly \<Rightarrow> readOnly = ''true'' | None \<Rightarrow> False)
      in (if readOnlyFlag then [''ro''] else [''rw'']) @ mountOptions)"

definition stageFormatOptions :: "NodeStageRequest \<Rightarrow> string list" where
  "stageFormatOptions req =
     (case ns_VolumeContext req ParameterMkfsOptions of
        None \<Rightarrow> []
      | Some mkfsOptions \<Rightarrow>
          if mkfsOptions \<noteq> '''' then go_split (CHR '' '') mkfsOptions else [])"

text \<open>Lines 62 to 91: create the directory, format and mount.\<close>

definition stageMount :: "'w driver \<Rightarrow> NodeStageRequest \<Rightarrow> 'w \<Rightarrow> unit result \<times> 'w" where
  "stageMount d req w =
     (let fstype = go_lookup (ns_VolumeContext req) ParameterFSType;
          devicePath = go_lookup (ns_PublishContext req) ParameterDeviceName;
          targetPath = ns_StagingTargetPath req
      in case MkdirAll (d_os d) targetPath 488 w of
           (Some err, w1) \<Rightarrow>
             (Err (Status Internal ''Failed to create target directory %s for volume %s: %v''
                [A_Str targetPath, A_Str (ns_VolumeId req), A_Err (Ext err)]), w1)
         | (None, w1) \<Rightarrow>
        (case FormatAndMountSensitiveWithFormatOptions (d_mounter d) devicePath targetPath fstype
                (stageOptions req) [] (stageFormatOptions req) w1 of
           (Some err, w2) \<Rightarrow>
             (Err (Status Internal ''Failed to mount volume %s [%s] to %s: %v''
                [A_Str devicePath, A_Str fstype, A_Str targetPath, A_Err (Ext err)]), w2)
         | (None, w2) \<Rightarrow> (Ok (), w2)))"

definition NodeStageVolume :: "'w driver \<Rightarrow> NodeStageRequest \<Rightarrow> 'w \<Rightarrow> unit result \<times> 'w" where
  "NodeStageVolume d req w =
     (let devicePath = go_lookup (ns_PublishContext req) ParameterDeviceName;
          targetPath = ns_StagingTargetPath req
      in case Stat (d_os d) devicePath w of
           (Some err, w1) \<Rightarrow>
             if os_IsNotExist (Some err)
             then (Err (Status Unavailable ''Device path %s does not exist: %v''
                     [A_Str devicePath, A_Err (Ext err)]), w1)
             else (Err (Status Internal ''Failed to determine whether the device path %s exists: %v''
                     [A_Str devicePath, A_Err (Ext err)]), w1)
         | (None, w1) \<Rightarrow>
        (case IsLikelyNotMountPoint (d_mounter d) targetPath w1 of
           ((notMnt, mntErr), w2) \<Rightarrow>
             if mntErr \<noteq> None \<and> \<not> IsNotExist (d_os d) mntErr
             then (Err (Status Internal ''Failed to verify mount point %s: %v''
                     [A_Str targetPath, A_Err (Ext (the mntErr))]), w2)
             else if \<not> notMnt then (Ok (), w2)
             else stageMount d req w2))"

section \<open>NodeUnstageVolume\<close>

definition NodeUnstageVolume ::
    "'w Runtime \<Rightarrow> 'w driver \<Rightarrow> NodeUnstageRequest \<Rightarrow> 'w \<Rightarrow> unit result \<times> 'w" where
  "NodeUnstageVolume rt d req w =
     (let volumeID = nus_VolumeId req; stagePath = nus_StagingTargetPath req
      in if length volumeID = 0
         then (Err (Status InvalidArgument ''Volume ID is not set'' []), w)
         else if length stagePath = 0
         then (Err (Status InvalidArgument ''StagingTargetPath is not set'' []), w)
         else
        (case getMountDeviceName rt d stagePath w of
           (Inl err, w1) \<Rightarrow>
             (Err (Status Internal ''Failed to get device path for device %s: %v''
                [A_Str stagePath, A_Err (Ext err)]), w1)
         | (Inr devicePath, w1) \<Rightarrow>
             if devicePath = '''' then (Err (Status Internal ''Device path not set'' []), w1)
             else
        (case Unmount (d_mounter d) stagePath w1 of
           (Some err, w2) \<Rightarrow>
             (Err (Status Internal ''Failed to unmount stating target path %s: %v''
                [A_Str stagePath, A_Err (Ext err)]), w2)
         | (None, w2) \<Rightarrow>
        (case RemoveAll (d_os d) stagePath w2 of
           (Some err, w3) \<Rightarrow>
             (Err (Status Internal ''Failed to remove mount directory %s, error: %v''
                [A_Str stagePath, A_Err (Ext err)]), w3)
         | (None, w3) \<Rightarrow> (Ok (), w3)))))"

end
