(* ===== verification/Node_Expand.thy ===== *)
theory Node_Expand
  imports Node_Stage Controller_Expand
begin

text \<open>
  Expansion, statistics and information of the node service, \<^verbatim>\<open>pkg/driver/node.go\<close>:
  \<^verbatim>\<open>NodeExpandVolume\<close>, \<^verbatim>\<open>getBlockSizeBytes\<close>,
  \<^verbatim>\<open>NodeGetVolumeStats\<close>, \<^verbatim>\<open>getDeviceStats\<close>,
  \<^verbatim>\<open>NodeGetInfo\<close>, \<^verbatim>\<open>getZoneFromNode\<close> and
  \<^verbatim>\<open>NodeGetCapabilities\<close>.
\<close>

definition nodeCaps :: "NodeCapability list" where
  "nodeCaps = [STAGE_UNSTAGE_VOLUME, EXPAND_VOLUME, GET_VOLUME_STATS]"

definition NodeGetCapabilities :: "'w driver \<Rightarrow> NodeCapability list result" where
  "NodeGetCapabilities d = Ok (capabilitiesLoop [] nodeCaps)"

section \<open>The size of a block device\<close>

text \<open>The deferred \<^verbatim>\<open>Close\<close> runs on both returns after the file is open.\<close>

definition getBlockSizeBytes :: "'w driver \<Rightarrow> string \<Rightarrow> 'w \<Rightarrow> (error + int64) \<times> 'w" where
  "getBlockSizeBytes d devicePath w =
     (case Open (d_os d) devicePath w of
        (Inl err, w1) \<Rightarrow>
          (Inl (Errorf ''error when getting size of block volume at path %s: , err: %w''
             [A_Str devicePath, A_Err (Ext err)]), w1)
      | (Inr file, w1) \<Rightarrow>
     (case Seek file 0 SeekEnd w1 of
        ((sz, Some err), w2) \<Rightarrow>
          (Inl (Errorf ''error when getting size of block volume at path %s: , err: %w''
             [A_Str devicePath, A_Err (Ext err)]), snd (Close file w2))
      | ((sz, None), w2) \<Rightarrow> (Inr sz, snd (Close file w2))))"

section \<open>NodeExpandVolume\<close>

text \<open>Lines 227 to 255: the checks on the request.\<close>

definition checkNodeExpand :: "NodeExpandRequest \<Rightarrow> error option" where
  "checkNodeExpand req =
     (let reqBytes = GetRequiredBytes (ne_CapacityRange req);
          limitBytes = GetLimitBytes (ne_CapacityRange req)
      in if length (ne_VolumeId req) = 0
         then Some (Status InvalidArgument ''VolumeID not provided'' [])
         else if length (ne_VolumePath req) = 0
         then Some (Status InvalidArgument ''Volume path not provided'' [])
         else if ne_CapacityRange req \<noteq> None \<and> sint reqBytes \<le> 0
         then Some (Status InvalidArgument ''requested capacity must be greater than zero'' [])
         else if ne_CapacityRange req \<noteq> None \<and> 0 < sint limitBytes \<and> sint limitBytes < sint reqBytes
         then Some (Status OutOfRange ''requested capacity exceeds maximum limit'' [])
         else (case ne_VolumeCapability req of
                 None \<Rightarrow> None
               | Some volumeCapability \<Rightarrow>
                   if \<not> isValidVolumeCapabilities [volumeCapability]
                   then Some (Status InvalidArgument ''VolumeCapability is invalid: %v'' [A_Cap volumeCapability])
                   else None))"

text \<open>Lines 264 to 288: resize the file system and read the size back.\<close>

definition resizeDevice ::
    "'w driver \<Rightarrow> NodeExpandRequest \<Rightarrow> string \<Rightarrow> 'w \<Rightarrow> int64 result \<times> 'w" where
  "resizeDevice d req deviceName w =
     (let reqBytes = GetRequiredBytes (ne_CapacityRange req); volumePath = ne_VolumePath req
      in case NewResizeFs (d_mounter d) w of
           (Inl err, w1) \<Rightarrow>
             (Err (Status Internal ''error attempting to create new ResizeFs:  %v'' [A_Err (Ext err)]), w1)
         | (Inr fs, w1) \<Rightarrow>
        (case Resize fs deviceName volumePath w1 of
           ((resized, Some err), w2) \<Rightarrow>
             (Err (Status Internal ''could not resize volume %q (%q):  %v''
                [A_Str (ne_VolumeId req), A_Str deviceName, A_Err (Ext err)]), w2)
         | ((resized, None), w2) \<Rightarrow>
        (case getBlockSizeBytes d deviceName w2 of
           (Inl err, w3) \<Rightarrow>
             (Err (Status Internal ''failed to get block capacity on path %s: %v''
                [A_Str volumePath, A_Err err]), w3)
         | (Inr diskSizeBytes, w3) \<Rightarrow>
             if sint diskSizeBytes < sint reqBytes
             then (Err (Status Internal
                     ''resize requested for %v but after resize volume was size %v''
                     [A_Int reqBytes, A_Int diskSizeBytes]), w3)
             else (Ok diskSizeBytes, w3))))"

definition NodeExpandVolume ::
    "'w Runtime \<Rightarrow> 'w driver \<Rightarrow> NodeExpandRequest \<Rightarrow> 'w \<Rightarrow> int64 result \<times> 'w" where
  "NodeExpandVolume rt d req w =
     (case checkNodeExpand req of
        Some err \<Rightarrow> (Err err, w)
      | None \<Rightarrow>
     (case getMountDeviceName rt d (ne_VolumePath req) w of
        (Inl err, w1) \<Rightarrow>
          (Err (Status Internal ''failed to get device name from mount path %s: %v''
             [A_Str (ne_VolumePath req), A_Err (Ext err)]), w1)
      | (Inr deviceName, w1) \<Rightarrow> resizeDevice d req deviceName w1))"

section \<open>NodeGetVolumeStats\<close>

text \<open>
  The conversions between \<^verbatim>\<open>uint64\<close> and \<^verbatim>\<open>int64\<close> keep the bits, so they
  are the identity on words.
\<close>

definition deviceStatsOf :: "Statfs_t \<Rightarrow> DeviceStats" where
  "deviceStatsOf statfs =
     \<lparr>AvailableBytes = Bavail statfs * Bsize statfs,
      TotalBytes = Blocks statfs * Bsize statfs,
      UsedBytes = (Blocks statfs - Bfree statfs) * Bsize statfs,
      AvailableInodes = Ffree statfs,
      TotalInodes = Files statfs,
      UsedInodes = Files statfs - Ffree statfs\<rparr>"

definition getDeviceStats :: "'w driver \<Rightarrow> string \<Rightarrow> 'w \<Rightarrow> (ext_error + DeviceStats) \<times> 'w" where
  "getDeviceStats d path w =
     (case Statfs (d_os d) path zero_Statfs w of
        ((Some err, statfs), w1) \<Rightarrow> (Inl err, w1)
      | ((None, statfs), w1) \<Rightarrow> (Inr (deviceStatsOf statfs), w1))"

definition usageOf :: "DeviceStats \<Rightarrow> VolumeUsage list" where
  "usageOf stats =
     [\<lparr>Unit = BYTES, Total = TotalBytes stats, Available = AvailableBytes stats,
       Used = UsedBytes stats\<rparr>,
      \<lparr>Unit = INODES, Total = TotalInodes stats, Available = AvailableInodes stats,
       Used = UsedInodes stats\<rparr>]"

definition NodeGetVolumeStats ::
    "'w driver \<Rightarrow> NodeStatsRequest \<Rightarrow> 'w \<Rightarrow> VolumeUsage list result \<times> 'w" where
  "NodeGetVolumeStats d req w =
     (let volumePath = nst_VolumePath req
      in if length (nst_VolumeId req) = 0
         then (Err (Status InvalidArgument ''VolumeID not provided'' []), w)
         else if length volumePath = 0
         then (Err (Status InvalidArgument ''Volume path not provided'' []), w)
         else
        (case Exists (d_os d) CheckFollowSymlink volumePath w of
           ((exists, Some err), w1) \<Rightarrow>
             (Err (Status Internal ''failed to check existence of volume path %s: %v''
                [A_Str volumePath, A_Err (Ext err)]), w1)
         | ((exists, None), w1) \<Rightarrow>
             if \<not> exists
             then (Err (Status NotFound ''volume path %s not found'' [A_Str volumePath]), w1)
             else
        (case getDeviceStats d volumePath w1 of
           (Inl err, w2) \<Rightarrow>
             (Err (Status Internal ''failed to get device stats for volume path %s: %v''
                [A_Str volumePath, A_Err (Ext err)]), w2)
         | (Inr stats, w2) \<Rightarrow> (Ok (usageOf stats), w2))))"

section \<open>NodeGetInfo\<close>

definition zoneOfLabels :: "strmap option \<Rightarrow> string" where
  "zoneOfLabels labels =
     (case labels of
        None \<Rightarrow> ''''
      | Some m \<Rightarrow>
          (case m LabelFailureDomainBetaZone of
             Some zone \<Rightarrow> zone
           | None \<Rightarrow> go_lookup m LabelTopologyZone))"

definition getZoneFromNode :: "string \<Rightarrow> 'w Client \<Rightarrow> 'w \<Rightarrow> (error + string) \<times> 'w" where
  "getZoneFromNode nodeName t w =
     (case GetNode t \<lparr>key_Namespace = '''', key_Name = nodeName\<rparr> w of
        (Inl err, w1) \<Rightarrow>
          (Inl (Errorf ''could not get node %s: %w'' [A_Str nodeName, A_Err (Ext err)]), w1)
      | (Inr node, w1) \<Rightarrow> (Inr (zoneOfLabels (n_Labels node)), w1))"

definition NodeGetInfo :: "'w driver \<Rightarrow> 'w \<Rightarrow> NodeInfo result \<times> 'w" where
  "NodeGetInfo d w =
     (case getZoneFromNode (cfg_NodeName (d_config d)) (d_targetClient d) w of
        (Inl err, w1) \<Rightarrow>
          (Err (Status Internal ''Failed to retrieve availability zone for node %s: %v''
             [A_Str (cfg_NodeName (d_config d)), A_Err err]), w1)
      | (Inr zone, w1) \<Rightarrow>
          (Ok \<lparr>NodeId = cfg_NodeID (d_config d),
               ni_AccessibleTopology =
                 (if zone \<noteq> '''' then Some \<lparr>Segments = [topologyKey \<mapsto> zone]\<rparr> else None)\<rparr>, w1))"

end
