(* ===== verification/Node_Stage_Props.thy ===== *)
theory Node_Stage_Props
  imports Node_Stage Trace Sim
begin

text \<open>
  What staging and unstaging do: the calls they make and their order, the options handed to the
  mounter, and the lookup of the device behind a path.
\<close>

section \<open>The device behind a path\<close>

lemma deviceAt_map_of: "deviceAt mps p = (case map_of (map (\<lambda>mp. (Path mp, Device mp)) mps) p of
    None \<Rightarrow> '''' | Some dev \<Rightarrow> dev)"
  by (induction mps) auto

text \<open>
  getMountDeviceName lists the mounts, resolves the symbolic links of the path (a path that cannot
  be resolved stands for itself) and answers with the device of the first mount at that path.  It
  fails only when the listing fails; a path where nothing is mounted is not an error but the empty
  device name.
\<close>

lemma getMountDeviceName_spec:
  "fst (getMountDeviceName rt d p w) =
     (case ListMounts (d_mounter d) w of
        (Inl e, w1) \<Rightarrow> Inl e
      | (Inr mps, w1) \<Rightarrow>
          (let target = (case fst (EvalSymlinks rt p w1) of Inl e \<Rightarrow> p | Inr t \<Rightarrow> t)
           in Inr (case map_of (map (\<lambda>mp. (Path mp, Device mp)) mps) target of
                     None \<Rightarrow> '''' | Some dev \<Rightarrow> dev)))"
  by (simp add: getMountDeviceName_def deviceAt_map_of Let_def split: outcome_splits)

lemma getMountDeviceName_trace:
  "getMountDeviceName (traced_runtime rt) (traced d) p (w, tr) =
     (case getMountDeviceName rt d p w of (r, w') \<Rightarrow>
        (r, (w', tr @ C_ListMounts # (if isl r then [] else [C_EvalSymlinks p]))))"
  by (auto simp: getMountDeviceName_def logged_eq split: outcome_splits)

section \<open>The options of a stage\<close>

lemma stageOptions_eq: "stageOptions req =
    (if ns_VolumeContext req ParameterReadOnly = Some ''true'' then ''ro'' else ''rw'') #
      GetMountFlags (GetMount (ns_VolumeCapability req))"
  by (auto simp: stageOptions_def split: option.splits)

lemma stageFormatOptions_eq: "stageFormatOptions req =
    (let opts = go_lookup (ns_VolumeContext req) ParameterMkfsOptions
     in if opts = '''' then [] else go_split (CHR '' '') opts)"
  by (auto simp: stageFormatOptions_def go_lookup_def split: option.splits)

text \<open>
  The mkfs options of the storage class reach mkfs cut at every blank and otherwise unchanged: put
  together with blanks they are the parameter again, and no option contains a blank.  Every two
  adjacent blanks, and a blank at either end, give an empty option, which mkfs takes for a device name.
\<close>

lemma stageFormatOptions_split:
  "go_join (CHR '' '') (stageFormatOptions req) = go_lookup (ns_VolumeContext req) ParameterMkfsOptions
   \<and> \<Union> (set ` set (stageFormatOptions req)) \<subseteq> - {CHR '' ''}
   \<and> length (stageFormatOptions req) =
       (if go_lookup (ns_VolumeContext req) ParameterMkfsOptions = '''' then 0
        else Suc (count_list (go_lookup (ns_VolumeContext req) ParameterMkfsOptions) (CHR '' '')))"
  using go_split_pieces [of _ "CHR '' ''" "go_lookup (ns_VolumeContext req) ParameterMkfsOptions"]
  by (auto simp: stageFormatOptions_eq go_join_split length_go_split Let_def)

section \<open>The calls of a stage\<close>

lemma stageMount_trace:
  assumes "stageMount (traced d) req (w, tr) = (r, (w', tr'))"
  shows "\<exists>e1 e2. prefix tr' (tr @
      [C_MkdirAll (ns_StagingTargetPath req) e1,
       C_FormatAndMount (go_lookup (ns_PublishContext req) ParameterDeviceName) (ns_StagingTargetPath req)
         (go_lookup (ns_VolumeContext req) ParameterFSType) (stageOptions req) (stageFormatOptions req) e2])
    \<and> length tr' = length tr + (if e1 \<noteq> None then 1 else 2)
    \<and> result_code r = Some (if e1 \<noteq> None \<or> e2 \<noteq> None then Internal else OK)"
proof -
  obtain e1 w3 where mk: "MkdirAll (d_os d) (ns_StagingTargetPath req) 488 w = (e1, w3)"
    by (metis surj_pair)
  obtain e2 w4 where fm: "FormatAndMountSensitiveWithFormatOptions (d_mounter d)
      (go_lookup (ns_PublishContext req) ParameterDeviceName) (ns_StagingTargetPath req)
      (go_lookup (ns_VolumeContext req) ParameterFSType) (stageOptions req) [] (stageFormatOptions req) w3 = (e2, w4)"
    by (metis surj_pair)
  show ?thesis
    using assms mk fm
    by (intro exI [of _ e1] exI [of _ e2], cases e1; cases e2)
      (auto simp: stageMount_def logged_eq Let_def)
qed

text \<open>
  C28: NodeStageVolume looks at the device path of the publish context, then at the staging path, and
  only for a path that is not mounted creates the directory and then formats and mounts that device
  there, with the file system of the volume context, read-only exactly when the volume context says
  so, the mount flags of the request after it, and the mkfs options.  A missing device is Unavailable,
  so that the call is retried, and a staged volume is left alone: staging is idempotent.
\<close>

theorem NodeStageVolume_calls:
  assumes "NodeStageVolume (traced d) req (w, []) = (r, (w', tr))"
  shows "\<exists>e notMnt e' e1 e2.
    prefix tr
      [C_Stat (go_lookup (ns_PublishContext req) ParameterDeviceName) e,
       C_IsLikelyNotMountPoint (ns_StagingTargetPath req) notMnt e',
       C_MkdirAll (ns_StagingTargetPath req) e1,
       C_FormatAndMount (go_lookup (ns_PublishContext req) ParameterDeviceName) (ns_StagingTargetPath req)
         (go_lookup (ns_VolumeContext req) ParameterFSType)
         ((if ns_VolumeContext req ParameterReadOnly = Some ''true'' then ''ro'' else ''rw'') #
           GetMountFlags (GetMount (ns_VolumeCapability req)))
         (stageFormatOptions req) e2]
    \<and> length tr = (if e \<noteq> None then 1
        else if \<not> notMnt \<or> (e' \<noteq> None \<and> \<not> IsNotExist (d_os d) e') then 2
        else if e1 \<noteq> None then 3 else 4)
    \<and> result_code r = Some (if e \<noteq> None then (if os_IsNotExist e then Unavailable else Internal)
        else if e' \<noteq> None \<and> \<not> IsNotExist (d_os d) e' then Internal
        else if \<not> notMnt then OK
        else if e1 \<noteq> None \<or> e2 \<noteq> None then Internal else OK)"
proof -
  let ?dev = "go_lookup (ns_PublishContext req) ParameterDeviceName" and ?p = "ns_StagingTargetPath req"
  obtain e w1 where st: "Stat (d_os d) ?dev w = (e, w1)"
    by (metis surj_pair)
  obtain notMnt e' w2 where mp: "IsLikelyNotMountPoint (d_mounter d) ?p w1 = ((notMnt, e'), w2)"
    by (metis surj_pair)
  obtain rs ws tr1 where sm: "stageMount (traced d) req
      (w2, [C_Stat ?dev e, C_IsLikelyNotMountPoint ?p notMnt e']) = (rs, (ws, tr1))"
    by (metis surj_pair)
  obtain e1 e2 where tail: "prefix tr1 ([C_Stat ?dev e, C_IsLikelyNotMountPoint ?p notMnt e'] @
      [C_MkdirAll ?p e1, C_FormatAndMount ?dev ?p (go_lookup (ns_VolumeContext req) ParameterFSType)
        (stageOptions req) (stageFormatOptions req) e2])"
      "length tr1 = 2 + (if e1 \<noteq> None then 1 else 2)"
      "result_code rs = Some (if e1 \<noteq> None \<or> e2 \<noteq> None then Internal else OK)"
    using stageMount_trace [OF sm] by auto
  have run: "(r, tr) = (if e \<noteq> None then (r, [C_Stat ?dev e])
      else if e' \<noteq> None \<and> \<not> IsNotExist (d_os d) e' then (r, [C_Stat ?dev e, C_IsLikelyNotMountPoint ?p notMnt e'])
      else if \<not> notMnt then (Ok (), [C_Stat ?dev e, C_IsLikelyNotMountPoint ?p notMnt e']) else (rs, tr1))"
    and code: "e \<noteq> None \<Longrightarrow> result_code r = Some (if os_IsNotExist e then Unavailable else Internal)"
      "e = None \<Longrightarrow> e' \<noteq> None \<Longrightarrow> \<not> IsNotExist (d_os d) e' \<Longrightarrow> result_code r = Some Internal"
    using assms st mp sm by (auto simp: NodeStageVolume_def logged_eq Let_def split: outcome_splits)
  show ?thesis
    unfolding stageOptions_eq [symmetric]
    by (rule exI [of _ e], rule exI [of _ notMnt], rule exI [of _ e'], rule exI [of _ e1], rule exI [of _ e2])
      (use run code tail in \<open>auto split: if_splits\<close>)
qed

section \<open>Unstaging\<close>

definition checkUnstage :: "NodeUnstageRequest \<Rightarrow> error option" where
  "checkUnstage req =
     (if nus_VolumeId req = '''' then Some (Status InvalidArgument ''Volume ID is not set'' [])
      else if nus_StagingTargetPath req = ''''
      then Some (Status InvalidArgument ''StagingTargetPath is not set'' [])
      else None)"

interpretation unstage_check: checked_call checkUnstage "NodeUnstageVolume rt d"
  for rt :: "'w Runtime" and d
  by unfold_locales (auto simp: checkUnstage_def NodeUnstageVolume_def split: if_splits)

text \<open>
  C31: NodeUnstageVolume removes the staging directory only after unmounting it: its calls are, in this
  order and as far as each succeeds, the listing of the mounts, the resolution of the path, the
  unmount and the removal; success means that all of them succeeded.  A path where nothing is mounted
  is an internal error, so unstaging a volume a second time fails.
\<close>

theorem NodeUnstageVolume_calls:
  assumes "NodeUnstageVolume (traced_runtime rt) (traced d) req (w, []) = (r, (w', tr))"
  shows "\<exists>e1 e2. prefix tr
      [C_ListMounts, C_EvalSymlinks (nus_StagingTargetPath req),
       C_Unmount (nus_StagingTargetPath req) e1, C_RemoveAll (nus_StagingTargetPath req) e2]
    \<and> (length tr = 4 \<longrightarrow> e1 = None)
    \<and> (is_ok r \<longleftrightarrow> length tr = 4 \<and> e2 = None)
    \<and> (tr = [] \<longrightarrow> result_code r = Some InvalidArgument)
    \<and> (if fst (getMountDeviceName rt d (nus_StagingTargetPath req) w) = Inr ''''
       then length tr \<le> 2 \<and> \<not> is_ok r else length tr \<noteq> 2)"
proof (cases "checkUnstage req")
  case (Some e)
  then have "tr = []" and "result_code r = Some InvalidArgument"
    using assms unstage_check.rejects [OF Some, of "traced_runtime rt" "traced d" "(w, [])"]
    by (auto simp: checkUnstage_def split: if_splits)
  then show ?thesis by (cases r) auto
next
  case None
  let ?p = "nus_StagingTargetPath req"
  obtain g w1 where g: "getMountDeviceName rt d ?p w = (g, w1)" by (metis surj_pair)
  obtain e1 w2 where um: "Unmount (d_mounter d) ?p w1 = (e1, w2)" by (metis surj_pair)
  obtain e2 w3 where rm: "RemoveAll (d_os d) ?p w2 = (e2, w3)" by (metis surj_pair)
  have set: "nus_VolumeId req \<noteq> ''''" "nus_StagingTargetPath req \<noteq> ''''"
    using None by (auto simp: checkUnstage_def split: if_splits)
  have run: "(r, tr) =
      (case g of Inl e \<Rightarrow> (r, [C_ListMounts])
       | Inr dev \<Rightarrow> if dev = '''' then (r, [C_ListMounts, C_EvalSymlinks ?p])
          else if e1 \<noteq> None then (r, [C_ListMounts, C_EvalSymlinks ?p, C_Unmount ?p e1])
          else (r, [C_ListMounts, C_EvalSymlinks ?p, C_Unmount ?p e1, C_RemoveAll ?p e2]))"
    and ok: "is_ok r \<longleftrightarrow> (\<exists>dev. g = Inr dev \<and> dev \<noteq> '''' \<and> e1 = None \<and> e2 = None)"
    using assms set g um rm
    by (auto simp: NodeUnstageVolume_def getMountDeviceName_trace logged_eq Let_def
        split: sum.splits option.splits if_splits)
  show ?thesis
    by (rule exI [of _ e1], rule exI [of _ e2]) (use run ok g in \<open>auto split: sum.splits if_splits\<close>)
qed

section \<open>Witnesses\<close>

definition sim_stage :: NodeStageRequest where
  "sim_stage = \<lparr>ns_VolumeId = ''v'', ns_PublishContext = [ParameterDeviceName \<mapsto> ''/dev/oda''],
     ns_StagingTargetPath = ''/stage'', ns_VolumeCapability = None,
     ns_VolumeContext = [ParameterFSType \<mapsto> ''ext4'', ParameterReadOnly \<mapsto> ''true'']\<rparr>"

theorem NodeStageVolume_calls_witness:
  "\<exists>w' tr. NodeStageVolume (traced nop_driver) sim_stage ((), []) = (Ok (), (w', tr)) \<and> length tr = 4"
proof -
  have ok: "fst (NodeStageVolume (traced nop_driver) sim_stage ((), [])) = Ok ()"
    by (simp add: NodeStageVolume_def stageMount_def sim_defs logged_eq Let_def)
  obtain r w' tr where run: "NodeStageVolume (traced nop_driver) sim_stage ((), []) = (r, (w', tr))"
    by (metis surj_pair)
  have "4 \<le> length tr"
    using run by (auto simp: NodeStageVolume_def stageMount_def sim_defs logged_eq Let_def)
  with NodeStageVolume_calls [OF run] ok run show ?thesis
    by (auto split: if_splits)
qed

definition staged_mounter :: "'w MountWrapper" where
  "staged_mounter = nop_mounter\<lparr>ListMounts := (\<lambda>w. (Inr [\<lparr>Device = ''/dev/oda'', Path = ''/stage''\<rparr>], w))\<rparr>"

theorem NodeUnstageVolume_calls_witness:
  "\<exists>r w' tr. NodeUnstageVolume (traced_runtime nop_runtime) (traced (nop_driver\<lparr>d_mounter := staged_mounter\<rparr>))
       \<lparr>nus_VolumeId = ''v'', nus_StagingTargetPath = ''/stage''\<rparr> ((), []) = (r, (w', tr))
     \<and> is_ok r \<and> length tr = 4"
proof -
  have ok: "is_ok (fst (NodeUnstageVolume (traced_runtime nop_runtime)
      (traced (nop_driver\<lparr>d_mounter := staged_mounter\<rparr>))
      \<lparr>nus_VolumeId = ''v'', nus_StagingTargetPath = ''/stage''\<rparr> ((), [])))"
    by (simp add: NodeUnstageVolume_def getMountDeviceName_def staged_mounter_def sim_defs logged_eq Let_def)
  obtain r w' tr where run: "NodeUnstageVolume (traced_runtime nop_runtime)
      (traced (nop_driver\<lparr>d_mounter := staged_mounter\<rparr>))
      \<lparr>nus_VolumeId = ''v'', nus_StagingTargetPath = ''/stage''\<rparr> ((), []) = (r, (w', tr))"
    by (metis surj_pair)
  from NodeUnstageVolume_calls [OF run] ok run show ?thesis by auto
qed

end
