(* ===== verification/Node_Expand_Props.thy ===== *)
theory Node_Expand_Props
  imports Node_Expand Node_Stage_Props Controller_Expand_Props
begin

text \<open>
  What expanding a mounted volume, its statistics and the node's information guarantee.
\<close>

section \<open>The checks of an expansion\<close>

interpretation node_expand_check: checked_call checkNodeExpand "NodeExpandVolume rt d"
  for rt :: "'w Runtime" and d
  by unfold_locales
    (auto simp: NodeExpandVolume_def checkNodeExpand_def Let_def split: option.splits if_splits)

text \<open>
  The checks of NodeExpandVolume accept a request exactly when it names a volume and a path, its
  capacity range, if it has one, asks for a positive size within its limit, if there is one, and its
  capability, if it has one, has the access mode SINGLE_NODE_WRITER; otherwise the node is not touched
  and the code is InvalidArgument, or OutOfRange for a size above the limit.
\<close>

lemma checkNodeExpand_spec:
  "(checkNodeExpand req = None \<longleftrightarrow>
      ne_VolumeId req \<noteq> '''' \<and> ne_VolumePath req \<noteq> '''' \<and>
      (case ne_CapacityRange req of None \<Rightarrow> True
       | Some cap \<Rightarrow> 0 < sint (RequiredBytes cap) \<and>
           (sint (LimitBytes cap) \<le> 0 \<or> sint (RequiredBytes cap) \<le> sint (LimitBytes cap))) \<and>
      (case ne_VolumeCapability req of None \<Rightarrow> True | Some c \<Rightarrow> AccessMode c = Some SINGLE_NODE_WRITER))
   \<and> (case checkNodeExpand req of
        None \<Rightarrow> True
      | Some e \<Rightarrow> NodeExpandVolume rt d req w = (Err e, w) \<and>
          status_code e = Some (if ne_VolumeId req \<noteq> '''' \<and> ne_VolumePath req \<noteq> '''' \<and>
              0 < sint (GetRequiredBytes (ne_CapacityRange req)) \<and>
              0 < sint (GetLimitBytes (ne_CapacityRange req)) \<and>
              sint (GetLimitBytes (ne_CapacityRange req)) < sint (GetRequiredBytes (ne_CapacityRange req))
            then OutOfRange else InvalidArgument))"
  by (cases "ne_CapacityRange req"; cases "ne_VolumeCapability req")
    (auto simp: checkNodeExpand_def NodeExpandVolume_def isValidVolumeCapabilities_all GetRequiredBytes_def
      GetLimitBytes_def Let_def)

section \<open>The size of a block device\<close>

text \<open>The file is closed on every path once it is open.\<close>

lemma getBlockSizeBytes_trace:
  "getBlockSizeBytes (traced d) p (w, tr) =
     (case getBlockSizeBytes d p w of (r, w') \<Rightarrow>
        (r, (w', tr @ (if isl (fst (Open (d_os d) p w)) then [C_Open p False]
                       else [C_Open p True, C_Seek, C_Close]))))"
proof -
  obtain fl w1 where "Open (d_os d) p w = (fl, w1)" by (metis surj_pair)
  then show ?thesis
    by (cases fl) (auto simp: getBlockSizeBytes_def traced_simps split: outcome_splits)
qed

section \<open>Expanding\<close>

text \<open>
  A successful NodeExpandVolume found the device behind the path, grew the file system of that
  device there, and answers with the size it then read from the device, which is at least the
  required size of the request.
\<close>

lemma NodeExpandVolume_size:
  assumes "NodeExpandVolume rt d req w = (Ok n, w')"
  shows "sint (GetRequiredBytes (ne_CapacityRange req)) \<le> sint n
    \<and> (\<exists>dev w1 fs w2 resized w3.
        getMountDeviceName rt d (ne_VolumePath req) w = (Inr dev, w1) \<and>
        NewResizeFs (d_mounter d) w1 = (Inr fs, w2) \<and>
        Resize fs dev (ne_VolumePath req) w2 = ((resized, None), w3) \<and>
        getBlockSizeBytes d dev w3 = (Inr n, w'))"
  using assms by (auto simp: NodeExpandVolume_def resizeDevice_def Let_def split: outcome_splits)

lemma resizeDevice_trace:
  assumes "resizeDevice (traced d) req dev (w, tr) = (r, (w', tr'))"
  shows "\<exists>e opened. prefix tr' (tr @ [C_NewResizeFs, C_Resize dev (ne_VolumePath req) e, C_Open dev opened] @
        (if opened then [C_Seek, C_Close] else []))
    \<and> length tr < length tr' \<and> (C_Open dev True \<in> set (drop (length tr) tr') \<longrightarrow> last tr' = C_Close)
    \<and> (is_ok r \<longrightarrow> e = None \<and> length tr' = length tr + 5)"
proof -
  obtain nf w1 where nf: "NewResizeFs (d_mounter d) w = (nf, w1)" by (metis surj_pair)
  show ?thesis
  proof (cases nf)
    case (Inl e)
    then show ?thesis
      using assms nf by (auto simp: resizeDevice_def traced_simps Let_def)
  next
    case (Inr fs)
    obtain b e w2 where rs: "Resize fs dev (ne_VolumePath req) w1 = ((b, e), w2)" by (metis surj_pair)
    obtain g w3 where g: "getBlockSizeBytes d dev w2 = (g, w3)" by (metis surj_pair)
    have opened: "isl (fst (Open (d_os d) dev w2)) \<Longrightarrow> isl g"
      using g by (auto simp: getBlockSizeBytes_def split: outcome_splits)
    show ?thesis
      using assms nf Inr rs g opened
      by (intro exI [of _ e] exI [of _ "\<not> isl (fst (Open (d_os d) dev w2))"], cases e; cases g)
        (auto simp: resizeDevice_def traced_simps getBlockSizeBytes_trace Let_def split: if_splits)
  qed
qed

text \<open>
  C35: The calls of NodeExpandVolume: it lists the mounts and resolves the path, asks for a resizer,
  resizes the device it found at that path, opens the device, seeks to its end and closes it, in this
  order and as far as each succeeds; a device that was opened is closed on every path, and success
  means all of them happened.  Where nothing is mounted the device name is empty, and the driver goes
  on and resizes the device with the empty name.
\<close>

theorem NodeExpandVolume_calls:
  assumes "NodeExpandVolume (traced_runtime rt) (traced d) req (w, []) = (r, (w', tr))"
  shows "\<exists>dev e opened.
    prefix tr ([C_ListMounts, C_EvalSymlinks (ne_VolumePath req), C_NewResizeFs,
        C_Resize dev (ne_VolumePath req) e, C_Open dev opened] @ (if opened then [C_Seek, C_Close] else []))
    \<and> (tr = [] \<longleftrightarrow> checkNodeExpand req \<noteq> None)
    \<and> (C_Open dev True \<in> set tr \<longrightarrow> last tr = C_Close)
    \<and> (is_ok r \<longrightarrow> e = None \<and> length tr = 7)
    \<and> (checkNodeExpand req = None \<longrightarrow>
        (case fst (getMountDeviceName rt d (ne_VolumePath req) w) of
           Inl err \<Rightarrow> tr = [C_ListMounts] \<and> result_code r = Some Internal
         | Inr name \<Rightarrow> 3 \<le> length tr \<and> dev = name))"
proof (cases "checkNodeExpand req")
  case (Some e)
  then have "tr = []" and "\<not> is_ok r"
    using assms node_expand_check.rejects [OF Some, of "traced_runtime rt" "traced d" "(w, [])"] by auto
  with Some show ?thesis by simp
next
  case None
  obtain g w1 where g: "getMountDeviceName rt d (ne_VolumePath req) w = (g, w1)" by (metis surj_pair)
  show ?thesis
  proof (cases g)
    case (Inl e)
    then show ?thesis
      using assms None g by (auto simp: NodeExpandVolume_def getMountDeviceName_trace)
  next
    case (Inr dev)
    let ?tr = "[C_ListMounts, C_EvalSymlinks (ne_VolumePath req)]"
    have rd: "resizeDevice (traced d) req dev (w1, ?tr) = (r, (w', tr))"
      using assms None g Inr by (simp add: NodeExpandVolume_def getMountDeviceName_trace)
    from resizeDevice_trace [OF rd] obtain e opened where calls: "prefix tr (?tr @ [C_NewResizeFs,
        C_Resize dev (ne_VolumePath req) e, C_Open dev opened] @ (if opened then [C_Seek, C_Close] else []))"
      "length ?tr < length tr" "C_Open dev True \<in> set (drop (length ?tr) tr) \<longrightarrow> last tr = C_Close"
      "is_ok r \<longrightarrow> e = None \<and> length tr = length ?tr + 5"
      by blast
    then have "C_Open dev True \<in> set tr \<longrightarrow> last tr = C_Close"
      by (cases tr; cases "tl tr") auto
    with calls show ?thesis
      using None g Inr by (intro exI [of _ dev] exI [of _ e] exI [of _ opened]) auto
  qed
qed
section \<open>Statistics\<close>

text \<open>File system statistics whose products fit in 64 bits, with no more available than free blocks.\<close>

definition stat_fits :: "Statfs_t \<Rightarrow> bool" where
  "stat_fits st \<longleftrightarrow> 0 \<le> sint (Bavail st) \<and> sint (Bavail st) \<le> sint (Bfree st) \<and>
     sint (Bfree st) \<le> sint (Blocks st) \<and> 0 \<le> sint (Bsize st) \<and> sint (Blocks st) * sint (Bsize st) < 2 ^ 63"

lemma deviceStats_exact:
  assumes "stat_fits st"
  shows "sint (TotalBytes (deviceStatsOf st)) = sint (Blocks st) * sint (Bsize st)"
    and "sint (AvailableBytes (deviceStatsOf st)) = sint (Bavail st) * sint (Bsize st)"
    and "sint (UsedBytes (deviceStatsOf st)) = (sint (Blocks st) - sint (Bfree st)) * sint (Bsize st)"
proof -
  have fits: "0 \<le> x * sint (Bsize st)" "x * sint (Bsize st) < 2 ^ 63"
    if "0 \<le> x" "x \<le> sint (Blocks st)" for x
  proof -
    show "0 \<le> x * sint (Bsize st)" using assms that by (simp add: stat_fits_def)
    have "x * sint (Bsize st) \<le> sint (Blocks st) * sint (Bsize st)"
      using assms that by (intro mult_right_mono) (simp_all add: stat_fits_def)
    then show "x * sint (Bsize st) < 2 ^ 63" using assms by (simp add: stat_fits_def)
  qed
  have range: "0 \<le> sint (Bavail st)" "sint (Bavail st) \<le> sint (Blocks st)" "0 \<le> sint (Bfree st)"
      "sint (Bfree st) \<le> sint (Blocks st)"
    using assms by (simp_all add: stat_fits_def)
  have used: "sint (Blocks st - Bfree st) = sint (Blocks st) - sint (Bfree st)"
    using range sint_int64_bounds [of "Blocks st"] by (intro sint_diff_int64) linarith+
  have low: "- (2 ^ 63) \<le> x" if "0 \<le> x" for x :: int
    by (rule order_trans [OF _ that]) simp
  have mult: "sint (a * Bsize st) = sint a * sint (Bsize st)" if "0 \<le> sint a" "sint a \<le> sint (Blocks st)" for a
    by (rule sint_mult_int64) (use fits [OF that] low in auto)
  show "sint (TotalBytes (deviceStatsOf st)) = sint (Blocks st) * sint (Bsize st)"
    using range by (simp add: deviceStatsOf_def mult)
  show "sint (AvailableBytes (deviceStatsOf st)) = sint (Bavail st) * sint (Bsize st)"
    using range by (simp add: deviceStatsOf_def mult)
  show "sint (UsedBytes (deviceStatsOf st)) = (sint (Blocks st) - sint (Bfree st)) * sint (Bsize st)"
    using range by (simp add: deviceStatsOf_def mult used)
qed

text \<open>
  C36: NodeGetVolumeStats answers with bytes and inodes of the file system at the path it was asked
  for.  The inodes are the total and the free ones that were read and their difference as the used ones,
  exact as long as no more inodes are free than there are.  As long as the byte counts fit in 64 bits they
  are exact and not negative, and used and available bytes together are at most the total, the rest being
  the blocks reserved for root.
\<close>

theorem NodeGetVolumeStats_usage:
  assumes "NodeGetVolumeStats d req w = (Ok us, w')"
  shows "\<exists>st w1 b i. Statfs (d_os d) (nst_VolumePath req) zero_Statfs w1 = ((None, st), w') \<and>
    us = [b, i] \<and> Unit b = BYTES \<and> Unit i = INODES \<and>
    Total i = Files st \<and> Available i = Ffree st \<and> Used i = Files st - Ffree st \<and>
    (0 \<le> sint (Ffree st) \<and> sint (Ffree st) \<le> sint (Files st) \<longrightarrow>
       sint (Used i) = sint (Files st) - sint (Ffree st) \<and>
       sint (Used i) + sint (Available i) = sint (Total i)) \<and>
    (stat_fits st \<longrightarrow>
       sint (Total b) = sint (Blocks st) * sint (Bsize st) \<and>
       sint (Available b) = sint (Bavail st) * sint (Bsize st) \<and>
       sint (Used b) = (sint (Blocks st) - sint (Bfree st)) * sint (Bsize st) \<and>
       0 \<le> sint (Available b) \<and> 0 \<le> sint (Used b) \<and>
       sint (Used b) + sint (Available b) \<le> sint (Total b))"
proof -
  obtain st w1 where st: "Statfs (d_os d) (nst_VolumePath req) zero_Statfs w1 = ((None, st), w')"
      and us: "us = usageOf (deviceStatsOf st)"
    using assms by (auto simp: NodeGetVolumeStats_def getDeviceStats_def Let_def split: outcome_splits)
  have bounds: "(sint (Blocks st) - sint (Bfree st)) * sint (Bsize st) + sint (Bavail st) * sint (Bsize st)
        \<le> sint (Blocks st) * sint (Bsize st)"
      "0 \<le> sint (Bavail st) * sint (Bsize st)" "0 \<le> (sint (Blocks st) - sint (Bfree st)) * sint (Bsize st)"
    if "stat_fits st"
    using that mult_right_mono [of "sint (Bavail st)" "sint (Bfree st)" "sint (Bsize st)"]
    by (simp_all add: stat_fits_def left_diff_distrib mult_right_mono)
  have inodes: "sint (Files st - Ffree st) = sint (Files st) - sint (Ffree st)"
    if "0 \<le> sint (Ffree st)" "sint (Ffree st) \<le> sint (Files st)"
    using that sint_int64_bounds [of "Files st"] by (intro sint_diff_int64) linarith+
  show ?thesis
    using st bounds inodes deviceStats_exact [of st]
    by (intro exI [of _ st] exI [of _ w1]) (auto simp: us usageOf_def deviceStatsOf_def)
qed

text \<open>
  NodeGetVolumeStats only looks: it rejects an empty id or path before any call, then checks that
  the path exists (NotFound if it does not) and reads the statistics; every other failure is Internal.
\<close>

lemma NodeGetVolumeStats_calls:
  assumes "NodeGetVolumeStats (traced d) req (w, []) = (r, (w', tr))"
  shows "if nst_VolumeId req = '''' \<or> nst_VolumePath req = ''''
    then tr = [] \<and> result_code r = Some InvalidArgument
    else case fst (Exists (d_os d) CheckFollowSymlink (nst_VolumePath req) w) of
        (there, Some e) \<Rightarrow> tr = [C_Exists (nst_VolumePath req)] \<and> result_code r = Some Internal
      | (False, None) \<Rightarrow> tr = [C_Exists (nst_VolumePath req)] \<and> result_code r = Some NotFound
      | (True, None) \<Rightarrow> tr = [C_Exists (nst_VolumePath req), C_Statfs (nst_VolumePath req)] \<and>
          result_code r \<in> {Some OK, Some Internal}"
  using assms
  by (auto simp: NodeGetVolumeStats_def getDeviceStats_def logged_eq Let_def split: outcome_splits bool.splits)

section \<open>The zone of a node\<close>

text \<open>
  NodeGetInfo reports the configured node id and, as its topology, the zone of the node object of
  that name: the value of the deprecated zone label if the node has it, even an empty one, and of the
  current label otherwise; no topology if that value is empty or missing.  The call fails exactly when
  the node cannot be read.
\<close>

lemma NodeGetInfo_zone:
  "fst (NodeGetInfo d w) =
    (case fst (GetNode (d_targetClient d) \<lparr>key_Namespace = '''', key_Name = cfg_NodeName (d_config d)\<rparr> w) of
       Inl e \<Rightarrow> Err (Status Internal ''Failed to retrieve availability zone for node %s: %v''
         [A_Str (cfg_NodeName (d_config d)),
          A_Err (Errorf ''could not get node %s: %w'' [A_Str (cfg_NodeName (d_config d)), A_Err (Ext e)])])
     | Inr node \<Rightarrow>
        (let labels = (case n_Labels node of None \<Rightarrow> Map.empty | Some m \<Rightarrow> m)
         in Ok \<lparr>NodeId = cfg_NodeID (d_config d), ni_AccessibleTopology =
              (if LabelFailureDomainBetaZone \<in> dom labels
               then (if labels LabelFailureDomainBetaZone = Some '''' then None
                     else Some \<lparr>Segments = [topologyKey \<mapsto> the (labels LabelFailureDomainBetaZone)]\<rparr>)
               else if labels LabelTopologyZone \<in> {None, Some ''''} then None
               else Some \<lparr>Segments = [topologyKey \<mapsto> the (labels LabelTopologyZone)]\<rparr>)\<rparr>))"
  by (auto simp: NodeGetInfo_def getZoneFromNode_def zoneOfLabels_def go_lookup_def Let_def split: outcome_splits)
section \<open>Witnesses\<close>

definition sim_resize_mounter :: "'w MountWrapper" where
  "sim_resize_mounter = staged_mounter\<lparr>NewResizeFs := (\<lambda>w. (Inr \<lparr>Resize = (\<lambda>dev p w. ((True, None), w))\<rparr>, w))\<rparr>"

definition sim_disk_os :: "'w OSWrapper" where
  "sim_disk_os = nop_os
     \<lparr>Open := (\<lambda>p w. (Inr \<lparr>Seek = (\<lambda>off wh w. ((6442450944, None), w)), Close = (\<lambda>w. (None, w))\<rparr>, w)),
      Statfs := (\<lambda>p buf w. ((None, \<lparr>Bsize = 4096, Blocks = 1000, Bfree = 600, Bavail = 500, Files = 50, Ffree = 20\<rparr>), w))\<rparr>"

definition sim_disk :: "'w driver" where
  "sim_disk = nop_driver\<lparr>d_mounter := sim_resize_mounter, d_os := sim_disk_os\<rparr>"

definition sim_node_expand :: NodeExpandRequest where
  "sim_node_expand = \<lparr>ne_VolumeId = ''v'', ne_VolumePath = ''/stage'',
     ne_CapacityRange = Some \<lparr>RequiredBytes = 5368709120, LimitBytes = 0\<rparr>, ne_VolumeCapability = None\<rparr>"

lemmas disk_run = sim_disk_def sim_disk_os_def sim_resize_mounter_def staged_mounter_def sim_defs
  NodeExpandVolume_def resizeDevice_def getBlockSizeBytes_def getMountDeviceName_def checkNodeExpand_def
  sim_node_expand_def GetRequiredBytes_def GetLimitBytes_def traced_simps Let_def

lemma sim_expand_node_run:
  "NodeExpandVolume nop_runtime sim_disk sim_node_expand () = (Ok 6442450944, ())"
  by (simp add: disk_run)

theorem NodeExpandVolume_calls_witness:
  "\<exists>r w' tr. NodeExpandVolume (traced_runtime nop_runtime) (traced sim_disk) sim_node_expand ((), []) = (r, (w', tr))
     \<and> length tr = 7 \<and> last tr = C_Close"
proof -
  obtain r w' tr where run: "NodeExpandVolume (traced_runtime nop_runtime) (traced sim_disk) sim_node_expand ((), [])
      = (r, (w', tr))"
    by (metis surj_pair)
  have "is_ok r" and "C_Open ''/dev/oda'' True \<in> set tr"
    using run by (auto simp: disk_run)
  with NodeExpandVolume_calls [OF run] run show ?thesis
    by (auto simp: disk_run)
qed

theorem NodeGetVolumeStats_usage_witness:
  "\<exists>b i w'. NodeGetVolumeStats sim_disk \<lparr>nst_VolumeId = ''v'', nst_VolumePath = ''/pod''\<rparr> () = (Ok [b, i], w') \<and>
     sint (Total i) = 50 \<and> sint (Available i) = 20 \<and> sint (Used i) = 30"
proof -
  obtain us w' where run: "NodeGetVolumeStats sim_disk \<lparr>nst_VolumeId = ''v'', nst_VolumePath = ''/pod''\<rparr> () = (Ok us, w')"
    by (simp add: NodeGetVolumeStats_def getDeviceStats_def disk_run)
  from NodeGetVolumeStats_usage [OF run] run show ?thesis by (auto simp: disk_run)
qed

end
