(* ===== verification/Node_Publish.thy ===== *)
theory Node_Publish
  imports Driver
begin

text \<open>
  Publishing a staged volume to a pod, \<^verbatim>\<open>pkg/driver/node.go\<close>:
  \<^verbatim>\<open>NodePublishVolume\<close> and \<^verbatim>\<open>NodeUnpublishVolume\<close>.
\<close>

section \<open>NodePublishVolume\<close>

text \<open>
  Lines 115 to 128.  \<^verbatim>\<open>append\<close> to the request's own flags may write into spare
  capacity behind them; the loop reads the flags by their length and never sees it.
\<close>

fun extraFlags :: "string list \<Rightarrow> string list \<Rightarrow> string list" where
  "extraFlags mountOptions [] = mountOptions"
| "extraFlags mountOptions (f # fs) =
     extraFlags (if f \<noteq> ''bind'' \<and> f \<noteq> ''ro'' then mountOptions @ [f] else mountOptions) fs"

definition publishOptions :: "NodePublishRequest \<Rightarrow> string list" where
  "publishOptions req =
     (let mountOptions = GetMountFlags (GetMount (np_VolumeCapability req)) @ [''bind''];
          mountOptions = mountOptions @ (if np_Readonly req then [''ro''] else [''rw''])
      in case GetMount (np_VolumeCapability req) of
           Some m \<Rightarrow> extraFlags mountOptions (MountFlags m)
         | None \<Rightarrow> mountOptions)"

definition publishFsType :: "NodePublishRequest \<Rightarrow> string" where
  "publishFsType req =
     (let fstype = go_lookup (np_VolumeContext req) ParameterFSType
      in if length fstype = 0 then FSTypeExt4 else fstype)"

text \<open>Lines 148 to 150.\<close>

definition publishMount :: "'w driver \<Rightarrow> NodePublishRequest \<Rightarrow> 'w \<Rightarrow> unit result \<times> 'w" where
  "publishMount d req w =
     (case Mount (d_mounter d) (np_StagingTargetPath req) (np_TargetPath req)
             (publishFsType req) (publishOptions req) w of
        (Some err, w1) \<Rightarrow>
          (Err (Status Internal ''Could not mount %q at %q: %v''
             [A_Str (np_StagingTargetPath req), A_Str (np_TargetPath req), A_Err (Ext err)]), w1)
      | (None, w1) \<Rightarrow> (Ok (), w1))"

definition NodePublishVolume :: "'w driver \<Rightarrow> NodePublishRequest \<Rightarrow> 'w \<Rightarrow> unit result \<times> 'w" where
  "NodePublishVolume d req w =
     (let targetMountPath = np_TargetPath req
      in if length (np_VolumeId req) = 0
         then (Err (Status InvalidArgument ''Volume ID is not set'' []), w)
         else if length (np_StagingTargetPath req) = 0
         then (Err (Status InvalidArgument ''StagingTargetPath is not set'' []), w)
         else if length targetMountPath = 0
         then (Err (Status InvalidArgument ''TargetMountPath is not set'' []), w)
         else if np_VolumeCapability req = None
         then (Err (Status InvalidArgument ''No volume capabilities provided for volume %s''
                 [A_Str (np_VolumeId req)]), w)
         else
        (case IsLikelyNotMountPoint (d_mounter d) targetMountPath w of
           ((notMnt, mntErr), w1) \<Rightarrow>
             if mntErr \<noteq> None \<and> \<not> IsNotExist (d_os d) mntErr
             then (Err (Status Internal ''Mount directory %s does not exist: %v''
                     [A_Str targetMountPath, A_Err (Ext (the mntErr))]), w1)
             else if notMnt
             then (if IsNotExist (d_os d) mntErr
                   then (case MkdirAll (d_os d) targetMountPath 488 w1 of
                           (Some err, w2) \<Rightarrow>
                             (Err (Errorf ''failed to create mount directory %s: %w''
                                [A_Str targetMountPath, A_Err (Ext err)]), w2)
                         | (None, w2) \<Rightarrow> publishMount d req w2)
                   else publishMount d req w1)
             else (Ok (), w1)))"

section \<open>NodeUnpublishVolume\<close>

text \<open>Lines 215 to 222.\<close>

definition removeTarget :: "'w driver \<Rightarrow> string \<Rightarrow> 'w \<Rightarrow> unit result \<times> 'w" where
  "removeTarget d targetPath w =
     (case RemoveAll (d_os d) targetPath w of
        (Some err, w1) \<Rightarrow>
          (Err (Status Internal ''Failed to remove mount directory %s, error: %v''
             [A_Str targetPath, A_Err (Ext err)]), w1)
      | (None, w1) \<Rightarrow> (Ok (), w1))"

definition NodeUnpublishVolume :: "'w driver \<Rightarrow> NodeUnpublishRequest \<Rightarrow> 'w \<Rightarrow> unit result \<times> 'w" where
  "NodeUnpublishVolume d req w =
     (let targetPath = nup_TargetPath req
      in if length (nup_VolumeId req) = 0
         then (Err (Status InvalidArgument ''Volume ID not provided'' []), w)
         else if length targetPath = 0
         then (Err (Status InvalidArgument ''Target path not provided'' []), w)
         else
        (case Stat (d_os d) targetPath w of
           (Some err, w1) \<Rightarrow>
             (Err (Status Internal ''Unable to stat %s: %v'' [A_Str targetPath, A_Err (Ext err)]), w1)
         | (None, w1) \<Rightarrow>
        (case IsLikelyNotMountPoint (d_mounter d) targetPath w1 of
           ((notMnt, mntErr), w2) \<Rightarrow>
             if mntErr \<noteq> None \<and> \<not> IsNotExist (d_os d) mntErr
             then (Err (Status Internal ''Mount point %s does not exist: %v''
                     [A_Str targetPath, A_Err (Ext (the mntErr))]), w2)
             else if \<not> notMnt
             then (case Unmount (d_mounter d) targetPath w2 of
                     (Some err, w3) \<Rightarrow>
                       (Err (Status Internal ''Failed not unmount %s: %v''
                          [A_Str targetPath, A_Err (Ext err)]), w3)
                   | (None, w3) \<Rightarrow> removeTarget d targetPath w3)
             else removeTarget d targetPath w2)))"

end
