(* ===== verification/Relational.thy ===== *)
theory Relational
  imports Controller_Volume Controller_Publish Controller_Snapshot Controller_Expand Node_Stage Node_Publish Node_Expand
begin

text \<open>
  The calls of the driver know nothing of the world but what the clients, the mounter and the operating
  system tell them.  Stated as parametricity: if two drivers work on two worlds of different types,
  and each of their external operations gives equal answers in related worlds and leaves related worlds,
  then so does every call.  An object that an operation returns (an open file, a resizer) is related
  when its own operations are.

  Everything that compares two environments rests on this: recording the calls, running over mocks, and
  worlds that have several parts.
\<close>

text \<open>
  Functions are related when they take related arguments to related results.  An argument that is no
  part of an environment is the same on both sides; an operation takes related worlds to results
  that are related and to related worlds.
\<close>

abbreviation same_arg :: "('b \<Rightarrow> 'c \<Rightarrow> bool) \<Rightarrow> ('a \<Rightarrow> 'b) \<Rightarrow> ('a \<Rightarrow> 'c) \<Rightarrow> bool" where
  "same_arg Q \<equiv> rel_fun (=) Q"

abbreviation returns ::
    "('a \<Rightarrow> 'b \<Rightarrow> bool) \<Rightarrow> ('w \<Rightarrow> 'v \<Rightarrow> bool) \<Rightarrow> ('w \<Rightarrow> 'a \<times> 'w) \<Rightarrow> ('v \<Rightarrow> 'b \<times> 'v) \<Rightarrow> bool" where
  "returns Q R \<equiv> rel_fun R (rel_prod Q R)"

abbreviation acts :: "('w \<Rightarrow> 'v \<Rightarrow> bool) \<Rightarrow> ('w \<Rightarrow> 'a \<times> 'w) \<Rightarrow> ('v \<Rightarrow> 'a \<times> 'v) \<Rightarrow> bool" where
  "acts R \<equiv> returns (=) R"

section \<open>Related drivers\<close>

definition rel_client :: "('w \<Rightarrow> 'v \<Rightarrow> bool) \<Rightarrow> 'w Client \<Rightarrow> 'v Client \<Rightarrow> bool" where
  "rel_client R c e \<longleftrightarrow>
     same_arg (acts R) (GetVolume c) (GetVolume e) \<and>
     same_arg (acts R) (GetVolumePool c) (GetVolumePool e) \<and>
     same_arg (acts R) (GetVolumeClass c) (GetVolumeClass e) \<and>
     same_arg (acts R) (GetVolumeSnapshot c) (GetVolumeSnapshot e) \<and>
     same_arg (acts R) (GetMachine c) (GetMachine e) \<and>
     same_arg (acts R) (GetNode c) (GetNode e) \<and>
     same_arg (same_arg (same_arg (acts R))) (ApplyVolume c) (ApplyVolume e) \<and>
     same_arg (same_arg (same_arg (acts R))) (ApplySnapshot c) (ApplySnapshot e) \<and>
     same_arg (acts R) (DeleteVolumeObject c) (DeleteVolumeObject e) \<and>
     same_arg (acts R) (DeleteSnapshotObject c) (DeleteSnapshotObject e) \<and>
     same_arg (same_arg (acts R)) (PatchMachine c) (PatchMachine e) \<and>
     same_arg (same_arg (acts R)) (PatchVolume c) (PatchVolume e)"

definition rel_file :: "('w \<Rightarrow> 'v \<Rightarrow> bool) \<Rightarrow> 'w File \<Rightarrow> 'v File \<Rightarrow> bool" where
  "rel_file R f g \<longleftrightarrow>
     same_arg (same_arg (acts R)) (Seek f) (Seek g) \<and>
     acts R (Close f) (Close g)"

definition rel_os :: "('w \<Rightarrow> 'v \<Rightarrow> bool) \<Rightarrow> 'w OSWrapper \<Rightarrow> 'v OSWrapper \<Rightarrow> bool" where
  "rel_os R o1 o2 \<longleftrightarrow>
     same_arg (same_arg (acts R)) (MkdirAll o1) (MkdirAll o2) \<and>
     same_arg (acts R) (RemoveAll o1) (RemoveAll o2) \<and>
     same_arg (acts R) (Stat o1) (Stat o2) \<and>
     IsNotExist o1 = IsNotExist o2 \<and>
     same_arg (returns (rel_sum (=) (rel_file R)) R) (Open o1) (Open o2) \<and>
     same_arg (same_arg (acts R)) (Statfs o1) (Statfs o2) \<and>
     same_arg (same_arg (acts R)) (Exists o1) (Exists o2)"

definition rel_resizer :: "('w \<Rightarrow> 'v \<Rightarrow> bool) \<Rightarrow> 'w Resizefs \<Rightarrow> 'v Resizefs \<Rightarrow> bool" where
  "rel_resizer R f g \<longleftrightarrow> same_arg (same_arg (acts R)) (Resize f) (Resize g)"

definition rel_mounter :: "('w \<Rightarrow> 'v \<Rightarrow> bool) \<Rightarrow> 'w MountWrapper \<Rightarrow> 'v MountWrapper \<Rightarrow> bool" where
  "rel_mounter R m n \<longleftrightarrow>
     same_arg (acts R) (IsLikelyNotMountPoint m) (IsLikelyNotMountPoint n) \<and>
     same_arg (same_arg (same_arg (same_arg (acts R)))) (Mount m) (Mount n) \<and>
     same_arg (acts R) (Unmount m) (Unmount n) \<and>
     acts R (ListMounts m) (ListMounts n) \<and>
     same_arg (same_arg (same_arg (same_arg (same_arg (same_arg (acts R))))))
       (FormatAndMountSensitiveWithFormatOptions m) (FormatAndMountSensitiveWithFormatOptions n) \<and>
     returns (rel_sum (=) (rel_resizer R)) R (NewResizeFs m) (NewResizeFs n)"

definition rel_runtime :: "('w \<Rightarrow> 'v \<Rightarrow> bool) \<Rightarrow> 'w Runtime \<Rightarrow> 'v Runtime \<Rightarrow> bool" where
  "rel_runtime R r s \<longleftrightarrow>
     same_arg (acts R) (EvalSymlinks r) (EvalSymlinks s) \<and>
     UnixTimeString r = UnixTimeString s \<and> ReadBuildInfo r = ReadBuildInfo s"

definition rel_driver :: "('w \<Rightarrow> 'v \<Rightarrow> bool) \<Rightarrow> 'w driver \<Rightarrow> 'v driver \<Rightarrow> bool" where
  "rel_driver R d e \<longleftrightarrow>
     rel_mounter R (d_mounter d) (d_mounter e) \<and> rel_os R (d_os d) (d_os e) \<and>
     rel_client R (d_targetClient d) (d_targetClient e) \<and>
     rel_client R (d_ironcoreClient d) (d_ironcoreClient e) \<and>
     d_config d = d_config e \<and> d_name d = d_name e"

text \<open>A backoff loop may use the condition it is given, and the world, in any way that is blind to both.\<close>

definition rel_backoff :: "('w \<Rightarrow> 'v \<Rightarrow> bool) \<Rightarrow> ('a \<times> 'w) backoff_fn \<Rightarrow> ('a \<times> 'v) backoff_fn \<Rightarrow> bool" where
  "rel_backoff R =
     (same_arg (rel_fun (acts (rel_prod (=) R)) (acts (rel_prod (=) R))))"

section \<open>The operations of related drivers\<close>

lemma driver_transfer [transfer_rule]:
  "rel_fun (rel_driver R) (rel_mounter R) d_mounter d_mounter"
  "rel_fun (rel_driver R) (rel_os R) d_os d_os"
  "rel_fun (rel_driver R) (rel_client R) d_targetClient d_targetClient"
  "rel_fun (rel_driver R) (rel_client R) d_ironcoreClient d_ironcoreClient"
  "rel_fun (rel_driver R) (=) d_config d_config"
  by (simp_all add: rel_driver_def rel_fun_def)

lemma client_transfer [transfer_rule]:
  "rel_fun (rel_client R) (same_arg (acts R)) GetVolume GetVolume"
  "rel_fun (rel_client R) (same_arg (acts R)) GetVolumePool GetVolumePool"
  "rel_fun (rel_client R) (same_arg (acts R)) GetVolumeClass GetVolumeClass"
  "rel_fun (rel_client R) (same_arg (acts R)) GetVolumeSnapshot GetVolumeSnapshot"
  "rel_fun (rel_client R) (same_arg (acts R)) GetMachine GetMachine"
  "rel_fun (rel_client R) (same_arg (acts R)) GetNode GetNode"
  "rel_fun (rel_client R) (same_arg (same_arg (same_arg (acts R)))) ApplyVolume ApplyVolume"
  "rel_fun (rel_client R) (same_arg (same_arg (same_arg (acts R)))) ApplySnapshot ApplySnapshot"
  "rel_fun (rel_client R) (same_arg (acts R)) DeleteVolumeObject DeleteVolumeObject"
  "rel_fun (rel_client R) (same_arg (acts R)) DeleteSnapshotObject DeleteSnapshotObject"
  "rel_fun (rel_client R) (same_arg (same_arg (acts R))) PatchMachine PatchMachine"
  "rel_fun (rel_client R) (same_arg (same_arg (acts R))) PatchVolume PatchVolume"
  unfolding rel_client_def [abs_def] by (rule rel_funI; blast)+

lemma os_transfer [transfer_rule]:
  "rel_fun (rel_os R) (same_arg (same_arg (acts R))) MkdirAll MkdirAll"
  "rel_fun (rel_os R) (same_arg (acts R)) RemoveAll RemoveAll"
  "rel_fun (rel_os R) (same_arg (acts R)) Stat Stat"
  "rel_fun (rel_os R) (same_arg (=)) IsNotExist IsNotExist"
  "rel_fun (rel_os R) (same_arg (returns (rel_sum (=) (rel_file R)) R)) Open Open"
  "rel_fun (rel_os R) (same_arg (same_arg (acts R))) Statfs Statfs"
  "rel_fun (rel_os R) (same_arg (same_arg (acts R))) Exists Exists"
  unfolding rel_os_def [abs_def] by (rule rel_funI; simp)+

lemma file_transfer [transfer_rule]:
  "rel_fun (rel_file R) (same_arg (same_arg (acts R))) Seek Seek"
  "rel_fun (rel_file R) (acts R) Close Close"
  unfolding rel_file_def [abs_def] by (rule rel_funI; blast)+

lemma mounter_transfer [transfer_rule]:
  "rel_fun (rel_mounter R) (same_arg (acts R)) IsLikelyNotMountPoint IsLikelyNotMountPoint"
  "rel_fun (rel_mounter R) (same_arg (same_arg (same_arg (same_arg (acts R))))) Mount Mount"
  "rel_fun (rel_mounter R) (same_arg (acts R)) Unmount Unmount"
  "rel_fun (rel_mounter R) (acts R) ListMounts ListMounts"
  "rel_fun (rel_mounter R) (same_arg (same_arg (same_arg (same_arg (same_arg (same_arg (acts R)))))))
     FormatAndMountSensitiveWithFormatOptions FormatAndMountSensitiveWithFormatOptions"
  "rel_fun (rel_mounter R) (returns (rel_sum (=) (rel_resizer R)) R) NewResizeFs NewResizeFs"
  unfolding rel_mounter_def [abs_def] by (rule rel_funI; blast)+

lemma runtime_transfer [transfer_rule]:
  "rel_fun (rel_resizer R) (same_arg (same_arg (acts R))) Resize Resize"
  "rel_fun (rel_runtime R) (same_arg (acts R)) EvalSymlinks EvalSymlinks"
  "rel_fun (rel_runtime R) (same_arg (=)) UnixTimeString UnixTimeString"
  unfolding rel_resizer_def [abs_def] rel_runtime_def [abs_def] by (rule rel_funI; simp)+

section \<open>The calls of the controller\<close>

text \<open>Values computed from the request and the configuration alone are equal.\<close>

lemma pure_transfer [transfer_rule]:
  "rel_fun (rel_driver R) (same_arg (same_arg (same_arg (=)))) volumeObject volumeObject"
  "rel_fun (rel_driver R) (same_arg (same_arg (same_arg (=)))) volumeApplyConfig volumeApplyConfig"
  "rel_fun (rel_runtime R) (same_arg (same_arg (same_arg (same_arg (=))))) createResponse createResponse"
  "rel_fun (rel_driver R) (same_arg (=)) snapshotObject snapshotObject"
  "rel_fun (rel_driver R) (same_arg (=)) snapshotApplyConfig snapshotApplyConfig"
  "rel_fun (rel_driver R) (same_arg (=)) machineKeyOf machineKeyOf"
  "rel_fun (rel_driver R) (same_arg (=)) volumeKeyOf volumeKeyOf"
  by (auto simp: rel_fun_def rel_driver_def rel_runtime_def volumeObject_def volumeApplyConfig_def
      createResponse_def snapshotObject_def snapshotApplyConfig_def machineKeyOf_def volumeKeyOf_def)

lemma condition_transfer [transfer_rule]:
  "rel_fun (rel_client R) (acts (rel_prod (=) R)) volume_condition volume_condition"
  "rel_fun (rel_client R) (acts (rel_prod (=) R)) snapshot_condition snapshot_condition"
  unfolding volume_condition_def [abs_def] snapshot_condition_def [abs_def] by transfer_prover+

lemma wait_transfer [transfer_rule]:
  "rel_fun (rel_backoff R) (rel_fun (rel_client R) (same_arg (rel_fun R (rel_prod (=) (rel_prod (=) R)))))
     waitForVolumeAvailability waitForVolumeAvailability"
  "rel_fun (rel_backoff R) (rel_fun (rel_client R) (same_arg (rel_fun R (rel_prod (=) (rel_prod (=) R)))))
     waitForVolumeSnapshotReady waitForVolumeSnapshotReady"
  unfolding waitForVolumeAvailability_def [abs_def] waitForVolumeSnapshotReady_def [abs_def] rel_backoff_def
  by transfer_prover+

lemma resolvePool_transfer [transfer_rule]:
  "rel_fun (rel_driver R) (same_arg (acts R)) resolvePool resolvePool"
  unfolding resolvePool_def [abs_def] by transfer_prover

lemma provisionVolume_transfer [transfer_rule]:
  "rel_fun (rel_runtime R) (rel_fun (rel_backoff R) (rel_fun (rel_driver R) (same_arg (same_arg (acts R)))))
     provisionVolume provisionVolume"
  unfolding provisionVolume_def [abs_def] by transfer_prover

lemma CreateVolume_transfer [transfer_rule]:
  "rel_fun (rel_runtime R) (rel_fun (rel_backoff R) (rel_fun (rel_driver R) (same_arg (acts R)))) CreateVolume CreateVolume"
  unfolding CreateVolume_def [abs_def] by transfer_prover

lemma DeleteVolume_transfer [transfer_rule]:
  "rel_fun (rel_driver R) (same_arg (acts R)) DeleteVolume DeleteVolume"
  unfolding DeleteVolume_def [abs_def] by transfer_prover

lemma machine_transfer [transfer_rule]:
  "rel_fun (rel_driver R) (same_arg (acts R)) attachToMachine attachToMachine"
  "rel_fun (rel_driver R) (same_arg (acts R)) detachFromMachine detachFromMachine"
  "same_arg (rel_fun (rel_client R) (acts R)) nodeExists nodeExists"
  unfolding attachToMachine_def [abs_def] detachFromMachine_def [abs_def] nodeExists_def [abs_def]
  by transfer_prover+

lemma ControllerPublishVolume_transfer [transfer_rule]:
  "rel_fun (rel_driver R) (same_arg (acts R)) ControllerPublishVolume ControllerPublishVolume"
  unfolding ControllerPublishVolume_def [abs_def] by transfer_prover

lemma ControllerUnpublishVolume_transfer [transfer_rule]:
  "rel_fun (rel_driver R) (same_arg (acts R)) ControllerUnpublishVolume ControllerUnpublishVolume"
  unfolding ControllerUnpublishVolume_def [abs_def] by transfer_prover

lemma checkSourceVolume_transfer [transfer_rule]:
  "rel_fun (rel_driver R) (same_arg (acts R)) checkSourceVolume checkSourceVolume"
  unfolding checkSourceVolume_def [abs_def] by transfer_prover

lemma CreateSnapshot_transfer [transfer_rule]:
  "rel_fun (rel_backoff R) (rel_fun (rel_driver R) (same_arg (acts R))) CreateSnapshot CreateSnapshot"
  unfolding CreateSnapshot_def [abs_def] by transfer_prover

lemma DeleteSnapshot_transfer [transfer_rule]:
  "rel_fun (rel_driver R) (same_arg (acts R)) DeleteSnapshot DeleteSnapshot"
  unfolding DeleteSnapshot_def [abs_def] by transfer_prover

lemma expand_transfer [transfer_rule]:
  "rel_fun (rel_driver R) (same_arg (same_arg (acts R))) checkExpandable checkExpandable"
  "rel_fun (rel_driver R) (same_arg (same_arg (same_arg (acts R)))) expandPatch expandPatch"
  unfolding checkExpandable_def [abs_def] expandPatch_def [abs_def] by transfer_prover+

lemma ControllerExpandVolume_transfer [transfer_rule]:
  "rel_fun (rel_driver R) (same_arg (acts R)) ControllerExpandVolume ControllerExpandVolume"
  unfolding ControllerExpandVolume_def [abs_def] by transfer_prover

lemma ValidateVolumeCapabilities_transfer [transfer_rule]:
  "rel_fun (rel_driver R) (same_arg (acts R)) ValidateVolumeCapabilities ValidateVolumeCapabilities"
  unfolding ValidateVolumeCapabilities_def [abs_def] by transfer_prover

section \<open>The calls of the node\<close>

lemma getMountDeviceName_transfer [transfer_rule]:
  "rel_fun (rel_runtime R) (rel_fun (rel_driver R) (same_arg (acts R))) getMountDeviceName getMountDeviceName"
  unfolding getMountDeviceName_def [abs_def] by transfer_prover

lemma stage_transfer [transfer_rule]:
  "rel_fun (rel_driver R) (same_arg (acts R)) stageMount stageMount"
  "rel_fun (rel_driver R) (same_arg (acts R)) publishMount publishMount"
  "rel_fun (rel_driver R) (same_arg (acts R)) removeTarget removeTarget"
  unfolding stageMount_def [abs_def] publishMount_def [abs_def] removeTarget_def [abs_def] by transfer_prover+

lemma NodeStageVolume_transfer [transfer_rule]:
  "rel_fun (rel_driver R) (same_arg (acts R)) NodeStageVolume NodeStageVolume"
  unfolding NodeStageVolume_def [abs_def] by transfer_prover

lemma NodeUnstageVolume_transfer [transfer_rule]:
  "rel_fun (rel_runtime R) (rel_fun (rel_driver R) (same_arg (acts R))) NodeUnstageVolume NodeUnstageVolume"
  unfolding NodeUnstageVolume_def [abs_def] by transfer_prover

lemma NodePublishVolume_transfer [transfer_rule]:
  "rel_fun (rel_driver R) (same_arg (acts R)) NodePublishVolume NodePublishVolume"
  unfolding NodePublishVolume_def [abs_def] by transfer_prover

lemma NodeUnpublishVolume_transfer [transfer_rule]:
  "rel_fun (rel_driver R) (same_arg (acts R)) NodeUnpublishVolume NodeUnpublishVolume"
  unfolding NodeUnpublishVolume_def [abs_def] by transfer_prover

lemma getBlockSizeBytes_transfer [transfer_rule]:
  "rel_fun (rel_driver R) (same_arg (acts R)) getBlockSizeBytes getBlockSizeBytes"
  unfolding getBlockSizeBytes_def [abs_def] by transfer_prover

lemma resizeDevice_transfer [transfer_rule]:
  "rel_fun (rel_driver R) (same_arg (same_arg (acts R))) resizeDevice resizeDevice"
  unfolding resizeDevice_def [abs_def] by transfer_prover

lemma NodeExpandVolume_transfer [transfer_rule]:
  "rel_fun (rel_runtime R) (rel_fun (rel_driver R) (same_arg (acts R))) NodeExpandVolume NodeExpandVolume"
  unfolding NodeExpandVolume_def [abs_def] by transfer_prover

lemma stats_transfer [transfer_rule]:
  "rel_fun (rel_driver R) (same_arg (acts R)) getDeviceStats getDeviceStats"
  "same_arg (rel_fun (rel_client R) (acts R)) getZoneFromNode getZoneFromNode"
  unfolding getDeviceStats_def [abs_def] getZoneFromNode_def [abs_def] by transfer_prover+

lemma NodeGetVolumeStats_transfer [transfer_rule]:
  "rel_fun (rel_driver R) (same_arg (acts R)) NodeGetVolumeStats NodeGetVolumeStats"
  unfolding NodeGetVolumeStats_def [abs_def] by transfer_prover

lemma NodeGetInfo_transfer [transfer_rule]:
  "rel_fun (rel_driver R) (acts R) NodeGetInfo NodeGetInfo"
  unfolding NodeGetInfo_def [abs_def] by transfer_prover

end
