(* ===== verification/Service.thy ===== *)
theory Service
  imports Relational
begin

text \<open>
  The whole plugin: the interface \<^verbatim>\<open>Driver\<close> of \<^verbatim>\<open>pkg/driver/driver.go\<close>,
  which joins the controller, the node and the identity service, as one function from calls to
  replies, and sequences of calls.  The CSI server hands a call to the method of its name.
\<close>

section \<open>Calls and replies\<close>

datatype CsiCall =
    Call_CreateVolume CreateVolumeRequest | Call_DeleteVolume string
  | Call_ControllerPublishVolume PublishRequest | Call_ControllerUnpublishVolume PublishRequest
  | Call_CreateSnapshot CreateSnapshotRequest | Call_DeleteSnapshot string
  | Call_ControllerExpandVolume ControllerExpandRequest
  | Call_ValidateVolumeCapabilities ValidateCapsRequest | Call_ControllerGetCapabilities
  | Call_ControllerGetVolume | Call_ListVolumes | Call_ListSnapshots | Call_GetCapacity
  | Call_ControllerModifyVolume
  | Call_NodeStageVolume NodeStageRequest | Call_NodeUnstageVolume NodeUnstageRequest
  | Call_NodePublishVolume NodePublishRequest | Call_NodeUnpublishVolume NodeUnpublishRequest
  | Call_NodeExpandVolume NodeExpandRequest | Call_NodeGetVolumeStats NodeStatsRequest
  | Call_NodeGetInfo | Call_NodeGetCapabilities
  | Call_GetPluginInfo | Call_GetPluginCapabilities | Call_Probe

datatype CsiReply =
    Reply_Empty | Reply_Volume CsiVolume | Reply_PublishContext strmap | Reply_Snapshot CsiSnapshot
  | Reply_Expanded ControllerExpandResponse | Reply_Confirmed "VolumeCapability list option"
  | Reply_ControllerCaps "ControllerCapability list" | Reply_Bytes int64 | Reply_Usage "VolumeUsage list"
  | Reply_NodeInfo NodeInfo | Reply_NodeCaps "NodeCapability list"
  | Reply_PluginInfo PluginInfo | Reply_PluginCaps "PluginCapability list"

text \<open>A serving process: the driver, its runtime, and the backoff loops of its two wait functions.\<close>

record 'w Plugin =
  p_driver :: "'w driver"
  p_runtime :: "'w Runtime"
  p_volumeBackoff :: "(Volume \<times> 'w) backoff_fn"
  p_snapshotBackoff :: "(VolumeSnapshot \<times> 'w) backoff_fn"

definition reply :: "('a \<Rightarrow> CsiReply) \<Rightarrow> ('w \<Rightarrow> 'a result \<times> 'w) \<Rightarrow> 'w \<Rightarrow> CsiReply result \<times> 'w" where
  "reply f call w = (case call w of (r, w') \<Rightarrow> (map_result f r, w'))"

definition reply_pure :: "('a \<Rightarrow> CsiReply) \<Rightarrow> 'a result \<Rightarrow> 'w \<Rightarrow> CsiReply result \<times> 'w" where
  "reply_pure f r w = (map_result f r, w)"

fun serve :: "'w Plugin \<Rightarrow> CsiCall \<Rightarrow> 'w \<Rightarrow> CsiReply result \<times> 'w" where
  "serve p (Call_CreateVolume req) =
     reply Reply_Volume (CreateVolume (p_runtime p) (p_volumeBackoff p) (p_driver p) req)"
| "serve p (Call_DeleteVolume vid) = reply (\<lambda>_. Reply_Empty) (DeleteVolume (p_driver p) vid)"
| "serve p (Call_ControllerPublishVolume req) =
     reply Reply_PublishContext (ControllerPublishVolume (p_driver p) req)"
| "serve p (Call_ControllerUnpublishVolume req) =
     reply (\<lambda>_. Reply_Empty) (ControllerUnpublishVolume (p_driver p) req)"
| "serve p (Call_CreateSnapshot req) =
     reply Reply_Snapshot (CreateSnapshot (p_snapshotBackoff p) (p_driver p) req)"
| "serve p (Call_DeleteSnapshot sid) = reply (\<lambda>_. Reply_Empty) (DeleteSnapshot (p_driver p) sid)"
| "serve p (Call_ControllerExpandVolume req) =
     reply Reply_Expanded (ControllerExpandVolume (p_driver p) req)"
| "serve p (Call_ValidateVolumeCapabilities req) =
     reply Reply_Confirmed (ValidateVolumeCapabilities (p_driver p) req)"
| "serve p Call_ControllerGetCapabilities =
     reply_pure Reply_ControllerCaps (ControllerGetCapabilities (p_driver p))"
| "serve p Call_ControllerGetVolume = reply_pure (\<lambda>_. Reply_Empty) (ControllerGetVolume (p_driver p))"
| "serve p Call_ListVolumes = reply_pure (\<lambda>_. Reply_Empty) (ListVolumes (p_driver p))"
| "serve p Call_ListSnapshots = reply_pure (\<lambda>_. Reply_Empty) (ListSnapshots (p_driver p))"
| "serve p Call_GetCapacity = reply_pure (\<lambda>_. Reply_Empty) (GetCapacity (p_driver p))"
| "serve p Call_ControllerModifyVolume = reply_pure (\<lambda>_. Reply_Empty) (ControllerModifyVolume (p_driver p))"
| "serve p (Call_NodeStageVolume req) = reply (\<lambda>_. Reply_Empty) (NodeStageVolume (p_driver p) req)"
| "serve p (Call_NodeUnstageVolume req) =
     reply (\<lambda>_. Reply_Empty) (NodeUnstageVolume (p_runtime p) (p_driver p) req)"
| "serve p (Call_NodePublishVolume req) = reply (\<lambda>_. Reply_Empty) (NodePublishVolume (p_driver p) req)"
| "serve p (Call_NodeUnpublishVolume req) = reply (\<lambda>_. Reply_Empty) (NodeUnpublishVolume (p_driver p) req)"
| "serve p (Call_NodeExpandVolume req) =
     reply Reply_Bytes (NodeExpandVolume (p_runtime p) (p_driver p) req)"
| "serve p (Call_NodeGetVolumeStats req) = reply Reply_Usage (NodeGetVolumeStats (p_driver p) req)"
| "serve p Call_NodeGetInfo = reply Reply_NodeInfo (NodeGetInfo (p_driver p))"
| "serve p Call_NodeGetCapabilities = reply_pure Reply_NodeCaps (NodeGetCapabilities (p_driver p))"
| "serve p Call_GetPluginInfo = reply_pure Reply_PluginInfo (GetPluginInfo (p_runtime p) (p_driver p))"
| "serve p Call_GetPluginCapabilities = reply_pure Reply_PluginCaps (GetPluginCapabilities (p_driver p))"
| "serve p Call_Probe = reply_pure (\<lambda>_. Reply_Empty) (Probe (p_driver p))"

section \<open>The plugin knows the world only by what it is told\<close>

definition rel_plugin :: "('w \<Rightarrow> 'v \<Rightarrow> bool) \<Rightarrow> 'w Plugin \<Rightarrow> 'v Plugin \<Rightarrow> bool" where
  "rel_plugin R p q \<longleftrightarrow> rel_driver R (p_driver p) (p_driver q) \<and> rel_runtime R (p_runtime p) (p_runtime q) \<and>
     rel_backoff R (p_volumeBackoff p) (p_volumeBackoff q) \<and>
     rel_backoff R (p_snapshotBackoff p) (p_snapshotBackoff q)"

lemma plugin_transfer [transfer_rule]:
  "rel_fun (rel_plugin R) (rel_driver R) p_driver p_driver"
  "rel_fun (rel_plugin R) (rel_runtime R) p_runtime p_runtime"
  "rel_fun (rel_plugin R) (rel_backoff R) p_volumeBackoff p_volumeBackoff"
  "rel_fun (rel_plugin R) (rel_backoff R) p_snapshotBackoff p_snapshotBackoff"
  by (simp_all add: rel_plugin_def rel_fun_def)

lemma reply_transfer [transfer_rule]:
  "same_arg (rel_fun (acts R) (acts R)) reply reply"
  "same_arg (same_arg (acts R)) reply_pure reply_pure"
  unfolding reply_def [abs_def] reply_pure_def [abs_def] by transfer_prover+

lemma pure_calls_transfer [transfer_rule]:
  "rel_fun (rel_driver R) (=) ControllerGetCapabilities ControllerGetCapabilities"
  "rel_fun (rel_driver R) (=) ControllerGetVolume ControllerGetVolume"
  "rel_fun (rel_driver R) (=) ListVolumes ListVolumes"
  "rel_fun (rel_driver R) (=) ListSnapshots ListSnapshots"
  "rel_fun (rel_driver R) (=) GetCapacity GetCapacity"
  "rel_fun (rel_driver R) (=) ControllerModifyVolume ControllerModifyVolume"
  "rel_fun (rel_driver R) (=) NodeGetCapabilities NodeGetCapabilities"
  "rel_fun (rel_runtime R) (rel_fun (rel_driver R) (=)) GetPluginInfo GetPluginInfo"
  "rel_fun (rel_driver R) (=) GetPluginCapabilities GetPluginCapabilities"
  "rel_fun (rel_driver R) (=) Probe Probe"
  by (auto simp: rel_fun_def rel_driver_def rel_runtime_def ControllerGetCapabilities_def
      ControllerGetVolume_def ListVolumes_def ListSnapshots_def GetCapacity_def ControllerModifyVolume_def
      NodeGetCapabilities_def GetPluginInfo_def Version_def GetPluginCapabilities_def Probe_def)

lemmas driver_calls_transfer = DeleteVolume_transfer ControllerPublishVolume_transfer
  ControllerUnpublishVolume_transfer DeleteSnapshot_transfer ControllerExpandVolume_transfer
  ValidateVolumeCapabilities_transfer NodeStageVolume_transfer NodePublishVolume_transfer
  NodeUnpublishVolume_transfer NodeGetVolumeStats_transfer

lemmas runtime_calls_transfer = NodeUnstageVolume_transfer NodeExpandVolume_transfer

lemma reply_related: "acts R f g \<Longrightarrow> acts R (reply k f) (reply k g)"
  by (rule reply_transfer(1) [THEN rel_funD, OF refl, THEN rel_funD])

lemma reply_pure_related: "r = s \<Longrightarrow> acts R (reply_pure k r) (reply_pure k s)"
  by (rule reply_transfer(2) [THEN rel_funD, OF refl, THEN rel_funD])

lemma serve_related:
  assumes "rel_plugin R p q"
  shows "acts R (serve p call) (serve q call)"
proof -
  have d: "rel_driver R (p_driver p) (p_driver q)" and rt: "rel_runtime R (p_runtime p) (p_runtime q)"
    and eb: "rel_backoff R (p_volumeBackoff p) (p_volumeBackoff q)"
      "rel_backoff R (p_snapshotBackoff p) (p_snapshotBackoff q)"
    using assms by (simp_all add: rel_plugin_def)
  note calls = driver_calls_transfer [THEN rel_funD, OF d, THEN rel_funD, OF refl]
    runtime_calls_transfer [THEN rel_funD, OF rt, THEN rel_funD, OF d, THEN rel_funD, OF refl]
    CreateVolume_transfer [THEN rel_funD, OF rt, THEN rel_funD, OF eb(1), THEN rel_funD, OF d, THEN rel_funD, OF refl]
    CreateSnapshot_transfer [THEN rel_funD, OF eb(2), THEN rel_funD, OF d, THEN rel_funD, OF refl]
    NodeGetInfo_transfer [THEN rel_funD, OF d]
  note pures = pure_calls_transfer(1-7,9,10) [THEN rel_funD, OF d]
    pure_calls_transfer(8) [THEN rel_funD, OF rt, THEN rel_funD, OF d]
  show ?thesis
    by (induction call) (simp_all only: serve.simps reply_related reply_pure_related calls pures)
qed

lemma serve_transfer: "rel_fun (rel_plugin R) (same_arg (acts R)) serve serve"
  by (intro rel_funI) (auto dest: serve_related [THEN rel_funD])

section \<open>Sequences of calls\<close>

fun serve_all :: "'w Plugin \<Rightarrow> CsiCall list \<Rightarrow> 'w \<Rightarrow> CsiReply result list \<times> 'w" where
  "serve_all p [] w = ([], w)"
| "serve_all p (c # cs) w =
     (case serve p c w of (r, w1) \<Rightarrow> (case serve_all p cs w1 of (rs, w2) \<Rightarrow> (r # rs, w2)))"

lemma serve_all_append:
  "serve_all p (cs @ ds) w =
     (case serve_all p cs w of (rs, w1) \<Rightarrow> (case serve_all p ds w1 of (ss, w2) \<Rightarrow> (rs @ ss, w2)))"
  by (induction cs arbitrary: w) (auto split: prod.splits)

lemma serve_all_related:
  assumes "rel_plugin R p q" and "R w v"
  shows "rel_prod (=) R (serve_all p cs w) (serve_all q cs v)"
  using assms(2)
proof (induction cs arbitrary: w v)
  case (Cons c cs)
  obtain r w1 where p: "serve p c w = (r, w1)" by (metis surj_pair)
  obtain s v1 where q: "serve q c v = (s, v1)" by (metis surj_pair)
  have "r = s" "R w1 v1"
    using rel_funD [OF serve_related [OF assms(1)] Cons.prems, of c] by (simp_all add: p q)
  with Cons.IH [of w1 v1] show ?case
    by (cases "serve_all p cs w1"; cases "serve_all q cs v1") (simp add: p q)
qed simp

text \<open>
  The plugin has no memory and no sight of its own: take two environments of any kind, and any
  correspondence between their states such that every operation of the clients, of the mounter, of the
  operating system and of the backoff loop gives the same answer in corresponding states and leads to
  corresponding states.  Then every sequence of calls of all three services, in any order, gets the same
  replies in both, from the first call on and whatever the environments did, and leaves corresponding
  states.
\<close>

lemma replies_depend_only_on_answers:
  assumes "rel_driver R (p_driver p) (p_driver q)" and "rel_runtime R (p_runtime p) (p_runtime q)"
    and "rel_backoff R (p_volumeBackoff p) (p_volumeBackoff q)"
    and "rel_backoff R (p_snapshotBackoff p) (p_snapshotBackoff q)" and "R w v"
  shows "fst (serve_all p calls w) = fst (serve_all q calls v)
    \<and> R (snd (serve_all p calls w)) (snd (serve_all q calls v))"
proof -
  have "rel_plugin R p q" using assms(1-4) by (simp add: rel_plugin_def)
  from serve_all_related [OF this assms(5)] show ?thesis by (simp add: rel_prod_sel)
qed

end
