(* ===== verification/Observation.thy ===== *)
theory Observation
  imports Trace Service Sim
begin

text \<open>
  The instrumented driver of theory Trace is only an observer: its world corresponds to the plain one
  if the record of calls is forgotten, so by theory Relational every call returns the same result and
  leaves the same world as over the plain driver.
\<close>

section \<open>Forgetting the record\<close>

definition recorded :: "'w tworld \<Rightarrow> 'w \<Rightarrow> bool" where
  "recorded s w \<longleftrightarrow> fst s = w"

lemma recorded_simp [simp]: "recorded (w, tr) v \<longleftrightarrow> w = v"
  by (simp add: recorded_def)

lemma logged_related: "acts recorded (logged c f) f"
  by (auto simp: rel_fun_def recorded_def logged_def rel_prod_sel split: prod.splits)

text \<open>An operation that returns an object is instrumented together with the object.\<close>

lemma logged_object_related:
  assumes "\<And>x. Q (t x) x"
  shows "returns (rel_sum (=) Q) recorded (\<lambda>s. apfst (map_sum id t) (logged c f s)) f"
  using assms
  by (auto simp: rel_fun_def recorded_def logged_def rel_prod_sel rel_sum_sel isl_map_sum map_sum_sel
      split: prod.splits)

lemma traced_file_related: "rel_file recorded (traced_file f) f"
  by (simp add: rel_file_def traced_file_def rel_fun_eq_rel logged_related rel_fun_def [of "(=)"])

lemma traced_resizer_related: "rel_resizer recorded (traced_resizer f) f"
  by (simp add: rel_resizer_def traced_resizer_def logged_related rel_fun_def [of "(=)"])

lemmas traced_unfold = traced_driver_simps traced_client_simps traced_os_simps traced_mounter_simps
  traced_runtime_simps Let_def

lemma traced_client_related: "rel_client recorded (traced_client c) c"
  by (simp add: rel_client_def traced_client_def logged_related rel_fun_def [of "(=)"])

lemma traced_os_related: "rel_os recorded (traced_os os) os"
  by (simp add: rel_os_def traced_os_def logged_related logged_object_related traced_file_related
      rel_fun_def [of "(=)"])

lemma traced_mounter_related: "rel_mounter recorded (traced_mounter m) m"
  by (simp add: rel_mounter_def traced_mounter_def logged_related logged_object_related traced_resizer_related
      rel_fun_def [of "(=)"])

lemma traced_runtime_related: "rel_runtime recorded (traced_runtime rt) rt"
  by (simp add: rel_runtime_def traced_runtime_def logged_related rel_fun_def [of "(=)"])

lemma traced_related: "rel_driver recorded (traced d) d"
  by (simp add: rel_driver_def traced_def traced_client_related traced_os_related traced_mounter_related)

definition traced_plugin ::
    "(Volume \<times> 'w tworld) backoff_fn \<Rightarrow> (VolumeSnapshot \<times> 'w tworld) backoff_fn \<Rightarrow> 'w Plugin \<Rightarrow> 'w tworld Plugin" where
  "traced_plugin eb eb' p =
     \<lparr>p_driver = traced (p_driver p), p_runtime = traced_runtime (p_runtime p),
      p_volumeBackoff = eb, p_snapshotBackoff = eb'\<rparr>"

section \<open>Observation changes nothing\<close>

lemma related_same: "acts recorded f g \<Longrightarrow> apsnd fst (f (w, tr)) = g w"
  by (drule rel_funD [where x = "(w, tr)" and y = w]) (auto simp: rel_prod_sel recorded_def prod_eq_iff)

text \<open>
  Running a call over the instrumented driver returns the same result and leaves the same world as
  running it over the plain driver, so everything the trace properties say of results and states is
  true of the plain calls.
\<close>

lemma observation_is_faithful:
  "apsnd fst (DeleteVolume (traced d) vid (w, tr)) = DeleteVolume d vid w
   \<and> apsnd fst (ControllerPublishVolume (traced d) pub (w, tr)) = ControllerPublishVolume d pub w
   \<and> apsnd fst (ControllerUnpublishVolume (traced d) pub (w, tr)) = ControllerUnpublishVolume d pub w
   \<and> apsnd fst (DeleteSnapshot (traced d) sid (w, tr)) = DeleteSnapshot d sid w
   \<and> apsnd fst (ValidateVolumeCapabilities (traced d) val (w, tr)) = ValidateVolumeCapabilities d val w
   \<and> apsnd fst (ControllerExpandVolume (traced d) grow (w, tr)) = ControllerExpandVolume d grow w
   \<and> apsnd fst (NodeStageVolume (traced d) stage (w, tr)) = NodeStageVolume d stage w
   \<and> apsnd fst (NodeUnstageVolume (traced_runtime rt) (traced d) unstage (w, tr)) = NodeUnstageVolume rt d unstage w
   \<and> apsnd fst (NodePublishVolume (traced d) npub (w, tr)) = NodePublishVolume d npub w
   \<and> apsnd fst (NodeUnpublishVolume (traced d) nunpub (w, tr)) = NodeUnpublishVolume d nunpub w
   \<and> apsnd fst (NodeExpandVolume (traced_runtime rt) (traced d) nexp (w, tr)) = NodeExpandVolume rt d nexp w
   \<and> apsnd fst (NodeGetVolumeStats (traced d) stats (w, tr)) = NodeGetVolumeStats d stats w
   \<and> apsnd fst (NodeGetInfo (traced d) (w, tr)) = NodeGetInfo d w"
proof -
  note d = traced_related [of d] and rt = traced_runtime_related [of rt]
  note calls = driver_calls_transfer [THEN rel_funD, OF d, THEN rel_funD, OF refl]
    runtime_calls_transfer [THEN rel_funD, OF rt, THEN rel_funD, OF d, THEN rel_funD, OF refl]
    NodeGetInfo_transfer [THEN rel_funD, OF d]
  show ?thesis by (simp only: calls [THEN related_same] simp_thms)
qed

section \<open>Witness\<close>

definition sim_plugin :: "unit Plugin" where
  "sim_plugin = \<lparr>p_driver = ready_driver, p_runtime = nop_runtime, p_volumeBackoff = sim_backoff,
     p_snapshotBackoff = sim_backoff\<rparr>"

lemma sim_loop_related:
  assumes "acts (rel_prod (=) R) c e" and "rel_prod (=) R s t"
  shows "rel_prod (=) (rel_prod (=) R) (sim_loop n c s) (sim_loop n e t)"
  using assms(2)
proof (induction n arbitrary: s t)
  case (Suc n)
  obtain b r s' where s: "c s = ((b, r), s')" by (metis surj_pair)
  moreover obtain t' where t: "e t = ((b, r), t')" "rel_prod (=) R s' t'"
    using rel_funD [OF assms(1) Suc.prems] s by (cases "e t") auto
  ultimately show ?case using Suc.IH [OF t(2)] by (auto split: option.splits bool.splits)
qed simp

lemma sim_backoff_related: "rel_backoff R sim_backoff sim_backoff"
  unfolding rel_backoff_def sim_backoff_def [abs_def] by (intro rel_funI, hypsubst, rule sim_loop_related)

theorem replies_depend_only_on_answers_witness:
  "fst (serve_all (traced_plugin sim_backoff sim_backoff sim_plugin) [Call_CreateVolume sim_create, Call_Probe] ((), []))
     = fst (serve_all sim_plugin [Call_CreateVolume sim_create, Call_Probe] ())"
  by (rule replies_depend_only_on_answers [where R = recorded, THEN conjunct1])
    (simp_all add: traced_plugin_def sim_plugin_def traced_related traced_runtime_related sim_backoff_related)

end
