(* ===== verification/Controller_Concurrency.thy ===== *)
theory Controller_Concurrency
  imports Controller_Publish_Props
begin

text \<open>
  Attaching and detaching while other calls and other parties change the same machines.

  The driver patches with \<^verbatim>\<open>client.StrategicMergeFrom\<close> (lines 240 and 295): the patch
  sent to the server is the difference between the object it read and the object it wants, and the
  server merges it by the names of the entries into whatever it holds by then.  The abstract state is
  the multiset of attachments of every machine; seen there, a whole publish call is one atomic
  attachment and a whole unpublish call one atomic detachment, at some moment between its start and
  its end, however the steps of others fall between its reads and its patch.
\<close>

section \<open>The abstract state and its two operations\<close>

type_synonym refs = "(string \<times> string option) multiset"
type_synonym attachments = "ObjectKey \<Rightarrow> refs option"

definition attachments_of :: "(ObjectKey \<Rightarrow> Machine option) \<Rightarrow> attachments" where
  "attachments_of s = (\<lambda>k. map_option (\<lambda>m. refs (m_Volumes m)) (s k))"

definition others_of :: "string \<Rightarrow> refs \<Rightarrow> refs" where
  "others_of v R = {#x \<in># R. fst x \<noteq> attachmentName v#}"

definition attach_ref :: "string \<Rightarrow> refs \<Rightarrow> refs" where
  "attach_ref v R = add_mset (attachmentName v, Some v) (others_of v R)"

text \<open>One of the two operations, on one machine.\<close>

definition on_machine :: "ObjectKey \<Rightarrow> (refs \<Rightarrow> refs) \<Rightarrow> attachments \<Rightarrow> attachments" where
  "on_machine k f A = A(k := map_option f (A k))"

definition attachments_ok :: "attachments \<Rightarrow> bool" where
  "attachments_ok A \<longleftrightarrow> (\<forall>k R. A k = Some R \<longrightarrow> well_attached R)"

lemma others_of_other: "n \<noteq> attachmentName v \<Longrightarrow> (n, r) \<in># others_of v R \<longleftrightarrow> (n, r) \<in># R"
  by (simp add: others_of_def)

lemma others_of_attach [simp]: "others_of v (attach_ref v R) = others_of v R"
  by (simp add: others_of_def attach_ref_def filter_filter_mset)

lemma others_of_idem [simp]: "others_of v (others_of v R) = others_of v R"
  by (simp add: others_of_def filter_filter_mset)

lemma well_attached_others:
  assumes "well_attached R"
  shows "well_attached (others_of v R)"
proof -
  have "well_attached (S + T) \<Longrightarrow> well_attached S" for S T
    by (induction T) (auto dest: well_attached_sub)
  then show ?thesis
    using assms multiset_partition [of R "\<lambda>x. fst x \<noteq> attachmentName v"] unfolding others_of_def by metis
qed

lemma own_absent: "count (image_mset fst (others_of v R)) (attachmentName v) = 0"
  by (auto simp: others_of_def count_eq_zero_iff)

lemma well_attached_attach: "well_attached R \<Longrightarrow> well_attached (attach_ref v R)"
  unfolding attach_ref_def by (intro well_attached_add well_attached_others own_absent)

lemma on_machine_ok:
  assumes "attachments_ok A" and "\<And>R. well_attached R \<Longrightarrow> well_attached (f R)"
  shows "attachments_ok (on_machine k f A)"
  using assms by (auto simp: attachments_ok_def on_machine_def split: if_splits)

lemma attachments_ok_ops:
  "attachments_ok A \<Longrightarrow> attachments_ok (on_machine k (attach_ref v) A)"
  "attachments_ok A \<Longrightarrow> attachments_ok (on_machine k (others_of v) A)"
  by (rule on_machine_ok; simp add: well_attached_attach well_attached_others)+

section \<open>The merge of a patch\<close>

text \<open>
  What a strategic merge keyed by the entries' names does to the entries \<open>R\<close> the server holds, for a
  patch from \<open>B\<close> to \<open>N\<close>: the names the two differ in take their entries from \<open>N\<close>, every other entry
  stays.
\<close>

definition merge_refs :: "refs \<Rightarrow> refs \<Rightarrow> refs \<Rightarrow> refs" where
  "merge_refs B N R = (N - B) + {#x \<in># R. fst x \<notin> fst ` set_mset ((N - B) + (B - N))#}"

lemma merge_attach: "merge_refs (refs vols) (refs (appendAttachment v vols)) R = attach_ref v R"
  by (simp add: merge_refs_def refs_append attach_ref_def others_of_def)

lemma merge_detach:
  assumes "0 \<le> volumeAttachmentIndex vols (attachmentName v)"
  shows "merge_refs (refs vols)
    (refs (deleteAttachment (nat (volumeAttachmentIndex vols (attachmentName v))) vols)) R = others_of v R"
proof -
  obtain r where "refs vols = add_mset (attachmentName v, r)
      (refs (deleteAttachment (nat (volumeAttachmentIndex vols (attachmentName v))) vols))"
    using assms by (rule refs_delete)
  then show ?thesis by (simp add: merge_refs_def others_of_def)
qed

section \<open>The server\<close>

text \<open>
  \<open>merging_server c att rely\<close>, for what others do in one step (\<open>rely\<close>): before and after its own
  effect, every call lets others make any number of steps; a read answers with the machine as it was
  at one moment in between; a patch is merged into the machine at one moment in between, or fails
  without effect; a patch that reports an error may have been applied.
\<close>

definition merging_server :: "'w Client \<Rightarrow> ('w \<Rightarrow> attachments) \<Rightarrow> (attachments \<Rightarrow> attachments \<Rightarrow> bool) \<Rightarrow> bool" where
  "merging_server c att rely \<longleftrightarrow>
     (\<forall>k w r w'. GetMachine c k w = (r, w') \<longrightarrow>
        (\<exists>A. rely\<^sup>*\<^sup>* (att w) A \<and> rely\<^sup>*\<^sup>* A (att w') \<and>
          (\<forall>m. r = Inr m \<longrightarrow> machine_key m = k \<and> A k = Some (refs (m_Volumes m))))) \<and>
     (\<forall>k w r w'. GetVolume c k w = (r, w') \<longrightarrow> rely\<^sup>*\<^sup>* (att w) (att w')) \<and>
     (\<forall>base m w r w'. PatchMachine c base m w = (r, w') \<longrightarrow>
        (\<exists>A B. rely\<^sup>*\<^sup>* (att w) A \<and> rely\<^sup>*\<^sup>* B (att w') \<and>
          (isl r \<and> B = A \<or>
           A (machine_key m) \<noteq> None \<and>
           B = on_machine (machine_key m) (merge_refs (refs (m_Volumes base)) (refs (m_Volumes m))) A \<and>
           (\<forall>x. r = Inr x \<longrightarrow> B (machine_key m) = Some (refs (m_Volumes x))))))"

definition watching_nodes :: "'w Client \<Rightarrow> ('w \<Rightarrow> attachments) \<Rightarrow> (attachments \<Rightarrow> attachments \<Rightarrow> bool) \<Rightarrow> bool" where
  "watching_nodes c att rely \<longleftrightarrow> (\<forall>k w r w'. GetNode c k w = (r, w') \<longrightarrow> rely\<^sup>*\<^sup>* (att w) (att w'))"

text \<open>What the two laws give for one call.\<close>

lemma merging_serverD:
  assumes "merging_server c att rely"
  shows "GetMachine c k w = (r, w') \<Longrightarrow> \<exists>A. rely\<^sup>*\<^sup>* (att w) A \<and> rely\<^sup>*\<^sup>* A (att w') \<and>
      (\<forall>m. r = Inr m \<longrightarrow> machine_key m = k \<and> A k = Some (refs (m_Volumes m)))"
    and "GetVolume c k w = (rv, w') \<Longrightarrow> rely\<^sup>*\<^sup>* (att w) (att w')"
    and "PatchMachine c base m w = (r, w') \<Longrightarrow> \<exists>A B. rely\<^sup>*\<^sup>* (att w) A \<and> rely\<^sup>*\<^sup>* B (att w') \<and>
      (isl r \<and> B = A \<or> A (machine_key m) \<noteq> None \<and>
       B = on_machine (machine_key m) (merge_refs (refs (m_Volumes base)) (refs (m_Volumes m))) A \<and>
       (\<forall>x. r = Inr x \<longrightarrow> B (machine_key m) = Some (refs (m_Volumes x))))"
  using assms unfolding merging_server_def by blast+

lemma watching_nodesD: "watching_nodes c att rely \<Longrightarrow> GetNode c k w = (r, w') \<Longrightarrow> rely\<^sup>*\<^sup>* (att w) (att w')"
  unfolding watching_nodes_def by blast

section \<open>One call is one atomic operation\<close>

text \<open>
  \<open>atomic rely op post A B\<close>: from \<open>A\<close> to \<open>B\<close> by steps of others and, at one moment, at most one
  execution of \<open>op\<close>; \<open>post\<close> holds at that moment.
\<close>

definition atomic ::
    "(attachments \<Rightarrow> attachments \<Rightarrow> bool) \<Rightarrow> (attachments \<Rightarrow> attachments) \<Rightarrow> (attachments \<Rightarrow> bool) \<Rightarrow>
       attachments \<Rightarrow> attachments \<Rightarrow> bool" where
  "atomic rely op post A0 B0 \<longleftrightarrow>
     (\<exists>A B. rely\<^sup>*\<^sup>* A0 A \<and> (B = A \<or> B = op A) \<and> rely\<^sup>*\<^sup>* B B0 \<and> post B)"

lemma atomic_quiet: "rely\<^sup>*\<^sup>* A0 A \<Longrightarrow> post A \<Longrightarrow> rely\<^sup>*\<^sup>* A B0 \<Longrightarrow> atomic rely op post A0 B0"
  unfolding atomic_def by blast

lemma atomic_extend:
  assumes "rely\<^sup>*\<^sup>* A0 A" and "atomic rely op post A B" and "rely\<^sup>*\<^sup>* B B0"
  shows "atomic rely op post A0 B0"
  using assms(2) rtranclp_trans [OF assms(1)] rtranclp_trans [OF _ assms(3)] unfolding atomic_def by blast

lemma atomic_mono: "atomic rely op post A0 B0 \<Longrightarrow> (\<And>A. post A \<Longrightarrow> post' A) \<Longrightarrow> atomic rely op post' A0 B0"
  unfolding atomic_def by blast

definition lists_attachment :: "ObjectKey \<Rightarrow> string \<Rightarrow> attachments \<Rightarrow> bool" where
  "lists_attachment k v A \<longleftrightarrow> (\<exists>R. A k = Some R \<and> attachmentName v \<in> fst ` set_mset R)"

definition lists_none :: "ObjectKey \<Rightarrow> string \<Rightarrow> attachments \<Rightarrow> bool" where
  "lists_none k v A \<longleftrightarrow> (\<exists>R. A k = Some R \<and> attachmentName v \<notin> fst ` set_mset R)"

lemma lists_refs:
  "attachmentName v \<in> fst ` set_mset (refs vols) \<longleftrightarrow> attachmentName v \<in> set (attachmentNames vols)"
  using names_refs [of vols] by (metis set_image_mset set_mset_mset)

lemma patch_atomic:
  assumes "merging_server c att rely" and "PatchMachine c base m w = (r, w')" and "machine_key m = k"
    and merge: "\<And>R. merge_refs (refs (m_Volumes base)) (refs (m_Volumes m)) R = f R"
    and post: "\<And>A. A k \<noteq> None \<Longrightarrow> post (on_machine k f A)" "\<And>A. isl r \<Longrightarrow> post A"
  shows "atomic rely (on_machine k f) post (att w) (att w')"
proof -
  have eq: "merge_refs (refs (m_Volumes base)) (refs (m_Volumes m)) = f"
    by (rule ext) (rule merge)
  obtain A B where AB: "rely\<^sup>*\<^sup>* (att w) A" "rely\<^sup>*\<^sup>* B (att w')"
      and "isl r \<and> B = A \<or> A k \<noteq> None \<and> B = on_machine k f A"
    using merging_serverD(3) [OF assms(1,2)] unfolding assms(3) eq by blast
  then have "(B = A \<or> B = on_machine k f A) \<and> post B"
    using post by auto
  with AB show ?thesis unfolding atomic_def by blast
qed

lemma attach_atomic:
  assumes server: "merging_server (d_ironcoreClient d) att rely"
    and run: "attachToMachine d req w = (r, w')"
  shows "atomic rely (on_machine (machineKeyOf d req) (attach_ref (cp_VolumeId req)))
      (\<lambda>B. \<forall>m. r = Inr m \<longrightarrow> lists_attachment (machineKeyOf d req) (cp_VolumeId req) B) (att w) (att w')"
proof -
  let ?key = "machineKeyOf d req" and ?n = "attachmentName (cp_VolumeId req)"
  obtain gm w1 where gm: "GetMachine (d_ironcoreClient d) ?key w = (gm, w1)" by (metis surj_pair)
  obtain A where A: "rely\<^sup>*\<^sup>* (att w) A" "rely\<^sup>*\<^sup>* A (att w1)"
      and read: "\<And>m. gm = Inr m \<Longrightarrow> machine_key m = ?key \<and> A ?key = Some (refs (m_Volumes m))"
    using merging_serverD(1) [OF server gm] by blast
  show ?thesis
  proof (cases gm)
    case (Inl e)
    with run gm have "w' = w1 \<and> isl r" by (auto simp: attachToMachine_def)
    with A show ?thesis by (intro atomic_quiet [OF A(1)]) auto
  next
    case (Inr base)
    note base = read [OF Inr]
    show ?thesis
    proof (cases "?n \<in> set (attachmentNames (m_Volumes base))")
      case True
      with run gm Inr have "w' = w1" by (auto simp: attachToMachine_def machine_volumes.index_neg)
      with A base True show ?thesis
        by (intro atomic_quiet [OF A(1)]) (simp_all add: lists_attachment_def lists_refs)
    next
      case False
      let ?new = "base\<lparr>m_Volumes := appendAttachment (cp_VolumeId req) (m_Volumes base)\<rparr>"
      have newkey: "machine_key ?new = ?key" using base by (simp add: machine_key_def)
      obtain pm w2 where pm: "PatchMachine (d_ironcoreClient d) base ?new w1 = (pm, w2)" by (metis surj_pair)
      have res: "w' = w2" "isl pm \<Longrightarrow> isl r"
        using run gm Inr pm False
        by (auto simp: attachToMachine_def machine_volumes.index_neg Let_def split: sum.splits)
      have "atomic rely (on_machine ?key (attach_ref (cp_VolumeId req)))
          (\<lambda>B. \<forall>m. r = Inr m \<longrightarrow> lists_attachment ?key (cp_VolumeId req) B) (att w1) (att w2)"
        by (rule patch_atomic [OF server pm newkey])
          (use res(2) in \<open>auto simp: merge_attach lists_attachment_def on_machine_def attach_ref_def\<close>)
      then show ?thesis
        unfolding res(1) using A by (meson atomic_extend rtranclp.rtrancl_refl rtranclp_trans)
    qed
  qed
qed

lemma detach_atomic:
  assumes server: "merging_server (d_ironcoreClient d) att rely"
    and run: "detachFromMachine d req w = (r, w')"
  shows "atomic rely (on_machine (machineKeyOf d req) (others_of (cp_VolumeId req)))
      (\<lambda>B. r = Ok () \<longrightarrow> lists_none (machineKeyOf d req) (cp_VolumeId req) B) (att w) (att w')"
proof -
  let ?key = "machineKeyOf d req" and ?n = "attachmentName (cp_VolumeId req)"
  obtain gm w1 where gm: "GetMachine (d_ironcoreClient d) ?key w = (gm, w1)" by (metis surj_pair)
  obtain A where A: "rely\<^sup>*\<^sup>* (att w) A" "rely\<^sup>*\<^sup>* A (att w1)"
      and read: "\<And>m. gm = Inr m \<Longrightarrow> machine_key m = ?key \<and> A ?key = Some (refs (m_Volumes m))"
    using merging_serverD(1) [OF server gm] by blast
  show ?thesis
  proof (cases gm)
    case (Inl e)
    with run gm have "w' = w1 \<and> r \<noteq> Ok ()" by (auto simp: detachFromMachine_def)
    with A show ?thesis by (intro atomic_quiet [OF A(1)]) auto
  next
    case (Inr base)
    note base = read [OF Inr]
    show ?thesis
    proof (cases "?n \<in> set (attachmentNames (m_Volumes base))")
      case False
      with run gm Inr have "w' = w1" by (auto simp: detachFromMachine_def machine_volumes.index_nonneg)
      with A base False show ?thesis
        by (intro atomic_quiet [OF A(1)]) (simp_all add: lists_none_def lists_refs)
    next
      case True
      then have idx: "0 \<le> volumeAttachmentIndex (m_Volumes base) ?n"
        by (simp add: machine_volumes.index_nonneg)
      let ?new = "base\<lparr>m_Volumes := deleteAttachment (nat (volumeAttachmentIndex (m_Volumes base) ?n)) (m_Volumes base)\<rparr>"
      have newkey: "machine_key ?new = ?key" using base by (simp add: machine_key_def)
      obtain pm w2 where pm: "PatchMachine (d_ironcoreClient d) base ?new w1 = (pm, w2)" by (metis surj_pair)
      have res: "w' = w2" "isl pm \<Longrightarrow> r \<noteq> Ok ()"
        using run gm Inr pm idx by (auto simp: detachFromMachine_def Let_def split: sum.splits)
      have "atomic rely (on_machine ?key (others_of (cp_VolumeId req)))
          (\<lambda>B. r = Ok () \<longrightarrow> lists_none ?key (cp_VolumeId req) B) (att w1) (att w2)"
        by (rule patch_atomic [OF server pm newkey])
          (use res(2) in \<open>auto simp: merge_detach [OF idx] lists_none_def on_machine_def others_of_def\<close>)
      then show ?thesis
        unfolding res(1) using A by (meson atomic_extend rtranclp.rtrancl_refl rtranclp_trans)
    qed
  qed
qed

lemma publish_atomic:
  assumes server: "merging_server (d_ironcoreClient d) att rely"
    and run: "ControllerPublishVolume d req w = (r, w')"
  shows "atomic rely (on_machine (machineKeyOf d req) (attach_ref (cp_VolumeId req)))
      (\<lambda>B. is_ok r \<longrightarrow> lists_attachment (machineKeyOf d req) (cp_VolumeId req) B) (att w) (att w')"
proof -
  obtain ar w1 where at: "attachToMachine d req w = (ar, w1)" by (metis surj_pair)
  have steps: "rely\<^sup>*\<^sup>* (att w1) (att w')" and ok: "is_ok r \<Longrightarrow> \<exists>m. ar = Inr m"
    using run at
    by (auto simp: ControllerPublishVolume_def split: outcome_splits dest!: merging_serverD(2) [OF server])
  from atomic_extend [OF rtranclp.rtrancl_refl attach_atomic [OF server at] steps] show ?thesis
    by (rule atomic_mono) (use ok in blast)
qed

lemma unpublish_atomic:
  assumes server: "merging_server (d_ironcoreClient d) att rely"
    and nodes: "watching_nodes (d_targetClient d) att rely"
    and run: "ControllerUnpublishVolume d req w = (r, w')"
  shows "atomic rely (on_machine (machineKeyOf d req) (others_of (cp_VolumeId req)))
      (\<lambda>B. r = Ok () \<longrightarrow>
        \<not> isl (fst (GetNode (d_targetClient d) \<lparr>key_Namespace = '''', key_Name = cp_NodeId req\<rparr> w)) \<longrightarrow>
        lists_none (machineKeyOf d req) (cp_VolumeId req) B) (att w) (att w')"
proof -
  obtain gn w1 where gn: "GetNode (d_targetClient d) \<lparr>key_Namespace = '''', key_Name = cp_NodeId req\<rparr> w = (gn, w1)"
    by (metis surj_pair)
  note steps = watching_nodesD [OF nodes gn]
  show ?thesis
  proof (cases gn)
    case (Inl e)
    with run gn have "w' = w1" by (auto simp: ControllerUnpublishVolume_def nodeExists_def split: if_splits)
    with steps Inl gn show ?thesis by (intro atomic_quiet [OF steps]) simp_all
  next
    case (Inr node)
    with run gn have "detachFromMachine d req w1 = (r, w')"
      by (simp add: ControllerUnpublishVolume_def nodeExists_def)
    from atomic_extend [OF steps detach_atomic [OF server this] rtranclp.rtrancl_refl] show ?thesis
      by (rule atomic_mono) simp
  qed
qed

section \<open>Everybody together\<close>

text \<open>
  What can happen to the attachments at all: somebody else changes machines without adding entries
  under the names of this driver (the server rejects duplicate names), or a call of this driver, in
  this process or another, executes its operation.  A whole call, seen from outside, is a sequence of
  such steps, and so the steps of one call are covered by what every other call is prepared for.
\<close>

definition outside_refs :: "attachments \<Rightarrow> attachments \<Rightarrow> bool" where
  "outside_refs A B \<longleftrightarrow> (\<forall>k R'. B k = Some R' \<longrightarrow> (\<forall>n. count (image_mset fst R') n \<le> 1) \<and>
     (\<forall>v r. (attachmentName v, r) \<in># R' \<longrightarrow> (\<exists>R. A k = Some R \<and> (attachmentName v, r) \<in># R)))"

inductive system_step :: "attachments \<Rightarrow> attachments \<Rightarrow> bool" where
  step_outside: "outside_refs A B \<Longrightarrow> system_step A B"
| step_attach: "system_step A (on_machine k (attach_ref v) A)"
| step_detach: "system_step A (on_machine k (others_of v) A)"

inductive_cases system_stepE: "system_step A B"

lemma system_step_ok: "system_step A B \<Longrightarrow> attachments_ok A \<Longrightarrow> attachments_ok B"
proof (erule system_stepE)
  assume "outside_refs A B" and "attachments_ok A"
  then show "attachments_ok B"
    unfolding outside_refs_def attachments_ok_def well_attached_def by metis
qed (simp_all add: attachments_ok_ops)

lemma system_steps_ok: "system_step\<^sup>*\<^sup>* A B \<Longrightarrow> attachments_ok A \<Longrightarrow> attachments_ok B"
  by (induction rule: rtranclp_induct) (auto dest: system_step_ok)

lemma atomic_system:
  assumes "atomic system_step op post A B" and "\<And>A. system_step A (op A)"
  shows "system_step\<^sup>*\<^sup>* A B"
proof -
  obtain X Y where "system_step\<^sup>*\<^sup>* A X" "Y = X \<or> Y = op X" "system_step\<^sup>*\<^sup>* Y B"
    using assms(1) unfolding atomic_def by blast
  with assms(2) show ?thesis by (metis rtranclp.rtrancl_into_rtrancl rtranclp_trans)
qed

text \<open>
  C1: One call is one atomic operation.  For every behaviour of the others between the client calls:
  from its start to its end, a publish call attaches the volume to the machine of the node at no more
  than one moment, an unpublish call detaches it at no more than one moment, neither does anything else
  to any machine, and a success means that at that moment the machine listed the attachment,
  respectively did not list it; although both calls read the machine first and send a patch computed
  from what they read.
\<close>

theorem attachment_calls_are_atomic:
  assumes "merging_server (d_ironcoreClient d) att rely" and "watching_nodes (d_targetClient d) att rely"
  shows "(\<forall>w r w'. ControllerPublishVolume d req w = (r, w') \<longrightarrow>
      (\<exists>A B. rely\<^sup>*\<^sup>* (att w) A \<and> (B = A \<or> B = on_machine (machineKeyOf d req) (attach_ref (cp_VolumeId req)) A) \<and>
        rely\<^sup>*\<^sup>* B (att w') \<and> (is_ok r \<longrightarrow> lists_attachment (machineKeyOf d req) (cp_VolumeId req) B)))
    \<and> (\<forall>w r w'. ControllerUnpublishVolume d req w = (r, w') \<longrightarrow>
      (\<exists>A B. rely\<^sup>*\<^sup>* (att w) A \<and> (B = A \<or> B = on_machine (machineKeyOf d req) (others_of (cp_VolumeId req)) A) \<and>
        rely\<^sup>*\<^sup>* B (att w') \<and> (r = Ok () \<longrightarrow>
          \<not> isl (fst (GetNode (d_targetClient d) \<lparr>key_Namespace = '''', key_Name = cp_NodeId req\<rparr> w)) \<longrightarrow>
          lists_none (machineKeyOf d req) (cp_VolumeId req) B)))"
  by (intro conjI allI impI; (drule publish_atomic [OF assms(1)] | drule unpublish_atomic [OF assms]))
    (simp_all only: atomic_def)

text \<open>Calls of any number of drivers on the same server, one after the other or at the same time.\<close>

inductive shared_step :: "('w driver \<Rightarrow> bool) \<Rightarrow> ('w \<Rightarrow> attachments) \<Rightarrow> 'w \<Rightarrow> 'w \<Rightarrow> bool"
  for drivers att where
  shared_publish: "drivers d \<Longrightarrow> ControllerPublishVolume d req w = (r, w') \<Longrightarrow> shared_step drivers att w w'"
| shared_unpublish: "drivers d \<Longrightarrow> ControllerUnpublishVolume d req w = (r, w') \<Longrightarrow> shared_step drivers att w w'"
| shared_others: "system_step\<^sup>*\<^sup>* (att w) (att w') \<Longrightarrow> shared_step drivers att w w'"

lemma shared_step_system:
  assumes "\<And>d. drivers d \<Longrightarrow> merging_server (d_ironcoreClient d) att system_step"
    and "\<And>d. drivers d \<Longrightarrow> watching_nodes (d_targetClient d) att system_step"
    and "shared_step drivers att w w'"
  shows "system_step\<^sup>*\<^sup>* (att w) (att w')"
  using assms(3)
proof cases
  case (shared_publish d req r)
  show ?thesis
    by (rule atomic_system [OF publish_atomic [OF assms(1) shared_publish(2)] step_attach]) (rule shared_publish(1))
next
  case (shared_unpublish d req r)
  show ?thesis
    by (rule atomic_system [OF unpublish_atomic [OF assms(1,2) shared_unpublish(2)] step_detach])
      (rule shared_unpublish(1))+
next
  case shared_others
  then show ?thesis .
qed

text \<open>
  C7: However many controllers run against the same cluster, however their publish and unpublish calls
  overlap with each other between any two client calls, and whatever other parties do to the machines,
  the attachments of every machine keep distinct names, and an entry under the name of a volume of this
  driver refers to that volume; stale reads, failed calls and patches that take effect although they
  report an error are included.
\<close>

theorem concurrent_attachments_invariant:
  assumes "\<And>d. drivers d \<Longrightarrow> merging_server (d_ironcoreClient d) att system_step"
    and "\<And>d. drivers d \<Longrightarrow> watching_nodes (d_targetClient d) att system_step"
    and "attachments_ok (att w0)" and "(shared_step drivers att)\<^sup>*\<^sup>* w0 w" and "att w k = Some R"
  shows "(\<forall>n. count (image_mset fst R) n \<le> 1) \<and> (\<forall>v r. (attachmentName v, r) \<in># R \<longrightarrow> r = Some v)"
proof -
  have "system_step\<^sup>*\<^sup>* (att w0) (att w)"
    using assms(4)
  proof (induction rule: rtranclp_induct)
    case (step y z)
    from shared_step_system [OF assms(1,2) step(2)] have "system_step\<^sup>*\<^sup>* (att y) (att z)" .
    with step(3) show ?case by (rule rtranclp_trans)
  qed simp
  from system_steps_ok [OF this assms(3)] assms(5) show ?thesis
    unfolding attachments_ok_def well_attached_def by blast
qed

section \<open>Serial access to a volume\<close>

text \<open>
  The CSI server is told to serialise the calls on a volume.  While a call on volume \<open>v\<close> and
  machine \<open>k\<close> runs, others then do anything but touch the entries of \<open>v\<close> on \<open>k\<close>: attach and detach
  other volumes there, and any volume elsewhere.
\<close>

definition own_refs :: "ObjectKey \<Rightarrow> string \<Rightarrow> attachments \<Rightarrow> refs option" where
  "own_refs k v A = map_option (filter_mset (\<lambda>x. fst x = attachmentName v)) (A k)"

definition interference :: "ObjectKey \<Rightarrow> string \<Rightarrow> attachments \<Rightarrow> attachments \<Rightarrow> bool" where
  "interference k v A B \<longleftrightarrow> (attachments_ok A \<longrightarrow> attachments_ok B) \<and> own_refs k v B = own_refs k v A"

lemma own_refs_ops:
  "k' \<noteq> k \<or> u \<noteq> v \<Longrightarrow> own_refs k v (on_machine k' (attach_ref u) A) = own_refs k v A"
  "k' \<noteq> k \<or> u \<noteq> v \<Longrightarrow> own_refs k v (on_machine k' (others_of u) A) = own_refs k v A"
  by (auto simp: own_refs_def on_machine_def attach_ref_def others_of_def filter_filter_mset option.map_comp o_def
      intro!: option.map_cong filter_mset_cong)

lemma concurrent_calls_interfere:
  "k' \<noteq> k \<or> u \<noteq> v \<Longrightarrow> interference k v A (on_machine k' (attach_ref u) A)"
  "k' \<noteq> k \<or> u \<noteq> v \<Longrightarrow> interference k v A (on_machine k' (others_of u) A)"
  by (simp_all add: interference_def own_refs_ops attachments_ok_ops)

lemma interference_steps:
  "(interference k v)\<^sup>*\<^sup>* A B \<Longrightarrow> (attachments_ok A \<longrightarrow> attachments_ok B) \<and> own_refs k v B = own_refs k v A"
  by (induction rule: rtranclp_induct) (auto simp: interference_def)

text \<open>The view in which the entry of the volume on the machine is masked.\<close>

definition masked :: "ObjectKey \<Rightarrow> string \<Rightarrow> attachments \<Rightarrow> attachments" where
  "masked k v = on_machine k (others_of v)"

definition masked_steps ::
    "(attachments \<Rightarrow> attachments \<Rightarrow> bool) \<Rightarrow> ObjectKey \<Rightarrow> string \<Rightarrow> attachments \<Rightarrow> attachments \<Rightarrow> bool" where
  "masked_steps rely k v = (\<lambda>X Y. \<exists>A B. rely A B \<and> X = masked k v A \<and> Y = masked k v B)\<^sup>*\<^sup>*"

lemma masked_ops [simp]:
  "masked k v (on_machine k (attach_ref v) A) = masked k v A"
  "masked k v (on_machine k (others_of v) A) = masked k v A"
  by (simp_all add: masked_def on_machine_def option.map_comp o_def)

lemma masked_rely: "rely\<^sup>*\<^sup>* A B \<Longrightarrow> masked_steps rely k v (masked k v A) (masked k v B)"
  unfolding masked_steps_def
  by (induction rule: rtranclp_induct) (blast intro: rtranclp.rtrancl_into_rtrancl)+

lemma masked_trans: "masked_steps rely k v X Y \<Longrightarrow> masked_steps rely k v Y Z \<Longrightarrow> masked_steps rely k v X Z"
  unfolding masked_steps_def by (rule rtranclp_trans)

lemma masked_atomic:
  assumes "atomic rely op post A B" and "\<And>A. masked k v (op A) = masked k v A"
  shows "masked_steps rely k v (masked k v A) (masked k v B)"
proof -
  obtain X Y where "rely\<^sup>*\<^sup>* A X" "Y = X \<or> Y = op X" "rely\<^sup>*\<^sup>* Y B"
    using assms(1) unfolding atomic_def by blast
  then have "masked_steps rely k v (masked k v A) (masked k v X)" "masked k v Y = masked k v X"
      "masked_steps rely k v (masked k v Y) (masked k v B)"
    using assms(2) masked_rely by auto
  then show ?thesis by (metis masked_trans)
qed

lemma well_attached_single:
  assumes "well_attached R" and "attachmentName v \<in> fst ` set_mset R"
  shows "filter_mset (\<lambda>x. fst x = attachmentName v) R = {#(attachmentName v, Some v)#}"
proof -
  obtain vols where R: "R = refs vols"
  proof -
    obtain xs where "mset xs = R" using ex_mset by blast
    then have "R = refs (map (\<lambda>(n, r). \<lparr>mv_Name = n, mv_Device = None, mv_VolumeRef = r\<rparr>) xs)"
      by (simp add: refs_def o_def case_prod_beta)
    then show thesis by (rule that)
  qed
  show ?thesis
    using well_attached_own [of vols v] assms unfolding R lists_refs by simp
qed

lemma own_after_publish:
  assumes "rely \<le> interference k v"
    and "atomic rely (on_machine k (attach_ref v)) (lists_attachment k v) A B" and "attachments_ok A"
  shows "own_refs k v B = Some {#(attachmentName v, Some v)#} \<and> attachments_ok B"
proof -
  have steps: "(attachments_ok X \<longrightarrow> attachments_ok Y) \<and> own_refs k v Y = own_refs k v X" if "rely\<^sup>*\<^sup>* X Y" for X Y
    using interference_steps rtranclp_mono [OF assms(1)] that by blast
  obtain X Y where xy: "rely\<^sup>*\<^sup>* A X" "Y = X \<or> Y = on_machine k (attach_ref v) X" "rely\<^sup>*\<^sup>* Y B" "lists_attachment k v Y"
    using assms(2) unfolding atomic_def by blast
  have ok: "attachments_ok Y"
    using steps [OF xy(1)] assms(3) xy(2) attachments_ok_ops by blast
  then have "own_refs k v Y = Some {#(attachmentName v, Some v)#}"
    using xy(4) by (auto simp: own_refs_def lists_attachment_def attachments_ok_def intro: well_attached_single)
  with steps [OF xy(3)] ok show ?thesis by simp
qed

lemma own_after_unpublish:
  assumes "rely \<le> interference k v" and "atomic rely (on_machine k (others_of v)) (lists_none k v) A B"
  shows "own_refs k v B = Some {#}"
proof -
  obtain Y where "rely\<^sup>*\<^sup>* Y B" and none: "lists_none k v Y"
    using assms(2) unfolding atomic_def by blast
  then have "own_refs k v B = own_refs k v Y"
    using interference_steps rtranclp_mono [OF assms(1)] by blast
  moreover have "filter_mset (\<lambda>x. fst x = attachmentName v) R = {#}" if "attachmentName v \<notin> fst ` set_mset R" for R :: refs
    using that by (auto simp: filter_mset_eq_conv image_iff)
  ultimately show ?thesis
    using none by (auto simp: own_refs_def lists_none_def)
qed

text \<open>
  C9: No update is lost, whatever happens at the same time on the same machine: with serial access to
  the volume, a successful publish leaves exactly one entry of the volume on the machine, which refers
  to it, a later successful unpublish leaves none, and in between and around them every other entry on
  every machine changes only by the steps of the others: not one of those steps is overwritten by the
  two calls, although both patch lists they read earlier.
\<close>

theorem concurrent_roundtrip:
  assumes "merging_server (d_ironcoreClient d) att rely" and "watching_nodes (d_targetClient d) att rely"
    and "rely \<le> interference (machineKeyOf d req) (cp_VolumeId req)" and "attachments_ok (att w0)"
    and "ControllerPublishVolume d req w0 = (Ok ctx, w1)"
    and "rely\<^sup>*\<^sup>* (att w1) (att w2)"
    and "ControllerUnpublishVolume d req w2 = (Ok (), w3)"
    and "fst (GetNode (d_targetClient d) \<lparr>key_Namespace = '''', key_Name = cp_NodeId req\<rparr> w2) = Inr node"
  shows "own_refs (machineKeyOf d req) (cp_VolumeId req) (att w1)
      = Some {#(attachmentName (cp_VolumeId req), Some (cp_VolumeId req))#}
    \<and> own_refs (machineKeyOf d req) (cp_VolumeId req) (att w3) = Some {#}
    \<and> masked_steps rely (machineKeyOf d req) (cp_VolumeId req)
        (masked (machineKeyOf d req) (cp_VolumeId req) (att w0))
        (masked (machineKeyOf d req) (cp_VolumeId req) (att w3))"
proof -
  note pub = publish_atomic [OF assms(1,5)] and unpub = unpublish_atomic [OF assms(1,2,7)]
  have "masked_steps rely (machineKeyOf d req) (cp_VolumeId req)
      (masked (machineKeyOf d req) (cp_VolumeId req) (att w0)) (masked (machineKeyOf d req) (cp_VolumeId req) (att w3))"
    by (rule masked_trans [OF masked_atomic [OF pub masked_ops(1)]
          masked_trans [OF masked_rely [OF assms(6)] masked_atomic [OF unpub masked_ops(2)]]])
  moreover have "own_refs (machineKeyOf d req) (cp_VolumeId req) (att w1)
      = Some {#(attachmentName (cp_VolumeId req), Some (cp_VolumeId req))#}"
    using own_after_publish [OF assms(3) atomic_mono [OF pub] assms(4)] by simp
  moreover have "own_refs (machineKeyOf d req) (cp_VolumeId req) (att w3) = Some {#}"
    using own_after_unpublish [OF assms(3) atomic_mono [OF unpub]] assms(8) by simp
  ultimately show ?thesis by blast
qed

section \<open>A busy server\<close>

text \<open>
  Before it merges a patch, somebody else attaches another volume to the same machine.
\<close>

definition ref_pairs :: "MachineVolume list \<Rightarrow> (string \<times> string option) list" where
  "ref_pairs vols = map (\<lambda>v. (mv_Name v, mv_VolumeRef v)) vols"

definition merge_vols :: "MachineVolume list \<Rightarrow> MachineVolume list \<Rightarrow> MachineVolume list \<Rightarrow> MachineVolume list" where
  "merge_vols base new old =
     (let added = filter (\<lambda>v. (mv_Name v, mv_VolumeRef v) \<notin> set (ref_pairs base)) new;
          gone = filter (\<lambda>v. (mv_Name v, mv_VolumeRef v) \<notin> set (ref_pairs new)) base
      in added @ filter (\<lambda>v. mv_Name v \<notin> set (attachmentNames (added @ gone))) old)"

lemma mset_minus_distinct:
  assumes "distinct xs" and "distinct ys"
  shows "mset xs - mset ys = mset (filter (\<lambda>x. x \<notin> set ys) xs)"
proof (rule multiset_eqI)
  fix a :: 'a
  have "count (mset zs) a = (if a \<in> set zs then 1 else 0)" if "distinct zs" for zs :: "'a list"
    using that by (simp add: distinct_count_atmost_1)
  then show "count (mset xs - mset ys) a = count (mset (filter (\<lambda>x. x \<notin> set ys) xs)) a"
    using assms by simp
qed

lemma merge_vols_refs:
  assumes "distinct (attachmentNames base)" and "distinct (attachmentNames new)"
  shows "refs (merge_vols base new old) = merge_refs (refs base) (refs new) (refs old)"
proof -
  have dist: "distinct (ref_pairs vols)" if "distinct (attachmentNames vols)" for vols
    using that by (auto simp: ref_pairs_def attachmentNames_def distinct_map inj_on_def)
  have pairs: "refs vols = mset (ref_pairs vols)" for vols
    by (simp add: refs_def ref_pairs_def)
  have minus: "refs a - refs b = refs (filter (\<lambda>v. (mv_Name v, mv_VolumeRef v) \<notin> set (ref_pairs b)) a)"
    if "distinct (attachmentNames a)" "distinct (attachmentNames b)" for a b
    unfolding pairs mset_minus_distinct [OF dist [OF that(1)] dist [OF that(2)]]
    by (simp add: ref_pairs_def filter_map o_def)
  have names: "fst ` set_mset (refs vols) = set (attachmentNames vols)" for vols
    by (auto simp: refs_def attachmentNames_def image_iff)
  have filt: "refs (filter (\<lambda>v. mv_Name v \<notin> N) vols) = {#x \<in># refs vols. fst x \<notin> N#}" for N vols
    by (simp add: refs_def filter_mset_image_mset mset_filter o_def)
  have app: "refs (a @ b) = refs a + refs b" for a b by (simp add: refs_def)
  have "fst ` set_mset ((refs new - refs base) + (refs base - refs new)) =
      set (attachmentNames (filter (\<lambda>v. (mv_Name v, mv_VolumeRef v) \<notin> set (ref_pairs base)) new @
        filter (\<lambda>v. (mv_Name v, mv_VolumeRef v) \<notin> set (ref_pairs new)) base))"
    unfolding minus [OF assms] minus [OF assms(2,1)] app [symmetric] names ..
  then show ?thesis
    unfolding merge_vols_def Let_def app filt merge_refs_def minus [OF assms] minus [OF assms(2,1)] by simp
qed

definition intrude :: "string \<Rightarrow> Machine \<Rightarrow> Machine" where
  "intrude u m = (if attachmentName u \<in> set (attachmentNames (m_Volumes m)) then m
     else m\<lparr>m_Volumes := appendAttachment u (m_Volumes m)\<rparr>)"

definition busy_client :: "(ObjectKey \<Rightarrow> Machine option) Client" where
  "busy_client = store_client
     \<lparr>GetMachine := (\<lambda>k s. (case s k of
        Some m \<Rightarrow> if machine_key m = k then Inr m else Inl not_found | None \<Rightarrow> Inl not_found, s)),
      PatchMachine := (\<lambda>base m s.
        if distinct (attachmentNames (m_Volumes base)) \<and> distinct (attachmentNames (m_Volumes m))
        then (case s (machine_key m) of
                None \<Rightarrow> (Inl not_found, s)
              | Some old \<Rightarrow>
                  (let m1 = intrude ''u'' old;
                       m2 = m\<lparr>m_Volumes := assign_devices (merge_vols (m_Volumes base) (m_Volumes m) (m_Volumes m1))\<rparr>
                   in (Inr m2, s(machine_key m \<mapsto> m2))))
        else (Inl io_error, s))\<rparr>"

lemma attachments_of_update: "attachments_of (s(k \<mapsto> m)) = (attachments_of s)(k \<mapsto> refs (m_Volumes m))"
  by (auto simp: attachments_of_def)

lemma busy_patch:
  assumes "PatchMachine busy_client base m s = (r, s')"
  shows "isl r \<and> s' = s \<or> (\<exists>old. s (machine_key m) = Some old \<and>
    (let A = attachments_of (s(machine_key m \<mapsto> intrude ''u'' old));
         B = on_machine (machine_key m) (merge_refs (refs (m_Volumes base)) (refs (m_Volumes m))) A
     in attachments_of s' = B \<and> A (machine_key m) \<noteq> None \<and>
        (\<forall>x. r = Inr x \<longrightarrow> B (machine_key m) = Some (refs (m_Volumes x)))))"
proof (cases "distinct (attachmentNames (m_Volumes base)) \<and> distinct (attachmentNames (m_Volumes m)) \<and>
    s (machine_key m) \<noteq> None")
  case True
  then obtain old where old: "s (machine_key m) = Some old"
      "distinct (attachmentNames (m_Volumes base))" "distinct (attachmentNames (m_Volumes m))" by blast
  then show ?thesis
    using assms by (intro disjI2 exI [of _ old])
      (auto simp: busy_client_def Let_def attachments_of_update on_machine_def merge_vols_refs)
next
  case False
  then show ?thesis using assms by (auto simp: busy_client_def split: if_splits option.splits)
qed

lemma intrude_interferes:
  assumes "s k = Some old" and "v \<noteq> ''u''"
  shows "interference k0 v (attachments_of s) (attachments_of (s(k \<mapsto> intrude ''u'' old)))"
proof (cases "attachmentName ''u'' \<in> set (attachmentNames (m_Volumes old))")
  case True
  then have "s(k \<mapsto> intrude ''u'' old) = s"
    using assms(1) by (auto simp: intrude_def)
  then show ?thesis by (simp add: interference_def)
next
  case False
  let ?R = "add_mset (attachmentName ''u'', Some ''u'') (refs (m_Volumes old))"
  have new: "attachments_of (s(k \<mapsto> intrude ''u'' old)) = (attachments_of s)(k \<mapsto> ?R)"
    using False by (simp add: attachments_of_update intrude_def refs_append)
  have old: "attachments_of s k = Some (refs (m_Volumes old))"
    using assms(1) by (simp add: attachments_of_def)
  have "attachments_ok ((attachments_of s)(k \<mapsto> ?R))" if "attachments_ok (attachments_of s)"
    using that False old well_attached_add [of "refs (m_Volumes old)" "''u''"]
    by (auto simp: attachments_ok_def absent_refs)
  then show ?thesis
    unfolding interference_def new using assms(2) old by (auto simp: own_refs_def)
qed

lemma intrude_attaches:
  assumes "s k = Some old"
  shows "system_step\<^sup>*\<^sup>* (attachments_of s) (attachments_of (s(k \<mapsto> intrude ''u'' old)))"
proof (cases "attachmentName ''u'' \<in> set (attachmentNames (m_Volumes old))")
  case True
  then have "s(k \<mapsto> intrude ''u'' old) = s"
    using assms by (auto simp: intrude_def)
  then show ?thesis by simp
next
  case False
  have "others_of ''u'' (refs (m_Volumes old)) = refs (m_Volumes old)"
    using refs_filter_absent [OF False] by (simp add: others_of_def)
  then have "attachments_of (s(k \<mapsto> intrude ''u'' old)) = on_machine k (attach_ref ''u'') (attachments_of s)"
    using False assms
    by (simp add: attachments_of_update intrude_def refs_append on_machine_def)
      (simp add: attachments_of_def attach_ref_def)
  then show ?thesis by (simp add: r_into_rtranclp step_attach)
qed

lemma busy_server:
  assumes intrudes: "\<And>s k old. s k = Some old \<Longrightarrow>
    rely\<^sup>*\<^sup>* (attachments_of s) (attachments_of (s(k \<mapsto> intrude ''u'' old)))"
  shows "merging_server busy_client attachments_of rely"
  unfolding merging_server_def
proof (intro conjI allI impI)
  fix key s r s'
  assume "GetMachine busy_client key s = (r, s')"
  then show "\<exists>A. rely\<^sup>*\<^sup>* (attachments_of s) A \<and> rely\<^sup>*\<^sup>* A (attachments_of s') \<and>
      (\<forall>m. r = Inr m \<longrightarrow> machine_key m = key \<and> A key = Some (refs (m_Volumes m)))"
    by (intro exI [of _ "attachments_of s"])
      (auto simp: busy_client_def attachments_of_def split: option.splits if_splits)
next
  fix key s r s'
  assume "GetVolume busy_client key s = (r, s')"
  then show "rely\<^sup>*\<^sup>* (attachments_of s) (attachments_of s')"
    by (simp add: busy_client_def store_client_def ready_defs)
next
  fix base m s r s'
  assume patch: "PatchMachine busy_client base m s = (r, s')"
  show "\<exists>A B. rely\<^sup>*\<^sup>* (attachments_of s) A \<and> rely\<^sup>*\<^sup>* B (attachments_of s') \<and>
      (isl r \<and> B = A \<or> A (machine_key m) \<noteq> None \<and>
       B = on_machine (machine_key m) (merge_refs (refs (m_Volumes base)) (refs (m_Volumes m))) A \<and>
       (\<forall>x. r = Inr x \<longrightarrow> B (machine_key m) = Some (refs (m_Volumes x))))"
    using busy_patch [OF patch]
  proof (elim disjE exE conjE)
    fix old
    assume old: "s (machine_key m) = Some old" and B: "let A = attachments_of (s(machine_key m \<mapsto> intrude ''u'' old));
         B = on_machine (machine_key m) (merge_refs (refs (m_Volumes base)) (refs (m_Volumes m))) A
     in attachments_of s' = B \<and> A (machine_key m) \<noteq> None \<and>
        (\<forall>x. r = Inr x \<longrightarrow> B (machine_key m) = Some (refs (m_Volumes x)))"
    have "rely\<^sup>*\<^sup>* (attachments_of s) (attachments_of (s(machine_key m \<mapsto> intrude ''u'' old)))"
      using old by (rule intrudes)
    with B show ?thesis unfolding Let_def by (metis rtranclp.rtrancl_refl)
  qed auto
qed

definition busy_driver :: "(ObjectKey \<Rightarrow> Machine option) driver" where
  "busy_driver = store_driver\<lparr>d_ironcoreClient := busy_client\<rparr>"

lemma busy_driver_server:
  "v \<noteq> ''u'' \<Longrightarrow> merging_server (d_ironcoreClient busy_driver) attachments_of (interference k v)"
  "watching_nodes (d_targetClient busy_driver) attachments_of rely"
  "merging_server (d_ironcoreClient busy_driver) attachments_of system_step"
  by (simp_all add: busy_driver_def busy_server watching_nodes_def store_defs intrude_attaches
      r_into_rtranclp intrude_interferes)

definition busy_machine :: "MachineVolume list \<Rightarrow> Machine" where
  "busy_machine vols = \<lparr>m_Namespace = ''ns'', m_Name = ''node'', m_Volumes = vols\<rparr>"

lemmas busy_run = busy_driver_def busy_client_def store_defs attachToMachine_def detachFromMachine_def
  ControllerUnpublishVolume_def nodeExists_def Let_def merge_vols_def ref_pairs_def intrude_def
  attachmentNames_def appendAttachment_def attachmentName_def deleteAttachment_def slices_Delete_def
  assign_devices_def volumeAttachmentIndex_def

text \<open>The runs of the witnesses: both entries are there after the publish, the other's after the unpublish.\<close>

abbreviation "busy_key \<equiv> \<lparr>key_Namespace = ''ns'', key_Name = ''node''\<rparr>"
abbreviation "busy_v \<equiv> \<lparr>mv_Name = ''v-attachment'', mv_Device = Some ''oda'', mv_VolumeRef = Some ''v''\<rparr>"
abbreviation "busy_u \<equiv> \<lparr>mv_Name = ''u-attachment'', mv_Device = Some ''oda'', mv_VolumeRef = Some ''u''\<rparr>"

lemma busy_published: "\<exists>ctx. ControllerPublishVolume busy_driver sim_publish sim_store =
    (Ok ctx, sim_store(busy_key \<mapsto> busy_machine [busy_v, busy_u]))"
proof -
  have "attachToMachine busy_driver sim_publish sim_store =
      (Inr (busy_machine [busy_v, busy_u]), sim_store(busy_key \<mapsto> busy_machine [busy_v, busy_u]))"
    by (simp add: busy_run busy_machine_def)
  then show ?thesis
    by (simp add: ControllerPublishVolume_def) (simp add: busy_run busy_machine_def validateDeviceName_def deviceName_def)
qed

lemma busy_unpublished: "ControllerUnpublishVolume busy_driver sim_publish
    (sim_store(busy_key \<mapsto> busy_machine [busy_v, busy_u])) = (Ok (), sim_store(busy_key \<mapsto> busy_machine [busy_u]))"
  by (simp add: busy_run busy_machine_def)

lemma busy_facts:
  "machineKeyOf busy_driver sim_publish = busy_key" "cp_VolumeId sim_publish = ''v''" "attachmentName ''v'' = ''v-attachment''"
  "attachments_ok (attachments_of sim_store)"
  "fst (GetNode (d_targetClient busy_driver) \<lparr>key_Namespace = '''', key_Name = cp_NodeId sim_publish\<rparr> s) =
     Inr \<lparr>n_Name = ''node'', n_Labels = Some [LabelTopologyZone \<mapsto> ''foo'']\<rparr>"
  by (auto simp: busy_run attachments_ok_def attachments_of_def well_attached_def split: if_splits) (simp_all add: refs_def)

theorem attachment_calls_are_atomic_witness:
  "\<exists>ctx w' A B. ControllerPublishVolume busy_driver sim_publish sim_store = (Ok ctx, w')
     \<and> (interference busy_key ''v'')\<^sup>*\<^sup>* (attachments_of sim_store) A
     \<and> (B = A \<or> B = on_machine busy_key (attach_ref ''v'') A) \<and> lists_attachment busy_key ''v'' B"
proof -
  obtain ctx w' where run: "ControllerPublishVolume busy_driver sim_publish sim_store = (Ok ctx, w')"
    using busy_published by blast
  have server: "merging_server (d_ironcoreClient busy_driver) attachments_of (interference busy_key ''v'')"
    by (rule busy_driver_server) simp
  from attachment_calls_are_atomic [OF server busy_driver_server(2), THEN conjunct1, rule_format, OF run] run
  show ?thesis unfolding busy_facts by (metis is_ok_simps(1))
qed

theorem concurrent_attachments_invariant_witness:
  "\<exists>w R. (shared_step (\<lambda>d. d = busy_driver) attachments_of)\<^sup>*\<^sup>* sim_store w \<and> attachments_of w busy_key = Some R
     \<and> (''u-attachment'', Some ''u'') \<in># R \<and> (\<forall>n. count (image_mset fst R) n \<le> 1)"
proof -
  let ?w = "sim_store(busy_key \<mapsto> busy_machine [busy_v, busy_u])"
  obtain ctx where run: "ControllerPublishVolume busy_driver sim_publish sim_store = (Ok ctx, ?w)"
    using busy_published by blast
  have steps: "(shared_step (\<lambda>d. d = busy_driver) attachments_of)\<^sup>*\<^sup>* sim_store ?w"
    using shared_publish [OF _ run, of "\<lambda>d. d = busy_driver" attachments_of] by blast
  have R: "attachments_of ?w busy_key = Some (refs [busy_v, busy_u])"
    by (simp add: attachments_of_def busy_machine_def)
  have servers: "d = busy_driver \<Longrightarrow> merging_server (d_ironcoreClient d) attachments_of system_step"
      "d = busy_driver \<Longrightarrow> watching_nodes (d_targetClient d) attachments_of system_step" for d
    by (simp_all add: busy_driver_server)
  have "\<forall>n. count (image_mset fst (refs [busy_v, busy_u])) n \<le> 1"
    by (rule concurrent_attachments_invariant [where drivers = "\<lambda>d. d = busy_driver", THEN conjunct1,
          OF servers busy_facts(4) steps R])
  moreover have "(''u-attachment'', Some ''u'') \<in># refs [busy_v, busy_u]" by (simp add: refs_def)
  ultimately show ?thesis using steps R by blast
qed

theorem concurrent_roundtrip_witness:
  "\<exists>ctx w1 w3. ControllerPublishVolume busy_driver sim_publish sim_store = (Ok ctx, w1)
     \<and> ControllerUnpublishVolume busy_driver sim_publish w1 = (Ok (), w3)
     \<and> own_refs busy_key ''v'' (attachments_of w3) = Some {#}
     \<and> attachments_of w3 busy_key = Some {#(''u-attachment'', Some ''u'')#}"
proof -
  let ?w1 = "sim_store(busy_key \<mapsto> busy_machine [busy_v, busy_u])"
  obtain ctx where run: "ControllerPublishVolume busy_driver sim_publish sim_store = (Ok ctx, ?w1)"
    using busy_published by blast
  have server: "merging_server (d_ironcoreClient busy_driver) attachments_of
      (interference (machineKeyOf busy_driver sim_publish) (cp_VolumeId sim_publish))"
    by (rule busy_driver_server) (simp add: busy_facts)
  have "attachments_of (sim_store(busy_key \<mapsto> busy_machine [busy_u])) busy_key = Some {#(''u-attachment'', Some ''u'')#}"
    by (simp add: attachments_of_def busy_machine_def refs_def)
  with concurrent_roundtrip [OF server busy_driver_server(2) order.refl busy_facts(4) run rtranclp.rtrancl_refl
      busy_unpublished busy_facts(5)] run busy_unpublished
  show ?thesis unfolding busy_facts by blast
qed

end
