(* ===== verification/Labelled_Runs.thy ===== *)
theory Labelled_Runs
  imports Prelude
begin

text \<open>
  Runs of a step relation whose steps carry labels, and two ways to prove something of them: an
  invariant, and a simulation by another relation with labels of its own.
\<close>

primrec run_of :: "('l \<Rightarrow> 's \<Rightarrow> 's \<Rightarrow> bool) \<Rightarrow> 'l list \<Rightarrow> 's \<Rightarrow> 's \<Rightarrow> bool" where
  "run_of step [] s t \<longleftrightarrow> s = t"
| "run_of step (l # ls) s t \<longleftrightarrow> (\<exists>u. step l s u \<and> run_of step ls u t)"

lemma run_of_append: "run_of step (ls @ ms) s t \<longleftrightarrow> (\<exists>u. run_of step ls s u \<and> run_of step ms u t)"
  by (induction ls arbitrary: s) auto

lemma run_of_invariant:
  assumes "run_of step ls s t" and "I s" and "\<And>l s t. l \<in> set ls \<Longrightarrow> step l s t \<Longrightarrow> I s \<Longrightarrow> I t"
  shows "I t"
  using assms
proof (induction ls arbitrary: s)
  case (Cons l ls)
  then obtain u where "step l s u" "run_of step ls u t" by auto
  with Cons show ?case by (metis list.set_intros)
qed simp

text \<open>Every step of the one is a step of the other, with the label translated and the states seen.\<close>

lemma run_of_simulation:
  assumes "\<And>l s t. step l s t \<Longrightarrow> step' (f l) (g s) (g t)" and "run_of step ls s t"
  shows "run_of step' (map f ls) (g s) (g t)"
  using assms(2) by (induction ls arbitrary: s) (auto dest: assms(1))

text \<open>The same from the states of an invariant.\<close>

lemma run_of_simulation_inv:
  assumes "\<And>l s t. step l s t \<Longrightarrow> I s \<Longrightarrow> step' (f l) (g s) (g t) \<and> I t" and "run_of step ls s t" and "I s"
  shows "run_of step' (map f ls) (g s) (g t) \<and> I t"
  using assms(2,3) by (induction ls arbitrary: s) (auto dest: assms(1))

text \<open>What holds at the end but not at the start came with one of the steps.\<close>

lemma run_of_changed:
  assumes "run_of step ls s t" and "\<not> P s" and "P t"
  obtains ls1 l ls2 u v where "ls = ls1 @ l # ls2" and "run_of step ls1 s u" and "step l u v"
    and "run_of step ls2 v t" and "\<not> P u" and "P v"
  using assms
proof (induction ls arbitrary: s thesis)
  case Nil
  then show ?case by simp
next
  case (Cons l ls)
  then obtain u where u: "step l s u" "run_of step ls u t" by auto
  show ?case
  proof (cases "P u")
    case True
    with u Cons.prems show ?thesis by (intro Cons.prems(1) [of "[]" l ls s u]) simp_all
  next
    case False
    show ?thesis
    proof (rule Cons.IH [OF _ u(2) False Cons.prems(4)])
      fix ls1 m ls2 x y
      assume "ls = ls1 @ m # ls2" "run_of step ls1 u x" "step m x y" "run_of step ls2 y t" "\<not> P x" "P y"
      with u show ?thesis by (intro Cons.prems(1) [of "l # ls1" m ls2 x y]) auto
    qed
  qed
qed

end
