(* ===== verification/Volume_Store.thy ===== *)
theory Volume_Store
  imports Controller_Volume_Props Controller_Expand_Props Controller_Publish Controller_Snapshot Service
    Labelled_Runs
begin

text \<open>
  The controller service seen as a store of volumes.  The abstract state of one volume is that it is gone,
  that it is under deletion, or its size and class.  A CreateVolume of this volume may put the entry it
  asks for, a DeleteVolume of it may take it away, a ControllerExpandVolume of it may raise its size to
  the one it asks for, and every other call leaves it alone; whatever other parties and calls do to other
  volumes and to other objects at the same time.
\<close>

section \<open>Stored objects\<close>

text \<open>
  An object under deletion can still be read, applied and patched, but it is on its way out: its
  finalizers are run by others, at any time, and nothing brings it back.
\<close>

datatype 'e stored = Gone | Terminating | Live 'e

definition settles :: "'e stored \<Rightarrow> 'e stored \<Rightarrow> bool" where
  "settles s s' \<longleftrightarrow> s' = s \<or> s = Terminating \<and> s' = Gone"

lemma settles_refl [simp]: "settles s s"
  by (simp add: settles_def)

lemma settles_trans: "settles s t \<Longrightarrow> settles t u \<Longrightarrow> settles s u"
  by (auto simp: settles_def)

lemma settles_live [simp]:
  "settles (Live e) s \<longleftrightarrow> s = Live e" "settles s (Live e) \<longleftrightarrow> s = Live e"
  "settles Gone s \<longleftrightarrow> s = Gone" "settles s Terminating \<longleftrightarrow> s = Terminating"
  "settles Terminating s \<longleftrightarrow> s = Terminating \<or> s = Gone"
  by (auto simp: settles_def)

section \<open>Operations that leave an object alone\<close>

definition leaves :: "('w \<Rightarrow> 'e stored) \<Rightarrow> ('w \<Rightarrow> 'r \<times> 'w) \<Rightarrow> bool" where
  "leaves view f \<longleftrightarrow> (\<forall>w. settles (view w) (view (snd (f w))))"

lemma leavesD: "leaves view f \<Longrightarrow> f w = (r, w') \<Longrightarrow> settles (view w) (view w')"
  unfolding leaves_def by (metis snd_conv)

lemma leaves_pure: "leaves view (\<lambda>w. (r, w))"
  by (simp add: leaves_def)

lemma leaves_bind:
  assumes "leaves view f" and "\<And>r. leaves view (g r)"
  shows "leaves view (\<lambda>w. case f w of (r, w') \<Rightarrow> g r w')"
  using assms by (auto simp: leaves_def split: prod.splits) (metis settles_trans snd_conv)

lemma leaves_if: "leaves view f \<Longrightarrow> leaves view g \<Longrightarrow> leaves view (\<lambda>w. if b then f w else g w)"
  by (cases b) simp_all

lemma leaves_option: "leaves view f \<Longrightarrow> (\<And>x. leaves view (g x)) \<Longrightarrow>
    leaves view (\<lambda>w. case v of None \<Rightarrow> f w | Some x \<Rightarrow> g x w)"
  by (cases v) simp_all

lemma leaves_sum: "(\<And>x. leaves view (f x)) \<Longrightarrow> (\<And>x. leaves view (g x)) \<Longrightarrow>
    leaves view (\<lambda>w. case v of Inl x \<Rightarrow> f x w | Inr x \<Rightarrow> g x w)"
  by (cases v) simp_all

lemma leaves_pair: "(\<And>x y. leaves view (f x y)) \<Longrightarrow> leaves view (\<lambda>w. case v of (x, y) \<Rightarrow> f x y w)"
  by (cases v) simp

lemma leaves_result: "(\<And>x. leaves view (f x)) \<Longrightarrow> (\<And>e. leaves view (g e)) \<Longrightarrow> (\<And>p. leaves view (h p)) \<Longrightarrow>
    leaves view (\<lambda>w. case v of Ok x \<Rightarrow> f x w | Err e \<Rightarrow> g e w | Panic p \<Rightarrow> h p w)"
  by (cases v) simp_all

lemmas leaves_rules = leaves_bind leaves_if leaves_option leaves_sum leaves_pair leaves_result leaves_pure

text \<open>Waiting leaves alone what the other parties and the reads leave alone.\<close>

definition calm_backoff :: "('w \<Rightarrow> 'e stored) \<Rightarrow> ('b \<times> 'w) backoff_fn \<Rightarrow> bool" where
  "calm_backoff view eb \<longleftrightarrow> (\<exists>env. backoff_contract env eb \<and>
     (\<forall>s t. env s t \<longrightarrow> fst s = fst t \<and> settles (view (snd s)) (view (snd t))))"

lemma calm_backoff_leaves:
  assumes "calm_backoff view eb" and "eb b cond s = (r, t)"
    and "\<And>s a t. cond s = (a, t) \<Longrightarrow> settles (view (snd s)) (view (snd t))"
  shows "settles (view (snd s)) (view (snd t))"
proof -
  obtain env where env: "backoff_contract env eb"
      "\<forall>s t. env s t \<longrightarrow> fst s = fst t \<and> settles (view (snd s)) (view (snd t))"
    using assms(1) unfolding calm_backoff_def by blast
  then have run: "poll_run env cond (bo_Steps b) s r t"
    using assms(2) unfolding backoff_contract_def by (metis fst_conv snd_conv)
  show ?thesis
    by (rule poll_run_invariant [where I = "\<lambda>x. settles (view (snd s)) (view (snd x))", OF run])
      (use assms(3) env(2) in \<open>auto intro: settles_trans\<close>)
qed

lemma wait_volume_leaves:
  assumes "calm_backoff view eb" and "\<And>k. leaves view (GetVolume c k)"
    and "waitForVolumeAvailability eb c v w = (r, (v', w'))"
  shows "settles (view w) (view w')"
proof -
  have "settles (view (snd s)) (view (snd t))" if "volume_condition c s = (a, t)" for s a t
    using that by (cases s) (auto simp: volume_condition_def split: outcome_splits dest: leavesD [OF assms(2)])
  moreover obtain r' where "eb wait_backoff (volume_condition c) (v, w) = (r', (v', w'))"
    using assms(3) by (auto simp: waitForVolumeAvailability_def split: outcome_splits)
  ultimately show ?thesis using calm_backoff_leaves [OF assms(1)] by (metis snd_conv)
qed

lemma wait_snapshot_leaves:
  assumes "calm_backoff view eb" and "\<And>k. leaves view (GetVolumeSnapshot c k)"
    and "waitForVolumeSnapshotReady eb c v w = (r, (v', w'))"
  shows "settles (view w) (view w')"
proof -
  have "settles (view (snd s)) (view (snd t))" if "snapshot_condition c s = (a, t)" for s a t
    using that by (cases s) (auto simp: snapshot_condition_def split: outcome_splits dest: leavesD [OF assms(2)])
  moreover obtain r' where "eb wait_backoff (snapshot_condition c) (v, w) = (r', (v', w'))"
    using assms(3) by (auto simp: waitForVolumeSnapshotReady_def split: outcome_splits)
  ultimately show ?thesis using calm_backoff_leaves [OF assms(1)] by (metis snd_conv)
qed

section \<open>The entry of a volume\<close>

type_synonym volume_entry = "Quantity option \<times> string option"

definition entry_of :: "VolumeSpec \<Rightarrow> volume_entry" where
  "entry_of s = (Resources s ResourceStorage, VolumeClassRef s)"

text \<open>
  What is assumed of the API server about the volume with key \<open>k\<close>, for a function that reads the
  state of the volume out of the world.  Reads and writes of other objects leave it alone.  A volume that
  is read is live with what was read, or under deletion.  Applying a volume that is under deletion may
  succeed and does not bring it back; else a successful apply leaves the volume live with what was
  applied.  A successful delete of a live volume removes it or puts it under deletion, and so does one
  that reports that there was none.  A patch of a live volume that was read as it is stores what was asked
  for.  A write that reports an error may have been made or not, but nothing else.
\<close>

definition reads_leave :: "'w Client \<Rightarrow> ('w \<Rightarrow> 'e stored) \<Rightarrow> bool" where
  "reads_leave c view \<longleftrightarrow> (\<forall>k. leaves view (GetVolume c k) \<and> leaves view (GetVolumePool c k) \<and>
     leaves view (GetVolumeClass c k) \<and> leaves view (GetVolumeSnapshot c k) \<and> leaves view (GetMachine c k) \<and>
     leaves view (GetNode c k))"

definition other_writes_leave :: "'w Client \<Rightarrow> ('w \<Rightarrow> 'e stored) \<Rightarrow> bool" where
  "other_writes_leave c view \<longleftrightarrow> (\<forall>a ow f. leaves view (ApplySnapshot c a ow f)) \<and>
     (\<forall>k. leaves view (DeleteSnapshotObject c k)) \<and> (\<forall>b m. leaves view (PatchMachine c b m))"

text \<open>How an apply and a delete of the object itself may change it, by whether they report success.\<close>

definition applied :: "'e \<Rightarrow> bool \<Rightarrow> 'e stored \<Rightarrow> 'e stored \<Rightarrow> bool" where
  "applied new ok s s' \<longleftrightarrow> s' = Live new \<or> (s = Terminating \<or> \<not> ok) \<and> settles s s'"

definition removed :: "bool \<Rightarrow> 'e stored \<Rightarrow> 'e stored \<Rightarrow> bool" where
  "removed ok s s' \<longleftrightarrow> (\<exists>e. s = Live e) \<and> (s' = Terminating \<or> s' = Gone) \<or>
     ((\<nexists>e. s = Live e) \<or> \<not> ok) \<and> settles s s'"

lemma removed_gone: "removed True s s' \<Longrightarrow> s' = Terminating \<or> s' = Gone"
  by (cases s') (auto simp: removed_def)

definition get_law :: "'w Client \<Rightarrow> ObjectKey \<Rightarrow> ('w \<Rightarrow> volume_entry stored) \<Rightarrow> bool" where
  "get_law c k entry \<longleftrightarrow> (\<forall>x w v w'. GetVolume c x w = (Inr v, w') \<longrightarrow> volume_key v = x \<and>
     (x = k \<longrightarrow> entry w = Terminating \<or> entry w = Live (entry_of (vol_Spec v))))"

definition apply_law :: "'w Client \<Rightarrow> ObjectKey \<Rightarrow> ('w \<Rightarrow> volume_entry stored) \<Rightarrow> bool" where
  "apply_law c k entry \<longleftrightarrow> (\<forall>a ow f w r w'. ApplyVolume c a ow f w = (r, w') \<longrightarrow>
     (if \<lparr>key_Namespace = va_Namespace a, key_Name = va_Name a\<rparr> = k
      then applied (entry_of (va_Spec a)) (r = None) (entry w) (entry w')
      else settles (entry w) (entry w')))"

definition delete_law :: "'w Client \<Rightarrow> ObjectKey \<Rightarrow> ('w \<Rightarrow> volume_entry stored) \<Rightarrow> bool" where
  "delete_law c k entry \<longleftrightarrow> (\<forall>x w r w'. DeleteVolumeObject c x w = (r, w') \<longrightarrow>
     (if x = k then removed (\<forall>e. r = Some e \<longrightarrow> err_notFound e) (entry w) (entry w')
      else settles (entry w) (entry w')))"

definition patch_law :: "'w Client \<Rightarrow> ObjectKey \<Rightarrow> ('w \<Rightarrow> volume_entry stored) \<Rightarrow> bool" where
  "patch_law c k entry \<longleftrightarrow> (\<forall>b v w r w'. PatchVolume c b v w = (r, w') \<longrightarrow>
     (if volume_key v = k \<and> entry w = Live (entry_of (vol_Spec b))
      then entry w' = Live (entry_of (vol_Spec v)) \<or> isl r \<and> entry w' = entry w
      else volume_key v \<noteq> k \<or> (\<nexists>e. entry w = Live e) \<longrightarrow> settles (entry w) (entry w')))"

definition volume_server :: "'w Client \<Rightarrow> ObjectKey \<Rightarrow> ('w \<Rightarrow> volume_entry stored) \<Rightarrow> bool" where
  "volume_server c k entry \<longleftrightarrow> reads_leave c entry \<and> other_writes_leave c entry \<and>
     get_law c k entry \<and> apply_law c k entry \<and> delete_law c k entry \<and> patch_law c k entry"

lemma volume_server_leaves:
  assumes "volume_server c k entry"
  shows "leaves entry (GetVolume c x)" "leaves entry (GetVolumePool c x)" "leaves entry (GetVolumeClass c x)"
    "leaves entry (GetVolumeSnapshot c x)" "leaves entry (GetMachine c x)" "leaves entry (GetNode c x)"
    "leaves entry (ApplySnapshot c a ow f)" "leaves entry (DeleteSnapshotObject c x)"
    "leaves entry (PatchMachine c b m)"
  using assms unfolding volume_server_def reads_leave_def other_writes_leave_def by simp_all

lemma volume_serverD:
  assumes "volume_server c k entry"
  shows "GetVolume c x w = (Inr v, w') \<Longrightarrow> volume_key v = x \<and>
      (x = k \<longrightarrow> entry w = Terminating \<or> entry w = Live (entry_of (vol_Spec v)))"
    and "ApplyVolume c a ow f w = (r, w') \<Longrightarrow>
      if \<lparr>key_Namespace = va_Namespace a, key_Name = va_Name a\<rparr> = k
      then applied (entry_of (va_Spec a)) (r = None) (entry w) (entry w')
      else settles (entry w) (entry w')"
    and "DeleteVolumeObject c x w = (r, w') \<Longrightarrow>
      if x = k then removed (\<forall>e. r = Some e \<longrightarrow> err_notFound e) (entry w) (entry w')
      else settles (entry w) (entry w')"
    and "PatchVolume c b v w = (pr, w') \<Longrightarrow>
      if volume_key v = k \<and> entry w = Live (entry_of (vol_Spec b))
      then entry w' = Live (entry_of (vol_Spec v)) \<or> isl pr \<and> entry w' = entry w
      else volume_key v \<noteq> k \<or> (\<nexists>e. entry w = Live e) \<longrightarrow> settles (entry w) (entry w')"
  using assms unfolding volume_server_def get_law_def apply_law_def delete_law_def patch_law_def by blast+

section \<open>The abstract volume\<close>

definition whole_GiB :: "Quantity \<Rightarrow> bool" where
  "whole_GiB q \<longleftrightarrow> 2 ^ 30 dvd sint (quantity_Value q)"

text \<open>
  What a call asks of the volume, and the steps it may take: none in any case, or the one it asks for.
\<close>

datatype volume_action = Op_put volume_entry | Op_delete | Op_raise Quantity | Op_none

inductive volume_step :: "volume_action \<Rightarrow> volume_entry stored \<Rightarrow> volume_entry stored \<Rightarrow> bool" where
  vol_same: "settles s s' \<Longrightarrow> volume_step op s s'"
| vol_put: "whole_GiB q \<Longrightarrow> volume_step (Op_put (Some q, Some cls)) s (Live (Some q, Some cls))"
| vol_delete: "s' = Terminating \<or> s' = Gone \<Longrightarrow> volume_step Op_delete (Live e) s'"
| vol_raise: "whole_GiB q \<Longrightarrow> sint (quantity_Value old) \<le> sint (quantity_Value q) \<Longrightarrow>
    volume_step (Op_raise q) (Live (Some old, Some cls)) (Live (Some q, Some cls))"

inductive_cases volume_stepE: "volume_step op s s'"
inductive_simps volume_step_none: "volume_step Op_none s s'"

definition grown :: "volume_entry \<Rightarrow> volume_entry \<Rightarrow> bool" where
  "grown e e' \<longleftrightarrow> e' = e \<or> (\<exists>old q cls. e = (Some old, Some cls) \<and> e' = (Some q, Some cls) \<and> whole_GiB q \<and>
     sint (quantity_Value old) \<le> sint (quantity_Value q))"

lemma grown_refl [simp]: "grown e e"
  by (simp add: grown_def)

lemma grown_trans: "grown a b \<Longrightarrow> grown b c \<Longrightarrow> grown a c"
  by (auto simp: grown_def)

text \<open>Unless it is put, a live volume only grows until it is deleted, and none comes from nowhere.\<close>

lemma volume_step_live:
  assumes "volume_step op s s'" and "\<And>e. op \<noteq> Op_put e"
  shows "s' = Live e' \<Longrightarrow> \<exists>e. s = Live e \<and> grown e e'"
    and "s = Live e \<Longrightarrow> op \<noteq> Op_delete \<Longrightarrow> \<exists>e'. s' = Live e' \<and> grown e e'"
proof -
  show "s' = Live e' \<Longrightarrow> \<exists>e. s = Live e \<and> grown e e'"
    using assms by (cases rule: volume_step.cases) (fastforce simp: grown_def)+
  show "s = Live e \<Longrightarrow> op \<noteq> Op_delete \<Longrightarrow> \<exists>e'. s' = Live e' \<and> grown e e'"
    using assms by (cases rule: volume_step.cases) (fastforce simp: grown_def)+
qed

lemma volume_run_back:
  assumes "run_of volume_step ops s s'" and "\<And>e. Op_put e \<notin> set ops" and "s' = Live e'"
  shows "\<exists>e. s = Live e \<and> grown e e'"
  using assms
proof (induction ops arbitrary: s)
  case (Cons op ops)
  then obtain u where u: "volume_step op s u" "run_of volume_step ops u s'" by auto
  then obtain e1 where "u = Live e1" "grown e1 e'"
    using Cons.IH [OF u(2)] Cons.prems by auto
  then show ?case
    using volume_step_live(1) [OF u(1)] Cons.prems(2) grown_trans by (metis list.set_intros(1))
qed simp

lemma volume_run_live:
  assumes "run_of volume_step ops s s'" and "\<And>e. Op_put e \<notin> set ops" and "Op_delete \<notin> set ops"
    and "s = Live e"
  shows "\<exists>e'. s' = Live e'"
  using assms
proof (induction ops arbitrary: s e)
  case (Cons op ops)
  then obtain u where u: "volume_step op s u" "run_of volume_step ops u s'" by auto
  then obtain e1 where "u = Live e1"
    using volume_step_live(2) [OF u(1)] Cons.prems(2,3,4) by (metis list.set_intros(1))
  then show ?case using Cons.IH [OF u(2)] Cons.prems by auto
qed (simp only: run_of.simps ex_simps; blast)

lemma RoundUpBytes_whole: "2 ^ 30 dvd sint (RoundUpBytes v)"
proof -
  have "sint (RoundUpBytes v) = signed_take_bit 63 (sint (roundUpSize v GiB) * 2 ^ 30)"
    by (simp add: RoundUpBytes_def sint_word_ariths sint_GiB)
  also have "\<dots> = (sint (roundUpSize v GiB) * 2 ^ 30 + 2 ^ 63) mod 2 ^ 64 - 2 ^ 63"
    by (simp add: signed_take_bit_eq_take_bit_shift take_bit_eq_mod)
  finally have eq: "sint (RoundUpBytes v) = (sint (roundUpSize v GiB) * 2 ^ 30 + 2 ^ 63) mod 2 ^ 64 - 2 ^ 63" .
  have pow: "(2::int) ^ 30 dvd 2 ^ 63" "(2::int) ^ 30 dvd 2 ^ 64" by (simp_all add: le_imp_power_dvd)
  then have "(2::int) ^ 30 dvd sint (roundUpSize v GiB) * 2 ^ 30 + 2 ^ 63" by simp
  then have "(2::int) ^ 30 dvd (sint (roundUpSize v GiB) * 2 ^ 30 + 2 ^ 63) mod 2 ^ 64"
    using pow(2) by (simp only: dvd_mod_iff)
  then show ?thesis unfolding eq using pow(1) by (rule dvd_diff)
qed

lemma whole_round: "whole_GiB (NewQuantity (RoundUpBytes v))"
  using RoundUpBytes_whole [of v] by (simp add: whole_GiB_def del: power_numeral)

section \<open>What the calls do to the entry\<close>

definition createKey :: "'w driver \<Rightarrow> CreateVolumeRequest \<Rightarrow> ObjectKey" where
  "createKey d req = \<lparr>key_Namespace = DriverNamespace (d_config d), key_Name = cv_Name req\<rparr>"

definition requestedEntry :: "CreateArgs \<Rightarrow> volume_entry" where
  "requestedEntry a = (Some (NewQuantity (ca_volSizeBytes a)), Some (ca_volumeClass a))"

lemma entry_of_spec: "entry_of (volumeSpec a pool) = requestedEntry a"
  by (simp add: entry_of_def volumeSpec_def requestedEntry_def)

lemma create_args_whole: "create_args req = Inr a \<Longrightarrow> whole_GiB (NewQuantity (ca_volSizeBytes a))"
proof -
  assume "create_args req = Inr a"
  then have "getVolSizeBytes req = Inr (ca_volSizeBytes a)" by (rule create_args_size)
  then have "ca_volSizeBytes a = DefaultVolumeSize \<or> (\<exists>v. ca_volSizeBytes a = RoundUpBytes v)"
    using getVolSizeBytes_range(1) by (cases "cv_CapacityRange req") (auto simp: getVolSizeBytes_def)
  then show ?thesis
    using whole_round by (auto simp: whole_GiB_def default_size)
qed

lemma create_entry:
  assumes server: "volume_server (d_ironcoreClient d) k entry" and calm: "calm_backoff entry eb"
    and run: "CreateVolume rt eb d req w = (r, w')"
  shows "if createKey d req = k
    then settles (entry w) (entry w') \<and> (is_ok r \<longrightarrow> entry w = Terminating) \<or>
      (\<exists>a. create_args req = Inr a \<and> entry w' = Live (requestedEntry a))
    else settles (entry w) (entry w')"
proof (cases "create_args req")
  case (Inl e)
  with run show ?thesis by (auto simp: CreateVolume_def)
next
  case (Inr a)
  note leaves = volume_server_leaves [OF server]
  obtain pr w1 where pool: "resolvePool d (ca_volumePoolName a) w = (pr, w1)" by (metis surj_pair)
  have w1: "settles (entry w) (entry w1)"
    using pool by (auto simp: resolvePool_def split: outcome_splits dest: leavesD [OF leaves(2)])
  show ?thesis
  proof (cases pr)
    case (Inl e)
    with run Inr pool w1 show ?thesis by (auto simp: CreateVolume_def provisionVolume_def)
  next
    case (Inr p)
    obtain ar w2 where ap: "ApplyVolume (d_ironcoreClient d) (volumeApplyConfig d req a p) volumeFieldOwner True w1 = (ar, w2)"
      by (metis surj_pair)
    obtain wr v' w3 where wait: "waitForVolumeAvailability eb (d_ironcoreClient d) (volumeObject d req a p) w2
        = (wr, (v', w3))" by (metis surj_pair)
    have w3: "settles (entry w2) (entry w3)"
      by (rule wait_volume_leaves [OF calm leaves(1) wait])
    have "w' = (if ar = None then w3 else w2)" and "is_ok r \<Longrightarrow> ar = None"
      using run \<open>create_args req = Inr a\<close> pool Inr ap wait
      by (auto simp: CreateVolume_def provisionVolume_def Let_def split: option.splits)
    moreover have "if createKey d req = k
        then applied (requestedEntry a) (ar = None) (entry w1) (entry w2) else settles (entry w1) (entry w2)"
      using volume_serverD(2) [OF server ap] by (simp add: createKey_def volumeApplyConfig_def entry_of_spec split: if_splits)
    ultimately show ?thesis
      using w1 w3 \<open>create_args req = Inr a\<close>
      by (auto simp: applied_def settles_def split: if_splits)
  qed
qed

lemma delete_entry:
  assumes server: "volume_server (d_ironcoreClient d) k entry"
    and run: "DeleteVolume d vid w = (r, w')"
  shows "if vid \<noteq> '''' \<and> \<lparr>key_Namespace = DriverNamespace (d_config d), key_Name = vid\<rparr> = k
    then removed (is_ok r) (entry w) (entry w')
    else settles (entry w) (entry w')"
proof -
  obtain dr w1 where del: "DeleteVolumeObject (d_ironcoreClient d)
      \<lparr>key_Namespace = DriverNamespace (d_config d), key_Name = vid\<rparr> w = (dr, w1)" by (metis surj_pair)
  show ?thesis
    using run del volume_serverD(3) [OF server del]
    by (auto simp: DeleteVolume_def Let_def split: option.splits if_splits)
qed

lemma expand_patches:
  assumes server: "volume_server (d_ironcoreClient d) k entry"
    and run: "ControllerExpandVolume d req w = (r, w')" and moved: "is_ok r \<or> \<not> settles (entry w) (entry w')"
  obtains cap volume w1 cls old pr w2 where "ce_CapacityRange req = Some cap"
    and "GetVolume (d_ironcoreClient d) (expandKey d req) w = (Inr volume, w1)" and "settles (entry w) (entry w2)"
    and "entry_of (vol_Spec volume) = (Some old, Some cls)"
    and "sint (quantity_Value old) \<le> sint (RoundUpBytes (RequiredBytes cap))"
    and "PatchVolume (d_ironcoreClient d) volume (resizedVolume volume (RoundUpBytes (RequiredBytes cap))) w2 = (pr, w')"
    and "is_ok r \<longleftrightarrow> \<not> isl pr"
proof -
  note leaves = volume_server_leaves [OF server]
  obtain gv w1 where gv: "GetVolume (d_ironcoreClient d) (expandKey d req) w = (gv, w1)" by (metis surj_pair)
  have w1: "settles (entry w) (entry w1)" using gv by (rule leavesD [OF leaves(1)])
  obtain cap volume where cap: "ce_CapacityRange req = Some cap" and vol: "gv = Inr volume" and len: "length (ce_VolumeId req) \<noteq> 0"
    using run moved gv w1 by (auto simp: ControllerExpandVolume_def expandKey_def split: outcome_splits)
  obtain cr w2 where check: "checkExpandable d (ce_VolumeId req) volume w1 = (cr, w2)" by (metis surj_pair)
  have w2: "settles (entry w) (entry w2)"
    using check w1
    by (auto simp: checkExpandable_def split: outcome_splits dest: leavesD [OF leaves(3)] intro: settles_trans)
  have rest: "(case cr of Panic p \<Rightarrow> (Panic p, w2) | Err e \<Rightarrow> (Err e, w2) | Ok q \<Rightarrow> expandPatch d volume q cap w2) = (r, w')"
    using run gv cap vol len check by (auto simp: ControllerExpandVolume_def expandKey_def split: result.splits)
  obtain old where old: "cr = Ok old" and patch: "expandPatch d volume old cap w2 = (r, w')"
    using rest moved w1 w2 by (cases cr) auto
  have entry: "\<exists>cls. entry_of (vol_Spec volume) = (Some old, Some cls)"
    using check old by (auto simp: checkExpandable_def entry_of_def split: outcome_splits)
  have fits: "sint (quantity_Value old) \<le> sint (RoundUpBytes (RequiredBytes cap))"
    using patch moved w1 w2 by (auto simp: expandPatch_def Let_def split: if_splits)
  then have "(case PatchVolume (d_ironcoreClient d) volume (resizedVolume volume (RoundUpBytes (RequiredBytes cap))) w2 of
      (Inl e, w3) \<Rightarrow> (Err (BadRequest ''failed to patch volume with new volume size'' []), w3)
    | (Inr x, w3) \<Rightarrow> (Ok \<lparr>ce_CapacityBytes = RoundUpBytes (RequiredBytes cap), NodeExpansionRequired = True\<rparr>, w3)) = (r, w')"
    using patch by (simp add: expandPatch_def Let_def)
  then obtain pr where "PatchVolume (d_ironcoreClient d) volume (resizedVolume volume (RoundUpBytes (RequiredBytes cap))) w2 = (pr, w')"
      "is_ok r \<longleftrightarrow> \<not> isl pr"
    by (auto split: prod.splits sum.splits)
  with cap gv vol w1 w2 entry fits that show thesis by metis
qed

lemma resizedVolume_entry:
  "entry_of (vol_Spec (resizedVolume v n)) = (Some (NewQuantity n), snd (entry_of (vol_Spec v)))"
  "volume_key (resizedVolume v n) = volume_key v"
  by (simp_all add: resizedVolume_def entry_of_def volume_key_def)

lemma expand_entry:
  assumes server: "volume_server (d_ironcoreClient d) k entry"
    and run: "ControllerExpandVolume d req w = (r, w')"
  shows "settles (entry w) (entry w') \<and> (is_ok r \<longrightarrow> expandKey d req = k \<longrightarrow> entry w = Terminating) \<or>
    (\<exists>old cls cap. expandKey d req = k \<and> ce_VolumeId req \<noteq> '''' \<and> ce_CapacityRange req = Some cap \<and>
       entry w = Live (Some old, Some cls) \<and>
       sint (quantity_Value old) \<le> sint (RoundUpBytes (RequiredBytes cap)) \<and>
       entry w' = Live (Some (NewQuantity (RoundUpBytes (RequiredBytes cap))), Some cls))"
proof (cases "is_ok r \<or> \<not> settles (entry w) (entry w')")
  case False
  then show ?thesis by simp
next
  case True
  then obtain cap volume w1 cls old pr w2 where p: "ce_CapacityRange req = Some cap"
    "GetVolume (d_ironcoreClient d) (expandKey d req) w = (Inr volume, w1)" "settles (entry w) (entry w2)"
    "entry_of (vol_Spec volume) = (Some old, Some cls)"
    "sint (quantity_Value old) \<le> sint (RoundUpBytes (RequiredBytes cap))"
    "PatchVolume (d_ironcoreClient d) volume (resizedVolume volume (RoundUpBytes (RequiredBytes cap))) w2 = (pr, w')"
    "is_ok r \<longleftrightarrow> \<not> isl pr"
    by (rule expand_patches [OF server run])
  have named: "ce_VolumeId req \<noteq> ''''"
    using run True by (auto simp: ControllerExpandVolume_def)
  have read: "volume_key volume = expandKey d req \<and>
      (expandKey d req = k \<longrightarrow> entry w = Terminating \<or> entry w = Live (Some old, Some cls))"
    using volume_serverD(1) [OF server p(2)] p(4) by simp
  note patch = volume_serverD(4) [OF server p(6), unfolded resizedVolume_entry p(4) read [THEN conjunct1]]
  show ?thesis
  proof (cases "expandKey d req = k \<and> entry w = Live (Some old, Some cls)")
    case True
    with p(3) have "entry w2 = Live (Some old, Some cls)" by simp
    with patch True p(1,5,7) named show ?thesis by auto
  next
    case False
    then have "expandKey d req \<noteq> k \<or> entry w = Terminating" using read by blast
    then have "settles (entry w2) (entry w')" and "expandKey d req = k \<longrightarrow> entry w = Terminating"
      using patch p(3) by (auto simp: settles_def)
    with p(3) show ?thesis by (blast intro: settles_trans)
  qed
qed

lemma reads_leave_node: "reads_leave c entry \<Longrightarrow> leaves entry (GetNode c x)"
  by (simp add: reads_leave_def)

text \<open>The calls that do not concern the entry.\<close>

lemma other_calls_leave:
  assumes server: "volume_server (d_ironcoreClient d) k entry"
    and nodes: "\<And>x. leaves entry (GetNode (d_targetClient d) x)"
  shows "leaves entry (ControllerPublishVolume d preq)" "leaves entry (ControllerUnpublishVolume d preq)"
    "leaves entry (DeleteSnapshot d sid)" "leaves entry (ValidateVolumeCapabilities d vreq)"
  unfolding ControllerPublishVolume_def attachToMachine_def ControllerUnpublishVolume_def nodeExists_def
    detachFromMachine_def DeleteSnapshot_def ValidateVolumeCapabilities_def Let_def
  by (intro leaves_rules volume_server_leaves [OF server] nodes)+

lemma snapshot_leaves:
  assumes server: "volume_server (d_ironcoreClient d) k entry" and calm: "calm_backoff entry eb"
    and run: "CreateSnapshot eb d req w = (r, w')"
  shows "settles (entry w) (entry w')"
proof -
  note quiet = volume_server_leaves [OF server]
  obtain e w1 where check: "checkSourceVolume d req w = (e, w1)" by (metis surj_pair)
  have w1: "settles (entry w) (entry w1)"
    using check by (auto simp: checkSourceVolume_def split: outcome_splits dest: leavesD [OF quiet(1)])
  show ?thesis
    using run check w1
    by (auto simp: CreateSnapshot_def split: outcome_splits
        dest!: wait_snapshot_leaves [OF calm quiet(4)] leavesD [OF quiet(7)] intro: settles_trans)
qed

section \<open>The calls refine the abstract volume\<close>

text \<open>
  Calls of the controller service on any volumes, in any order and number, each with any backoff loop
  during which others leave the entry alone; and whatever else happens in between that leaves it alone.
  A step is labelled by its call, or by none.
\<close>

inductive controller_call ::
    "'w Runtime \<Rightarrow> 'w driver \<Rightarrow> ('w \<Rightarrow> 'e stored) \<Rightarrow> CsiCall option \<Rightarrow> 'w \<Rightarrow> 'w \<Rightarrow> bool"
  for rt d entry where
  call_create: "calm_backoff entry eb \<Longrightarrow> CreateVolume rt eb d creq w = (r, w') \<Longrightarrow>
    controller_call rt d entry (Some (Call_CreateVolume creq)) w w'"
| call_delete: "DeleteVolume d vid w = (r, w') \<Longrightarrow>
    controller_call rt d entry (Some (Call_DeleteVolume vid)) w w'"
| call_expand: "ControllerExpandVolume d ereq w = (r, w') \<Longrightarrow>
    controller_call rt d entry (Some (Call_ControllerExpandVolume ereq)) w w'"
| call_publish: "ControllerPublishVolume d preq w = (r, w') \<Longrightarrow>
    controller_call rt d entry (Some (Call_ControllerPublishVolume preq)) w w'"
| call_unpublish: "ControllerUnpublishVolume d preq w = (r, w') \<Longrightarrow>
    controller_call rt d entry (Some (Call_ControllerUnpublishVolume preq)) w w'"
| call_snapshot: "calm_backoff entry eb \<Longrightarrow> CreateSnapshot eb d sreq w = (r, w') \<Longrightarrow>
    controller_call rt d entry (Some (Call_CreateSnapshot sreq)) w w'"
| call_unsnapshot: "DeleteSnapshot d sid w = (r, w') \<Longrightarrow>
    controller_call rt d entry (Some (Call_DeleteSnapshot sid)) w w'"
| call_validate: "ValidateVolumeCapabilities d vreq w = (r, w') \<Longrightarrow>
    controller_call rt d entry (Some (Call_ValidateVolumeCapabilities vreq)) w w'"
| elsewhere: "settles (entry w) (entry w') \<Longrightarrow> controller_call rt d entry None w w'"

text \<open>What a call asks of the volume with key \<open>k\<close>.\<close>

definition volume_op :: "'w driver \<Rightarrow> ObjectKey \<Rightarrow> CsiCall option \<Rightarrow> volume_action" where
  "volume_op d k label = (case label of
       Some (Call_CreateVolume req) \<Rightarrow>
         (case create_args req of Inr a \<Rightarrow> if createKey d req = k then Op_put (requestedEntry a) else Op_none
          | Inl _ \<Rightarrow> Op_none)
     | Some (Call_DeleteVolume vid) \<Rightarrow>
         if vid \<noteq> '''' \<and> \<lparr>key_Namespace = DriverNamespace (d_config d), key_Name = vid\<rparr> = k then Op_delete else Op_none
     | Some (Call_ControllerExpandVolume req) \<Rightarrow>
         (case ce_CapacityRange req of
            Some cap \<Rightarrow> if ce_VolumeId req \<noteq> '''' \<and> expandKey d req = k
              then Op_raise (NewQuantity (RoundUpBytes (RequiredBytes cap))) else Op_none
          | None \<Rightarrow> Op_none)
     | _ \<Rightarrow> Op_none)"

lemma controller_call_step:
  assumes server: "volume_server (d_ironcoreClient d) k entry"
    and nodes: "reads_leave (d_targetClient d) entry"
    and "controller_call rt d entry label w w'"
  shows "volume_step (volume_op d k label) (entry w) (entry w')"
proof -
  note others = other_calls_leave [OF server reads_leave_node [OF nodes]]
  from assms(3) show ?thesis
  proof cases
    case (call_create eb creq r)
    show ?thesis
      using create_entry [OF server call_create(2,3)] create_args_whole [of creq] call_create(1)
      by (auto simp: requestedEntry_def volume_op_def split: if_splits intro: vol_put vol_same)
  next
    case (call_delete vid r)
    show ?thesis
      using delete_entry [OF server call_delete(2)] call_delete(1)
      by (auto simp: volume_op_def removed_def split: if_splits intro: vol_delete vol_same)
  next
    case (call_expand ereq r)
    show ?thesis
      using expand_entry [OF server call_expand(2)] call_expand(1) whole_round
      by (auto simp: volume_op_def intro!: vol_raise intro: vol_same)
  next
    case (call_snapshot eb sreq r)
    then show ?thesis using snapshot_leaves [OF server] vol_same by metis
  next
    case elsewhere
    then show ?thesis by (simp add: vol_same)
  qed (use others [THEN leavesD] in \<open>auto intro: vol_same\<close>)
qed

lemma controller_calls_steps:
  assumes "volume_server (d_ironcoreClient d) k entry" and "reads_leave (d_targetClient d) entry"
    and "run_of (controller_call rt d entry) calls w0 w"
  shows "run_of volume_step (map (volume_op d k) calls) (entry w0) (entry w)"
  using controller_call_step [OF assms(1,2)] assms(3) by (rule run_of_simulation)

text \<open>
  C2: Seen at one volume, the controller service refines the abstract volume, call by call: in every run
  of calls, for this volume and others, in any order, with any failures, including writes that take
  effect although they report an error, each step of the volume is one that the call of this moment asks
  for.  Only a CreateVolume of this volume puts an entry, the one that its request asks for, a whole
  number of GiB and a class; only a DeleteVolume of it takes it away; only a ControllerExpandVolume of it
  changes its size alone, to the size it asks for, which is no smaller than the old one.  So while the
  volume is not created again its class stays, its size never falls, and it is there until a DeleteVolume
  of it.
\<close>

theorem controller_refines_volume:
  assumes "volume_server (d_ironcoreClient d) k entry"
    and "reads_leave (d_targetClient d) entry"
    and "run_of (controller_call rt d entry) calls w0 w"
  shows "run_of volume_step (map (volume_op d k) calls) (entry w0) (entry w)
    \<and> ((\<forall>call \<in> set calls. \<forall>e. volume_op d k call \<noteq> Op_put e) \<longrightarrow>
        (\<forall>e'. entry w = Live e' \<longrightarrow> (\<exists>e. entry w0 = Live e \<and> grown e e')) \<and>
        ((\<forall>call \<in> set calls. volume_op d k call \<noteq> Op_delete) \<longrightarrow>
           (\<forall>e. entry w0 = Live e \<longrightarrow> (\<exists>e'. entry w = Live e'))))"
proof -
  have run: "run_of volume_step (map (volume_op d k) calls) (entry w0) (entry w)"
    by (rule controller_calls_steps [OF assms])
  have put: "(\<forall>call \<in> set calls. \<forall>e. volume_op d k call \<noteq> Op_put e) \<longleftrightarrow>
      (\<forall>e. Op_put e \<notin> set (map (volume_op d k) calls))"
    and del: "(\<forall>call \<in> set calls. volume_op d k call \<noteq> Op_delete) \<longleftrightarrow>
      Op_delete \<notin> set (map (volume_op d k) calls)"
    by (auto simp: image_iff) metis+
  show ?thesis
    unfolding put del using run volume_run_back [OF run] volume_run_live [OF run] by blast
qed

definition well_formed_entry :: "volume_entry stored \<Rightarrow> bool" where
  "well_formed_entry s = (case s of Live (Some q, Some cls) \<Rightarrow> whole_GiB q | Live _ \<Rightarrow> False | _ \<Rightarrow> True)"

lemma volume_step_well_formed: "volume_step op s s' \<Longrightarrow> well_formed_entry s \<Longrightarrow> well_formed_entry s'"
  by (erule volume_stepE) (auto simp: well_formed_entry_def settles_def)

text \<open>
  C14: Every volume the controller manages is well typed at all times: whatever the calls, once a volume
  has a size and a class and its size is a whole number of GiB, this stays so until it is deleted, and a
  volume that the controller creates starts out that way.  So the class that the expansion
  dereferences without a check is there.
\<close>

theorem stored_volumes_well_typed:
  assumes "volume_server (d_ironcoreClient d) k entry"
    and "reads_leave (d_targetClient d) entry"
    and "well_formed_entry (entry w0)" and "run_of (controller_call rt d entry) calls w0 w"
  shows "entry w = Gone \<or> entry w = Terminating \<or>
    (\<exists>q cls. entry w = Live (Some q, Some cls) \<and> 2 ^ 30 dvd sint (quantity_Value q))"
proof -
  have "run_of volume_step (map (volume_op d k) calls) (entry w0) (entry w)"
    by (rule controller_calls_steps [OF assms(1,2,4)])
  then have "well_formed_entry (entry w)"
    using assms(3) by (rule run_of_invariant) (rule volume_step_well_formed)
  then show ?thesis
    by (auto simp: well_formed_entry_def whole_GiB_def split: stored.splits option.splits)
qed


text \<open>
  C15: What an answer says about the volume is what the store holds.  After a successful CreateVolume the
  volume has the reported size and the class of the type parameter, whatever size or class it had before,
  unless it was under deletion: then the answer may be a success all the same although the volume is not
  brought back.  After a successful DeleteVolume it is under deletion or gone, whether or not it existed.
  After a successful expansion of a live volume it has the reported size, its old class and was not larger
  before.  A call that fails has either done the same or nothing.
\<close>

theorem volume_answers_are_true:
  assumes "volume_server (d_ironcoreClient d) k entry"
  shows "(\<forall>rt eb req w r w'. calm_backoff entry eb \<longrightarrow> createKey d req = k \<longrightarrow>
      CreateVolume rt eb d req w = (r, w') \<longrightarrow>
      (case r of
         Ok resp \<Rightarrow> entry w' = Live (Some (NewQuantity (CapacityBytes resp)), cv_Parameters req ParameterType)
           \<or> entry w = Terminating \<and> (entry w' = Terminating \<or> entry w' = Gone)
       | _ \<Rightarrow> settles (entry w) (entry w') \<or> (\<exists>a. create_args req = Inr a \<and> entry w' = Live (requestedEntry a))))
    \<and> (\<forall>vid w r w'. \<lparr>key_Namespace = DriverNamespace (d_config d), key_Name = vid\<rparr> = k \<longrightarrow>
      DeleteVolume d vid w = (r, w') \<longrightarrow>
      (if is_ok r then entry w' = Terminating \<or> entry w' = Gone
       else settles (entry w) (entry w') \<or> (\<exists>e. entry w = Live e) \<and> (entry w' = Terminating \<or> entry w' = Gone)))
    \<and> (\<forall>req w r w'. expandKey d req = k \<longrightarrow> (\<exists>e. entry w = Live e) \<longrightarrow>
      ControllerExpandVolume d req w = (r, w') \<longrightarrow>
      (case r of Ok resp \<Rightarrow> \<exists>old cls. entry w = Live (Some old, Some cls) \<and>
         sint (quantity_Value old) \<le> sint (ce_CapacityBytes resp) \<and>
         entry w' = Live (Some (NewQuantity (ce_CapacityBytes resp)), Some cls)
       | _ \<Rightarrow> entry w' = entry w \<or> (\<exists>old new cls. entry w = Live (Some old, Some cls) \<and>
         sint (quantity_Value old) \<le> sint new \<and> entry w' = Live (Some (NewQuantity new), Some cls))))"
proof (intro conjI allI impI)
  fix rt :: "'a Runtime" and eb req w r w'
  assume calm: "calm_backoff entry eb" and key: "createKey d req = k" and run: "CreateVolume rt eb d req w = (r, w')"
  note eff = create_entry [OF assms calm run]
  show "case r of
      Ok resp \<Rightarrow> entry w' = Live (Some (NewQuantity (CapacityBytes resp)), cv_Parameters req ParameterType)
        \<or> entry w = Terminating \<and> (entry w' = Terminating \<or> entry w' = Gone)
    | _ \<Rightarrow> settles (entry w) (entry w') \<or> (\<exists>a. create_args req = Inr a \<and> entry w' = Live (requestedEntry a))"
  proof (cases r)
    case (Ok resp)
    obtain a where "create_args req = Inr a" "CapacityBytes resp = ca_volSizeBytes a"
      using run unfolding Ok by (rule CreateVolume_okE) (simp add: createResponse_def)
    with eff key Ok show ?thesis by (auto simp: requestedEntry_def create_args_class)
  qed (use eff key in auto)
next
  fix vid w r w'
  assume key: "\<lparr>key_Namespace = DriverNamespace (d_config d), key_Name = vid\<rparr> = k" and run: "DeleteVolume d vid w = (r, w')"
  have "is_ok r \<Longrightarrow> vid \<noteq> ''''" using run by (auto simp: DeleteVolume_def)
  with delete_entry [OF assms run] key
  show "if is_ok r then entry w' = Terminating \<or> entry w' = Gone
    else settles (entry w) (entry w') \<or> (\<exists>e. entry w = Live e) \<and> (entry w' = Terminating \<or> entry w' = Gone)"
    by (cases "entry w") (auto simp: removed_def split: if_splits)
next
  fix req w r w'
  assume key: "expandKey d req = k" and live: "\<exists>e. entry w = Live e"
    and run: "ControllerExpandVolume d req w = (r, w')"
  have cap: "ce_CapacityBytes resp = RoundUpBytes (RequiredBytes c)"
    if "r = Ok resp" "ce_CapacityRange req = Some c" for resp c
    using run that by (auto elim!: ControllerExpandVolume_okE expandPatch_okE)
  show "case r of Ok resp \<Rightarrow> \<exists>old cls. entry w = Live (Some old, Some cls) \<and>
         sint (quantity_Value old) \<le> sint (ce_CapacityBytes resp) \<and>
         entry w' = Live (Some (NewQuantity (ce_CapacityBytes resp)), Some cls)
       | _ \<Rightarrow> entry w' = entry w \<or> (\<exists>old new cls. entry w = Live (Some old, Some cls) \<and>
         sint (quantity_Value old) \<le> sint new \<and> entry w' = Live (Some (NewQuantity new), Some cls))"
  proof (cases r)
    case (Ok resp)
    then show ?thesis using expand_entry [OF assms run] key live cap by fastforce
  next
    case (Err e)
    then show ?thesis using expand_entry [OF assms run] key live by auto
  next
    case (Panic p)
    then show ?thesis using expand_entry [OF assms run] key live by auto
  qed
qed

lemma create_attempts:
  assumes server: "volume_server (d_ironcoreClient d) k entry" and calm: "calm_backoff entry eb"
    and "createKey d req = k" and "create_args req = Inr a"
    and "run_all (CreateVolume rt eb d) (replicate n req) w = (rs, w')"
  shows "settles (entry w) (entry w') \<or> entry w' = Live (requestedEntry a)"
  using assms(5)
proof (induction n arbitrary: w rs)
  case 0
  then show ?case by simp
next
  case (Suc n)
  obtain r w1 where run: "CreateVolume rt eb d req w = (r, w1)" by (metis surj_pair)
  obtain rs1 where "run_all (CreateVolume rt eb d) (replicate n req) w1 = (rs1, w')"
    using Suc.prems run by (auto split: prod.splits)
  from Suc.IH [OF this] create_entry [OF server calm run] show ?case
    using assms(3,4) by (auto intro: settles_trans)
qed

text \<open>
  C19: CreateVolume can be retried: for a volume that is not under deletion, after any number of attempts
  with the same request, failed at any point or successful, the volume is as it was or as requested; a
  success leaves it as requested, one more attempt changes nothing and reports the same size, and
  DeleteVolume takes the volume away again however many attempts there were.
\<close>

theorem CreateVolume_retries:
  assumes "volume_server (d_ironcoreClient d) k entry" and "calm_backoff entry eb"
    and "createKey d req = k" and "entry w0 \<noteq> Terminating"
    and "run_all (CreateVolume rt eb d) (replicate n req) w0 = (rs, w1)"
    and "CreateVolume rt eb d req w1 = (Ok resp, w2)"
    and "CreateVolume rt eb d req w2 = (again, w3)"
    and "DeleteVolume d (cv_Name req) w3 = (Ok (), w4)"
  shows "(entry w1 = entry w0 \<or> entry w1 = entry w2)
    \<and> entry w2 = Live (Some (NewQuantity (CapacityBytes resp)), cv_Parameters req ParameterType)
    \<and> entry w3 = entry w2 \<and> (\<forall>resp'. again = Ok resp' \<longrightarrow> CapacityBytes resp' = CapacityBytes resp)
    \<and> (entry w4 = Terminating \<or> entry w4 = Gone)"
proof -
  have size_of: "CapacityBytes r = ca_volSizeBytes a"
    if "CreateVolume rt eb d req w = (Ok r, w')" "create_args req = Inr a" for r w w' a
    using that(1) by (rule CreateVolume_okE) (use that(2) in \<open>simp add: createResponse_def\<close>)
  obtain a where a: "create_args req = Inr a"
    using assms(6) by (rule CreateVolume_okE)
  have e: "requestedEntry a = (Some (NewQuantity (CapacityBytes resp)), cv_Parameters req ParameterType)"
    using size_of [OF assms(6) a] create_args_class [OF a] by (simp add: requestedEntry_def)
  have w1: "entry w1 = entry w0 \<or> entry w1 = Live (requestedEntry a)"
    using create_attempts [OF assms(1,2,3) a assms(5)] assms(4) by (auto simp: settles_def)
  have w2: "entry w2 = Live (requestedEntry a)"
    using create_entry [OF assms(1,2,6)] assms(3,4) a w1 by auto
  have w3: "entry w3 = entry w2"
    using create_entry [OF assms(1,2,7)] assms(3) a w2 by auto
  have "removed True (entry w3) (entry w4)"
    using delete_entry [OF assms(1,8)] assms(3,8) by (auto simp: createKey_def DeleteVolume_def split: if_splits)
  then show ?thesis
    using w1 size_of [OF assms(6) a] size_of [OF _ a] assms(7) w2 w3
    unfolding e by (auto dest: removed_gone)
qed

section \<open>A server that stores volumes\<close>

text \<open>
  A stored volume is its specification and whether it is under deletion; someone holds a finalizer, so
  that a deleted volume stays under deletion.
\<close>

type_synonym volumes_world = "ObjectKey \<Rightarrow> (bool \<times> VolumeSpec) option"

definition volumes_client :: "volumes_world Client" where
  "volumes_client = ready_client
     \<lparr>GetVolume := (\<lambda>k s. (case s k of Some (t, sp) \<Rightarrow> Inr ((sim_volume k)\<lparr>vol_Spec := sp\<rparr>)
        | None \<Rightarrow> Inl not_found, s)),
      ApplyVolume := (\<lambda>a ow f s. let k = \<lparr>key_Namespace = va_Namespace a, key_Name = va_Name a\<rparr> in
        (None, s(k \<mapsto> (case s k of Some (t, sp) \<Rightarrow> t | None \<Rightarrow> False, va_Spec a)))),
      DeleteVolumeObject := (\<lambda>k s. (case s k of Some (t, sp) \<Rightarrow> (None, s(k \<mapsto> (True, sp)))
        | None \<Rightarrow> (Some not_found, s))),
      PatchVolume := (\<lambda>b v s. (case s (volume_key v) of None \<Rightarrow> (Inl not_found, s)
        | Some (t, sp) \<Rightarrow> (Inr v, s(volume_key v \<mapsto> (t, vol_Spec v)))))\<rparr>"

definition volumes_driver :: "volumes_world driver" where
  "volumes_driver = ready_driver\<lparr>d_ironcoreClient := volumes_client\<rparr>"

definition stored_entry :: "ObjectKey \<Rightarrow> volumes_world \<Rightarrow> volume_entry stored" where
  "stored_entry k s = (case s k of None \<Rightarrow> Gone | Some (t, sp) \<Rightarrow> if t then Terminating else Live (entry_of sp))"

abbreviation "sim_key \<equiv> \<lparr>key_Namespace = ''ns'', key_Name = ''volume''\<rparr>"

lemmas volumes_run = volumes_driver_def volumes_client_def ready_defs stored_entry_def

lemma volumes_server: "volume_server (d_ironcoreClient volumes_driver) k (stored_entry k)"
  "reads_leave (d_targetClient volumes_driver) (stored_entry k)"
  by (auto simp: volume_server_def reads_leave_def other_writes_leave_def leaves_def get_law_def apply_law_def
      delete_law_def patch_law_def applied_def removed_def volumes_run volume_key_def Let_def
      simp del: split_paired_Ex split_paired_All split: option.splits prod.splits if_splits)

lemma sim_backoff_calm: "calm_backoff view sim_backoff"
  unfolding calm_backoff_def using sim_backoff_contract by (intro exI [of _ "(=)"]) simp

lemma sim_create_name: "cv_Name sim_create = ''volume''"
  by (simp add: sim_create_def)

definition sim_spec :: VolumeSpec where
  "sim_spec = volumeSpec \<lparr>ca_volSizeBytes = 5368709120, ca_fstype = ''ext4'', ca_mkfsOptions = '''',
     ca_volumeClass = ''expand-only'', ca_volumePoolName = ''volumepool'', ca_accessibleTopology = []\<rparr> ''volumepool''"

lemma volumes_created: "\<exists>resp. CreateVolume nop_runtime sim_backoff volumes_driver sim_create s
    = (Ok resp, s(sim_key \<mapsto> (case s sim_key of Some (t, old) \<Rightarrow> t | None \<Rightarrow> False, sim_spec)))"
  by (auto simp: create_run volumes_run volume_key_def volumeObject_def volumeApplyConfig_def sim_create_name
    sim_spec_def split: option.splits prod.splits)

lemma sim_create_key: "createKey volumes_driver sim_create = sim_key"
  by (simp add: createKey_def volumes_run sim_create_name)

lemma volumes_deleted: "s sim_key = Some (t, sp) \<Longrightarrow>
    DeleteVolume volumes_driver ''volume'' s = (Ok (), s(sim_key \<mapsto> (True, sp)))"
  by (simp add: DeleteVolume_def volumes_run Let_def)

text \<open>A volume of 5 GiB is expanded to 7.\<close>

theorem controller_refines_volume_witness:
  "\<exists>s w q. run_of (controller_call nop_runtime volumes_driver (stored_entry \<lparr>key_Namespace = ''ns'', key_Name = ''v''\<rparr>))
       [Some (Call_ControllerExpandVolume sim_expand)] s w
     \<and> stored_entry \<lparr>key_Namespace = ''ns'', key_Name = ''v''\<rparr> w = Live (Some q, Some ''expand-only'')
     \<and> sint (quantity_Value q) \<ge> 5 * 2 ^ 30"
proof -
  let ?k = "\<lparr>key_Namespace = ''ns'', key_Name = ''v''\<rparr>"
  let ?s = "Map.empty(?k \<mapsto> (False, vol_Spec (sim_volume ?k))) :: volumes_world"
  let ?calls = "[Some (Call_ControllerExpandVolume sim_expand)]"
  obtain r w where run: "ControllerExpandVolume volumes_driver sim_expand ?s = (r, w)" by (metis surj_pair)
  have steps: "run_of (controller_call nop_runtime volumes_driver (stored_entry ?k)) ?calls ?s w"
    using call_expand [OF run] by simp
  have "\<forall>call \<in> set ?calls. (\<forall>e. volume_op volumes_driver ?k call \<noteq> Op_put e) \<and>
      volume_op volumes_driver ?k call \<noteq> Op_delete"
    by (simp add: volume_op_def split: option.splits)
  with controller_refines_volume [OF volumes_server steps]
  have "stored_entry ?k ?s = Live e \<Longrightarrow> \<exists>e'. stored_entry ?k w = Live e' \<and> grown e e'" for e
    by (metis (no_types, lifting) stored.inject)
  moreover have "stored_entry ?k ?s = Live (Some (NewQuantity 5368709120), Some ''expand-only'')"
    by (simp add: stored_entry_def entry_of_def sim_volume_def)
  ultimately obtain e' where "stored_entry ?k w = Live e'" "grown (Some (NewQuantity 5368709120), Some ''expand-only'') e'"
    by blast
  with steps show ?thesis
    by (intro exI [of _ ?s] exI [of _ w]) (auto simp: grown_def)
qed

lemma sim_created_run:
  obtains resp w where "CreateVolume nop_runtime sim_backoff volumes_driver sim_create Map.empty = (Ok resp, w)"
    and "run_of (controller_call nop_runtime volumes_driver (stored_entry sim_key))
      [Some (Call_CreateVolume sim_create)] Map.empty w"
    and "\<exists>sp. w sim_key = Some (False, sp)"
  using volumes_created [of Map.empty] call_create [OF sim_backoff_calm] by fastforce

theorem stored_volumes_well_typed_witness:
  "\<exists>w q cls. run_of (controller_call nop_runtime volumes_driver (stored_entry sim_key))
       [Some (Call_CreateVolume sim_create)] Map.empty w \<and>
     stored_entry sim_key w = Live (Some q, Some cls) \<and> 2 ^ 30 dvd sint (quantity_Value q)"
proof -
  obtain resp w where "run_of (controller_call nop_runtime volumes_driver (stored_entry sim_key))
      [Some (Call_CreateVolume sim_create)] Map.empty w" and "\<exists>sp. w sim_key = Some (False, sp)"
    using sim_created_run by metis
  moreover have start: "well_formed_entry (stored_entry sim_key Map.empty)"
    by (simp add: stored_entry_def well_formed_entry_def)
  ultimately have "stored_entry sim_key w \<noteq> Gone" "stored_entry sim_key w \<noteq> Terminating"
    and steps: "run_of (controller_call nop_runtime volumes_driver (stored_entry sim_key))
      [Some (Call_CreateVolume sim_create)] Map.empty w"
    by (auto simp: stored_entry_def)
  with stored_volumes_well_typed [OF volumes_server start steps] show ?thesis by blast
qed

text \<open>
  A volume is created and deleted, and while it is under deletion created again: each of the three calls
  is answered with success, and the volume is under deletion.
\<close>

theorem volume_answers_are_true_witness:
  "\<exists>resp w1 w2 resp' w3. CreateVolume nop_runtime sim_backoff volumes_driver sim_create Map.empty = (Ok resp, w1) \<and>
     stored_entry sim_key w1 = Live (Some (NewQuantity (CapacityBytes resp)), Some ''expand-only'') \<and>
     DeleteVolume volumes_driver ''volume'' w1 = (Ok (), w2) \<and>
     CreateVolume nop_runtime sim_backoff volumes_driver sim_create w2 = (Ok resp', w3) \<and>
     stored_entry sim_key w3 = Terminating"
proof -
  obtain resp w1 sp where run: "CreateVolume nop_runtime sim_backoff volumes_driver sim_create Map.empty = (Ok resp, w1)"
    and w1: "w1 sim_key = Some (False, sp)"
    using sim_created_run by metis
  have "stored_entry sim_key w1 = Live (Some (NewQuantity (CapacityBytes resp)), cv_Parameters sim_create ParameterType)"
    using volume_answers_are_true [OF volumes_server(1), THEN conjunct1, rule_format,
        OF sim_backoff_calm sim_create_key run] by (simp add: stored_entry_def)
  moreover have "DeleteVolume volumes_driver ''volume'' w1 = (Ok (), w1(sim_key \<mapsto> (True, sp)))"
    using w1 by (rule volumes_deleted)
  moreover obtain resp' w3 where "CreateVolume nop_runtime sim_backoff volumes_driver sim_create
      (w1(sim_key \<mapsto> (True, sp))) = (Ok resp', w3)" "stored_entry sim_key w3 = Terminating"
    using volumes_created [of "w1(sim_key \<mapsto> (True, sp))"] by (auto simp: stored_entry_def)
  ultimately show ?thesis
    using run by (auto simp: sim_create_def parameter_defs)
qed

theorem CreateVolume_retries_witness:
  "\<exists>rs w1 resp w2 again w3 w4.
     run_all (CreateVolume nop_runtime sim_backoff volumes_driver) (replicate 2 sim_create) Map.empty = (rs, w1) \<and>
     CreateVolume nop_runtime sim_backoff volumes_driver sim_create w1 = (Ok resp, w2) \<and>
     CreateVolume nop_runtime sim_backoff volumes_driver sim_create w2 = (again, w3) \<and>
     DeleteVolume volumes_driver ''volume'' w3 = (Ok (), w4) \<and>
     stored_entry sim_key w3 = stored_entry sim_key w2 \<and>
     (stored_entry sim_key w4 = Terminating \<or> stored_entry sim_key w4 = Gone)"
proof -
  obtain rs w1 where first: "run_all (CreateVolume nop_runtime sim_backoff volumes_driver) (replicate 2 sim_create) Map.empty = (rs, w1)"
    by (metis surj_pair)
  obtain resp w2 where run: "CreateVolume nop_runtime sim_backoff volumes_driver sim_create w1 = (Ok resp, w2)"
    using volumes_created by blast
  obtain resp' w3 where more: "CreateVolume nop_runtime sim_backoff volumes_driver sim_create w2 = (Ok resp', w3)"
    and "w3 sim_key \<noteq> None"
    using volumes_created [of w2] by force
  then obtain t sp where "w3 sim_key = Some (t, sp)" by auto
  then have del: "DeleteVolume volumes_driver ''volume'' w3 = (Ok (), w3(sim_key \<mapsto> (True, sp)))"
    by (rule volumes_deleted)
  then have "DeleteVolume volumes_driver (cv_Name sim_create) w3 = (Ok (), w3(sim_key \<mapsto> (True, sp)))"
    unfolding sim_create_name .
  moreover have "stored_entry sim_key Map.empty \<noteq> Terminating" by (simp add: stored_entry_def)
  ultimately show ?thesis
    using CreateVolume_retries [OF volumes_server(1) sim_backoff_calm sim_create_key _ first run more] first run more del
    by metis
qed

end
