(* ===== verification/Node_Publish_Props.thy ===== *)
theory Node_Publish_Props
  imports Node_Publish Trace Sim
begin

text \<open>
  What publishing to a pod and unpublishing do: the mount options, the calls they make and their
  order, and what is removed.
\<close>

section \<open>The mount options\<close>

lemma extraFlags_filter:
  "extraFlags acc fs = acc @ filter (\<lambda>f. f \<notin> {''bind'', ''ro''}) fs"
  by (induction fs arbitrary: acc) auto

lemma publishOptions_eq:
  "publishOptions req =
     (let flags = GetMountFlags (GetMount (np_VolumeCapability req))
      in flags @ [''bind'', if np_Readonly req then ''ro'' else ''rw''] @
         filter (\<lambda>f. f \<notin> {''bind'', ''ro''}) flags)"
  by (simp add: publishOptions_def extraFlags_filter GetMountFlags_def Let_def split: option.splits)

text \<open>
  The mount options of a publish contain bind always, and ro or rw as the request says, behind the
  request's own mount flags; the flags other than bind and ro are then repeated.  The repetition drops
  ro but not rw, so a read-only publish whose flags contain rw ends with rw after the ro that was to
  make it read-only, and the later option is the one that counts.
\<close>

lemma publishOptions_readonly:
  "(\<exists>before after. publishOptions req = before @ [''bind'', if np_Readonly req then ''ro'' else ''rw''] @ after
      \<and> before = GetMountFlags (GetMount (np_VolumeCapability req))
      \<and> set after = set before - {''bind'', ''ro''})
   \<and> (np_Readonly req \<and> ''rw'' \<in> set (GetMountFlags (GetMount (np_VolumeCapability req))) \<longrightarrow>
       (\<exists>xs ys. publishOptions req = xs @ ''ro'' # ys \<and> ''rw'' \<in> set ys \<and> ''ro'' \<notin> set ys))"
proof (intro conjI impI)
  let ?flags = "GetMountFlags (GetMount (np_VolumeCapability req))"
  show "\<exists>before after. publishOptions req = before @ [''bind'', if np_Readonly req then ''ro'' else ''rw''] @ after
      \<and> before = ?flags \<and> set after = set before - {''bind'', ''ro''}"
    by (rule exI [of _ ?flags], rule exI [of _ "filter (\<lambda>f. f \<notin> {''bind'', ''ro''}) ?flags"])
      (auto simp: publishOptions_eq Let_def)
  assume "np_Readonly req \<and> ''rw'' \<in> set ?flags"
  then show "\<exists>xs ys. publishOptions req = xs @ ''ro'' # ys \<and> ''rw'' \<in> set ys \<and> ''ro'' \<notin> set ys"
    by (intro exI [of _ "?flags @ [''bind'']"] exI [of _ "filter (\<lambda>f. f \<notin> {''bind'', ''ro''}) ?flags"])
      (auto simp: publishOptions_eq Let_def)
qed

definition sim_node_publish :: NodePublishRequest where
  "sim_node_publish = \<lparr>np_VolumeId = ''v'', np_StagingTargetPath = ''/stage'', np_TargetPath = ''/pod'',
     np_VolumeCapability = Some \<lparr>AccessMode = Some SINGLE_NODE_WRITER,
       cap_AccessType = Some (MountAccess \<lparr>FsType = ''ext4'', MountFlags = [''rw'']\<rparr>)\<rparr>,
     np_Readonly = True, np_VolumeContext = Map.empty\<rparr>"

theorem publishOptions_readonly_witness:
  "\<exists>xs ys. publishOptions sim_node_publish = xs @ ''ro'' # ys \<and> ''rw'' \<in> set ys"
  using publishOptions_readonly [of sim_node_publish]
  by (auto simp: sim_node_publish_def GetMount_def GetMountFlags_def)

section \<open>The calls of a publish\<close>

definition checkNodePublish :: "NodePublishRequest \<Rightarrow> error option" where
  "checkNodePublish req =
     (if np_VolumeId req = '''' then Some (Status InvalidArgument ''Volume ID is not set'' [])
      else if np_StagingTargetPath req = ''''
      then Some (Status InvalidArgument ''StagingTargetPath is not set'' [])
      else if np_TargetPath req = '''' then Some (Status InvalidArgument ''TargetMountPath is not set'' [])
      else if np_VolumeCapability req = None
      then Some (Status InvalidArgument ''No volume capabilities provided for volume %s'' [A_Str (np_VolumeId req)])
      else None)"

interpretation publish_check: checked_call checkNodePublish "NodePublishVolume d"
  for d :: "'w driver"
  by unfold_locales (auto simp: checkNodePublish_def NodePublishVolume_def Let_def split: if_splits)

lemma publishMount_trace:
  "publishMount (traced d) req (w, tr) =
     (case Mount (d_mounter d) (np_StagingTargetPath req) (np_TargetPath req)
             (publishFsType req) (publishOptions req) w of (e, w') \<Rightarrow>
        (if e = None then Ok () else Err (Status Internal ''Could not mount %q at %q: %v''
             [A_Str (np_StagingTargetPath req), A_Str (np_TargetPath req), A_Err (Ext (the e))]),
         (w', tr @ [C_Mount (np_StagingTargetPath req) (np_TargetPath req)
             (publishFsType req) (publishOptions req) e])))"
  by (auto simp: publishMount_def logged_eq split: outcome_splits)

text \<open>
  C29: NodePublishVolume asks whether the target is mounted, and mounts only if it is not: it then
  creates the directory if it is missing and mounts the staging path there, once, with the options of
  the request and the file system of the volume context (ext4 by default).  It answers Ok exactly when
  the target was mounted before or the mount succeeded; a request that fails its checks touches
  nothing.
\<close>

theorem NodePublishVolume_calls:
  assumes "NodePublishVolume (traced d) req (w, []) = (r, (w', tr))"
  shows "if checkNodePublish req \<noteq> None then tr = [] \<and> result_code r = Some InvalidArgument
    else \<exists>notMnt e e1 e2.
      let failed = (e \<noteq> None \<and> \<not> IsNotExist (d_os d) e); create = IsNotExist (d_os d) e in
      tr = [C_IsLikelyNotMountPoint (np_TargetPath req) notMnt e] @
        (if failed \<or> \<not> notMnt then []
         else (if create then [C_MkdirAll (np_TargetPath req) e1] else []) @
           (if create \<and> e1 \<noteq> None then []
            else [C_Mount (np_StagingTargetPath req) (np_TargetPath req)
              (if go_lookup (np_VolumeContext req) ParameterFSType = '''' then ''ext4''
               else go_lookup (np_VolumeContext req) ParameterFSType)
              (publishOptions req) e2]))
      \<and> (is_ok r \<longleftrightarrow> \<not> failed \<and> (notMnt \<longrightarrow> (create \<longrightarrow> e1 = None) \<and> e2 = None))"
proof (cases "checkNodePublish req")
  case (Some e)
  then show ?thesis
    using assms publish_check.rejects [OF Some, of "traced d" "(w, [])"]
    by (auto simp: checkNodePublish_def split: if_splits)
next
  case None
  let ?t = "np_TargetPath req"
  have fs: "publishFsType req = (if go_lookup (np_VolumeContext req) ParameterFSType = '''' then ''ext4''
      else go_lookup (np_VolumeContext req) ParameterFSType)"
    by (simp add: publishFsType_def FSTypeExt4_def Let_def)
  have set: "np_VolumeId req \<noteq> ''''" "np_StagingTargetPath req \<noteq> ''''" "?t \<noteq> ''''" "np_VolumeCapability req \<noteq> None"
    using None by (auto simp: checkNodePublish_def split: if_splits)
  obtain notMnt e w1 where mp: "IsLikelyNotMountPoint (d_mounter d) ?t w = ((notMnt, e), w1)"
    by (metis surj_pair)
  obtain e1 w2 where mk: "MkdirAll (d_os d) ?t 488 w1 = (e1, w2)"
    by (metis surj_pair)
  obtain e2 w3 where mnt: "Mount (d_mounter d) (np_StagingTargetPath req) ?t (publishFsType req)
      (publishOptions req) (if IsNotExist (d_os d) e then w2 else w1) = (e2, w3)"
    by (metis surj_pair)
  define create where "create = IsNotExist (d_os d) e"
  have "tr = [C_IsLikelyNotMountPoint ?t notMnt e] @
        (if (e \<noteq> None \<and> \<not> create) \<or> \<not> notMnt then []
         else (if create then [C_MkdirAll ?t e1] else []) @
           (if create \<and> e1 \<noteq> None then []
            else [C_Mount (np_StagingTargetPath req) ?t (publishFsType req) (publishOptions req) e2]))
      \<and> (is_ok r \<longleftrightarrow> \<not> (e \<noteq> None \<and> \<not> create) \<and> (notMnt \<longrightarrow> (create \<longrightarrow> e1 = None) \<and> e2 = None))"
    using assms set mp mk mnt create_def [symmetric]
    by (cases e; cases notMnt; cases create; cases e1)
      (auto simp: NodePublishVolume_def logged_eq publishMount_trace Let_def split: if_splits)
  then show ?thesis
    unfolding fs [symmetric] create_def using None by (auto simp: Let_def)
qed

section \<open>Unpublishing\<close>

definition checkUnpublish :: "NodeUnpublishRequest \<Rightarrow> error option" where
  "checkUnpublish req =
     (if nup_VolumeId req = '''' then Some (Status InvalidArgument ''Volume ID not provided'' [])
      else if nup_TargetPath req = '''' then Some (Status InvalidArgument ''Target path not provided'' [])
      else None)"

interpretation unpublish_check: checked_call checkUnpublish "NodeUnpublishVolume d"
  for d :: "'w driver"
  by unfold_locales (auto simp: checkUnpublish_def NodeUnpublishVolume_def Let_def split: if_splits)

lemma removeTarget_trace:
  "removeTarget (traced d) p (w, tr) =
     (case RemoveAll (d_os d) p w of (e, w') \<Rightarrow>
        (if e = None then Ok () else Err (Status Internal ''Failed to remove mount directory %s, error: %v''
             [A_Str p, A_Err (Ext (the e))]),
         (w', tr @ [C_RemoveAll p e])))"
  by (auto simp: removeTarget_def logged_eq split: outcome_splits)

text \<open>
  C30: NodeUnpublishVolume removes the target only when nothing is mounted there any more: after an
  unmount that succeeded, or when the mounter said that the target is not a mount point.  A target
  that cannot be looked at is an internal error before anything is touched, so unpublishing a second
  time, when the directory is gone, fails.
\<close>

theorem NodeUnpublishVolume_calls:
  assumes "NodeUnpublishVolume (traced d) req (w, []) = (r, (w', tr))"
  shows "if checkUnpublish req \<noteq> None then tr = [] \<and> result_code r = Some InvalidArgument
    else \<exists>e0 notMnt e e1 e2.
      let failed = (e \<noteq> None \<and> \<not> IsNotExist (d_os d) e) in
      tr = [C_Stat (nup_TargetPath req) e0] @
        (if e0 \<noteq> None then [] else [C_IsLikelyNotMountPoint (nup_TargetPath req) notMnt e] @
          (if failed then [] else
           (if notMnt then [] else [C_Unmount (nup_TargetPath req) e1]) @
           (if \<not> notMnt \<and> e1 \<noteq> None then [] else [C_RemoveAll (nup_TargetPath req) e2])))
      \<and> result_code r = Some (if e0 = None \<and> \<not> failed \<and> (notMnt \<or> e1 = None) \<and> e2 = None
          then OK else Internal)"
proof (cases "checkUnpublish req")
  case (Some e)
  then show ?thesis
    using assms unpublish_check.rejects [OF Some, of "traced d" "(w, [])"]
    by (auto simp: checkUnpublish_def split: if_splits)
next
  case None
  let ?t = "nup_TargetPath req"
  have set: "nup_VolumeId req \<noteq> ''''" "?t \<noteq> ''''"
    using None by (auto simp: checkUnpublish_def split: if_splits)
  obtain e0 w0 where st: "Stat (d_os d) ?t w = (e0, w0)" by (metis surj_pair)
  obtain notMnt e w1 where mp: "IsLikelyNotMountPoint (d_mounter d) ?t w0 = ((notMnt, e), w1)"
    by (metis surj_pair)
  obtain e1 w2 where um: "Unmount (d_mounter d) ?t w1 = (e1, w2)" by (metis surj_pair)
  obtain e2 w3 where rm: "RemoveAll (d_os d) ?t (if notMnt then w1 else w2) = (e2, w3)" by (metis surj_pair)
  define failed where "failed = (e \<noteq> None \<and> \<not> IsNotExist (d_os d) e)"
  have "tr = [C_Stat ?t e0] @
        (if e0 \<noteq> None then [] else [C_IsLikelyNotMountPoint ?t notMnt e] @
          (if failed then [] else
           (if notMnt then [] else [C_Unmount ?t e1]) @
           (if \<not> notMnt \<and> e1 \<noteq> None then [] else [C_RemoveAll ?t e2])))
      \<and> result_code r = Some (if e0 = None \<and> \<not> failed \<and> (notMnt \<or> e1 = None) \<and> e2 = None
          then OK else Internal)"
    using assms set st mp um rm failed_def
    by (cases e0; cases failed; cases notMnt; cases e1)
      (auto simp: NodeUnpublishVolume_def logged_eq removeTarget_trace Let_def split: if_splits)
  then show ?thesis
    using None by (auto simp: Let_def failed_def)
qed

section \<open>Witnesses\<close>

theorem NodePublishVolume_calls_witness:
  "\<exists>r w' tr. NodePublishVolume (traced nop_driver) sim_node_publish ((), []) = (r, (w', tr))
     \<and> is_ok r \<and> length tr \<le> 3"
proof -
  have ok: "is_ok (fst (NodePublishVolume (traced nop_driver) sim_node_publish ((), [])))"
    by (simp add: NodePublishVolume_def publishMount_def sim_node_publish_def sim_defs logged_eq Let_def)
  have check: "checkNodePublish sim_node_publish = None"
    by (simp add: checkNodePublish_def sim_node_publish_def)
  obtain r w' tr where run: "NodePublishVolume (traced nop_driver) sim_node_publish ((), []) = (r, (w', tr))"
    by (metis surj_pair)
  from NodePublishVolume_calls [OF run] ok run check show ?thesis
    by (auto simp: Let_def)
qed

theorem NodeUnpublishVolume_calls_witness:
  "\<exists>r w' tr. NodeUnpublishVolume (traced nop_driver) \<lparr>nup_VolumeId = ''v'', nup_TargetPath = ''/pod''\<rparr> ((), [])
     = (r, (w', tr)) \<and> result_code r = Some OK \<and> (\<exists>e. C_RemoveAll ''/pod'' e \<in> set tr)"
proof -
  obtain r w' tr where run: "NodeUnpublishVolume (traced nop_driver)
      \<lparr>nup_VolumeId = ''v'', nup_TargetPath = ''/pod''\<rparr> ((), []) = (r, (w', tr))"
    by (metis surj_pair)
  then have "result_code r = Some OK"
    by (auto simp: NodeUnpublishVolume_def removeTarget_def sim_defs logged_eq Let_def)
  with NodeUnpublishVolume_calls [OF run] run show ?thesis
    by (auto simp: checkUnpublish_def Let_def split: if_splits)
qed

end
