(* ===== verification/Node_Lifecycle.thy ===== *)
theory Node_Lifecycle
  imports Node_Stage_Props Node_Publish_Props
begin

text \<open>
  Staging, publishing, unpublishing and unstaging seen together, over the mount table of the node and
  the contents of its file systems: what each call changes, that the four undo each other, and that no
  sequence of calls loses the contents of a volume or mounts a volume on the wrong path.  It rests on
  what the mount library documents, its blind spot for bind mounts included.
\<close>

section \<open>The node\<close>

text \<open>
  The mount table gives for every path the file systems mounted there, the one on top first; a later
  mount hides an earlier one.  \<open>H\<close> are the host's own file systems.  Data is the contents of each
  file system.
\<close>

type_synonym table = "string \<Rightarrow> string list"

definition lies_under :: "string \<Rightarrow> string \<Rightarrow> bool" where
  "lies_under q p \<longleftrightarrow> p \<noteq> q \<and> prefix (if q = ''/'' then q else q @ ''/'') p"

lemma lies_under_irrefl [simp]: "\<not> lies_under p p"
  by (simp add: lies_under_def)

definition hosted :: "string set \<Rightarrow> string list \<Rightarrow> bool" where
  "hosted H fs \<longleftrightarrow> set fs \<subseteq> H"

lemma hosted_simps [simp]: "hosted H []" "hosted H (x # fs) \<longleftrightarrow> x \<in> H \<and> hosted H fs"
  by (simp_all add: hosted_def)

lemma hosted_tl: "hosted H fs \<Longrightarrow> hosted H (tl fs)"
  by (cases fs) simp_all

text \<open>
  A plain path: it involves no symbolic links, and on the way to it only the host's own file systems
  are mounted.
\<close>

definition plain :: "string set \<Rightarrow> string set \<Rightarrow> table \<Rightarrow> string \<Rightarrow> bool" where
  "plain dirs H m p \<longleftrightarrow> p \<in> dirs \<and> (\<forall>q. lies_under q p \<longrightarrow> hosted H (m q))"

definition untouched :: "string set \<Rightarrow> ('w \<Rightarrow> string \<Rightarrow> 'c) \<Rightarrow> 'w \<Rightarrow> 'w \<Rightarrow> bool" where
  "untouched X data w w' \<longleftrightarrow> (\<forall>x. x \<notin> X \<longrightarrow> data w' x = data w x)"

lemma untouched_refl [simp]: "untouched X data w w"
  by (simp add: untouched_def)

lemma untouched_trans: "untouched X data u v \<Longrightarrow> untouched X data v w \<Longrightarrow> untouched X data u w"
  by (simp add: untouched_def)

lemma untouched_mono: "untouched X data v w \<Longrightarrow> X \<subseteq> Y \<Longrightarrow> untouched Y data v w"
  by (auto simp: untouched_def)

definition looks :: "string set \<Rightarrow> ('w \<Rightarrow> table) \<Rightarrow> ('w \<Rightarrow> string \<Rightarrow> 'c) \<Rightarrow> ('w \<Rightarrow> 'r \<times> 'w) \<Rightarrow> bool" where
  "looks H mounts data f \<longleftrightarrow> (\<forall>w. mounts (snd (f w)) = mounts w \<and> untouched H data w (snd (f w)))"

lemma looksD: "looks H mounts data f \<Longrightarrow> f w = (r, w') \<Longrightarrow> mounts w' = mounts w \<and> untouched H data w w'"
  unfolding looks_def by (metis snd_conv)

text \<open>
  What is assumed of looking around.  The check for a mount point is the library's fast one, which is
  documented not to be always right: it compares the path with its parent.  On a plain path it never
  takes an ordinary directory for a mount point, but a bind mount from one part of a file system to
  another escapes it, so when it says that there is none the host's own files may be mounted there.
  A path that does not exist is no mount point.
\<close>

definition looking_laws ::
    "'w Runtime \<Rightarrow> 'w driver \<Rightarrow> string set \<Rightarrow> string set \<Rightarrow> ('w \<Rightarrow> table) \<Rightarrow> ('w \<Rightarrow> string \<Rightarrow> 'c) \<Rightarrow> bool" where
  "looking_laws rt d dirs H mounts data \<longleftrightarrow>
     (\<forall>p. looks H mounts data (Stat (d_os d) p)) \<and>
     (\<forall>p. looks H mounts data (EvalSymlinks rt p)) \<and>
     looks H mounts data (ListMounts (d_mounter d)) \<and>
     (\<forall>p. looks H mounts data (IsLikelyNotMountPoint (d_mounter d) p)) \<and>
     (\<forall>p w b e w'. IsLikelyNotMountPoint (d_mounter d) p w = ((b, e), w') \<longrightarrow> plain dirs H (mounts w) p \<longrightarrow>
        e = None \<or> IsNotExist (d_os d) e \<longrightarrow>
        (if b then mounts w p = [] \<or> hd (mounts w p) \<in> H else mounts w p \<noteq> []))"

text \<open>
  What is assumed of the changes.  A mount puts a file system on top at its target, a bind mount the one
  that is on top at its source, or the one the source lies in if nothing is mounted there; unmounting
  takes the top away; each of them, when it reports an error, may have been made or not.  Formatting
  touches only the device that is formatted.  A directory is made in the host's file systems if the path
  is plain, and removing the tree at a plain path touches at most these and what is mounted at the path
  or below it.
\<close>

definition changing_laws ::
    "'w driver \<Rightarrow> string set \<Rightarrow> string set \<Rightarrow> ('w \<Rightarrow> table) \<Rightarrow> ('w \<Rightarrow> string \<Rightarrow> 'c) \<Rightarrow> bool" where
  "changing_laws d dirs H mounts data \<longleftrightarrow>
     (\<forall>p perm w r w'. MkdirAll (d_os d) p perm w = (r, w') \<longrightarrow>
        mounts w' = mounts w \<and> (plain dirs H (mounts w) p \<longrightarrow> untouched H data w w')) \<and>
     (\<forall>s t fs opts w r w'. Mount (d_mounter d) s t fs opts w = (r, w') \<longrightarrow>
        untouched H data w w' \<and>
        (r \<noteq> None \<and> mounts w' = mounts w \<or>
         (\<exists>x. mounts w' = (mounts w)(t := x # mounts w t) \<and>
            (''bind'' \<in> set opts \<longrightarrow>
               (if mounts w s \<noteq> [] then x = hd (mounts w s) else plain dirs H (mounts w) s \<longrightarrow> x \<in> H))))) \<and>
     (\<forall>dev t fs opts sens fopts w r w'.
        FormatAndMountSensitiveWithFormatOptions (d_mounter d) dev t fs opts sens fopts w = (r, w') \<longrightarrow>
        untouched (insert dev H) data w w' \<and>
        (r \<noteq> None \<and> mounts w' = mounts w \<or> mounts w' = (mounts w)(t := dev # mounts w t))) \<and>
     (\<forall>p w r w'. Unmount (d_mounter d) p w = (r, w') \<longrightarrow>
        untouched H data w w' \<and>
        (r \<noteq> None \<and> mounts w' = mounts w \<or> mounts w' = (mounts w)(p := tl (mounts w p)))) \<and>
     (\<forall>p w r w'. RemoveAll (d_os d) p w = (r, w') \<longrightarrow> mounts w' = mounts w \<and>
        (plain dirs H (mounts w) p \<longrightarrow>
           untouched (H \<union> set (mounts w p) \<union> (\<Union>q \<in> {q. lies_under p q}. set (mounts w q))) data w w'))"

definition mount_host ::
    "'w Runtime \<Rightarrow> 'w driver \<Rightarrow> string set \<Rightarrow> string set \<Rightarrow> ('w \<Rightarrow> table) \<Rightarrow> ('w \<Rightarrow> string \<Rightarrow> 'c) \<Rightarrow> bool" where
  "mount_host rt d dirs H mounts data \<longleftrightarrow>
     looking_laws rt d dirs H mounts data \<and> changing_laws d dirs H mounts data"

lemma host_looks:
  assumes "mount_host rt d dirs H mounts data"
  shows "Stat (d_os d) p w = (r1, w') \<Longrightarrow> mounts w' = mounts w \<and> untouched H data w w'"
    and "EvalSymlinks rt p w = (r2, w') \<Longrightarrow> mounts w' = mounts w \<and> untouched H data w w'"
    and "ListMounts (d_mounter d) w = (r3, w') \<Longrightarrow> mounts w' = mounts w \<and> untouched H data w w'"
    and "IsLikelyNotMountPoint (d_mounter d) p w = (r4, w') \<Longrightarrow> mounts w' = mounts w \<and> untouched H data w w'"
  using assms unfolding mount_host_def looking_laws_def by (meson looksD)+

lemma host_point:
  assumes "mount_host rt d dirs H mounts data" and "IsLikelyNotMountPoint (d_mounter d) p w = ((b, e), w')"
    and "e = None \<or> IsNotExist (d_os d) e" and "plain dirs H (mounts w) p"
  shows "if b then mounts w p = [] \<or> hd (mounts w p) \<in> H else mounts w p \<noteq> []"
  using assms unfolding mount_host_def looking_laws_def by blast

lemma host_changes:
  assumes "mount_host rt d dirs H mounts data"
  shows "MkdirAll (d_os d) p perm w = (r, w') \<Longrightarrow>
      mounts w' = mounts w \<and> (plain dirs H (mounts w) p \<longrightarrow> untouched H data w w')"
    and "Mount (d_mounter d) s t fs opts w = (r, w') \<Longrightarrow> untouched H data w w' \<and>
      (r \<noteq> None \<and> mounts w' = mounts w \<or>
       (\<exists>x. mounts w' = (mounts w)(t := x # mounts w t) \<and>
          (''bind'' \<in> set opts \<longrightarrow>
             (if mounts w s \<noteq> [] then x = hd (mounts w s) else plain dirs H (mounts w) s \<longrightarrow> x \<in> H))))"
    and "FormatAndMountSensitiveWithFormatOptions (d_mounter d) dev t fs opts sens fopts w = (r, w') \<Longrightarrow>
      untouched (insert dev H) data w w' \<and>
      (r \<noteq> None \<and> mounts w' = mounts w \<or> mounts w' = (mounts w)(t := dev # mounts w t))"
    and "Unmount (d_mounter d) p w = (r, w') \<Longrightarrow> untouched H data w w' \<and>
      (r \<noteq> None \<and> mounts w' = mounts w \<or> mounts w' = (mounts w)(p := tl (mounts w p)))"
    and "RemoveAll (d_os d) p w = (r, w') \<Longrightarrow> mounts w' = mounts w \<and>
      (plain dirs H (mounts w) p \<longrightarrow>
         untouched (H \<union> set (mounts w p) \<union> (\<Union>q \<in> {q. lies_under p q}. set (mounts w q))) data w w')"
proof -
  note laws = assms [unfolded mount_host_def changing_laws_def, THEN conjunct2]
  show "MkdirAll (d_os d) p perm w = (r, w') \<Longrightarrow>
      mounts w' = mounts w \<and> (plain dirs H (mounts w) p \<longrightarrow> untouched H data w w')"
    using laws [THEN conjunct1] by blast
  show "Mount (d_mounter d) s t fs opts w = (r, w') \<Longrightarrow> untouched H data w w' \<and>
      (r \<noteq> None \<and> mounts w' = mounts w \<or>
       (\<exists>x. mounts w' = (mounts w)(t := x # mounts w t) \<and>
          (''bind'' \<in> set opts \<longrightarrow>
             (if mounts w s \<noteq> [] then x = hd (mounts w s) else plain dirs H (mounts w) s \<longrightarrow> x \<in> H))))"
    using laws [THEN conjunct2, THEN conjunct1, rule_format, of s t fs opts w r w'] .
  show "FormatAndMountSensitiveWithFormatOptions (d_mounter d) dev t fs opts sens fopts w = (r, w') \<Longrightarrow>
      untouched (insert dev H) data w w' \<and>
      (r \<noteq> None \<and> mounts w' = mounts w \<or> mounts w' = (mounts w)(t := dev # mounts w t))"
    using laws [THEN conjunct2, THEN conjunct2, THEN conjunct1] by blast
  show "Unmount (d_mounter d) p w = (r, w') \<Longrightarrow> untouched H data w w' \<and>
      (r \<noteq> None \<and> mounts w' = mounts w \<or> mounts w' = (mounts w)(p := tl (mounts w p)))"
    using laws [THEN conjunct2, THEN conjunct2, THEN conjunct2, THEN conjunct1] by blast
  show "RemoveAll (d_os d) p w = (r, w') \<Longrightarrow> mounts w' = mounts w \<and>
      (plain dirs H (mounts w) p \<longrightarrow>
         untouched (H \<union> set (mounts w p) \<union> (\<Union>q \<in> {q. lies_under p q}. set (mounts w q))) data w w')"
    using laws [THEN conjunct2, THEN conjunct2, THEN conjunct2, THEN conjunct2] by blast
qed

section \<open>What one call does\<close>

text \<open>A mount at the path itself does not change whether the path is plain.\<close>

lemma plain_upd [simp]: "plain dirs H (m(p := fs)) p \<longleftrightarrow> plain dirs H m p"
  by (auto simp: plain_def) (metis lies_under_irrefl)

lemma stage_effect:
  assumes host: "mount_host rt d dirs H mounts data"
    and run: "NodeStageVolume d req w = (r, w')" and plain: "plain dirs H (mounts w) (ns_StagingTargetPath req)"
  shows "untouched (insert (go_lookup (ns_PublishContext req) ParameterDeviceName) H) data w w' \<and>
    (mounts w' = mounts w \<and> (r = Ok () \<longrightarrow> mounts w (ns_StagingTargetPath req) \<noteq> []) \<or>
     (mounts w (ns_StagingTargetPath req) = [] \<or> hd (mounts w (ns_StagingTargetPath req)) \<in> H) \<and>
     mounts w' = (mounts w)(ns_StagingTargetPath req :=
       go_lookup (ns_PublishContext req) ParameterDeviceName # mounts w (ns_StagingTargetPath req))) \<and>
    (mounts w (ns_StagingTargetPath req) \<noteq> [] \<and> hd (mounts w (ns_StagingTargetPath req)) \<notin> H \<longrightarrow>
       untouched H data w w')"
proof -
  let ?dev = "go_lookup (ns_PublishContext req) ParameterDeviceName" and ?p = "ns_StagingTargetPath req"
  obtain e0 w1 where st: "Stat (d_os d) ?dev w = (e0, w1)" by (metis surj_pair)
  obtain b e w2 where mp: "IsLikelyNotMountPoint (d_mounter d) ?p w1 = ((b, e), w2)" by (metis surj_pair)
  obtain e1 w3 where mk: "MkdirAll (d_os d) ?p 488 w2 = (e1, w3)" by (metis surj_pair)
  obtain e2 w4 where fm: "FormatAndMountSensitiveWithFormatOptions (d_mounter d) ?dev ?p
      (go_lookup (ns_VolumeContext req) ParameterFSType) (stageOptions req) [] (stageFormatOptions req) w3 = (e2, w4)"
    by (metis surj_pair)
  have w1: "mounts w1 = mounts w" "untouched H data w w1" using host_looks(1) [OF host st] by simp_all
  have w2: "mounts w2 = mounts w" "untouched H data w w2"
    using host_looks(4) [OF host mp] w1 by (auto intro: untouched_trans)
  have w3: "mounts w3 = mounts w" "untouched H data w w3"
    using host_changes(1) [OF host mk] w2 plain by (auto intro: untouched_trans)
  have w4: "untouched (insert ?dev H) data w w4"
      "e2 \<noteq> None \<and> mounts w4 = mounts w \<or> mounts w4 = (mounts w)(?p := ?dev # mounts w ?p)"
    using host_changes(3) [OF host fm] w3 by (auto intro: untouched_trans untouched_mono)
  have point: "e = None \<or> IsNotExist (d_os d) e \<Longrightarrow>
      if b then mounts w ?p = [] \<or> hd (mounts w ?p) \<in> H else mounts w ?p \<noteq> []"
    using host_point [OF host mp, unfolded w1(1)] plain by blast
  show ?thesis
  proof (cases "e0 \<noteq> None \<or> (e \<noteq> None \<and> \<not> IsNotExist (d_os d) e) \<or> \<not> b")
    case True
    then have "w' \<in> {w1, w2}" and "r = Ok () \<longrightarrow> mounts w ?p \<noteq> []"
      using run st mp point by (auto simp: NodeStageVolume_def Let_def split: option.splits if_splits)
    then show ?thesis using w1 w2 by (auto intro: untouched_mono)
  next
    case False
    then have free: "mounts w ?p = [] \<or> hd (mounts w ?p) \<in> H" and rest: "stageMount d req w2 = (r, w')"
      using run st mp point by (auto simp: NodeStageVolume_def Let_def split: option.splits if_splits)
    have "w' = w3 \<and> r \<noteq> Ok () \<or> w' = w4 \<and> (r = Ok () \<longleftrightarrow> e2 = None)"
      using rest mk fm by (auto simp: stageMount_def Let_def split: option.splits)
    then show ?thesis using free w3 w4 by (auto intro: untouched_mono)
  qed
qed

lemma publish_effect_host:
  assumes host: "mount_host rt d dirs H mounts data"
    and run: "NodePublishVolume d req w = (r, w')" and plain: "plain dirs H (mounts w) (np_TargetPath req)"
  shows "untouched H data w w' \<and>
    (mounts w' = mounts w \<and> (r = Ok () \<longrightarrow> mounts w (np_TargetPath req) \<noteq> []) \<or>
     (mounts w (np_TargetPath req) = [] \<or> hd (mounts w (np_TargetPath req)) \<in> H) \<and>
     (\<exists>x. mounts w' = (mounts w)(np_TargetPath req := x # mounts w (np_TargetPath req)) \<and>
        (if mounts w (np_StagingTargetPath req) \<noteq> [] then x = hd (mounts w (np_StagingTargetPath req))
         else plain dirs H (mounts w) (np_StagingTargetPath req) \<longrightarrow> x \<in> H)))"
proof (cases "checkNodePublish req")
  case (Some e)
  then show ?thesis using run publish_check.rejects [OF Some, of d w] by auto
next
  case None
  let ?t = "np_TargetPath req"
  have set: "np_VolumeId req \<noteq> ''''" "np_StagingTargetPath req \<noteq> ''''" "?t \<noteq> ''''" "np_VolumeCapability req \<noteq> None"
    using None by (auto simp: checkNodePublish_def split: if_splits)
  have bind: "''bind'' \<in> set (publishOptions req)" by (simp add: publishOptions_eq Let_def)
  obtain b e w1 where mp: "IsLikelyNotMountPoint (d_mounter d) ?t w = ((b, e), w1)" by (metis surj_pair)
  obtain em wm where mk: "MkdirAll (d_os d) ?t 488 w1 = (em, wm)" by (metis surj_pair)
  define w2 where "w2 = (if IsNotExist (d_os d) e then wm else w1)"
  obtain e2 w3 where mnt: "Mount (d_mounter d) (np_StagingTargetPath req) ?t (publishFsType req)
      (publishOptions req) w2 = (e2, w3)"
    by (metis surj_pair)
  have w1: "mounts w1 = mounts w" "untouched H data w w1" using host_looks(4) [OF host mp] by simp_all
  have wm: "mounts wm = mounts w" "untouched H data w wm"
    using host_changes(1) [OF host mk] w1 plain by (auto intro: untouched_trans)
  have w2: "mounts w2 = mounts w" "untouched H data w w2" using w1 wm by (simp_all add: w2_def)
  have w3: "untouched H data w w3"
    using host_changes(2) [OF host mnt] w2 by (auto intro: untouched_trans)
  have table: "e2 \<noteq> None \<and> mounts w3 = mounts w \<or>
      (\<exists>x. mounts w3 = (mounts w)(?t := x # mounts w ?t) \<and>
        (if mounts w (np_StagingTargetPath req) \<noteq> [] then x = hd (mounts w (np_StagingTargetPath req))
         else plain dirs H (mounts w) (np_StagingTargetPath req) \<longrightarrow> x \<in> H))"
    using host_changes(2) [OF host mnt] bind unfolding w2 by blast
  have point: "e = None \<or> IsNotExist (d_os d) e \<Longrightarrow>
      if b then mounts w ?t = [] \<or> hd (mounts w ?t) \<in> H else mounts w ?t \<noteq> []"
    using host_point [OF host mp] plain by simp
  show ?thesis
  proof (cases "(e \<noteq> None \<and> \<not> IsNotExist (d_os d) e) \<or> \<not> b")
    case True
    then have "w' = w1" and "r = Ok () \<longrightarrow> mounts w ?t \<noteq> []"
      using run set mp point by (auto simp: NodePublishVolume_def Let_def split: if_splits)
    then show ?thesis using w1 by simp
  next
    case False
    then have free: "mounts w ?t = [] \<or> hd (mounts w ?t) \<in> H" using point by auto
    have "w' = wm \<and> r \<noteq> Ok () \<or> w' = w3 \<and> (r = Ok () \<longleftrightarrow> e2 = None)"
      using run set mp mk mnt False
      by (auto simp: NodePublishVolume_def publishMount_def Let_def w2_def split: option.splits if_splits)
    then show ?thesis using free wm w3 table by auto
  qed
qed

text \<open>
  What unpublishing and unstaging need: below the path, and under the mount on top at it, there is
  nothing but the host's own file systems.
\<close>

definition clear :: "string set \<Rightarrow> string set \<Rightarrow> table \<Rightarrow> string \<Rightarrow> bool" where
  "clear dirs H m p \<longleftrightarrow> plain dirs H m p \<and> (\<forall>q. lies_under p q \<longrightarrow> hosted H (m q))"

definition removable :: "string set \<Rightarrow> string set \<Rightarrow> table \<Rightarrow> string \<Rightarrow> bool" where
  "removable dirs H m p \<longleftrightarrow> clear dirs H m p \<and> hosted H (tl (m p))"

lemma clear_upd [simp]: "clear dirs H (m(p := fs)) p \<longleftrightarrow> clear dirs H m p"
  by (auto simp: clear_def) (metis lies_under_irrefl)

lemma clear_other: "clear dirs H m p \<Longrightarrow> \<not> lies_under p q \<Longrightarrow> \<not> lies_under q p \<Longrightarrow> clear dirs H (m(q := fs)) p"
  by (auto simp: clear_def plain_def)

lemma clear_plain: "clear dirs H m p \<Longrightarrow> plain dirs H m p"
  by (simp add: clear_def)

lemma removable_plain: "removable dirs H m p \<Longrightarrow> plain dirs H m p"
  by (simp add: removable_def clear_plain)

lemma host_remove:
  assumes host: "mount_host rt d dirs H mounts data" and "RemoveAll (d_os d) p w = (r, w')"
    and "removable dirs H m p" and "mounts w = m(p := fs)" and "hosted H fs"
  shows "mounts w' = mounts w \<and> untouched H data w w'"
proof -
  have "H \<union> set (mounts w p) \<union> (\<Union>q \<in> {q. lies_under p q}. set (mounts w q)) = H"
    using assms(3-5) by (auto simp: removable_def clear_def hosted_def split: if_splits) blast
  moreover have "plain dirs H (mounts w) p"
    using assms(3,4) by (simp add: removable_def clear_plain)
  ultimately show ?thesis using host_changes(5) [OF host assms(2)] by simp
qed

lemma removeTarget_effect:
  assumes "mount_host rt d dirs H mounts data" and "removeTarget d p w = (r, w')"
    and "removable dirs H m p" and "mounts w = m(p := fs)" and "hosted H fs"
  shows "mounts w' = mounts w \<and> untouched H data w w'"
  using assms(2) host_remove [OF assms(1) _ assms(3-5)]
  by (auto simp: removeTarget_def split: option.splits prod.splits)

lemma unpublish_effect:
  assumes host: "mount_host rt d dirs H mounts data"
    and run: "NodeUnpublishVolume d req w = (r, w')" and ready: "removable dirs H (mounts w) (nup_TargetPath req)"
  shows "untouched H data w w' \<and>
    (mounts w' = mounts w \<or> mounts w' = (mounts w)(nup_TargetPath req := tl (mounts w (nup_TargetPath req)))) \<and>
    (r = Ok () \<longrightarrow> hosted H (mounts w' (nup_TargetPath req)))"
proof (cases "checkUnpublish req")
  case (Some e)
  then show ?thesis using run unpublish_check.rejects [OF Some, of d w] by auto
next
  case None
  let ?t = "nup_TargetPath req"
  have set: "nup_VolumeId req \<noteq> ''''" "?t \<noteq> ''''"
    using None by (auto simp: checkUnpublish_def split: if_splits)
  obtain e0 w0 where st: "Stat (d_os d) ?t w = (e0, w0)" by (metis surj_pair)
  obtain b e w1 where mp: "IsLikelyNotMountPoint (d_mounter d) ?t w0 = ((b, e), w1)" by (metis surj_pair)
  obtain e1 w2 where um: "Unmount (d_mounter d) ?t w1 = (e1, w2)" by (metis surj_pair)
  have w0: "mounts w0 = mounts w" "untouched H data w w0" using host_looks(1) [OF host st] by simp_all
  have w1: "mounts w1 = mounts w" "untouched H data w w1"
    using host_looks(4) [OF host mp] w0 by (auto intro: untouched_trans)
  have w2: "untouched H data w w2"
      "e1 \<noteq> None \<and> mounts w2 = mounts w \<or> mounts w2 = (mounts w)(?t := tl (mounts w ?t))"
    using host_changes(4) [OF host um] w1 by (auto intro: untouched_trans)
  have tail: "hosted H (tl (mounts w ?t))" using ready by (simp add: removable_def)
  have point: "e = None \<or> IsNotExist (d_os d) e \<Longrightarrow> b \<Longrightarrow> hosted H (mounts w ?t)"
    using host_point [OF host mp] removable_plain [OF ready] w0 tail by (cases "mounts w ?t") auto
  show ?thesis
  proof (cases "e0 \<noteq> None \<or> (e \<noteq> None \<and> \<not> IsNotExist (d_os d) e) \<or> (\<not> b \<and> e1 \<noteq> None)")
    case True
    then have "w' \<in> {w0, w1, w2}" "r \<noteq> Ok ()"
      using run set st mp um by (auto simp: NodeUnpublishVolume_def Let_def split: option.splits if_splits)
    then show ?thesis using w0 w1 w2 by auto
  next
    case False
    define fs where "fs = (if b then mounts w ?t else tl (mounts w ?t))"
    have fs: "hosted H fs" "mounts (if b then w1 else w2) = (mounts w)(?t := fs)"
      using False point tail w1 w2 by (auto simp: fs_def)
    have rm: "removeTarget d ?t (if b then w1 else w2) = (r, w')"
      using run set st mp um False by (auto simp: NodeUnpublishVolume_def Let_def split: option.splits if_splits)
    from removeTarget_effect [OF host rm ready fs(2,1)] fs w1 w2 show ?thesis
      by (auto simp: fs_def split: if_splits intro: untouched_trans)
  qed
qed

lemma deviceName_effect:
  assumes host: "mount_host rt d dirs H mounts data" and run: "getMountDeviceName rt d p w = (r, w')"
  shows "mounts w' = mounts w \<and> untouched H data w w'"
  using run
  by (auto simp: getMountDeviceName_def split: outcome_splits dest!: host_looks(2,3) [OF host] intro: untouched_trans)

lemma unstage_effect:
  assumes host: "mount_host rt d dirs H mounts data"
    and run: "NodeUnstageVolume rt d req w = (r, w')"
    and ready: "removable dirs H (mounts w) (nus_StagingTargetPath req)"
  shows "untouched H data w w' \<and>
    (mounts w' = mounts w \<or>
     mounts w' = (mounts w)(nus_StagingTargetPath req := tl (mounts w (nus_StagingTargetPath req)))) \<and>
    (r = Ok () \<longrightarrow> hosted H (mounts w' (nus_StagingTargetPath req)))"
proof (cases "checkUnstage req")
  case (Some e)
  then show ?thesis using run unstage_check.rejects [OF Some, of rt d w] by auto
next
  case None
  let ?p = "nus_StagingTargetPath req"
  have set: "nus_VolumeId req \<noteq> ''''" "?p \<noteq> ''''"
    using None by (auto simp: checkUnstage_def split: if_splits)
  obtain g w1 where g: "getMountDeviceName rt d ?p w = (g, w1)" by (metis surj_pair)
  obtain e1 w2 where um: "Unmount (d_mounter d) ?p w1 = (e1, w2)" by (metis surj_pair)
  obtain e2 w3 where rm: "RemoveAll (d_os d) ?p w2 = (e2, w3)" by (metis surj_pair)
  have w1: "mounts w1 = mounts w" "untouched H data w w1" using deviceName_effect [OF host g] by simp_all
  have w2: "untouched H data w w2"
      "e1 \<noteq> None \<and> mounts w2 = mounts w \<or> mounts w2 = (mounts w)(?p := tl (mounts w ?p))"
    using host_changes(4) [OF host um] w1 by (auto intro: untouched_trans)
  have tail: "hosted H (tl (mounts w ?p))" using ready by (simp add: removable_def)
  have w3: "mounts w3 = mounts w2 \<and> untouched H data w w3" if "e1 = None"
    using host_remove [OF host rm ready _ tail] w2 that by (auto intro: untouched_trans)
  have "w' \<in> {w1, w2} \<and> r \<noteq> Ok () \<or> w' = w3 \<and> e1 = None"
    using run set g um rm by (auto simp: NodeUnstageVolume_def Let_def split: sum.splits option.splits if_splits)
  then show ?thesis using w1 w2 w3 tail by auto
qed

section \<open>The four calls together\<close>

text \<open>
  C11: Stage, publish, unpublish and unstage undo each other: from a mount table without the two paths,
  neither of which lies under the other, when all four calls succeed, the target showed the published
  device in between, the mount table is the one before, and unpublishing and unstaging have removed both
  directories without touching the contents of any volume.
\<close>

theorem node_lifecycle_roundtrip:
  assumes host: "mount_host rt d dirs H mounts data"
    and "NodeStageVolume d stage w0 = (Ok (), w1)"
    and "NodePublishVolume d publ w1 = (Ok (), w2)"
    and "NodeUnpublishVolume d unpubl w2 = (Ok (), w3)"
    and "NodeUnstageVolume rt d unstage w3 = (Ok (), w4)"
    and paths: "np_StagingTargetPath publ = ns_StagingTargetPath stage" "nup_TargetPath unpubl = np_TargetPath publ"
      "nus_StagingTargetPath unstage = ns_StagingTargetPath stage" "np_TargetPath publ \<noteq> ns_StagingTargetPath stage"
    and free: "mounts w0 (ns_StagingTargetPath stage) = []" "mounts w0 (np_TargetPath publ) = []"
    and clear: "clear dirs H (mounts w0) (ns_StagingTargetPath stage)" "clear dirs H (mounts w0) (np_TargetPath publ)"
    and apart: "\<not> lies_under (np_TargetPath publ) (ns_StagingTargetPath stage)"
      "\<not> lies_under (ns_StagingTargetPath stage) (np_TargetPath publ)"
    and device: "go_lookup (ns_PublishContext stage) ParameterDeviceName \<notin> H"
  shows "mounts w2 (np_TargetPath publ) = [go_lookup (ns_PublishContext stage) ParameterDeviceName]
    \<and> mounts w4 = mounts w0 \<and> untouched H data w1 w4
    \<and> untouched (insert (go_lookup (ns_PublishContext stage) ParameterDeviceName) H) data w0 w4"
proof -
  let ?s = "ns_StagingTargetPath stage" and ?t = "np_TargetPath publ"
    and ?dev = "go_lookup (ns_PublishContext stage) ParameterDeviceName"
  have w1: "mounts w1 = (mounts w0)(?s := [?dev])" "untouched (insert ?dev H) data w0 w1"
    using stage_effect [OF host assms(2) clear_plain [OF clear(1)]] free by auto
  have clear1: "clear dirs H (mounts w1) ?s" "clear dirs H (mounts w1) ?t"
    unfolding w1(1) using clear apart by (simp_all add: clear_other)
  have w2: "mounts w2 = (mounts w1)(?t := [?dev])" "untouched H data w1 w2"
    using publish_effect_host [OF host assms(3) clear_plain [OF clear1(2)]] w1 free paths by auto
  have "removable dirs H (mounts w2) ?t"
    using clear1(2) by (simp add: w2(1) removable_def)
  then have w3: "mounts w3 = mounts w1" "untouched H data w2 w3"
    using unpublish_effect [OF host assms(4)] w1 w2 free paths device by auto
  have "removable dirs H (mounts w3) ?s"
    using clear1(1) by (simp add: w3(1)) (simp add: w1(1) removable_def)
  then have w4: "mounts w4 = mounts w0" "untouched H data w3 w4"
    using unstage_effect [OF host assms(5)] w1 w3 free paths device by auto
  have "untouched H data w1 w4" using w2 w3 w4 by (blast intro: untouched_trans)
  moreover have "untouched (insert ?dev H) data w1 w4"
    using calculation by (rule untouched_mono) blast
  ultimately show ?thesis using w1 w2 w4 paths by (auto intro: untouched_trans)
qed

section \<open>Any sequence of calls\<close>

text \<open>
  Node calls in any order and number, failed ones included, on paths of a set \<open>P\<close> and staging
  devices of a set \<open>D\<close>.
\<close>

inductive node_step :: "'w Runtime \<Rightarrow> 'w driver \<Rightarrow> string set \<Rightarrow> string set \<Rightarrow> 'w \<Rightarrow> 'w \<Rightarrow> bool"
  for rt d P D where
  stages: "NodeStageVolume d s w = (r, w') \<Longrightarrow> ns_StagingTargetPath s \<in> P \<Longrightarrow>
    go_lookup (ns_PublishContext s) ParameterDeviceName \<in> D \<Longrightarrow> node_step rt d P D w w'"
| publishes: "NodePublishVolume d p w = (r, w') \<Longrightarrow> np_TargetPath p \<in> P \<Longrightarrow> node_step rt d P D w w'"
| unpublishes: "NodeUnpublishVolume d u w = (r, w') \<Longrightarrow> nup_TargetPath u \<in> P \<Longrightarrow> node_step rt d P D w w'"
| unstages: "NodeUnstageVolume rt d n w = (r, w') \<Longrightarrow> nus_StagingTargetPath n \<in> P \<Longrightarrow> node_step rt d P D w w'"

definition apart :: "string set \<Rightarrow> bool" where
  "apart P \<longleftrightarrow> (\<forall>p \<in> P. \<forall>q \<in> P. \<not> lies_under p q)"

definition tidy :: "string set \<Rightarrow> string set \<Rightarrow> string set \<Rightarrow> table \<Rightarrow> bool" where
  "tidy dirs H P m \<longleftrightarrow> (\<forall>p \<in> P. removable dirs H m p)"

lemma tidyD: "tidy dirs H P m \<Longrightarrow> p \<in> P \<Longrightarrow> removable dirs H m p"
  by (simp add: tidy_def)

lemma tidy_upd:
  assumes "apart P" and "tidy dirs H P m" and "p \<in> P" and "hosted H (tl fs)"
  shows "tidy dirs H P (m(p := fs))"
  unfolding tidy_def
proof
  fix q assume "q \<in> P"
  with assms show "removable dirs H (m(p := fs)) q"
    by (cases "q = p") (auto simp: tidy_def removable_def apart_def clear_other)
qed

lemma tidy_push:
  assumes "apart P" and "tidy dirs H P m" and "p \<in> P" and "m p = [] \<or> hd (m p) \<in> H"
  shows "tidy dirs H P (m(p := x # m p))"
  using assms(2-4) tidyD [OF assms(2,3)]
  by (intro tidy_upd [OF assms(1-3)]) (cases "m p"; simp add: removable_def)

lemma tidy_pop: "apart P \<Longrightarrow> tidy dirs H P m \<Longrightarrow> p \<in> P \<Longrightarrow> tidy dirs H P (m(p := tl (m p)))"
  by (intro tidy_upd) (auto dest: tidyD simp: removable_def hosted_tl)

lemma node_step_safe:
  assumes host: "mount_host rt d dirs H mounts data" and apart: "apart P" and step: "node_step rt d P D w w'"
    and tidy: "tidy dirs H P (mounts w)"
  shows "tidy dirs H P (mounts w') \<and> (\<forall>q. q \<notin> P \<longrightarrow> mounts w' q = mounts w q) \<and> untouched (D \<union> H) data w w'"
  using step
proof cases
  case (stages s r)
  have data: "untouched (D \<union> H) data w w'"
    using stage_effect [OF host stages(1) removable_plain [OF tidyD [OF tidy stages(2)]]] stages(3)
    by (auto intro: untouched_mono)
  have "mounts w' = mounts w \<or> (mounts w (ns_StagingTargetPath s) = [] \<or> hd (mounts w (ns_StagingTargetPath s)) \<in> H) \<and>
      mounts w' = (mounts w)(ns_StagingTargetPath s :=
        go_lookup (ns_PublishContext s) ParameterDeviceName # mounts w (ns_StagingTargetPath s))"
    using stage_effect [OF host stages(1) removable_plain [OF tidyD [OF tidy stages(2)]]] by blast
  then show ?thesis
    using data tidy tidy_push [OF apart tidy stages(2)] stages(2) by auto
next
  case (publishes p r)
  have data: "untouched (D \<union> H) data w w'"
    using publish_effect_host [OF host publishes(1) removable_plain [OF tidyD [OF tidy publishes(2)]]]
    by (auto intro: untouched_mono)
  have "mounts w' = mounts w \<or> (mounts w (np_TargetPath p) = [] \<or> hd (mounts w (np_TargetPath p)) \<in> H) \<and>
      (\<exists>x. mounts w' = (mounts w)(np_TargetPath p := x # mounts w (np_TargetPath p)))"
    using publish_effect_host [OF host publishes(1) removable_plain [OF tidyD [OF tidy publishes(2)]]] by blast
  then show ?thesis
    using data tidy tidy_push [OF apart tidy publishes(2)] publishes(2) by auto
next
  case (unpublishes u r)
  then show ?thesis
    using unpublish_effect [OF host unpublishes(1) tidyD [OF tidy unpublishes(2)]] tidy
      tidy_pop [OF apart tidy unpublishes(2)]
    by (auto intro: untouched_mono)
next
  case (unstages n r)
  then show ?thesis
    using unstage_effect [OF host unstages(1) tidyD [OF tidy unstages(2)]] tidy
      tidy_pop [OF apart tidy unstages(2)]
    by (auto intro: untouched_mono)
qed

lemma node_steps_safe:
  assumes "mount_host rt d dirs H mounts data" and "apart P" and "(node_step rt d P D)\<^sup>*\<^sup>* w0 w"
    and "tidy dirs H P (mounts w0)"
  shows "tidy dirs H P (mounts w) \<and> (\<forall>q. q \<notin> P \<longrightarrow> mounts w q = mounts w0 q) \<and> untouched (D \<union> H) data w0 w"
  using assms(3)
proof induction
  case base
  then show ?case using assms(4) by simp
next
  case (step y z)
  then show ?case using node_step_safe [OF assms(1,2) step(2)] by (auto intro: untouched_trans)
qed

text \<open>
  C16: No sequence of node calls, in any order and with any failures, loses the contents of a volume.
  Let no path of the calls lie under another, and nothing but the host's own file systems be mounted on
  the way to them, below them or under what is on top at them.  Then in every state that is reached a
  publish, unpublish or unstage call touches the contents of no volume, although the latter two remove
  directory trees and the check for a mount point may miss a bind mount of the host's own files; a stage
  call touches no volume if one is mounted at its path already, and only its own device otherwise; so over
  the whole run only devices that stage calls name can change.  And nothing is ever mounted or unmounted
  at a path that no call names.  (The host's own files can be lost: a target that was published while
  nothing was staged shows the node's staging directory, and unpublishing it may empty that.)
\<close>

theorem node_calls_keep_data:
  assumes "mount_host rt d dirs H mounts data" and "apart P" and "tidy dirs H P (mounts w0)"
    and "(node_step rt d P D)\<^sup>*\<^sup>* w0 w"
  shows "tidy dirs H P (mounts w) \<and> (\<forall>q. q \<notin> P \<longrightarrow> mounts w q = mounts w0 q) \<and> untouched (D \<union> H) data w0 w
    \<and> (\<forall>p r w'. NodePublishVolume d p w = (r, w') \<and> np_TargetPath p \<in> P \<longrightarrow> untouched H data w w')
    \<and> (\<forall>u r w'. NodeUnpublishVolume d u w = (r, w') \<and> nup_TargetPath u \<in> P \<longrightarrow> untouched H data w w')
    \<and> (\<forall>n r w'. NodeUnstageVolume rt d n w = (r, w') \<and> nus_StagingTargetPath n \<in> P \<longrightarrow> untouched H data w w')
    \<and> (\<forall>s r w'. NodeStageVolume d s w = (r, w') \<and> ns_StagingTargetPath s \<in> P \<and>
         mounts w (ns_StagingTargetPath s) \<noteq> [] \<and> hd (mounts w (ns_StagingTargetPath s)) \<notin> H \<longrightarrow> untouched H data w w')"
proof -
  note safe = node_steps_safe [OF assms(1,2,4,3)]
  then have ready: "p \<in> P \<Longrightarrow> removable dirs H (mounts w) p" for p by (blast dest: tidyD)
  show ?thesis
    using safe publish_effect_host [OF assms(1) _ removable_plain [OF ready]] unpublish_effect [OF assms(1) _ ready]
      unstage_effect [OF assms(1) _ ready] stage_effect [OF assms(1) _ removable_plain [OF ready]]
    by (intro conjI) blast+
qed

section \<open>A simulated node\<close>

text \<open>
  The world: the mount table as a list, the latest mount first, and the contents of the file systems.
  The host's file system is called root; the check for a mount point does not see mounts of it.
\<close>

type_synonym host = "MountPoint list \<times> (string \<Rightarrow> nat)"

definition host_table_of :: "host \<Rightarrow> table" where
  "host_table_of h p = map Device (filter (\<lambda>mp. Path mp = p) (fst h))"

fun drop_mount :: "string \<Rightarrow> MountPoint list \<Rightarrow> MountPoint list" where
  "drop_mount p [] = []"
| "drop_mount p (mp # mps) = (if Path mp = p then mps else mp # drop_mount p mps)"

definition top_of :: "host \<Rightarrow> string \<Rightarrow> string" where
  "top_of h p = (case host_table_of h p of [] \<Rightarrow> ''root'' | x # xs \<Rightarrow> x)"

definition sim_mounter :: "host MountWrapper" where
  "sim_mounter =
     \<lparr>IsLikelyNotMountPoint = (\<lambda>p h. ((top_of h p = ''root'', None), h)),
      Mount = (\<lambda>s t fs opts h. (None, (\<lparr>Device = top_of h s, Path = t\<rparr> # fst h, snd h))),
      Unmount = (\<lambda>p h. (None, (drop_mount p (fst h), snd h))),
      ListMounts = (\<lambda>h. (Inr (map (\<lambda>mp. \<lparr>Device = ''fs:'' @ Device mp, Path = Path mp\<rparr>) (fst h)), h)),
      FormatAndMountSensitiveWithFormatOptions = (\<lambda>dev t fs opts sens fopts h.
        (None, (\<lparr>Device = dev, Path = t\<rparr> # fst h, (snd h)(dev := 1)))),
      NewResizeFs = (\<lambda>h. (Inr \<lparr>Resize = (\<lambda>dev p h. ((True, None), h))\<rparr>, h))\<rparr>"

text \<open>Removing a tree loses what is mounted at its root and changes the host.\<close>

definition sim_os :: "host OSWrapper" where
  "sim_os = nop_os\<lparr>RemoveAll := (\<lambda>p h. (if host_table_of h p = [] then None else Some io_error,
     (fst h, \<lambda>x. if x = ''root'' \<or> x \<in> set (host_table_of h p) then 0 else snd h x)))\<rparr>"

definition sim_host :: "host driver" where
  "sim_host = nop_driver\<lparr>d_mounter := sim_mounter, d_os := sim_os\<rparr>"

lemma host_table_push: "host_table_of (\<lparr>Device = x, Path = t\<rparr> # mps, c) =
    (host_table_of (mps, c'))(t := x # host_table_of (mps, c') t)"
  by (auto simp: host_table_of_def)

lemma host_table_drop: "host_table_of (drop_mount p mps, c) =
    (host_table_of (mps, c'))(p := tl (host_table_of (mps, c') p))"
  by (induction mps) (auto simp: host_table_of_def fun_eq_iff)

lemma host_table_data: "host_table_of (mps, c) = host_table_of (mps, c')"
  by (simp add: host_table_of_def fun_eq_iff)

lemma sim_host_laws: "mount_host nop_runtime sim_host UNIV {''root''} host_table_of snd"
proof -
  have "host_table_of (\<lparr>Device = x, Path = t\<rparr> # fst h, c) = (host_table_of h)(t := x # host_table_of h t)" for x t h c
    using host_table_push [of x t "fst h" c "snd h"] by simp
  moreover have "host_table_of (drop_mount p (fst h), c) = (host_table_of h)(p := tl (host_table_of h p))" for p h c
    using host_table_drop [of p "fst h" c "snd h"] by simp
  moreover have "host_table_of (fst h, c) = host_table_of h" for h c
    using host_table_data [of "fst h" c "snd h"] by simp
  ultimately show ?thesis
    by (auto simp: mount_host_def looking_laws_def changing_laws_def looks_def untouched_def sim_host_def sim_os_def
        sim_mounter_def sim_defs top_of_def split: list.splits)
qed

definition sim_stage_req :: NodeStageRequest where
  "sim_stage_req = \<lparr>ns_VolumeId = ''v'', ns_PublishContext = [ParameterDeviceName \<mapsto> ''/dev/oda''],
     ns_StagingTargetPath = ''/stage'', ns_VolumeCapability = None, ns_VolumeContext = Map.empty\<rparr>"

lemmas host_run = sim_host_def sim_os_def sim_mounter_def sim_defs host_table_of_def top_of_def Let_def
  NodeStageVolume_def stageMount_def NodePublishVolume_def publishMount_def NodeUnpublishVolume_def
  removeTarget_def NodeUnstageVolume_def getMountDeviceName_def sim_stage_req_def sim_node_publish_def

abbreviation "sim_unpublish_req \<equiv> \<lparr>nup_VolumeId = ''v'', nup_TargetPath = ''/pod''\<rparr>"
abbreviation "sim_unstage_req \<equiv> \<lparr>nus_VolumeId = ''v'', nus_StagingTargetPath = ''/stage''\<rparr>"

definition removed_host :: "(string \<Rightarrow> nat) \<Rightarrow> string \<Rightarrow> nat" where
  "removed_host c = (\<lambda>x. if x = ''root'' then 0 else c x)"

lemma sim_stage_run: "NodeStageVolume sim_host sim_stage_req ([], \<lambda>_. 7) =
    (Ok (), ([\<lparr>Device = ''/dev/oda'', Path = ''/stage''\<rparr>], (\<lambda>_. 7)(''/dev/oda'' := 1)))"
  by (simp add: host_run)

lemma sim_publish_run: "NodePublishVolume sim_host sim_node_publish
    ([\<lparr>Device = ''/dev/oda'', Path = ''/stage''\<rparr>], c) =
    (Ok (), ([\<lparr>Device = ''/dev/oda'', Path = ''/pod''\<rparr>, \<lparr>Device = ''/dev/oda'', Path = ''/stage''\<rparr>], c))"
  by (simp add: host_run)

lemma sim_unpublish_run: "NodeUnpublishVolume sim_host sim_unpublish_req
    ([\<lparr>Device = ''/dev/oda'', Path = ''/pod''\<rparr>, \<lparr>Device = ''/dev/oda'', Path = ''/stage''\<rparr>], c) =
    (Ok (), ([\<lparr>Device = ''/dev/oda'', Path = ''/stage''\<rparr>], removed_host c))"
  by (simp add: host_run) (auto simp: removed_host_def fun_eq_iff)

lemma sim_unstage_run: "NodeUnstageVolume nop_runtime sim_host sim_unstage_req
    ([\<lparr>Device = ''/dev/oda'', Path = ''/stage''\<rparr>], c) = (Ok (), ([], removed_host c))"
  by (simp add: host_run) (auto simp: removed_host_def fun_eq_iff)

lemma sim_paths [simp]: "\<not> lies_under ''/stage'' ''/pod''" "\<not> lies_under ''/pod'' ''/stage''"
  by (simp_all add: lies_under_def)

theorem node_lifecycle_roundtrip_witness:
  "\<exists>w1 w2 w3 w4. NodeStageVolume sim_host sim_stage_req ([], \<lambda>_. 7) = (Ok (), w1)
     \<and> NodePublishVolume sim_host sim_node_publish w1 = (Ok (), w2)
     \<and> NodeUnpublishVolume sim_host sim_unpublish_req w2 = (Ok (), w3)
     \<and> NodeUnstageVolume nop_runtime sim_host sim_unstage_req w3 = (Ok (), w4)
     \<and> host_table_of w2 ''/pod'' = [''/dev/oda''] \<and> snd w4 ''/dev/oda'' = snd w1 ''/dev/oda''"
proof -
  note runs = sim_stage_run sim_publish_run sim_unpublish_run sim_unstage_run
  have "untouched {''root''} snd ([\<lparr>Device = ''/dev/oda'', Path = ''/stage''\<rparr>], (\<lambda>_. 7 :: nat)(''/dev/oda'' := 1))
      ([], removed_host (removed_host ((\<lambda>_. 7)(''/dev/oda'' := 1))))"
    using node_lifecycle_roundtrip [OF sim_host_laws runs]
    by (simp add: sim_stage_req_def sim_node_publish_def clear_def plain_def host_table_of_def)
  with runs show ?thesis
    by (auto simp: untouched_def host_table_of_def)
qed

theorem node_calls_keep_data_witness:
  "\<exists>w w'. (node_step nop_runtime sim_host {''/stage'', ''/pod''} {''/dev/oda''})\<^sup>*\<^sup>* ([], \<lambda>_. 7) w
     \<and> NodeUnstageVolume nop_runtime sim_host sim_unstage_req w = (Ok (), w') \<and> snd w' ''/dev/oda'' = 1 \<and> snd w ''/dev/odb'' = 7"
proof -
  let ?w = "([\<lparr>Device = ''/dev/oda'', Path = ''/stage''\<rparr>], (\<lambda>_. 7 :: nat)(''/dev/oda'' := 1))"
  have "node_step nop_runtime sim_host {''/stage'', ''/pod''} {''/dev/oda''} ([], \<lambda>_. 7) ?w"
    by (rule stages [OF sim_stage_run]) (simp_all add: sim_stage_req_def)
  then have steps: "(node_step nop_runtime sim_host {''/stage'', ''/pod''} {''/dev/oda''})\<^sup>*\<^sup>* ([], \<lambda>_. 7) ?w" by simp
  have paths: "apart {''/stage'', ''/pod''}" by (simp add: apart_def)
  have empty: "tidy UNIV {''root''} {''/stage'', ''/pod''} (host_table_of ([], \<lambda>_. 7 :: nat))"
    by (simp add: tidy_def removable_def clear_def plain_def host_table_of_def)
  note keep = node_calls_keep_data [OF sim_host_laws paths empty steps]
  have "untouched {''root''} snd ?w (snd (NodeUnstageVolume nop_runtime sim_host sim_unstage_req ?w))"
    using keep [THEN conjunct2, THEN conjunct2, THEN conjunct2, THEN conjunct2, THEN conjunct2, THEN conjunct1,
        rule_format, of sim_unstage_req "Ok ()"] by (simp add: sim_unstage_run)
  moreover have "untouched ({''/dev/oda''} \<union> {''root''}) snd ([] :: MountPoint list, \<lambda>_. 7 :: nat) ?w"
    using keep by blast
  ultimately show ?thesis
    using steps sim_unstage_run [of "(\<lambda>_. 7)(''/dev/oda'' := 1)"]
    by (intro exI [of _ ?w] exI [of _ "([], removed_host ((\<lambda>_. 7)(''/dev/oda'' := 1)))"])
      (simp add: untouched_def sim_unstage_run)
qed

text \<open>
  The hazard: a target that is published while nothing is staged shows the node's own staging directory;
  the check for a mount point misses this bind mount, so unpublishing does not unmount it and removes what
  is in it.
\<close>

lemma published_host_is_removed:
  "\<exists>w1 w2. NodePublishVolume sim_host sim_node_publish ([], \<lambda>_. 7) = (Ok (), w1) \<and> host_table_of w1 ''/pod'' = [''root'']
     \<and> NodeUnpublishVolume sim_host sim_unpublish_req w1 = w2 \<and> \<not> is_ok (fst w2)
     \<and> host_table_of (snd w2) ''/pod'' = [''root''] \<and> snd (snd w2) ''root'' = 0"
  by (simp add: host_run)

end
