(* ===== verification/Node_Isolation.thy ===== *)
theory Node_Isolation
  imports Node_Lifecycle Service Labelled_Runs
begin

text \<open>
  Several volumes on one node.  Every staging path and every target path belongs to one device; calls
  for all volumes come in any order, fail or succeed, and the node may restart in between.  The
  abstract node is a table of mounts that only ever holds what the paths are for; the theory shows
  that the calls of the code refine it, call by call, and what each success means.
\<close>

section \<open>The abstract table\<close>

text \<open>
  A table of mounts for paths that each belong to a device.  A call asks to show the device at its path
  or to clear its path; a restart of the node clears everything.
\<close>

datatype table_op = Op_show string | Op_clear string | Op_restart | Op_nothing

inductive table_step :: "(string \<rightharpoonup> string) \<Rightarrow> table_op \<Rightarrow> (string \<rightharpoonup> string) \<Rightarrow> (string \<rightharpoonup> string) \<Rightarrow> bool"
  for owner where
  stays: "table_step owner op m m"
| shows_own: "m p = None \<Longrightarrow> owner p = Some dev \<Longrightarrow> table_step owner (Op_show p) m (m(p \<mapsto> dev))"
| clears: "table_step owner (Op_clear p) m (m(p := None))"
| all_gone: "table_step owner Op_restart m Map.empty"

datatype node_event = Event CsiCall | Restart | Elsewhere

definition table_op_of :: "node_event \<Rightarrow> table_op" where
  "table_op_of ev = (case ev of
       Event (Call_NodeStageVolume s) \<Rightarrow> Op_show (ns_StagingTargetPath s)
     | Event (Call_NodePublishVolume p) \<Rightarrow> Op_show (np_TargetPath p)
     | Event (Call_NodeUnpublishVolume u) \<Rightarrow> Op_clear (nup_TargetPath u)
     | Event (Call_NodeUnstageVolume n) \<Rightarrow> Op_clear (nus_StagingTargetPath n)
     | Restart \<Rightarrow> Op_restart
     | _ \<Rightarrow> Op_nothing)"

text \<open>What the node shows at the paths that belong to a device.\<close>

definition top_at :: "string list \<Rightarrow> string option" where
  "top_at fs = (case fs of [] \<Rightarrow> None | x # xs \<Rightarrow> Some x)"

lemma top_at_simps [simp]: "top_at [] = None" "top_at (x # xs) = Some x"
  by (simp_all add: top_at_def)

definition shown :: "(string \<rightharpoonup> string) \<Rightarrow> table \<Rightarrow> string \<rightharpoonup> string" where
  "shown owner m = (\<lambda>p. if p \<in> dom owner then top_at (m p) else None)"

lemma shown_upd [simp]: "p \<in> dom owner \<Longrightarrow> shown owner (m(p := fs)) = (shown owner m)(p := top_at fs)"
  by (auto simp: shown_def fun_eq_iff)

section \<open>Calls in an order a kubelet may send them\<close>

text \<open>
  Only publishing has a condition: the staging path must be mounted when the call arrives, as the
  interface demands.  The code does not check this itself.  A restart leaves nothing mounted at the
  paths; other parties leave them alone, and mount nothing but the host's own file systems above or
  below them.
\<close>

inductive orderly_step ::
    "'w Runtime \<Rightarrow> 'w driver \<Rightarrow> string set \<Rightarrow> string set \<Rightarrow> ('w \<Rightarrow> table) \<Rightarrow> (string \<rightharpoonup> string) \<Rightarrow> node_event
       \<Rightarrow> 'w \<Rightarrow> 'w \<Rightarrow> bool"
  for rt d dirs H mounts owner where
  stage_call: "NodeStageVolume d s w = (r, w') \<Longrightarrow>
    owner (ns_StagingTargetPath s) = Some (go_lookup (ns_PublishContext s) ParameterDeviceName) \<Longrightarrow>
    orderly_step rt d dirs H mounts owner (Event (Call_NodeStageVolume s)) w w'"
| publish_call: "NodePublishVolume d p w = (r, w') \<Longrightarrow> mounts w (np_StagingTargetPath p) \<noteq> [] \<Longrightarrow>
    np_TargetPath p \<in> dom owner \<Longrightarrow> owner (np_TargetPath p) = owner (np_StagingTargetPath p) \<Longrightarrow>
    orderly_step rt d dirs H mounts owner (Event (Call_NodePublishVolume p)) w w'"
| unpublish_call: "NodeUnpublishVolume d u w = (r, w') \<Longrightarrow> nup_TargetPath u \<in> dom owner \<Longrightarrow>
    orderly_step rt d dirs H mounts owner (Event (Call_NodeUnpublishVolume u)) w w'"
| unstage_call: "NodeUnstageVolume rt d n w = (r, w') \<Longrightarrow> nus_StagingTargetPath n \<in> dom owner \<Longrightarrow>
    orderly_step rt d dirs H mounts owner (Event (Call_NodeUnstageVolume n)) w w'"
| node_restart: "(\<And>p. p \<in> dom owner \<Longrightarrow> mounts w' p = [] \<and> clear dirs H (mounts w') p) \<Longrightarrow>
    orderly_step rt d dirs H mounts owner Restart w w'"
| others_act: "(\<And>p. p \<in> dom owner \<Longrightarrow> mounts w' p = mounts w p \<and> clear dirs H (mounts w') p) \<Longrightarrow>
    orderly_step rt d dirs H mounts owner Elsewhere w w'"

text \<open>At every path at most its own device is mounted.\<close>

definition owned :: "string set \<Rightarrow> string set \<Rightarrow> (string \<rightharpoonup> string) \<Rightarrow> table \<Rightarrow> bool" where
  "owned dirs H owner m \<longleftrightarrow>
     (\<forall>p \<in> dom owner. clear dirs H m p \<and> (m p = [] \<or> m p = [the (owner p)]))"

lemma owned_at: "owned dirs H owner m \<Longrightarrow> owner p = Some dev \<Longrightarrow> m p = [] \<or> m p = [dev]"
  by (auto simp: owned_def dom_def)

lemma owned_removable: "owned dirs H owner m \<Longrightarrow> p \<in> dom owner \<Longrightarrow> removable dirs H m p"
  unfolding owned_def removable_def by (drule (1) bspec) auto

lemma owned_upd:
  assumes "apart (dom owner)" and "owned dirs H owner m" and "owner p = Some dev" and "fs = [] \<or> fs = [dev]"
  shows "owned dirs H owner (m(p := fs))"
  unfolding owned_def
proof (intro ballI)
  fix q assume "q \<in> dom owner"
  moreover have "p \<in> dom owner" using assms(3) by blast
  ultimately show "clear dirs H (m(p := fs)) q \<and> ((m(p := fs)) q = [] \<or> (m(p := fs)) q = [the (owner q)])"
    using assms by (cases "q = p") (auto simp: owned_def apart_def clear_other)
qed

lemma hosted_own: "dev \<notin> H \<Longrightarrow> fs = [] \<or> fs = [dev] \<Longrightarrow> hosted H fs \<longleftrightarrow> fs = []"
  by auto

text \<open>Each call by itself: the step it makes, and what its success means.\<close>

lemma stage_own:
  assumes host: "mount_host rt d dirs H mounts data" and apart: "apart (dom owner)" and volumes: "ran owner \<inter> H = {}"
    and own: "owned dirs H owner (mounts w)" and run: "NodeStageVolume d s w = (r, w')"
    and mine: "owner (ns_StagingTargetPath s) = Some (go_lookup (ns_PublishContext s) ParameterDeviceName)"
  shows "table_step owner (Op_show (ns_StagingTargetPath s)) (shown owner (mounts w)) (shown owner (mounts w'))
    \<and> owned dirs H owner (mounts w')
    \<and> (r = Ok () \<longrightarrow> mounts w' (ns_StagingTargetPath s) = [go_lookup (ns_PublishContext s) ParameterDeviceName])"
proof -
  let ?p = "ns_StagingTargetPath s" and ?dev = "go_lookup (ns_PublishContext s) ParameterDeviceName"
  have p: "?p \<in> dom owner" and dev: "?dev \<notin> H" using mine volumes by (auto simp: ran_def)
  have now: "mounts w ?p = [] \<or> mounts w ?p = [?dev]" by (rule owned_at [OF own mine])
  have "mounts w' = mounts w \<and> (r = Ok () \<longrightarrow> mounts w ?p = [?dev]) \<or>
      mounts w ?p = [] \<and> mounts w' = (mounts w)(?p := [?dev])"
    using stage_effect [OF host run removable_plain [OF owned_removable [OF own p]]] now dev by auto
  then show ?thesis
  proof (elim disjE conjE)
    assume same: "mounts w' = mounts w" "r = Ok () \<longrightarrow> mounts w ?p = [?dev]"
    then show ?thesis using own by (simp add: stays)
  next
    assume new: "mounts w ?p = []" "mounts w' = (mounts w)(?p := [?dev])"
    then have "shown owner (mounts w) ?p = None" by (simp add: shown_def)
    with new p show ?thesis
      using shows_own [of "shown owner (mounts w)" ?p owner ?dev] mine owned_upd [OF apart own mine, of "[?dev]"] by simp
  qed
qed

lemma publish_own:
  assumes host: "mount_host rt d dirs H mounts data" and apart: "apart (dom owner)" and volumes: "ran owner \<inter> H = {}"
    and own: "owned dirs H owner (mounts w)" and run: "NodePublishVolume d p w = (r, w')"
    and staged: "mounts w (np_StagingTargetPath p) \<noteq> []"
    and mine: "owner (np_TargetPath p) = Some dev" "owner (np_StagingTargetPath p) = Some dev"
  shows "table_step owner (Op_show (np_TargetPath p)) (shown owner (mounts w)) (shown owner (mounts w'))
    \<and> owned dirs H owner (mounts w') \<and> (r = Ok () \<longrightarrow> mounts w' (np_TargetPath p) = [dev])"
proof -
  let ?t = "np_TargetPath p"
  have t: "?t \<in> dom owner" and dev: "dev \<notin> H" using mine volumes by (auto simp: ran_def)
  have now: "mounts w ?t = [] \<or> mounts w ?t = [dev]" "mounts w (np_StagingTargetPath p) = [dev]"
    using owned_at [OF own] mine staged by blast+
  have "mounts w' = mounts w \<and> (r = Ok () \<longrightarrow> mounts w ?t = [dev]) \<or>
      mounts w ?t = [] \<and> mounts w' = (mounts w)(?t := [dev])"
    using publish_effect_host [OF host run removable_plain [OF owned_removable [OF own t]]] now dev by auto
  then show ?thesis
  proof (elim disjE conjE)
    assume same: "mounts w' = mounts w" "r = Ok () \<longrightarrow> mounts w ?t = [dev]"
    then show ?thesis using own by (simp add: stays)
  next
    assume new: "mounts w ?t = []" "mounts w' = (mounts w)(?t := [dev])"
    then have "shown owner (mounts w) ?t = None" by (simp add: shown_def)
    with new t show ?thesis
      using shows_own [of "shown owner (mounts w)" ?t owner dev] mine owned_upd [OF apart own mine(1), of "[dev]"] by simp
  qed
qed

text \<open>A path that is cleared.\<close>

lemma cleared_own:
  assumes apart: "apart (dom owner)" and volumes: "ran owner \<inter> H = {}" and own: "owned dirs H owner m" and p: "p \<in> dom owner"
    and "m' = m \<or> m' = m(p := tl (m p))" and "r = Ok () \<longrightarrow> hosted H (m' p)"
  shows "table_step owner (Op_clear p) (shown owner m) (shown owner m')
    \<and> owned dirs H owner m' \<and> (r = Ok () \<longrightarrow> m' p = [])"
proof -
  obtain dev where mine: "owner p = Some dev" using p by blast
  then have dev: "dev \<notin> H" using volumes by (auto simp: ran_def)
  have now: "m p = [] \<or> m p = [dev]" by (rule owned_at [OF own mine])
  have "m' = m \<or> m' = m(p := [])" using assms(5) now by auto
  then show ?thesis
  proof
    assume "m' = m"
    then show ?thesis using own assms(6) now dev by (auto simp: stays)
  next
    assume "m' = m(p := [])"
    then show ?thesis using p clears [of owner p "shown owner m"] owned_upd [OF apart own mine, of "[]"] by simp
  qed
qed

lemma orderly_refines:
  assumes host: "mount_host rt d dirs H mounts data" and apart: "apart (dom owner)" and volumes: "ran owner \<inter> H = {}"
    and step: "orderly_step rt d dirs H mounts owner ev w w'" and own: "owned dirs H owner (mounts w)"
  shows "table_step owner (table_op_of ev) (shown owner (mounts w)) (shown owner (mounts w')) \<and> owned dirs H owner (mounts w')"
  using step
proof cases
  case (stage_call s r)
  then show ?thesis using stage_own [OF host apart volumes own] by (simp add: table_op_of_def)
next
  case (publish_call p r)
  then obtain dev where "owner (np_TargetPath p) = Some dev" "owner (np_StagingTargetPath p) = Some dev" by force
  with publish_call show ?thesis using publish_own [OF host apart volumes own] by (simp add: table_op_of_def)
next
  case (unpublish_call u r)
  then show ?thesis
    using unpublish_effect [OF host _ owned_removable [OF own]] cleared_own [OF apart volumes own]
    by (simp add: table_op_of_def) blast
next
  case (unstage_call n r)
  then show ?thesis
    using unstage_effect [OF host _ owned_removable [OF own]] cleared_own [OF apart volumes own]
    by (simp add: table_op_of_def) blast
next
  case node_restart
  then have "shown owner (mounts w') = Map.empty" "owned dirs H owner (mounts w')"
    by (auto simp: shown_def owned_def)
  with node_restart show ?thesis by (simp add: table_op_of_def all_gone)
next
  case others_act
  then have "shown owner (mounts w') = shown owner (mounts w)" "owned dirs H owner (mounts w')"
    using own by (auto simp: shown_def owned_def)
  with others_act show ?thesis by (simp add: table_op_of_def stays)
qed

text \<open>
  C3: No pod ever sees another pod's volume.  Let every staging and target path belong to a device, no
  path lie under another, and calls for any number of volumes come in any order, fail or succeed, with
  restarts of the node and other parties' work elsewhere in between; the only order that is asked for is
  that a volume is published while it is staged.  Then the node refines the abstract table call by call: a
  stage or publish call shows at most its path's own device at that path, an unpublish or unstage call at
  most clears its path, a restart clears all, and nothing else happens at the paths.  So at a path there
  is nothing or, once, the device the path belongs to.  And the answers are true: after a successful stage
  or publish call exactly that device is at the path, also when something had been mounted there before,
  and after a successful unpublish or unstage call nothing is, although the check for a mount point that
  these calls rely on may miss bind mounts within the host's own file systems.
\<close>

theorem pods_see_their_volume:
  assumes "mount_host rt d dirs H mounts data" and "apart (dom owner)" and "ran owner \<inter> H = {}"
    and "owned dirs H owner (mounts w0)" and "run_of (orderly_step rt d dirs H mounts owner) evs w0 w"
  shows "run_of (table_step owner) (map table_op_of evs) (shown owner (mounts w0)) (shown owner (mounts w))
    \<and> (\<forall>p dev. owner p = Some dev \<longrightarrow> mounts w p = [] \<or> mounts w p = [dev])
    \<and> (\<forall>s w'. NodeStageVolume d s w = (Ok (), w') \<and>
          owner (ns_StagingTargetPath s) = Some (go_lookup (ns_PublishContext s) ParameterDeviceName) \<longrightarrow>
        mounts w' (ns_StagingTargetPath s) = [go_lookup (ns_PublishContext s) ParameterDeviceName])
    \<and> (\<forall>p dev w'. NodePublishVolume d p w = (Ok (), w') \<and> mounts w (np_StagingTargetPath p) \<noteq> [] \<and>
          owner (np_TargetPath p) = Some dev \<and> owner (np_StagingTargetPath p) = Some dev \<longrightarrow>
        mounts w' (np_TargetPath p) = [dev])
    \<and> (\<forall>u w'. NodeUnpublishVolume d u w = (Ok (), w') \<and> nup_TargetPath u \<in> dom owner \<longrightarrow>
        mounts w' (nup_TargetPath u) = [])
    \<and> (\<forall>n w'. NodeUnstageVolume rt d n w = (Ok (), w') \<and> nus_StagingTargetPath n \<in> dom owner \<longrightarrow>
        mounts w' (nus_StagingTargetPath n) = [])"
proof -
  have "run_of (table_step owner) (map table_op_of evs) (shown owner (mounts w0)) (shown owner (mounts w))
      \<and> owned dirs H owner (mounts w)"
    by (rule run_of_simulation_inv [where g = "\<lambda>w. shown owner (mounts w)" and I = "\<lambda>w. owned dirs H owner (mounts w)",
          OF _ assms(5,4)])
      (rule orderly_refines [OF assms(1,2,3)])
  then have run: "run_of (table_step owner) (map table_op_of evs) (shown owner (mounts w0)) (shown owner (mounts w))"
    and own: "owned dirs H owner (mounts w)" by simp_all
  note clear_path = cleared_own [OF assms(2,3) own]
  show ?thesis
    using run owned_at [OF own] stage_own [OF assms(1,2,3) own] publish_own [OF assms(1,2,3) own]
      unpublish_effect [OF assms(1) _ owned_removable [OF own]] unstage_effect [OF assms(1) _ owned_removable [OF own]]
      clear_path
    by (intro conjI) blast+
qed

text \<open>
  Without the order the guarantee is lost: publishing from a path where nothing is staged succeeds and
  shows the pod the directory of the node itself.
\<close>

lemma publish_unstaged:
  "\<exists>w'. NodePublishVolume sim_host sim_node_publish ([], c) = (Ok (), w') \<and> host_table_of w' ''/pod'' = [''root'']"
  by (simp add: host_run)

section \<open>Witness\<close>

definition sim_owner :: "string \<rightharpoonup> string" where
  "sim_owner = [''/stage'' \<mapsto> ''/dev/oda'', ''/pod'' \<mapsto> ''/dev/oda'']"

theorem pods_see_their_volume_witness:
  "\<exists>w1 w2. run_of (orderly_step nop_runtime sim_host UNIV {''root''} host_table_of sim_owner)
       [Event (Call_NodeStageVolume sim_stage_req)] ([], \<lambda>_. 7) w1
     \<and> NodePublishVolume sim_host sim_node_publish w1 = (Ok (), w2) \<and> host_table_of w2 ''/pod'' = [''/dev/oda'']"
proof -
  let ?w1 = "([\<lparr>Device = ''/dev/oda'', Path = ''/stage''\<rparr>], (\<lambda>_. 7 :: nat)(''/dev/oda'' := 1))"
  let ?w2 = "([\<lparr>Device = ''/dev/oda'', Path = ''/pod''\<rparr>, \<lparr>Device = ''/dev/oda'', Path = ''/stage''\<rparr>],
      (\<lambda>_. 7 :: nat)(''/dev/oda'' := 1))"
  have "orderly_step nop_runtime sim_host UNIV {''root''} host_table_of sim_owner (Event (Call_NodeStageVolume sim_stage_req))
      ([], \<lambda>_. 7) ?w1"
    by (rule stage_call [OF sim_stage_run]) (simp add: sim_owner_def sim_stage_req_def)
  then have steps: "run_of (orderly_step nop_runtime sim_host UNIV {''root''} host_table_of sim_owner)
      [Event (Call_NodeStageVolume sim_stage_req)] ([], \<lambda>_. 7) ?w1" by simp
  have paths: "apart (dom sim_owner)" by (auto simp: apart_def sim_owner_def split: if_splits)
  have volumes: "ran sim_owner \<inter> {''root''} = {}" by (auto simp: ran_def sim_owner_def split: if_splits)
  have empty: "owned UNIV {''root''} sim_owner (host_table_of ([], \<lambda>_. 7 :: nat))"
    by (simp add: owned_def clear_def plain_def host_table_of_def)
  have run: "NodePublishVolume sim_host sim_node_publish ?w1 = (Ok (), ?w2)" by (rule sim_publish_run)
  have "host_table_of ?w2 ''/pod'' = [''/dev/oda'']"
    using pods_see_their_volume [OF sim_host_laws paths volumes empty steps, THEN conjunct2, THEN conjunct2, THEN conjunct2,
        THEN conjunct1, rule_format, of sim_node_publish ?w2 "''/dev/oda''"] run
    by (simp add: sim_node_publish_def host_table_of_def sim_owner_def)
  with steps run show ?thesis by blast
qed

end
