(* ===== verification/Progress.thy ===== *)
theory Progress
  imports Controller_Volume_Props Controller_Snapshot_Props Node_Lifecycle
begin

text \<open>
  That the calls get somewhere: on a server that provisions what it is asked for in time, and on a node
  where nothing breaks, the calls succeed.  The bounds are those of the code: five polls for a volume
  or a snapshot, with the delays of the backoff in between.
\<close>

section \<open>Waiting without interruption\<close>

text \<open>
  \<^verbatim>\<open>wait.ExponentialBackoffWithContext\<close> when the context is not cancelled: it goes on
  until a try is done or fails, or all tries are used up.
\<close>

inductive patient_run ::
    "('w \<Rightarrow> 'w \<Rightarrow> bool) \<Rightarrow> ('a \<times> 'w \<Rightarrow> (bool \<times> ext_error option) \<times> ('a \<times> 'w)) \<Rightarrow>
       nat \<Rightarrow> 'a \<times> 'w \<Rightarrow> ext_error option \<Rightarrow> 'a \<times> 'w \<Rightarrow> bool"
  for env cond where
  patient_done: "cond s = ((True, None), s') \<Longrightarrow> patient_run env cond (Suc n) s None s'"
| patient_failed: "cond s = ((b, Some e), s') \<Longrightarrow> patient_run env cond (Suc n) s (Some e) s'"
| patient_again: "cond s = ((False, None), (v, w)) \<Longrightarrow> env w w' \<Longrightarrow> patient_run env cond n (v, w') r t
     \<Longrightarrow> patient_run env cond (Suc n) s r t"
| patient_timeout: "err_interrupted e \<Longrightarrow> patient_run env cond 0 s (Some e) s"

definition patient_backoff :: "('w \<Rightarrow> 'w \<Rightarrow> bool) \<Rightarrow> ('a \<times> 'w) backoff_fn \<Rightarrow> bool" where
  "patient_backoff env eb \<longleftrightarrow>
     (\<forall>b cond s. patient_run env cond (bo_Steps b) s (fst (eb b cond s)) (snd (eb b cond s)))"

text \<open>A patient loop keeps the contract of all loops.\<close>

lemma patient_run_poll:
  "patient_run env cond n s r t \<Longrightarrow> poll_run (\<lambda>x y. fst x = fst y \<and> env (snd x) (snd y)) cond n s r t"
proof (induction rule: patient_run.induct)
  case (patient_again s v w w' n r t)
  then show ?case by (intro poll_again [where s'' = "(v, w')"]) auto
qed (auto intro: poll_run.intros)

lemma patient_backoff_legal: "patient_backoff env eb \<Longrightarrow> backoff_legal eb"
  unfolding patient_backoff_def backoff_legal_def backoff_contract_def others_only_def
  using patient_run_poll by (intro exI [of _ "\<lambda>x y. fst x = fst y \<and> env (snd x) (snd y)"]) blast

text \<open>
  \<open>ready_within get key ready env n k w\<close>: the object \<open>k\<close> is read ready at one of the next \<open>n\<close> reads
  without a read failing before, whatever the others do in between by steps of \<open>env\<close>.
\<close>

primrec ready_within ::
    "(ObjectKey \<Rightarrow> 'w \<Rightarrow> (ext_error + 'a) \<times> 'w) \<Rightarrow> ('a \<Rightarrow> ObjectKey) \<Rightarrow> ('a \<Rightarrow> bool) \<Rightarrow> ('w \<Rightarrow> 'w \<Rightarrow> bool) \<Rightarrow>
       nat \<Rightarrow> ObjectKey \<Rightarrow> 'w \<Rightarrow> bool" where
  "ready_within get key ready env 0 k w = False"
| "ready_within get key ready env (Suc n) k w =
     (\<exists>v w'. get k w = (Inr v, w') \<and> key v = k \<and>
       (ready v \<or> (\<forall>w''. env w' w'' \<longrightarrow> ready_within get key ready env n k w'')))"

lemma patient_ready:
  assumes "patient_run env cond n s r t"
    and "\<And>v w. cond (v, w) = (case get (key v) w of
        (Inr x, w') \<Rightarrow> ((ready x, None), (x, w')) | (Inl e, w') \<Rightarrow> ((False, Some e), (v, w')))"
    and "ready_within get key ready env n (key (fst s)) (snd s)"
  shows "r = None"
  using assms(1,3)
proof (induction rule: patient_run.induct)
  case (patient_failed s b e s' n)
  then show ?case using assms(2) [of "fst s" "snd s"] by auto
next
  case (patient_again s v w w' n r t)
  then obtain x w1 where x: "get (key (fst s)) (snd s) = (Inr x, w1)" "key x = key (fst s)"
      "ready x \<or> (\<forall>w''. env w1 w'' \<longrightarrow> ready_within get key ready env n (key (fst s)) w'')" by auto
  with patient_again.hyps(1) assms(2) [of "fst s" "snd s"] have "v = x" "w = w1" "\<not> ready x" by auto
  with x patient_again show ?case by auto
qed simp_all

lemma patient_wait_volume:
  assumes "patient_backoff env eb"
    and "ready_within (GetVolume c) volume_key volume_available env waitActiveSteps (volume_key v) w"
  shows "fst (waitForVolumeAvailability eb c v w) = None"
proof -
  obtain r t where eb: "eb wait_backoff (volume_condition c) (v, w) = (r, t)" by (metis surj_pair)
  then have "patient_run env (volume_condition c) waitActiveSteps (v, w) r t"
    using assms(1) unfolding patient_backoff_def wait_backoff_def by (metis Backoff.select_convs(3) fst_conv snd_conv)
  then have "r = None"
    by (rule patient_ready [where get = "GetVolume c" and key = volume_key and ready = volume_available])
      (use assms(2) in \<open>auto simp: volume_condition_def volume_available_def split: prod.splits sum.splits\<close>)
  with eb show ?thesis by (simp add: waitForVolumeAvailability_def)
qed

lemma patient_wait_snapshot:
  assumes "patient_backoff env eb"
    and "ready_within (GetVolumeSnapshot c) snapshot_key snapshot_ready env waitActiveSteps (snapshot_key v) w"
  shows "fst (waitForVolumeSnapshotReady eb c v w) = None"
proof -
  obtain r t where eb: "eb wait_backoff (snapshot_condition c) (v, w) = (r, t)" by (metis surj_pair)
  then have "patient_run env (snapshot_condition c) waitActiveSteps (v, w) r t"
    using assms(1) unfolding patient_backoff_def wait_backoff_def by (metis Backoff.select_convs(3) fst_conv snd_conv)
  then have "r = None"
    by (rule patient_ready [where get = "GetVolumeSnapshot c" and key = snapshot_key and ready = snapshot_ready])
      (use assms(2) in \<open>auto simp: snapshot_condition_def snapshot_ready_def split: prod.splits sum.splits\<close>)
  with eb show ?thesis by (simp add: waitForVolumeSnapshotReady_def)
qed

section \<open>Creating succeeds\<close>

text \<open>
  A server that answers about pools, accepts the volumes it is asked to apply and makes them available
  by the fifth read.
\<close>

definition provisions_volumes :: "'w Client \<Rightarrow> ('w \<Rightarrow> 'w \<Rightarrow> bool) \<Rightarrow> bool" where
  "provisions_volumes c env \<longleftrightarrow>
     (\<forall>k w e w'. GetVolumePool c k w = (Inl e, w') \<longrightarrow> err_notFound e) \<and>
     (\<forall>a ow f w r w'. ApplyVolume c a ow f w = (r, w') \<longrightarrow> r = None \<and>
        ready_within (GetVolume c) volume_key volume_available env 5
          \<lparr>key_Namespace = va_Namespace a, key_Name = va_Name a\<rparr> w')"

lemma provisions_volumesD:
  "provisions_volumes c env \<Longrightarrow> ApplyVolume c a ow f w = (r, w') \<Longrightarrow> r = None \<and>
     ready_within (GetVolume c) volume_key volume_available env 5
       \<lparr>key_Namespace = va_Namespace a, key_Name = va_Name a\<rparr> w'"
  unfolding provisions_volumes_def by blast

text \<open>
  C8: CreateVolume gets its volume: a request that passes the checks succeeds whenever the server
  accepts the volume and reports it available at one of the five reads, whatever other parties do to the
  world between the reads and whether or not the requested pool exists.
\<close>

theorem CreateVolume_succeeds:
  assumes "patient_backoff env eb" and "provisions_volumes (d_ironcoreClient d) env"
    and "checkCreate req = None"
  shows "\<exists>resp w'. CreateVolume rt eb d req w = (Ok resp, w') \<and> VolumeId resp = cv_Name req"
proof -
  obtain a where a: "create_args req = Inr a"
    using assms(3) create_args_check [of req] by (cases "create_args req") auto
  obtain p w1 where pool: "resolvePool d (ca_volumePoolName a) w = (Inr p, w1)"
  proof -
    let ?k = "\<lparr>key_Namespace = '''', key_Name = ca_volumePoolName a\<rparr>"
    obtain g w1 where g: "GetVolumePool (d_ironcoreClient d) ?k w = (g, w1)" by (metis surj_pair)
    moreover have "err_notFound e" if "g = Inl e" for e
      using assms(2) g that unfolding provisions_volumes_def by blast
    ultimately show thesis
      by (cases g) (auto simp: resolvePool_def intro: that)
  qed
  let ?cfg = "volumeApplyConfig d req a p" and ?vol = "volumeObject d req a p"
  obtain ar w2 where ap: "ApplyVolume (d_ironcoreClient d) ?cfg volumeFieldOwner True w1 = (ar, w2)"
    by (metis surj_pair)
  then have "ar = None" and "ready_within (GetVolume (d_ironcoreClient d)) volume_key volume_available env
      waitActiveSteps (volume_key ?vol) w2"
    using provisions_volumesD [OF assms(2) ap]
    by (simp_all add: volumeApplyConfig_def volumeObject_def volume_key_def waitActiveSteps_def)
  moreover obtain v w3 where "waitForVolumeAvailability eb (d_ironcoreClient d) ?vol w2 = (None, (v, w3))"
    using patient_wait_volume [OF assms(1)] calculation(2) by (metis fst_conv surj_pair)
  ultimately show ?thesis
    using a pool ap by (simp add: CreateVolume_def provisionVolume_def Let_def createResponse_def)
qed
text \<open>
  C24: CreateSnapshot gets its snapshot: when the source volume is read available, the server accepts
  the snapshot and reports it ready at one of the five reads, the call succeeds and reports the
  snapshot ready to use.
\<close>

theorem CreateSnapshot_succeeds:
  assumes "patient_backoff env eb" and "cs_SourceVolumeId req \<noteq> ''''"
    and "GetVolume (d_ironcoreClient d) (sourceKey d req) w = (Inr volume, w1)"
    and "vol_State volume = VolumeStateAvailable"
    and "ApplySnapshot (d_ironcoreClient d) (snapshotApplyConfig d req) snapshotFieldOwner True w1 = (None, w2)"
    and "ready_within (GetVolumeSnapshot (d_ironcoreClient d)) snapshot_key snapshot_ready env 5 (snapshotKeyOf d req) w2"
  shows "\<exists>s w'. CreateSnapshot eb d req w = (Ok s, w') \<and> SnapshotId s = cs_Name req \<and> ReadyToUse s"
proof -
  have "ready_within (GetVolumeSnapshot (d_ironcoreClient d)) snapshot_key snapshot_ready env waitActiveSteps
      (snapshot_key (snapshotObject d req)) w2"
    using assms(6) by (simp add: snapshot_key_object waitActiveSteps_def)
  then obtain v w3 where "waitForVolumeSnapshotReady eb (d_ironcoreClient d) (snapshotObject d req) w2 = (None, (v, w3))"
    using patient_wait_snapshot [OF assms(1)] by (metis fst_conv surj_pair)
  then show ?thesis
    using assms(2-5) by (simp add: CreateSnapshot_def checkSourceVolume_def sourceKey_def)
qed

section \<open>The time a creation waits\<close>

text \<open>
  Between the tries the loop sleeps, each time by the factor longer; it does not sleep after the last
  try.
\<close>

definition backoff_delays :: "Backoff \<Rightarrow> rat list" where
  "backoff_delays b = map (\<lambda>i. of_int (bo_Duration b) * bo_Factor b ^ i) [0..<bo_Steps b - 1]"

lemma wait_backoff_delay: "sum_list (backoff_delays wait_backoff) = 4641000000"
  by (simp add: backoff_delays_def wait_backoff_def waitInitDelay_def waitFactor_def waitActiveSteps_def
      eval_nat_numeral)

section \<open>A healthy node\<close>

text \<open>
  Nothing breaks: the staging devices and everything that is mounted exist, a path either is there or
  is reported missing, every mount is listed, under a device name, and the operations report no error,
  removing a tree as long as nothing is mounted at its root or below it.
\<close>

definition free_tree :: "table \<Rightarrow> string \<Rightarrow> bool" where
  "free_tree m p \<longleftrightarrow> m p = [] \<and> (\<forall>q. lies_under p q \<longrightarrow> m q = [])"

definition lists_mounts :: "table \<Rightarrow> MountPoint list \<Rightarrow> bool" where
  "lists_mounts m mps \<longleftrightarrow> (\<forall>p. m p \<noteq> [] \<longrightarrow> p \<in> Path ` set mps) \<and> (\<forall>mp \<in> set mps. Device mp \<noteq> '''')"

definition healthy_host ::
    "'w Runtime \<Rightarrow> 'w driver \<Rightarrow> string set \<Rightarrow> ('w \<Rightarrow> table) \<Rightarrow> string set \<Rightarrow> bool" where
  "healthy_host rt d dirs mounts devices \<longleftrightarrow>
     (\<forall>p w. p \<in> devices \<or> mounts w p \<noteq> [] \<longrightarrow> fst (Stat (d_os d) p w) = None) \<and>
     (\<forall>p w. snd (fst (IsLikelyNotMountPoint (d_mounter d) p w)) = None \<or>
        IsNotExist (d_os d) (snd (fst (IsLikelyNotMountPoint (d_mounter d) p w)))) \<and>
     (\<forall>p perm w. fst (MkdirAll (d_os d) p perm w) = None) \<and>
     (\<forall>p w. free_tree (mounts w) p \<longrightarrow> fst (RemoveAll (d_os d) p w) = None) \<and>
     (\<forall>dev t fs opts sens fopts w.
        fst (FormatAndMountSensitiveWithFormatOptions (d_mounter d) dev t fs opts sens fopts w) = None) \<and>
     (\<forall>s t fs opts w. fst (Mount (d_mounter d) s t fs opts w) = None) \<and>
     (\<forall>p w. mounts w p \<noteq> [] \<longrightarrow> fst (Unmount (d_mounter d) p w) = None) \<and>
     (\<forall>w. \<exists>mps. fst (ListMounts (d_mounter d) w) = Inr mps \<and> lists_mounts (mounts w) mps) \<and>
     (\<forall>p w. p \<in> dirs \<longrightarrow> mounts w p \<noteq> [] \<longrightarrow> fst (EvalSymlinks rt p w) = Inr p)"

lemma healthy_hostD:
  assumes "healthy_host rt d dirs mounts devices"
  shows "p \<in> devices \<or> mounts w p \<noteq> [] \<Longrightarrow> \<exists>w'. Stat (d_os d) p w = (None, w')"
    and "\<exists>b e w'. IsLikelyNotMountPoint (d_mounter d) p w = ((b, e), w') \<and> (e = None \<or> IsNotExist (d_os d) e)"
    and "\<exists>w'. MkdirAll (d_os d) p perm w = (None, w')"
    and "free_tree (mounts w) p \<Longrightarrow> \<exists>w'. RemoveAll (d_os d) p w = (None, w')"
    and "\<exists>w'. FormatAndMountSensitiveWithFormatOptions (d_mounter d) dev t fs opts sens fopts w = (None, w')"
    and "\<exists>w'. Mount (d_mounter d) src t fs opts w = (None, w')"
    and "mounts w p \<noteq> [] \<Longrightarrow> \<exists>w'. Unmount (d_mounter d) p w = (None, w')"
    and "\<exists>mps w'. ListMounts (d_mounter d) w = (Inr mps, w') \<and> lists_mounts (mounts w) mps"
    and "p \<in> dirs \<Longrightarrow> mounts w p \<noteq> [] \<Longrightarrow> \<exists>w'. EvalSymlinks rt p w = (Inr p, w')"
  using assms unfolding healthy_host_def by (metis prod.collapse)+

lemma deviceAt_listed: "p \<in> Path ` set mps \<Longrightarrow> \<forall>mp \<in> set mps. Device mp \<noteq> '''' \<Longrightarrow> deviceAt mps p \<noteq> ''''"
  by (induction mps) auto

lemma healthy_stage:
  assumes "healthy_host rt d dirs mounts devices" and "go_lookup (ns_PublishContext req) ParameterDeviceName \<in> devices"
  shows "\<exists>w'. NodeStageVolume d req w = (Ok (), w')"
proof -
  note healthy = healthy_hostD [OF assms(1)]
  obtain w1 where st: "Stat (d_os d) (go_lookup (ns_PublishContext req) ParameterDeviceName) w = (None, w1)"
    using healthy(1) assms(2) by blast
  obtain b e w2 where mp: "IsLikelyNotMountPoint (d_mounter d) (ns_StagingTargetPath req) w1 = ((b, e), w2)"
      "e = None \<or> IsNotExist (d_os d) e" using healthy(2) by blast
  obtain w3 where mk: "MkdirAll (d_os d) (ns_StagingTargetPath req) 488 w2 = (None, w3)" using healthy(3) by blast
  show ?thesis
    using healthy(5) [of "go_lookup (ns_PublishContext req) ParameterDeviceName" "ns_StagingTargetPath req"
        "go_lookup (ns_VolumeContext req) ParameterFSType" "stageOptions req" "[]" "stageFormatOptions req" w3]
    by (auto simp: NodeStageVolume_def stageMount_def Let_def st mp mk)
qed

lemma healthy_publish:
  assumes "healthy_host rt d dirs mounts devices" and "checkNodePublish req = None"
  shows "\<exists>w'. NodePublishVolume d req w = (Ok (), w')"
proof -
  note healthy = healthy_hostD [OF assms(1)]
  have set: "np_VolumeId req \<noteq> ''''" "np_StagingTargetPath req \<noteq> ''''" "np_TargetPath req \<noteq> ''''" "np_VolumeCapability req \<noteq> None"
    using assms(2) by (auto simp: checkNodePublish_def split: if_splits)
  obtain b e w1 where mp: "IsLikelyNotMountPoint (d_mounter d) (np_TargetPath req) w = ((b, e), w1)"
      "e = None \<or> IsNotExist (d_os d) e" using healthy(2) by blast
  obtain w2 where mk: "MkdirAll (d_os d) (np_TargetPath req) 488 w1 = (None, w2)" using healthy(3) by blast
  have mount: "\<exists>w'. publishMount d req w0 = (Ok (), w')" for w0
    using healthy(6) [of "np_StagingTargetPath req" "np_TargetPath req" "publishFsType req" "publishOptions req" w0]
    by (auto simp: publishMount_def)
  show ?thesis
    using set mp(2) mount [of w1] mount [of w2] by (auto simp: NodePublishVolume_def Let_def mp(1) mk)
qed

text \<open>A volume that is mounted once, with nothing below it, can be unmounted and its path removed.\<close>

definition holds :: "string set \<Rightarrow> string set \<Rightarrow> table \<Rightarrow> string \<Rightarrow> string \<Rightarrow> bool" where
  "holds dirs H m p dev \<longleftrightarrow> plain dirs H m p \<and> m p = [dev] \<and> dev \<notin> H \<and> (\<forall>q. lies_under p q \<longrightarrow> m q = [])"

lemma holds_removed: "holds dirs H m p dev \<Longrightarrow> free_tree (m(p := [])) p"
  by (auto simp: holds_def free_tree_def)

lemma healthy_unpublish:
  assumes "healthy_host rt d dirs mounts devices" and host: "mount_host rt d dirs H mounts data"
    and "nup_VolumeId req \<noteq> ''''" and "nup_TargetPath req \<noteq> ''''" and holds: "holds dirs H (mounts w) (nup_TargetPath req) dev"
  shows "\<exists>w'. NodeUnpublishVolume d req w = (Ok (), w')"
proof -
  note healthy = healthy_hostD [OF assms(1)]
  let ?t = "nup_TargetPath req"
  have t: "mounts w ?t = [dev]" "plain dirs H (mounts w) ?t" "dev \<notin> H" using holds by (simp_all add: holds_def)
  obtain w1 where st: "Stat (d_os d) ?t w = (None, w1)" using healthy(1) t(1) by force
  have w1: "mounts w1 = mounts w" using host_looks(1) [OF host st] by simp
  obtain b e w2 where mp: "IsLikelyNotMountPoint (d_mounter d) ?t w1 = ((b, e), w2)" "e = None \<or> IsNotExist (d_os d) e"
    using healthy(2) by blast
  have w2: "mounts w2 = mounts w" and "\<not> b"
    using host_looks(4) [OF host mp(1)] host_point [OF host mp] w1 t by (auto split: if_splits)
  obtain w3 where um: "Unmount (d_mounter d) ?t w2 = (None, w3)" using healthy(7) w2 t(1) by force
  have "free_tree (mounts w3) ?t"
    using host_changes(4) [OF host um] w2 t(1) holds_removed [OF holds] by simp
  then obtain w4 where "RemoveAll (d_os d) ?t w3 = (None, w4)" using healthy(4) by blast
  then show ?thesis
    using assms(3,4) mp(2) \<open>\<not> b\<close> by (auto simp: NodeUnpublishVolume_def removeTarget_def Let_def st mp(1) um)
qed

lemma healthy_unstage:
  assumes "healthy_host rt d dirs mounts devices" and host: "mount_host rt d dirs H mounts data"
    and "nus_VolumeId req \<noteq> ''''" and "nus_StagingTargetPath req \<noteq> ''''"
    and holds: "holds dirs H (mounts w) (nus_StagingTargetPath req) dev"
  shows "\<exists>w'. NodeUnstageVolume rt d req w = (Ok (), w')"
proof -
  note healthy = healthy_hostD [OF assms(1)]
  let ?p = "nus_StagingTargetPath req"
  have p: "mounts w ?p = [dev]" "?p \<in> dirs" using holds by (simp_all add: holds_def plain_def)
  obtain mps w1 where ls: "ListMounts (d_mounter d) w = (Inr mps, w1)" "lists_mounts (mounts w) mps" using healthy(8) by blast
  have w1: "mounts w1 = mounts w" using host_looks(3) [OF host ls(1)] by simp
  obtain w2 where ev: "EvalSymlinks rt ?p w1 = (Inr ?p, w2)" using healthy(9) [OF p(2)] p(1) w1 by force
  have w2: "mounts w2 = mounts w" using host_looks(2) [OF host ev] w1 by simp
  have dev: "deviceAt mps ?p \<noteq> ''''"
    using deviceAt_listed ls(2) p(1) by (simp add: lists_mounts_def)
  obtain w3 where um: "Unmount (d_mounter d) ?p w2 = (None, w3)" using healthy(7) p(1) w2 by force
  have "free_tree (mounts w3) ?p"
    using host_changes(4) [OF host um] w2 p(1) holds_removed [OF holds] by simp
  then obtain w4 where rm: "RemoveAll (d_os d) ?p w3 = (None, w4)" using healthy(4) by blast
  show ?thesis
    using assms(3,4) dev by (simp add: NodeUnstageVolume_def getMountDeviceName_def Let_def ls(1) ev um rm)
qed

text \<open>Repeating a call that mounts the same device again changes nothing more.\<close>

lemma run_all_repeat:
  assumes "\<And>w. m = mounts w \<or> m(p := [dev]) = mounts w \<Longrightarrow> \<exists>x w'. call r w = (x, w') \<and> mounts w' = m(p := [dev])"
    and "m = mounts w \<or> m(p := [dev]) = mounts w"
  shows "mounts (snd (run_all call (replicate (Suc i) r) w)) = m(p := [dev])"
  using assms(2)
proof (induction i arbitrary: w)
  case 0
  from assms(1) [OF 0] show ?case by auto
next
  case (Suc i)
  from assms(1) [OF Suc.prems] obtain x w' where w': "call r w = (x, w')" "mounts w' = m(p := [dev])"
    by blast
  have "mounts (snd (run_all call (replicate (Suc i) r) w')) = m(p := [dev])"
    using w'(2) by (intro Suc.IH) simp
  moreover have "snd (run_all call (replicate (Suc (Suc i)) r) w) = snd (run_all call (replicate (Suc i) r) w')"
    using w'(1) by (simp add: case_prod_beta)
  ultimately show ?case by simp
qed

lemma healthy_stages:
  assumes "healthy_host rt d dirs mounts devices" and host: "mount_host rt d dirs H mounts data"
    and dev: "go_lookup (ns_PublishContext req) ParameterDeviceName \<in> devices - H"
    and "mounts w (ns_StagingTargetPath req) = []" and plain: "plain dirs H (mounts w) (ns_StagingTargetPath req)"
  shows "mounts (snd (run_all (NodeStageVolume d) (replicate (Suc i) req) w)) =
    (mounts w)(ns_StagingTargetPath req := [go_lookup (ns_PublishContext req) ParameterDeviceName])"
proof (rule run_all_repeat)
  fix u
  assume u: "mounts w = mounts u \<or>
    (mounts w)(ns_StagingTargetPath req := [go_lookup (ns_PublishContext req) ParameterDeviceName]) = mounts u"
  then have "plain dirs H (mounts u) (ns_StagingTargetPath req)" using plain by (metis plain_upd)
  moreover obtain w' where run: "NodeStageVolume d req u = (Ok (), w')"
    using healthy_stage [OF assms(1)] dev by blast
  ultimately show "\<exists>x w'. NodeStageVolume d req u = (x, w') \<and>
      mounts w' = (mounts w)(ns_StagingTargetPath req := [go_lookup (ns_PublishContext req) ParameterDeviceName])"
    using stage_effect [OF host run] u dev assms(4) by (auto dest: sym)
qed simp

lemma healthy_publishes:
  assumes "healthy_host rt d dirs mounts devices" and host: "mount_host rt d dirs H mounts data"
    and "checkNodePublish req = None" and "mounts w (np_StagingTargetPath req) = [dev]" and "dev \<notin> H"
    and "mounts w (np_TargetPath req) = []" and plain: "plain dirs H (mounts w) (np_TargetPath req)"
    and "np_TargetPath req \<noteq> np_StagingTargetPath req"
  shows "mounts (snd (run_all (NodePublishVolume d) (replicate (Suc i) req) w)) = (mounts w)(np_TargetPath req := [dev])"
proof (rule run_all_repeat)
  fix u
  assume u: "mounts w = mounts u \<or> (mounts w)(np_TargetPath req := [dev]) = mounts u"
  then have "plain dirs H (mounts u) (np_TargetPath req)" using plain by (metis plain_upd)
  moreover have "mounts u (np_StagingTargetPath req) = [dev]" using u assms(4,8) by (metis fun_upd_other)
  moreover obtain w' where run: "NodePublishVolume d req u = (Ok (), w')"
    using healthy_publish [OF assms(1,3)] by blast
  ultimately show "\<exists>x w'. NodePublishVolume d req u = (x, w') \<and> mounts w' = (mounts w)(np_TargetPath req := [dev])"
    using publish_effect_host [OF host run] u assms(5,6) by (auto dest: sym)
qed simp

text \<open>
  C13: On a healthy node the life of a volume goes through: staging and publishing succeed from every
  state, so they can be repeated at any time; and from a mount table where nothing is mounted at the two
  paths or below them, stage, publish, unpublish and unstage succeed one after the other, after any number
  of repeated stage and publish calls, and leave the mount table as it was.
\<close>

theorem node_calls_succeed:
  assumes healthy: "healthy_host rt d dirs mounts devices" and host: "mount_host rt d dirs H mounts data"
    and dev: "go_lookup (ns_PublishContext stage) ParameterDeviceName \<in> devices - H"
    and checks: "checkNodePublish publ = None" "nup_VolumeId unpubl \<noteq> ''''" "nus_VolumeId unstage \<noteq> ''''"
    and paths: "np_StagingTargetPath publ = ns_StagingTargetPath stage" "nup_TargetPath unpubl = np_TargetPath publ"
      "nus_StagingTargetPath unstage = ns_StagingTargetPath stage" "np_TargetPath publ \<noteq> ns_StagingTargetPath stage"
    and free: "free_tree (mounts w0) (ns_StagingTargetPath stage)" "free_tree (mounts w0) (np_TargetPath publ)"
    and plain: "plain dirs H (mounts w0) (ns_StagingTargetPath stage)" "plain dirs H (mounts w0) (np_TargetPath publ)"
    and apart: "\<not> lies_under (np_TargetPath publ) (ns_StagingTargetPath stage)"
      "\<not> lies_under (ns_StagingTargetPath stage) (np_TargetPath publ)"
  shows "(\<forall>w. \<exists>w'. NodeStageVolume d stage w = (Ok (), w')) \<and> (\<forall>w. \<exists>w'. NodePublishVolume d publ w = (Ok (), w'))
    \<and> (\<exists>w1 w2 w3 w4. snd (run_all (NodeStageVolume d) (replicate (Suc i) stage) w0) = w1 \<and>
        snd (run_all (NodePublishVolume d) (replicate (Suc j) publ) w1) = w2 \<and>
        NodeUnpublishVolume d unpubl w2 = (Ok (), w3) \<and> NodeUnstageVolume rt d unstage w3 = (Ok (), w4) \<and>
        mounts w4 = mounts w0)"
proof -
  let ?s = "ns_StagingTargetPath stage" and ?t = "np_TargetPath publ"
    and ?dev = "go_lookup (ns_PublishContext stage) ParameterDeviceName"
  have free0: "mounts w0 ?s = []" "mounts w0 ?t = []"
    using free by (simp_all add: free_tree_def)
  define w1 where "w1 = snd (run_all (NodeStageVolume d) (replicate (Suc i) stage) w0)"
  have w1: "mounts w1 = (mounts w0)(?s := [?dev])"
    unfolding w1_def by (rule healthy_stages [OF healthy host dev free0(1) plain(1)])
  have plain1: "plain dirs H (mounts w1) ?t" "holds dirs H (mounts w1) ?s ?dev"
    using plain free apart dev by (auto simp: w1 plain_def holds_def free_tree_def)
  define w2 where "w2 = snd (run_all (NodePublishVolume d) (replicate (Suc j) publ) w1)"
  have w2: "mounts w2 = (mounts w1)(?t := [?dev])"
    unfolding w2_def
    by (rule healthy_publishes [OF healthy host checks(1)]) (use w1 free0 paths dev plain1 in simp_all)
  have nonempty: "?t \<noteq> ''''" "?s \<noteq> ''''"
    using checks(1) paths(1) by (auto simp: checkNodePublish_def split: if_splits)
  have holds: "holds dirs H (mounts w2) ?t ?dev"
    using plain1(1) free(2) apart dev by (auto simp: w1 w2 holds_def free_tree_def plain_def)
  then obtain w3 where w3: "NodeUnpublishVolume d unpubl w2 = (Ok (), w3)"
    using healthy_unpublish [OF healthy host checks(2)] nonempty paths(2) by auto
  have "removable dirs H (mounts w2) ?t"
    using holds by (auto simp: holds_def removable_def clear_def)
  then have m3: "mounts w3 = mounts w1"
    using unpublish_effect [OF host w3] w1 w2 free0 paths dev by auto
  obtain w4 where w4: "NodeUnstageVolume rt d unstage w3 = (Ok (), w4)"
    using healthy_unstage [OF healthy host checks(3), of w3 ?dev] nonempty m3 plain1(2) paths(3) by auto
  have "removable dirs H (mounts w3) ?s"
    using plain1(2) by (auto simp: m3 holds_def removable_def clear_def)
  then have "mounts w4 = mounts w0"
    using unstage_effect [OF host w4] m3 w1 free0 paths dev by auto
  with w3 w4 healthy_stage [OF healthy, of stage] healthy_publish [OF healthy checks(1)] dev show ?thesis
    unfolding w1_def w2_def by blast
qed

section \<open>Witnesses\<close>

text \<open>
  A server that needs five reads to make a volume available: the world counts them since the apply.
\<close>

definition slow_client :: "nat Client" where
  "slow_client = ready_client
     \<lparr>GetVolume := (\<lambda>k n. (Inr ((sim_volume k)\<lparr>vol_State := if n < 4 then ''Pending'' else VolumeStateAvailable\<rparr>), Suc n)),
      ApplyVolume := (\<lambda>a ow f n. (None, 0)),
      GetVolumeSnapshot := (\<lambda>k n. (Inr \<lparr>vs_Namespace = key_Namespace k, vs_Name = key_Name k,
        vs_CreationTimestamp = 0, vs_State = if n < 4 then ''Pending'' else VolumeSnapshotStateReady\<rparr>, Suc n)),
      ApplySnapshot := (\<lambda>a ow f n. (None, 0))\<rparr>"

definition slow_driver :: "nat driver" where
  "slow_driver = ready_driver\<lparr>d_ironcoreClient := slow_client\<rparr>"

lemma sim_loop_patient: "patient_run (=) cond n s (fst (sim_loop n cond s)) (snd (sim_loop n cond s))"
proof (induction n arbitrary: s)
  case 0
  show ?case by (simp add: patient_timeout)
next
  case (Suc n)
  obtain b r v w where c: "cond s = ((b, r), (v, w))" by (metis surj_pair)
  show ?case
    using c Suc.IH [of "(v, w)"] by (cases r; cases b) (auto intro: patient_run.intros)
qed

lemma sim_backoff_patient: "patient_backoff (=) sim_backoff"
  by (simp add: patient_backoff_def sim_backoff_def sim_loop_patient)

lemma slow_provisions: "provisions_volumes slow_client (=)"
  by (simp add: provisions_volumes_def slow_client_def ready_defs volume_key_def volume_available_def
      VolumeStateAvailable_def eval_nat_numeral)

theorem CreateVolume_succeeds_witness:
  "\<exists>resp w'. CreateVolume nop_runtime sim_backoff slow_driver sim_create 0 = (Ok resp, w') \<and> VolumeId resp = ''volume''"
proof -
  have "provisions_volumes (d_ironcoreClient slow_driver) (=)"
    by (simp add: slow_driver_def slow_provisions ready_driver_def)
  from CreateVolume_succeeds [OF sim_backoff_patient this, of sim_create nop_runtime 0] show ?thesis
    by (simp add: checkCreate_def sim_create_def parameter_defs RoundUpBytes_def)
qed

theorem CreateSnapshot_succeeds_witness:
  "\<exists>s w'. CreateSnapshot sim_backoff slow_driver \<lparr>cs_Name = ''s'', cs_SourceVolumeId = ''v''\<rparr> 4 = (Ok s, w') \<and> ReadyToUse s"
proof -
  let ?req = "\<lparr>cs_Name = ''s'', cs_SourceVolumeId = ''v''\<rparr>"
  have read: "GetVolume (d_ironcoreClient slow_driver) (sourceKey slow_driver ?req) 4 =
      (Inr (sim_volume (sourceKey slow_driver ?req)), 5)"
    by (simp add: slow_driver_def slow_client_def sim_volume_def)
  have apply_s: "ApplySnapshot (d_ironcoreClient slow_driver) (snapshotApplyConfig slow_driver ?req) snapshotFieldOwner True 5 = (None, 0)"
    by (simp add: slow_driver_def slow_client_def)
  have ready: "ready_within (GetVolumeSnapshot (d_ironcoreClient slow_driver)) snapshot_key snapshot_ready (=) 5
      (snapshotKeyOf slow_driver ?req) 0"
    by (simp add: slow_driver_def slow_client_def snapshot_key_def snapshot_ready_def
        VolumeSnapshotStateReady_def eval_nat_numeral)
  show ?thesis
    using CreateSnapshot_succeeds [OF sim_backoff_patient _ read _ apply_s ready] by (auto simp: sim_volume_def)
qed

lemma sim_host_healthy: "healthy_host nop_runtime sim_host UNIV host_table_of devices"
  by (auto simp: healthy_host_def sim_host_def sim_os_def sim_mounter_def sim_defs free_tree_def lists_mounts_def
      host_table_of_def filter_empty_conv image_iff)

theorem node_calls_succeed_witness:
  "\<exists>w1 w2 w3 w4. snd (run_all (NodeStageVolume sim_host) (replicate 3 sim_stage_req) ([], \<lambda>_. 7)) = w1
     \<and> snd (run_all (NodePublishVolume sim_host) (replicate 2 sim_node_publish) w1) = w2
     \<and> NodeUnpublishVolume sim_host sim_unpublish_req w2 = (Ok (), w3)
     \<and> NodeUnstageVolume nop_runtime sim_host sim_unstage_req w3 = (Ok (), w4)
     \<and> host_table_of w4 = (\<lambda>p. [])"
proof -
  have three: "3 = Suc 2" and two: "2 = Suc 1" by simp_all
  have empty: "host_table_of ([], \<lambda>_. 7) = (\<lambda>p. [])" by (simp add: host_table_of_def fun_eq_iff)
  show ?thesis
    unfolding three unfolding two
    by (rule node_calls_succeed [OF sim_host_healthy [of "{''/dev/oda''}"] sim_host_laws, of sim_stage_req sim_node_publish
          sim_unpublish_req sim_unstage_req "([], \<lambda>_. 7)", THEN conjunct2, THEN conjunct2, unfolded empty])
      (simp_all add: sim_stage_req_def sim_node_publish_def checkNodePublish_def free_tree_def plain_def lies_under_def)
qed

end
