(* ===== verification/Work_Bounds.thy ===== *)
theory Work_Bounds
  imports Observation Controller_Volume_Props Controller_Snapshot_Props
begin

text \<open>
  Every call of the driver comes to an end after a fixed number of external calls, whatever the
  environment answers: no loop of the program depends on what it is told.  The bounds are computed
  compositionally over the instrumented driver of theory Trace.
\<close>

section \<open>Counting external calls\<close>

definition within_calls :: "nat \<Rightarrow> ('w tworld \<Rightarrow> 'r \<times> 'w tworld) \<Rightarrow> bool" where
  "within_calls n f \<longleftrightarrow> (\<forall>w tr. \<exists>cs. snd (snd (f (w, tr))) = tr @ cs \<and> length cs \<le> n)"

lemma within_pure: "within_calls n (\<lambda>w. (r, w))"
  by (simp add: within_calls_def)

lemma within_logged: "within_calls (Suc n) (logged c f)"
  by (simp add: within_calls_def logged_eq)

lemma within_bind:
  assumes "within_calls m f" and "\<And>r. within_calls n (g r)"
  shows "within_calls (m + n) (\<lambda>w. case f w of (r, w') \<Rightarrow> g r w')"
  unfolding within_calls_def
proof (intro allI)
  fix w tr
  obtain r w1 tr1 where f: "f (w, tr) = (r, (w1, tr1))" by (metis surj_pair)
  obtain cs where cs: "tr1 = tr @ cs" "length cs \<le> m"
    using assms(1) f unfolding within_calls_def by (metis snd_conv)
  obtain cs' where "snd (snd (g r (w1, tr1))) = tr1 @ cs'" "length cs' \<le> n"
    using assms(2) unfolding within_calls_def by blast
  with f cs show "\<exists>cs. snd (snd (case f (w, tr) of (r, w') \<Rightarrow> g r w')) = tr @ cs \<and> length cs \<le> m + n"
    by (intro exI [of _ "cs @ cs'"]) simp
qed

text \<open>One external call and what follows; the budget of the rest is one less.\<close>

lemma within_call: "(\<And>r. within_calls n (g r)) \<Longrightarrow> within_calls (Suc n) (\<lambda>w. case logged c f w of (r, w') \<Rightarrow> g r w')"
  using within_bind [OF within_logged [of 0 c f], of n g] by simp

lemma within_if: "within_calls n f \<Longrightarrow> within_calls n g \<Longrightarrow> within_calls n (\<lambda>w. if b then f w else g w)"
  by (cases b) simp_all

lemma within_option: "within_calls n f \<Longrightarrow> (\<And>x. within_calls n (g x)) \<Longrightarrow>
    within_calls n (\<lambda>w. case v of None \<Rightarrow> f w | Some x \<Rightarrow> g x w)"
  by (cases v) simp_all

lemma within_sum: "(\<And>x. within_calls n (f x)) \<Longrightarrow> (\<And>x. within_calls n (g x)) \<Longrightarrow>
    within_calls n (\<lambda>w. case v of Inl x \<Rightarrow> f x w | Inr x \<Rightarrow> g x w)"
  by (cases v) simp_all

lemma within_result: "(\<And>x. within_calls n (f x)) \<Longrightarrow> (\<And>x. within_calls n (g x)) \<Longrightarrow> (\<And>x. within_calls n (h x)) \<Longrightarrow>
    within_calls n (\<lambda>w. case v of Ok x \<Rightarrow> f x w | Err x \<Rightarrow> g x w | Panic x \<Rightarrow> h x w)"
  by (cases v) simp_all

lemma within_pair: "(\<And>x y. within_calls n (f x y)) \<Longrightarrow> within_calls n (\<lambda>w. case v of (x, y) \<Rightarrow> f x y w)"
  by (cases v) simp

lemmas within_rules = within_call within_if within_option within_sum within_result within_pair
  within_pure within_logged

lemma within_discard: "within_calls n f \<Longrightarrow> within_calls n (\<lambda>w. (r, snd (f w)))"
  by (simp add: within_calls_def)

lemma within_object:
  assumes "\<And>e. within_calls n (a e)" and "\<And>x. within_calls n (k (t x))"
  shows "within_calls (Suc n) (\<lambda>w. case apfst (map_sum id t) (logged c g w) of (r, w') \<Rightarrow>
        (case r of Inl e \<Rightarrow> a e w' | Inr x \<Rightarrow> k x w'))"
proof -
  have "within_calls (Suc n) (\<lambda>w. case logged c g w of (r, w') \<Rightarrow> (case r of Inl e \<Rightarrow> a e w' | Inr x \<Rightarrow> k (t x) w'))"
    by (intro within_rules assms)
  moreover have "(\<lambda>w. case apfst (map_sum id t) (logged c g w) of (r, w') \<Rightarrow>
        (case r of Inl e \<Rightarrow> a e w' | Inr x \<Rightarrow> k x w')) =
      (\<lambda>w. case logged c g w of (r, w') \<Rightarrow> (case r of Inl e \<Rightarrow> a e w' | Inr x \<Rightarrow> k (t x) w'))"
    by (auto simp: fun_eq_iff split: prod.splits sum.splits)
  ultimately show ?thesis by simp
qed

lemma within_weaken: "within_calls m f \<Longrightarrow> m \<le> n \<Longrightarrow> within_calls n f"
  unfolding within_calls_def by (meson le_trans)

lemma call_numerals: "3 = Suc (Suc (Suc 0))" "4 = Suc (Suc (Suc (Suc 0)))" "2 = Suc (Suc 0)" "1 = Suc 0"
  by simp_all

section \<open>The controller\<close>

lemma within_attach: "within_calls (Suc (Suc 0)) (attachToMachine (traced d) req)"
  unfolding attachToMachine_def machineKeyOf_def traced_unfold by (intro within_rules)

lemma within_detach: "within_calls (Suc (Suc 0)) (detachFromMachine (traced d) req)"
  unfolding detachFromMachine_def machineKeyOf_def traced_unfold by (intro within_rules)

lemma within_nodeExists: "within_calls (Suc 0) (nodeExists n (traced_client c))"
  unfolding nodeExists_def traced_unfold by (intro within_rules)

lemma within_publish: "within_calls 3 (ControllerPublishVolume (traced d) req)"
proof -
  have "within_calls (Suc (Suc 0) + Suc 0) (ControllerPublishVolume (traced d) req)"
    unfolding ControllerPublishVolume_def volumeKeyOf_def traced_unfold
    by (rule within_bind [OF within_attach]) (intro within_rules)
  then show ?thesis by (simp add: eval_nat_numeral)
qed

lemma within_unpublish: "within_calls 3 (ControllerUnpublishVolume (traced d) req)"
proof -
  have "within_calls (Suc 0 + Suc (Suc 0)) (ControllerUnpublishVolume (traced d) req)"
    unfolding ControllerUnpublishVolume_def traced_unfold
    by (rule within_bind [OF within_nodeExists]) (intro within_rules within_detach)
  then show ?thesis by (simp add: eval_nat_numeral)
qed

lemma within_checkExpandable: "within_calls (Suc 0) (checkExpandable (traced d) vid v)"
  unfolding checkExpandable_def traced_unfold by (intro within_rules)

lemma within_expandPatch: "within_calls (Suc 0) (expandPatch (traced d) v sz cap)"
  unfolding expandPatch_def traced_unfold by (intro within_rules)

lemma within_expand: "within_calls 3 (ControllerExpandVolume (traced d) req)"
proof -
  have "within_calls (Suc (Suc 0 + Suc 0)) (ControllerExpandVolume (traced d) req)"
    unfolding ControllerExpandVolume_def traced_unfold
    by (intro within_rules within_bind within_checkExpandable within_expandPatch)
  then show ?thesis by (simp add: eval_nat_numeral)
qed

lemma within_simple:
  "within_calls 1 (DeleteVolume (traced d) vid)" "within_calls 1 (DeleteSnapshot (traced d) sid)"
  "within_calls 1 (ValidateVolumeCapabilities (traced d) vreq)"
  unfolding DeleteVolume_def DeleteSnapshot_def ValidateVolumeCapabilities_def traced_unfold call_numerals
  by (intro within_rules)+
section \<open>Creating, with its wait\<close>

lemma poll_bound:
  assumes "poll_run env cond n s r t" and "quiet env"
    and "\<And>s a s'. cond s = (a, s') \<Longrightarrow> \<exists>c. snd (snd s') = snd (snd s) @ [c]"
  shows "\<exists>cs. snd (snd t) = snd (snd s) @ cs \<and> length cs \<le> n"
  using assms(1)
proof (induction rule: poll_run.induct)
  case (poll_again s s' s'' n r t)
  then obtain cs where "snd (snd t) = snd (snd s'') @ cs" "length cs \<le> n" by blast
  moreover obtain c where "snd (snd s') = snd (snd s) @ [c]" using assms(3) [OF poll_again.hyps(1)] by blast
  moreover have "snd (snd s') = snd (snd s'')" using quietD [OF assms(2) poll_again.hyps(2)] by simp
  ultimately show ?case by (intro exI [of _ "c # cs"]) simp
qed (use assms(3) in \<open>force+\<close>)

lemma backoff_bound:
  assumes "quiet_backoff eb" and "eb wait_backoff cond s = (r, t)"
    and "\<And>s a s'. cond s = (a, s') \<Longrightarrow> \<exists>c. snd (snd s') = snd (snd s) @ [c]"
  shows "\<exists>cs. snd (snd t) = snd (snd s) @ cs \<and> length cs \<le> 5"
proof -
  obtain env where env: "quiet env" "backoff_contract env eb"
    using assms(1) unfolding quiet_backoff_def by blast
  then have "poll_run env cond 5 s r t"
    using assms(2) unfolding backoff_contract_def by (metis Backoff.select_convs(3) fst_conv snd_conv waitActiveSteps_def wait_backoff_def)
  then show ?thesis using env(1) assms(3) by (rule poll_bound)
qed

definition waits_within :: "nat \<Rightarrow> ('w tworld \<Rightarrow> 'e \<times> ('a \<times> 'w tworld)) \<Rightarrow> bool" where
  "waits_within n f \<longleftrightarrow> (\<forall>w tr. \<exists>cs. snd (snd (snd (f (w, tr)))) = tr @ cs \<and> length cs \<le> n)"

lemma waits_within_volume:
  "quiet_backoff eb \<Longrightarrow> waits_within 5 (waitForVolumeAvailability eb (traced_client c) v)"
  unfolding waits_within_def
proof (intro allI)
  fix w tr
  assume quiet: "quiet_backoff eb"
  obtain r t where eb: "eb wait_backoff (volume_condition (traced_client c)) (v, (w, tr)) = (r, t)" by (metis surj_pair)
  have step: "\<exists>x. snd (snd s') = snd (snd s) @ [x]" if "volume_condition (traced_client c) s = (a, s')" for s a s'
    using that by (auto simp: volume_condition_def logged_def split: outcome_splits)
  have "\<exists>cs. snd (snd t) = tr @ cs \<and> length cs \<le> 5"
    using backoff_bound [OF quiet eb step] by simp
  then show "\<exists>cs. snd (snd (snd (waitForVolumeAvailability eb (traced_client c) v (w, tr)))) = tr @ cs \<and> length cs \<le> 5"
    by (auto simp: waitForVolumeAvailability_def eb split: option.splits prod.splits)
qed

lemma waits_within_snapshot:
  "quiet_backoff eb \<Longrightarrow> waits_within 5 (waitForVolumeSnapshotReady eb (traced_client c) v)"
  unfolding waits_within_def
proof (intro allI)
  fix w tr
  assume quiet: "quiet_backoff eb"
  obtain r t where eb: "eb wait_backoff (snapshot_condition (traced_client c)) (v, (w, tr)) = (r, t)" by (metis surj_pair)
  have step: "\<exists>x. snd (snd s') = snd (snd s) @ [x]" if "snapshot_condition (traced_client c) s = (a, s')" for s a s'
    using that by (auto simp: snapshot_condition_def logged_def split: outcome_splits)
  have "\<exists>cs. snd (snd t) = tr @ cs \<and> length cs \<le> 5"
    using backoff_bound [OF quiet eb step] by simp
  then show "\<exists>cs. snd (snd (snd (waitForVolumeSnapshotReady eb (traced_client c) v (w, tr)))) = tr @ cs \<and> length cs \<le> 5"
    by (auto simp: waitForVolumeSnapshotReady_def eb split: option.splits prod.splits)
qed

lemma within_wait:
  assumes "waits_within m f" and "\<And>e x. within_calls n (a e x)" and "\<And>x. within_calls n (b x)"
  shows "within_calls (m + n) (\<lambda>w. case f w of (r, t) \<Rightarrow> (case r of
      None \<Rightarrow> (case t of (x, w') \<Rightarrow> b x w') | Some e \<Rightarrow> (case t of (x, w') \<Rightarrow> a e x w')))"
  unfolding within_calls_def
proof (intro allI)
  fix w tr
  obtain r x w1 tr1 where f: "f (w, tr) = (r, (x, (w1, tr1)))" by (metis surj_pair)
  obtain cs where cs: "tr1 = tr @ cs" "length cs \<le> m"
    using assms(1) f unfolding waits_within_def by (metis snd_conv)
  have "\<exists>cs'. snd (snd (case r of None \<Rightarrow> b x (w1, tr1) | Some e \<Rightarrow> a e x (w1, tr1))) = tr1 @ cs' \<and> length cs' \<le> n"
    using assms(2,3) unfolding within_calls_def by (cases r) auto
  then obtain cs' where "snd (snd (case r of None \<Rightarrow> b x (w1, tr1) | Some e \<Rightarrow> a e x (w1, tr1))) = tr1 @ cs'" "length cs' \<le> n"
    by blast
  with f cs show "\<exists>cs. snd (snd (case f (w, tr) of (r, t) \<Rightarrow> (case r of
      None \<Rightarrow> (case t of (x, w') \<Rightarrow> b x w') | Some e \<Rightarrow> (case t of (x, w') \<Rightarrow> a e x w')))) = tr @ cs \<and> length cs \<le> m + n"
    by (intro exI [of _ "cs @ cs'"]) (simp split: option.splits)
qed

lemma within_resolvePool: "within_calls (Suc 0) (resolvePool (traced d) p)"
  unfolding resolvePool_def traced_unfold by (intro within_rules)

lemma within_create:
  assumes "quiet_backoff eb"
  shows "within_calls 7 (CreateVolume rt eb (traced d) req)"
proof -
  have "within_calls (Suc 0 + Suc (5 + 0)) (CreateVolume rt eb (traced d) req)"
    unfolding CreateVolume_def provisionVolume_def traced_unfold
    by (intro within_sum within_pure within_bind within_resolvePool within_call within_option
        within_wait waits_within_volume assms)
  then show ?thesis by simp
qed

lemma within_checkSource: "within_calls (Suc 0) (checkSourceVolume (traced d) req)"
  unfolding checkSourceVolume_def traced_unfold by (intro within_rules)

lemma within_snapshot:
  assumes "quiet_backoff eb"
  shows "within_calls 7 (CreateSnapshot eb (traced d) req)"
proof -
  have "within_calls (Suc 0 + Suc (5 + 0)) (CreateSnapshot eb (traced d) req)"
    unfolding CreateSnapshot_def traced_unfold
    by (intro within_option within_pure within_bind within_checkSource within_call
        within_wait waits_within_snapshot assms)
  then show ?thesis by simp
qed

section \<open>The node\<close>

lemma within_deviceName: "within_calls (Suc (Suc 0)) (getMountDeviceName (traced_runtime rt) (traced d) p)"
  unfolding getMountDeviceName_def traced_unfold by (intro within_rules)

lemma within_stageMount: "within_calls (Suc (Suc 0)) (stageMount (traced d) req)"
  unfolding stageMount_def traced_unfold by (intro within_rules)

lemma within_publishMount: "within_calls (Suc n) (publishMount (traced d) req)"
  unfolding publishMount_def traced_unfold by (intro within_rules)

lemma within_removeTarget: "within_calls (Suc n) (removeTarget (traced d) p)"
  unfolding removeTarget_def traced_unfold by (intro within_rules)

lemma within_blockSize: "within_calls (Suc (Suc (Suc 0))) (getBlockSizeBytes (traced d) p)"
  unfolding getBlockSizeBytes_def traced_unfold
  by (intro within_object within_rules within_discard | simp only: traced_unfold)+

lemma within_resize: "within_calls (Suc (Suc (Suc (Suc (Suc 0)) + 0))) (resizeDevice (traced d) req dev)"
  unfolding resizeDevice_def traced_unfold
  by (intro within_object within_call within_if within_option within_sum within_pair within_pure within_bind within_blockSize
      | simp only: traced_unfold)+

lemma within_stage: "within_calls 4 (NodeStageVolume (traced d) req)"
  unfolding NodeStageVolume_def traced_unfold call_numerals
  by (intro within_rules within_stageMount)

lemma within_node_publish: "within_calls 3 (NodePublishVolume (traced d) req)"
  unfolding NodePublishVolume_def traced_unfold call_numerals
  by (intro within_rules within_publishMount)

lemma within_node_unpublish: "within_calls 4 (NodeUnpublishVolume (traced d) req)"
  unfolding NodeUnpublishVolume_def traced_unfold call_numerals
  by (intro within_rules within_removeTarget)

lemma within_unstage: "within_calls 4 (NodeUnstageVolume (traced_runtime rt) (traced d) req)"
proof -
  have "within_calls (Suc (Suc 0) + Suc (Suc 0)) (NodeUnstageVolume (traced_runtime rt) (traced d) req)"
    unfolding NodeUnstageVolume_def traced_unfold
    by (intro within_if within_pure within_bind within_deviceName within_sum within_call within_option)
  then show ?thesis by (simp add: eval_nat_numeral)
qed

lemma within_node_expand: "within_calls 7 (NodeExpandVolume (traced_runtime rt) (traced d) req)"
proof -
  have "within_calls (Suc (Suc 0) + Suc (Suc (Suc (Suc (Suc 0)) + 0))) (NodeExpandVolume (traced_runtime rt) (traced d) req)"
    unfolding NodeExpandVolume_def traced_unfold
    by (intro within_option within_pure within_bind within_deviceName within_sum within_resize)
  then show ?thesis by (simp add: eval_nat_numeral)
qed

lemma within_deviceStats: "within_calls (Suc 0) (getDeviceStats (traced d) p)"
  unfolding getDeviceStats_def traced_unfold by (intro within_rules)

lemma within_zone: "within_calls (Suc 0) (getZoneFromNode n (traced_client c))"
  unfolding getZoneFromNode_def traced_unfold by (intro within_rules)

lemma within_stats: "within_calls 2 (NodeGetVolumeStats (traced d) req)"
proof -
  have "within_calls (Suc (Suc 0 + 0)) (NodeGetVolumeStats (traced d) req)"
    unfolding NodeGetVolumeStats_def traced_unfold
    by (intro within_if within_pure within_call within_pair within_option within_bind within_deviceStats within_sum)
  then show ?thesis by (simp add: call_numerals)
qed

lemma within_info: "within_calls 1 (NodeGetInfo (traced d))"
proof -
  have "within_calls (Suc 0 + 0) (NodeGetInfo (traced d))"
    unfolding NodeGetInfo_def traced_unfold
    by (intro within_bind within_zone within_sum within_pure)
  then show ?thesis by simp
qed

section \<open>All calls\<close>

lemma within_length: "within_calls n f \<Longrightarrow> length (snd (snd (f (w, [])))) \<le> n"
  unfolding within_calls_def by (metis append_Nil)

text \<open>
  C20: Every call terminates after a fixed number of external calls, whatever the environment answers
  and in whatever way it fails: creating a volume or a snapshot after at most seven (five of them the
  reads of the wait, between which it sleeps no longer than 4.641 seconds in all), publishing,
  unpublishing and expanding on the controller after at most three, the other controller calls after one;
  on the node, expanding after at most seven, staging, unstaging and unpublishing after at most four,
  publishing after three, statistics after two and information after one.
\<close>

theorem every_call_terminates:
  assumes "quiet_backoff eb" and "quiet_backoff eb'"
  shows "length (snd (snd (CreateVolume rt eb (traced d) r1 (w, [])))) \<le> 7
    \<and> length (snd (snd (CreateSnapshot eb' (traced d) r2 (w, [])))) \<le> 7
    \<and> sum_list (map (\<lambda>i. of_int (bo_Duration wait_backoff) * bo_Factor wait_backoff ^ i)
        [0..<bo_Steps wait_backoff - 1]) = 4641000000
    \<and> length (snd (snd (ControllerPublishVolume (traced d) r3 (w, [])))) \<le> 3
    \<and> length (snd (snd (ControllerUnpublishVolume (traced d) r4 (w, [])))) \<le> 3
    \<and> length (snd (snd (ControllerExpandVolume (traced d) r5 (w, [])))) \<le> 3
    \<and> length (snd (snd (DeleteVolume (traced d) r6 (w, [])))) \<le> 1
    \<and> length (snd (snd (DeleteSnapshot (traced d) r7 (w, [])))) \<le> 1
    \<and> length (snd (snd (ValidateVolumeCapabilities (traced d) r8 (w, [])))) \<le> 1
    \<and> length (snd (snd (NodeStageVolume (traced d) n1 (w, [])))) \<le> 4
    \<and> length (snd (snd (NodePublishVolume (traced d) n2 (w, [])))) \<le> 3
    \<and> length (snd (snd (NodeUnpublishVolume (traced d) n3 (w, [])))) \<le> 4
    \<and> length (snd (snd (NodeUnstageVolume (traced_runtime rt') (traced d) n4 (w, [])))) \<le> 4
    \<and> length (snd (snd (NodeExpandVolume (traced_runtime rt') (traced d) n5 (w, [])))) \<le> 7
    \<and> length (snd (snd (NodeGetVolumeStats (traced d) n6 (w, [])))) \<le> 2
    \<and> length (snd (snd (NodeGetInfo (traced d) (w, [])))) \<le> 1"
proof (intro conjI)
  show "sum_list (map (\<lambda>i. of_int (bo_Duration wait_backoff) * bo_Factor wait_backoff ^ i)
        [0..<bo_Steps wait_backoff - 1]) = 4641000000"
    by (simp add: wait_backoff_def waitInitDelay_def waitFactor_def waitActiveSteps_def eval_nat_numeral)
qed (intro within_length within_create within_snapshot within_publish within_unpublish within_expand within_simple
    within_stage within_node_publish within_node_unpublish within_unstage within_node_expand within_stats
    within_info assms)+

theorem every_call_terminates_witness:
  "length (snd (snd (CreateVolume nop_runtime sim_backoff (traced ready_driver) sim_create ((), [])))) \<le> 7
   \<and> length (snd (snd (CreateSnapshot sim_backoff (traced ready_driver)
       \<lparr>cs_Name = ''s'', cs_SourceVolumeId = ''v''\<rparr> ((), [])))) \<le> 7"
proof
  show "length (snd (snd (CreateVolume nop_runtime sim_backoff (traced ready_driver) sim_create ((), [])))) \<le> 7"
    by (rule every_call_terminates [OF sim_backoff_quiet sim_backoff_quiet, THEN conjunct1])
  show "length (snd (snd (CreateSnapshot sim_backoff (traced ready_driver)
       \<lparr>cs_Name = ''s'', cs_SourceVolumeId = ''v''\<rparr> ((), [])))) \<le> 7"
    by (rule every_call_terminates [OF sim_backoff_quiet sim_backoff_quiet, THEN conjunct2, THEN conjunct1])
qed
end
