(* ===== verification/Answers.thy ===== *)
theory Answers
  imports Controller_Volume_Props Controller_Publish Controller_Snapshot Controller_Expand Node_Stage Node_Publish Node_Expand Sim
begin

text \<open>
  What kind of value every call answers with.  A CSI client distinguishes errors by their gRPC code; an
  error that is not a gRPC status reaches it as Unknown.
\<close>

text \<open>The answer is Ok or a gRPC status.\<close>

definition has_code :: "'a result \<Rightarrow> bool" where
  "has_code r \<longleftrightarrow> result_code r \<noteq> None"

lemma has_code_simps [simp]:
  "has_code (Ok x)" "has_code (Err e) \<longleftrightarrow> status_code e \<noteq> None" "\<not> has_code (Panic p)"
  by (simp_all add: has_code_def)

definition answers :: "('a result \<Rightarrow> bool) \<Rightarrow> ('w \<Rightarrow> 'a result \<times> 'w) \<Rightarrow> bool" where
  "answers P f \<longleftrightarrow> (\<forall>w. P (fst (f w)))"

lemma answers_pure: "P r \<Longrightarrow> answers P (\<lambda>w. (r, w))"
  by (simp add: answers_def)

lemma answers_bind: "(\<And>r. answers P (g r)) \<Longrightarrow> answers P (\<lambda>w. case f w of (r, w') \<Rightarrow> g r w')"
  by (simp add: answers_def split: prod.splits)

lemma answers_if: "(b \<Longrightarrow> answers P f) \<Longrightarrow> (\<not> b \<Longrightarrow> answers P g) \<Longrightarrow> answers P (\<lambda>w. if b then f w else g w)"
  by (cases b) simp_all

lemma answers_option: "(v = None \<Longrightarrow> answers P f) \<Longrightarrow> (\<And>x. v = Some x \<Longrightarrow> answers P (g x)) \<Longrightarrow>
    answers P (\<lambda>w. case v of None \<Rightarrow> f w | Some x \<Rightarrow> g x w)"
  by (cases v) simp_all

lemma answers_sum: "(\<And>x. v = Inl x \<Longrightarrow> answers P (f x)) \<Longrightarrow> (\<And>x. v = Inr x \<Longrightarrow> answers P (g x)) \<Longrightarrow>
    answers P (\<lambda>w. case v of Inl x \<Rightarrow> f x w | Inr x \<Rightarrow> g x w)"
  by (cases v) simp_all

lemma answers_pair: "(\<And>x y. answers P (f x y)) \<Longrightarrow> answers P (\<lambda>w. case v of (x, y) \<Rightarrow> f x y w)"
  by (cases v) simp

lemmas answers_rules = answers_bind answers_if answers_option answers_sum answers_pair answers_pure

lemma answersD: "answers P f \<Longrightarrow> P (fst (f w))"
  by (simp add: answers_def)

section \<open>The calls that always answer with a status\<close>

lemma attach_status: "attachToMachine d req w = (Inl e, w') \<Longrightarrow> status_code e \<noteq> None"
  by (auto simp: attachToMachine_def Let_def split: outcome_splits)

lemma publish_answers: "answers has_code (ControllerPublishVolume d req)"
  unfolding answers_def
proof
  fix w
  show "has_code (fst (ControllerPublishVolume d req w))"
    by (auto simp: ControllerPublishVolume_def split: outcome_splits dest: attach_status)
qed

lemma controller_answers:
  "answers has_code (ControllerUnpublishVolume d preq)" "answers has_code (DeleteVolume d vid)"
  "answers has_code (DeleteSnapshot d sid)" "answers has_code (ValidateVolumeCapabilities d vreq)"
  unfolding ControllerUnpublishVolume_def detachFromMachine_def DeleteVolume_def DeleteSnapshot_def
    ValidateVolumeCapabilities_def Let_def
  by (intro answers_rules; simp)+

lemma checkNodeExpand_status: "checkNodeExpand req = Some e \<Longrightarrow> status_code e \<noteq> None"
  by (auto simp: checkNodeExpand_def Let_def split: if_splits option.splits)

lemma node_answers:
  "answers has_code (NodeStageVolume d sreq)" "answers has_code (NodeUnstageVolume rt d ureq)"
  "answers has_code (NodeUnpublishVolume d nreq)" "answers has_code (NodeExpandVolume rt d ereq)"
  "answers has_code (NodeGetVolumeStats d streq)" "answers has_code (NodeGetInfo d)"
  unfolding NodeStageVolume_def stageMount_def NodeUnstageVolume_def NodeUnpublishVolume_def removeTarget_def
    NodeExpandVolume_def resizeDevice_def NodeGetVolumeStats_def NodeGetInfo_def Let_def
  by (intro answers_rules; simp add: checkNodeExpand_status)+
section \<open>The calls that do not\<close>

text \<open>An error built with \<^verbatim>\<open>fmt.Errorf\<close>, or one of the Kubernetes library.\<close>

definition plain_error :: "'a result \<Rightarrow> bool" where
  "plain_error r \<longleftrightarrow> (\<exists>m args. r = Err (Errorf m args))"

definition bad_request :: "'a result \<Rightarrow> bool" where
  "bad_request r \<longleftrightarrow> (\<exists>m args. r = Err (BadRequest m args))"

lemma answer_kinds [simp]:
  "\<not> plain_error (Ok x)" "plain_error (Err (Errorf m args))" "\<not> plain_error (Err (Status c m args))"
  "\<not> bad_request (Ok x)" "bad_request (Err (BadRequest m args))" "\<not> bad_request (Err (Status c m args))"
  by (simp_all add: plain_error_def bad_request_def)

lemma create_args_status: "create_args req = Inl e \<Longrightarrow> status_code e \<noteq> None"
  by (auto simp: create_args_def getVolSizeBytes_def Let_def split: outcome_splits)

lemma resolvePool_status: "resolvePool d p w = (Inl e, w') \<Longrightarrow> status_code e \<noteq> None"
  by (auto simp: resolvePool_def split: outcome_splits)

lemma create_answers: "answers (\<lambda>r. has_code r \<or> plain_error r) (CreateVolume rt eb d req)"
  unfolding answers_def
proof
  fix w
  show "has_code (fst (CreateVolume rt eb d req w)) \<or> plain_error (fst (CreateVolume rt eb d req w))"
    by (auto simp: CreateVolume_def provisionVolume_def Let_def split: outcome_splits
        dest: create_args_status resolvePool_status)
qed

lemma snapshot_answers: "answers (\<lambda>r. has_code r \<or> plain_error r) (CreateSnapshot eb d req)"
  unfolding answers_def
proof
  fix w
  have "checkSourceVolume d req w = (Some e, w') \<Longrightarrow> status_code e \<noteq> None" for e w'
    by (auto simp: checkSourceVolume_def split: outcome_splits)
  then show "has_code (fst (CreateSnapshot eb d req w)) \<or> plain_error (fst (CreateSnapshot eb d req w))"
    by (auto simp: CreateSnapshot_def split: outcome_splits)
qed

lemma node_publish_answers: "answers (\<lambda>r. has_code r \<or> plain_error r) (NodePublishVolume d req)"
  unfolding NodePublishVolume_def publishMount_def Let_def by (intro answers_rules; simp)

lemma expand_answers:
  "answers (\<lambda>r. has_code r \<or> bad_request r \<or> (\<exists>p. r = Panic p)) (ControllerExpandVolume d req)"
  unfolding answers_def
  by (auto simp: ControllerExpandVolume_def checkExpandable_def expandPatch_def Let_def split: outcome_splits)

text \<open>
  C25: The type of the answers: from every state of the world, publishing and unpublishing on the
  controller, deleting volumes and snapshots, validating capabilities, and on the node staging,
  unstaging, unpublishing, expanding, statistics and information always answer Ok or an error with a
  gRPC code, and never crash; creating a volume or a snapshot and publishing on the node may besides
  answer an error without a code but do not crash either; expanding on the controller may answer a
  bad-request error without a code, and is the only call that can crash.
\<close>

theorem answers_are_typed:
  "has_code (fst (ControllerPublishVolume d pub w)) \<and> has_code (fst (ControllerUnpublishVolume d unpub w))
   \<and> has_code (fst (DeleteVolume d vid w)) \<and> has_code (fst (DeleteSnapshot d sid w))
   \<and> has_code (fst (ValidateVolumeCapabilities d val w))
   \<and> has_code (fst (NodeStageVolume d stage w)) \<and> has_code (fst (NodeUnstageVolume rt d unstage w))
   \<and> has_code (fst (NodeUnpublishVolume d nunpub w)) \<and> has_code (fst (NodeExpandVolume rt d nexp w))
   \<and> has_code (fst (NodeGetVolumeStats d stats w)) \<and> has_code (fst (NodeGetInfo d w))
   \<and> (has_code (fst (CreateVolume rt eb d create w)) \<or> plain_error (fst (CreateVolume rt eb d create w)))
   \<and> (has_code (fst (CreateSnapshot eb' d snap w)) \<or> plain_error (fst (CreateSnapshot eb' d snap w)))
   \<and> (has_code (fst (NodePublishVolume d npub w)) \<or> plain_error (fst (NodePublishVolume d npub w)))
   \<and> (has_code (fst (ControllerExpandVolume d grow w)) \<or> bad_request (fst (ControllerExpandVolume d grow w)) \<or> (\<exists>p. fst (ControllerExpandVolume d grow w) = Panic p))"
  by (intro conjI answersD [OF publish_answers] answersD [OF controller_answers(1)] answersD [OF controller_answers(2)]
    answersD [OF controller_answers(3)] answersD [OF controller_answers(4)] answersD [OF node_answers(1)]
    answersD [OF node_answers(2)] answersD [OF node_answers(3)] answersD [OF node_answers(4)]
    answersD [OF node_answers(5)] answersD [OF node_answers(6)] answersD [OF create_answers]
    answersD [OF snapshot_answers] answersD [OF node_publish_answers] answersD [OF expand_answers])





end
