(* ===== verification/Snapshot_Store.thy ===== *)
theory Snapshot_Store
  imports Volume_Store Controller_Snapshot_Props
begin

text \<open>
  The controller service seen as a store of snapshots.  The abstract state of one snapshot is the volume
  it was taken from, that it is under deletion or that there is none; beside it stands the set of the
  volumes that are available.  A CreateSnapshot of this snapshot may take it, of an available volume, a
  DeleteSnapshot of it may drop it, and every other call leaves it alone, deleting its volume included.
\<close>

section \<open>What is assumed of the API server\<close>

text \<open>
  \<open>snap\<close> reads the state of the snapshot with key \<open>k\<close> out of the world, and
  \<open>avail\<close> whether a volume of the namespace \<open>ns\<close> is available.  Only applying and
  deleting this snapshot changes it, in the ways of \<^verbatim>\<open>applied\<close> and
  \<^verbatim>\<open>removed\<close>.  A volume that is read as available is available.
\<close>

definition writes_leave :: "'w Client \<Rightarrow> ('w \<Rightarrow> 'e stored) \<Rightarrow> bool" where
  "writes_leave c view \<longleftrightarrow> (\<forall>a ow f. leaves view (ApplyVolume c a ow f)) \<and>
     (\<forall>k. leaves view (DeleteVolumeObject c k)) \<and> (\<forall>b m. leaves view (PatchMachine c b m)) \<and>
     (\<forall>b v. leaves view (PatchVolume c b v))"

definition state_law :: "'w Client \<Rightarrow> string \<Rightarrow> ('w \<Rightarrow> string set) \<Rightarrow> bool" where
  "state_law c ns avail \<longleftrightarrow> (\<forall>x w v w'. GetVolume c x w = (Inr v, w') \<longrightarrow> key_Namespace x = ns \<longrightarrow>
     vol_State v = VolumeStateAvailable \<longrightarrow> key_Name x \<in> avail w)"

definition take_law :: "'w Client \<Rightarrow> ObjectKey \<Rightarrow> ('w \<Rightarrow> string stored) \<Rightarrow> bool" where
  "take_law c k snap \<longleftrightarrow> (\<forall>a ow f w r w'. ApplySnapshot c a ow f w = (r, w') \<longrightarrow>
     (if \<lparr>key_Namespace = sa_Namespace a, key_Name = sa_Name a\<rparr> = k
      then applied (sa_VolumeRef a) (r = None) (snap w) (snap w')
      else settles (snap w) (snap w')))"

definition drop_law :: "'w Client \<Rightarrow> ObjectKey \<Rightarrow> ('w \<Rightarrow> string stored) \<Rightarrow> bool" where
  "drop_law c k snap \<longleftrightarrow> (\<forall>x w r w'. DeleteSnapshotObject c x w = (r, w') \<longrightarrow>
     (if x = k then removed (r = None) (snap w) (snap w') else settles (snap w) (snap w')))"

definition snapshot_server ::
    "'w Client \<Rightarrow> ObjectKey \<Rightarrow> ('w \<Rightarrow> string stored) \<Rightarrow> ('w \<Rightarrow> string set) \<Rightarrow> bool" where
  "snapshot_server c k snap avail \<longleftrightarrow> reads_leave c snap \<and> writes_leave c snap \<and>
     state_law c (key_Namespace k) avail \<and> take_law c k snap \<and> drop_law c k snap"

lemma snapshot_server_leaves:
  assumes "snapshot_server c k snap avail"
  shows "leaves snap (GetVolume c x)" "leaves snap (GetVolumePool c x)" "leaves snap (GetVolumeClass c x)"
    "leaves snap (GetVolumeSnapshot c x)" "leaves snap (GetMachine c x)" "leaves snap (GetNode c x)"
    "leaves snap (ApplyVolume c va ow f)" "leaves snap (DeleteVolumeObject c x)"
    "leaves snap (PatchMachine c b m)" "leaves snap (PatchVolume c old new)"
  using assms unfolding snapshot_server_def reads_leave_def writes_leave_def by simp_all

lemma snapshot_serverD:
  assumes "snapshot_server c k snap avail"
  shows "GetVolume c x w = (Inr v, w') \<Longrightarrow> key_Namespace x = key_Namespace k \<Longrightarrow>
      vol_State v = VolumeStateAvailable \<Longrightarrow> key_Name x \<in> avail w"
    and "ApplySnapshot c a ow f w = (r, w') \<Longrightarrow>
      if \<lparr>key_Namespace = sa_Namespace a, key_Name = sa_Name a\<rparr> = k
      then applied (sa_VolumeRef a) (r = None) (snap w) (snap w')
      else settles (snap w) (snap w')"
    and "DeleteSnapshotObject c x w = (dr, w') \<Longrightarrow>
      if x = k then removed (dr = None) (snap w) (snap w') else settles (snap w) (snap w')"
  using assms unfolding snapshot_server_def state_law_def take_law_def drop_law_def by blast+

section \<open>What the calls do to the snapshot\<close>

lemma take_effect:
  assumes server: "snapshot_server (d_ironcoreClient d) k snap avail" and calm: "calm_backoff snap eb"
    and run: "CreateSnapshot eb d req w = (r, w')"
  shows "settles (snap w) (snap w') \<or>
    snapshotKeyOf d req = k \<and> snap w' = Live (cs_SourceVolumeId req) \<and> cs_SourceVolumeId req \<in> avail w"
proof -
  note leaves = snapshot_server_leaves [OF server]
  obtain e w1 where check: "checkSourceVolume d req w = (e, w1)" by (metis surj_pair)
  have w1: "settles (snap w) (snap w1)"
    using check by (auto simp: checkSourceVolume_def split: outcome_splits dest: leavesD [OF leaves(1)])
  show ?thesis
  proof (cases e)
    case (Some x)
    with run check w1 show ?thesis by (auto simp: CreateSnapshot_def)
  next
    case None
    then obtain v where "GetVolume (d_ironcoreClient d) (sourceKey d req) w = (Inr v, w1)" "vol_State v = VolumeStateAvailable"
      using check by (auto simp: checkSourceVolume_def sourceKey_def split: outcome_splits)
    then have avail: "cs_SourceVolumeId req \<in> avail w" if "snapshotKeyOf d req = k"
      using snapshot_serverD(1) [OF server, of "sourceKey d req"] that by (auto simp: sourceKey_def snapshotKeyOf_def)
    obtain ar w2 where ap: "ApplySnapshot (d_ironcoreClient d) (snapshotApplyConfig d req) snapshotFieldOwner True w1 = (ar, w2)"
      by (metis surj_pair)
    obtain wr v' w3 where wait: "waitForVolumeSnapshotReady eb (d_ironcoreClient d) (snapshotObject d req) w2
        = (wr, (v', w3))" by (metis surj_pair)
    have w3: "settles (snap w2) (snap w3)"
      by (rule wait_snapshot_leaves [OF calm leaves(4) wait])
    have "w' = (if ar = None then w3 else w2)"
      using run None check ap wait by (auto simp: CreateSnapshot_def split: option.splits)
    moreover have "if snapshotKeyOf d req = k
        then applied (cs_SourceVolumeId req) (ar = None) (snap w1) (snap w2) else settles (snap w1) (snap w2)"
      using snapshot_serverD(2) [OF server ap]
      by (simp add: snapshotKeyOf_def snapshotApplyConfig_def split: if_splits)
    ultimately show ?thesis
      using w1 w3 avail by (auto simp: applied_def settles_def split: if_splits)
  qed
qed

lemma drop_effect:
  assumes server: "snapshot_server (d_ironcoreClient d) k snap avail"
    and run: "DeleteSnapshot d sid w = (r, w')"
  shows "if sid \<noteq> '''' \<and> \<lparr>key_Namespace = DriverNamespace (d_config d), key_Name = sid\<rparr> = k
    then removed (is_ok r) (snap w) (snap w') else settles (snap w) (snap w')"
proof -
  obtain dr w1 where del: "DeleteSnapshotObject (d_ironcoreClient d)
      \<lparr>key_Namespace = DriverNamespace (d_config d), key_Name = sid\<rparr> w = (dr, w1)" by (metis surj_pair)
  show ?thesis
    using run del snapshot_serverD(3) [OF server del]
    by (auto simp: DeleteSnapshot_def Let_def split: option.splits if_splits)
qed

lemma volume_calls_leave:
  assumes server: "snapshot_server (d_ironcoreClient d) k snap avail"
    and nodes: "\<And>x. leaves snap (GetNode (d_targetClient d) x)"
  shows "leaves snap (ControllerPublishVolume d preq)" "leaves snap (ControllerUnpublishVolume d preq)"
    "leaves snap (DeleteVolume d vid)" "leaves snap (ValidateVolumeCapabilities d vreq)"
    "leaves snap (ControllerExpandVolume d ereq)"
proof -
  note rules = leaves_rules snapshot_server_leaves [OF server] nodes
  show "leaves snap (ControllerPublishVolume d preq)" "leaves snap (ControllerUnpublishVolume d preq)"
    "leaves snap (DeleteVolume d vid)" "leaves snap (ValidateVolumeCapabilities d vreq)"
    unfolding ControllerPublishVolume_def attachToMachine_def ControllerUnpublishVolume_def nodeExists_def
      detachFromMachine_def DeleteVolume_def ValidateVolumeCapabilities_def Let_def
    by (intro rules)+
  show "leaves snap (ControllerExpandVolume d ereq)"
    unfolding ControllerExpandVolume_def checkExpandable_def expandPatch_def Let_def
    by (intro rules)
qed

section \<open>The calls refine the abstract snapshot\<close>

datatype snapshot_action = Op_take string | Op_drop | Op_other

inductive snapshot_step ::
    "snapshot_action \<Rightarrow> string stored \<times> string set \<Rightarrow> string stored \<times> string set \<Rightarrow> bool" where
  snap_same: "settles s s' \<Longrightarrow> snapshot_step op (s, A) (s', A')"
| snap_take: "v \<in> A \<Longrightarrow> snapshot_step (Op_take v) (s, A) (Live v, A')"
| snap_drop: "s' = Terminating \<or> s' = Gone \<Longrightarrow> snapshot_step Op_drop (Live v, A) (s', A')"

inductive_cases snapshot_stepE: "snapshot_step op (s, A) (s', A')"

text \<open>What a call asks of the snapshot with key \<open>k\<close>.\<close>

definition snapshot_op :: "'w driver \<Rightarrow> ObjectKey \<Rightarrow> CsiCall option \<Rightarrow> snapshot_action" where
  "snapshot_op d k label = (case label of
       Some (Call_CreateSnapshot req) \<Rightarrow>
         if snapshotKeyOf d req = k then Op_take (cs_SourceVolumeId req) else Op_other
     | Some (Call_DeleteSnapshot sid) \<Rightarrow>
         if sid \<noteq> '''' \<and> \<lparr>key_Namespace = DriverNamespace (d_config d), key_Name = sid\<rparr> = k then Op_drop else Op_other
     | _ \<Rightarrow> Op_other)"

lemma snapshot_op_take: "snapshot_op d k label = Op_take v \<Longrightarrow>
    \<exists>req. label = Some (Call_CreateSnapshot req) \<and> snapshotKeyOf d req = k \<and> cs_SourceVolumeId req = v"
  by (auto simp: snapshot_op_def split: option.splits CsiCall.splits if_splits)

text \<open>Without a drop a live snapshot stays live.\<close>

lemma snapshot_step_live:
  assumes "snapshot_step op p p'" and "fst p = Live v" and "op \<noteq> Op_drop"
  shows "\<exists>v'. fst p' = Live v'"
  using assms by (cases rule: snapshot_step.cases) auto

lemma snapshot_run_live:
  assumes "run_of snapshot_step ops p p'" and "Op_drop \<notin> set ops" and "fst p = Live v"
  shows "\<exists>v'. fst p' = Live v'"
  by (rule run_of_invariant [OF assms(1), where I = "\<lambda>p. \<exists>v'. fst p = Live v'"])
    (use assms(2,3) snapshot_step_live in \<open>blast+\<close>)

lemma create_leaves_snap:
  assumes server: "snapshot_server (d_ironcoreClient d) k snap avail" and calm: "calm_backoff snap eb"
    and run: "CreateVolume rt eb d req w = (r, w')"
  shows "settles (snap w) (snap w')"
proof -
  note leaves = snapshot_server_leaves [OF server]
  have "settles (snap w) (snap w1)" if "resolvePool d p w = (pr, w1)" for p pr w1
    using that by (auto simp: resolvePool_def split: outcome_splits dest: leavesD [OF leaves(2)])
  then show ?thesis
    using run
    by (auto simp: CreateVolume_def provisionVolume_def Let_def split: outcome_splits
        dest!: wait_volume_leaves [OF calm leaves(1)] leavesD [OF leaves(7)])
      (blast intro: settles_trans)+
qed

lemma snapshot_call_step:
  assumes server: "snapshot_server (d_ironcoreClient d) k snap avail"
    and nodes: "reads_leave (d_targetClient d) snap"
    and "controller_call rt d snap label w w'"
  shows "snapshot_step (snapshot_op d k label) (snap w, avail w) (snap w', avail w')"
proof -
  note others = volume_calls_leave [OF server reads_leave_node [OF nodes]]
  from assms(3) show ?thesis
  proof cases
    case (call_create eb creq r)
    then show ?thesis using create_leaves_snap [OF server] snap_same by metis
  next
    case (call_snapshot eb sreq r)
    show ?thesis
      using take_effect [OF server call_snapshot(2,3)] call_snapshot(1)
      by (auto simp: snapshot_op_def intro: snap_take snap_same)
  next
    case (call_unsnapshot sid r)
    show ?thesis
      using drop_effect [OF server call_unsnapshot(2)] call_unsnapshot(1)
      by (auto simp: snapshot_op_def removed_def split: if_splits intro: snap_drop snap_same)
  next
    case elsewhere
    then show ?thesis by (simp add: snap_same)
  qed (use others [THEN leavesD] in \<open>auto intro: snap_same\<close>)
qed

lemma snapshot_calls_steps:
  assumes "snapshot_server (d_ironcoreClient d) k snap avail" and "reads_leave (d_targetClient d) snap"
    and "run_of (controller_call rt d snap) calls w0 w"
  shows "run_of snapshot_step (map (snapshot_op d k) calls) (snap w0, avail w0) (snap w, avail w)"
  using snapshot_call_step [OF assms(1,2)] assms(3)
  by (rule run_of_simulation [where g = "\<lambda>w. (snap w, avail w)"])

lemma snapshot_call_source:
  assumes "snapshot_server (d_ironcoreClient d) k snap avail" and "reads_leave (d_targetClient d) snap"
    and "controller_call rt d snap label u w" and "snap w = Live v" and "snap u \<noteq> Live v"
  shows "v \<in> avail u \<and> snapshot_op d k label = Op_take v"
  using snapshot_call_step [OF assms(1-3)] assms(4,5) by (auto elim: snapshot_stepE)

lemma snapshot_source:
  assumes "snapshot_server (d_ironcoreClient d) k snap avail" and "reads_leave (d_targetClient d) snap"
    and "run_of (controller_call rt d snap) calls w0 w" and "snap w = Live v" and "snap w0 \<noteq> Live v"
  obtains calls1 req calls2 u where "calls = calls1 @ Some (Call_CreateSnapshot req) # calls2"
    and "snapshotKeyOf d req = k" and "cs_SourceVolumeId req = v"
    and "run_of (controller_call rt d snap) calls1 w0 u" and "v \<in> avail u"
proof (rule run_of_changed [OF assms(3), where P = "\<lambda>w. snap w = Live v"])
  fix calls1 l calls2 u u'
  assume split: "calls = calls1 @ l # calls2" "run_of (controller_call rt d snap) calls1 w0 u"
    and step: "controller_call rt d snap l u u'" "snap u \<noteq> Live v" "snap u' = Live v"
  have "v \<in> avail u" "snapshot_op d k l = Op_take v"
    using snapshot_call_source [OF assms(1,2) step(1,3,2)] by simp_all
  with split that show thesis using snapshot_op_take by metis
qed (use assms(4,5) in simp_all)

text \<open>
  C4: Seen at one snapshot, the controller service refines the abstract snapshot, call by call: in every
  run of calls, for this snapshot, its volume and others, in any order, with any failures, including
  writes that take effect although they report an error, each step of the snapshot is one that the call
  of this moment asks for.  Only a CreateSnapshot of this snapshot takes it, of the volume its request
  names, which is available at that moment; only a DeleteSnapshot of it drops it.  So a snapshot that is
  there at the end was there at the start or comes from such a call, and one that is there stays, the
  deletion of its volume included, until a DeleteSnapshot of it.
\<close>

theorem controller_refines_snapshot:
  assumes "snapshot_server (d_ironcoreClient d) k snap avail" and "reads_leave (d_targetClient d) snap"
    and "run_of (controller_call rt d snap) calls w0 w"
  shows "run_of snapshot_step (map (snapshot_op d k) calls) (snap w0, avail w0) (snap w, avail w)
    \<and> (\<forall>v. snap w = Live v \<longrightarrow> snap w0 = Live v \<or>
         (\<exists>calls1 req calls2 u. calls = calls1 @ Some (Call_CreateSnapshot req) # calls2 \<and>
            snapshotKeyOf d req = k \<and> cs_SourceVolumeId req = v \<and>
            run_of (controller_call rt d snap) calls1 w0 u \<and> v \<in> avail u))
    \<and> ((\<forall>call \<in> set calls. snapshot_op d k call \<noteq> Op_drop) \<longrightarrow>
         (\<forall>v. snap w0 = Live v \<longrightarrow> (\<exists>v'. snap w = Live v')))"
proof -
  have run: "run_of snapshot_step (map (snapshot_op d k) calls) (snap w0, avail w0) (snap w, avail w)"
    by (rule snapshot_calls_steps [OF assms])
  have "(\<forall>call \<in> set calls. snapshot_op d k call \<noteq> Op_drop) \<Longrightarrow> snap w0 = Live v \<Longrightarrow> \<exists>v'. snap w = Live v'" for v
    using snapshot_run_live [OF run] by force
  moreover have "snap w = Live v \<Longrightarrow> snap w0 = Live v \<or>
         (\<exists>calls1 req calls2 u. calls = calls1 @ Some (Call_CreateSnapshot req) # calls2 \<and>
            snapshotKeyOf d req = k \<and> cs_SourceVolumeId req = v \<and>
            run_of (controller_call rt d snap) calls1 w0 u \<and> v \<in> avail u)" for v
    using snapshot_source [OF assms] by metis
  ultimately show ?thesis using run by blast
qed

section \<open>A server that stores snapshots\<close>

text \<open>The world: the sources of the snapshots, and the names of the volumes that are there and available.\<close>

type_synonym snapshots_world = "(ObjectKey \<rightharpoonup> string) \<times> string set"

definition snapshots_client :: "snapshots_world Client" where
  "snapshots_client = ready_client
     \<lparr>GetVolume := (\<lambda>k s. (if key_Name k \<in> snd s then Inr (sim_volume k) else Inl not_found, s)),
      DeleteVolumeObject := (\<lambda>k s. (if key_Name k \<in> snd s then None else Some not_found, (fst s, snd s - {key_Name k}))),
      ApplySnapshot := (\<lambda>a ow f s.
        (None, ((fst s)(\<lparr>key_Namespace = sa_Namespace a, key_Name = sa_Name a\<rparr> \<mapsto> sa_VolumeRef a), snd s))),
      DeleteSnapshotObject := (\<lambda>k s. (if fst s k = None then Some not_found else None, ((fst s)(k := None), snd s)))\<rparr>"

definition snapshots_driver :: "snapshots_world driver" where
  "snapshots_driver = ready_driver\<lparr>d_ironcoreClient := snapshots_client\<rparr>"

definition snapshot_of :: "ObjectKey \<Rightarrow> snapshots_world \<Rightarrow> string stored" where
  "snapshot_of k s = (case fst s k of Some v \<Rightarrow> Live v | None \<Rightarrow> Gone)"

lemmas snapshots_run = snapshots_driver_def snapshots_client_def ready_defs snapshot_of_def

lemma snapshots_server:
  "snapshot_server (d_ironcoreClient snapshots_driver) k (snapshot_of k) snd"
  "reads_leave (d_targetClient snapshots_driver) (snapshot_of k)"
  by (auto simp: snapshot_server_def reads_leave_def writes_leave_def leaves_def state_law_def take_law_def
      drop_law_def applied_def removed_def snapshots_run split: if_splits option.splits)

lemma snapshot_taken:
  assumes "''v'' \<in> snd s"
  shows "\<exists>resp. CreateSnapshot sim_backoff snapshots_driver sim_snapshot s
    = (Ok resp, ((fst s)(\<lparr>key_Namespace = ''ns'', key_Name = ''s''\<rparr> \<mapsto> ''v''), snd s))"
  using assms
  by (simp add: CreateSnapshot_def checkSourceVolume_def sim_snapshot_def snapshots_run snapshotApplyConfig_def
      snapshotObject_def waitForVolumeSnapshotReady_def sim_backoff_def wait_backoff_def waitActiveSteps_def
      eval_nat_numeral snapshot_condition_def snapshot_key_def Let_def)

text \<open>A snapshot is taken and its volume deleted: the snapshot stays.\<close>

theorem controller_refines_snapshot_witness:
  "\<exists>w. run_of (controller_call nop_runtime snapshots_driver (snapshot_of \<lparr>key_Namespace = ''ns'', key_Name = ''s''\<rparr>))
       [Some (Call_CreateSnapshot sim_snapshot), Some (Call_DeleteVolume ''v'')] (Map.empty, {''v''}) w \<and> snd w = {} \<and>
     run_of snapshot_step [Op_take ''v'', Op_other] (Gone, {''v''}) (Live ''v'', {})"
proof -
  let ?k = "\<lparr>key_Namespace = ''ns'', key_Name = ''s''\<rparr>"
  let ?calls = "[Some (Call_CreateSnapshot sim_snapshot), Some (Call_DeleteVolume ''v'')]"
  let ?w1 = "(Map.empty(?k \<mapsto> ''v''), {''v''}) :: snapshots_world" and ?w2 = "(Map.empty(?k \<mapsto> ''v''), {}) :: snapshots_world"
  obtain resp where take: "CreateSnapshot sim_backoff snapshots_driver sim_snapshot (Map.empty, {''v''}) = (Ok resp, ?w1)"
    using snapshot_taken [of "(Map.empty, {''v''})"] by auto
  have "DeleteVolume snapshots_driver ''v'' ?w1 = (Ok (), ?w2)"
    by (simp add: DeleteVolume_def snapshots_run Let_def)
  then have steps: "run_of (controller_call nop_runtime snapshots_driver (snapshot_of ?k)) ?calls (Map.empty, {''v''}) ?w2"
    using call_snapshot [OF sim_backoff_calm take] by (auto intro: call_delete)
  have ops: "map (snapshot_op snapshots_driver ?k) ?calls = [Op_take ''v'', Op_other]"
    by (simp add: snapshot_op_def snapshotKeyOf_def sim_snapshot_def snapshots_run)
  from controller_refines_snapshot [OF snapshots_server steps, THEN conjunct1, unfolded ops] steps show ?thesis
    by (intro exI [of _ ?w2]) (simp add: snapshot_of_def)
qed

end
