(* ===== verification/Privileges.thy ===== *)
theory Privileges
  imports Observation Node_Publish_Props Controller_Volume_Props Controller_Publish_Props
begin

text \<open>
  What each call may do at most: the external calls it makes, the objects, paths and devices it names in
  them, and which of the two API servers it turns to.  The external calls are those the instrumented
  driver of theory Trace records.
\<close>

section \<open>Operations confined to some external calls\<close>

definition confined :: "(Call \<Rightarrow> bool) \<Rightarrow> ('w tworld \<Rightarrow> 'r \<times> 'w tworld) \<Rightarrow> bool" where
  "confined P f \<longleftrightarrow> (\<forall>w tr. list_all P tr \<longrightarrow> list_all P (snd (snd (f (w, tr)))))"

lemma confined_pure: "confined P (\<lambda>w. (r, w))"
  by (simp add: confined_def)

lemma confined_logged: "(\<And>r. P (c r)) \<Longrightarrow> confined P (logged c f)"
  by (simp add: confined_def logged_eq)

lemma confined_bind:
  assumes "confined P f" and "\<And>r. confined P (g r)"
  shows "confined P (\<lambda>w. case f w of (r, w') \<Rightarrow> g r w')"
  using assms by (auto simp: confined_def split: prod.splits) (metis snd_conv)

lemma confined_if: "confined P f \<Longrightarrow> confined P g \<Longrightarrow> confined P (\<lambda>w. if b then f w else g w)"
  by (cases b) simp_all

lemma confined_option: "confined P f \<Longrightarrow> (\<And>x. confined P (g x)) \<Longrightarrow>
    confined P (\<lambda>w. case v of None \<Rightarrow> f w | Some x \<Rightarrow> g x w)"
  by (cases v) simp_all

lemma confined_sum: "(\<And>x. confined P (f x)) \<Longrightarrow> (\<And>x. confined P (g x)) \<Longrightarrow>
    confined P (\<lambda>w. case v of Inl x \<Rightarrow> f x w | Inr x \<Rightarrow> g x w)"
  by (cases v) simp_all

lemma confined_result: "(\<And>x. confined P (f x)) \<Longrightarrow> (\<And>x. confined P (g x)) \<Longrightarrow> (\<And>x. confined P (h x)) \<Longrightarrow>
    confined P (\<lambda>w. case v of Ok x \<Rightarrow> f x w | Err x \<Rightarrow> g x w | Panic x \<Rightarrow> h x w)"
  by (cases v) simp_all

lemma confined_pair: "(\<And>x y. confined P (f x y)) \<Longrightarrow> confined P (\<lambda>w. case v of (x, y) \<Rightarrow> f x y w)"
  by (cases v) simp

lemma confined_discard: "confined P f \<Longrightarrow> confined P (\<lambda>w. (r, snd (f w)))"
  by (simp add: confined_def)

lemma confined_reply: "confined P f \<Longrightarrow> confined P (reply k f)"
  by (simp add: confined_def reply_def case_prod_beta)

lemma confined_reply_pure: "confined P (reply_pure k r)"
  by (simp add: confined_def reply_pure_def)

lemma confined_object:
  assumes "\<And>r. P (c r)" and "\<And>e. confined P (a e)" and "\<And>x. confined P (k (t x))"
  shows "confined P (\<lambda>w. case apfst (map_sum id t) (logged c g w) of (r, w') \<Rightarrow>
        (case r of Inl e \<Rightarrow> a e w' | Inr x \<Rightarrow> k x w'))"
proof -
  have "confined P (\<lambda>w. case logged c g w of (r, w') \<Rightarrow> (case r of Inl e \<Rightarrow> a e w' | Inr x \<Rightarrow> k (t x) w'))"
    by (intro confined_bind confined_logged confined_sum assms)
  moreover have "(\<lambda>w. case apfst (map_sum id t) (logged c g w) of (r, w') \<Rightarrow>
        (case r of Inl e \<Rightarrow> a e w' | Inr x \<Rightarrow> k x w')) =
      (\<lambda>w. case logged c g w of (r, w') \<Rightarrow> (case r of Inl e \<Rightarrow> a e w' | Inr x \<Rightarrow> k (t x) w'))"
    by (auto simp: fun_eq_iff split: prod.splits sum.splits)
  ultimately show ?thesis by simp
qed

lemmas confined_rules = confined_bind confined_if confined_option confined_sum confined_result
  confined_pair confined_pure confined_logged

text \<open>The same from one world on, for what a call may do because of what it read.\<close>

definition confined_from :: "(Call \<Rightarrow> bool) \<Rightarrow> 'w \<Rightarrow> ('w tworld \<Rightarrow> 'r \<times> 'w tworld) \<Rightarrow> bool" where
  "confined_from P w f \<longleftrightarrow> (\<forall>tr. list_all P tr \<longrightarrow> list_all P (snd (snd (f (w, tr)))))"

lemma confined_anywhere: "confined P f \<Longrightarrow> confined_from P w f"
  by (simp add: confined_def confined_from_def)

lemma confined_from_reply: "confined_from P w f \<Longrightarrow> confined_from P w (reply k f)"
  by (simp add: confined_from_def reply_def case_prod_beta)

text \<open>Waiting only reads the object that is waited for.\<close>

lemma confined_backoff:
  assumes "quiet_backoff eb" and "eb b cond s = (r, t)" and "I (fst s)" and "list_all P (snd (snd s))"
    and "\<And>s a t. cond s = (a, t) \<Longrightarrow> I (fst s) \<Longrightarrow> list_all P (snd (snd s)) \<Longrightarrow> I (fst t) \<and> list_all P (snd (snd t))"
  shows "list_all P (snd (snd t))"
proof -
  obtain env where env: "quiet env" "backoff_contract env eb"
    using assms(1) unfolding quiet_backoff_def by blast
  then have "poll_run env cond (bo_Steps b) s r t"
    using assms(2) unfolding backoff_contract_def by (metis fst_conv snd_conv)
  then have "I (fst t) \<and> list_all P (snd (snd t))"
    by (rule poll_run_invariant [where I = "\<lambda>x. I (fst x) \<and> list_all P (snd (snd x))"])
      (use assms(3-5) quietD [OF env(1)] in \<open>auto simp del: split_paired_All\<close>)
  then show ?thesis ..
qed

lemma confined_wait_volume:
  assumes "quiet_backoff eb" and "answers_key (GetVolume c) volume_key" and "P (C_GetVolume (volume_key v))"
  shows "confined P (\<lambda>w. case waitForVolumeAvailability eb (traced_client c) v w of
    (r, t) \<Rightarrow> (case r of None \<Rightarrow> (case t of (x, w') \<Rightarrow> (b x, w')) | Some e \<Rightarrow> (case t of (x, w') \<Rightarrow> (a e, w'))))"
proof -
  have cond: "volume_key (fst t) = volume_key v \<and> list_all P (snd (snd t))"
    if "volume_condition (traced_client c) s = (x, t)" "volume_key (fst s) = volume_key v" "list_all P (snd (snd s))"
    for s x t
    using that assms(3) answers_keyD [OF assms(2)]
    by (cases s) (auto simp: volume_condition_def logged_def split: outcome_splits)
  show ?thesis
    using confined_backoff [where I = "\<lambda>u. volume_key u = volume_key v", OF assms(1) _ _ _ cond]
    by (fastforce simp: confined_def waitForVolumeAvailability_def split: outcome_splits)
qed

lemma confined_wait_snapshot:
  assumes "quiet_backoff eb" and "answers_key (GetVolumeSnapshot c) snapshot_key"
    and "P (C_GetVolumeSnapshot (snapshot_key v))"
  shows "confined P (\<lambda>w. case waitForVolumeSnapshotReady eb (traced_client c) v w of
    (r, t) \<Rightarrow> (case r of None \<Rightarrow> (case t of (x, w') \<Rightarrow> (b x, w')) | Some e \<Rightarrow> (case t of (x, w') \<Rightarrow> (a e, w'))))"
proof -
  have cond: "snapshot_key (fst t) = snapshot_key v \<and> list_all P (snd (snd t))"
    if "snapshot_condition (traced_client c) s = (x, t)" "snapshot_key (fst s) = snapshot_key v" "list_all P (snd (snd s))"
    for s x t
    using that assms(3) answers_keyD [OF assms(2)]
    by (cases s) (auto simp: snapshot_condition_def logged_def split: outcome_splits)
  show ?thesis
    using confined_backoff [where I = "\<lambda>u. snapshot_key u = snapshot_key v", OF assms(1) _ _ _ cond]
    by (fastforce simp: confined_def waitForVolumeSnapshotReady_def split: outcome_splits)
qed

section \<open>What each call may do\<close>

text \<open>
  The objects the controller reads and writes are in the namespace of the driver and named by the
  request; pools and nodes are in none.  A machine that is patched is the one of the request as it was
  read, and all that may differ is its attachments of this volume; a volume that is patched is the one of
  the request as it was read, and all that may differ is its size; a class that is read is the one of that
  volume.  The paths a node call names are those of the request; the device it resizes and opens is the
  one that the mount list shows at the path, when the call begins.
\<close>

definition in_ns :: "'w Plugin \<Rightarrow> string \<Rightarrow> ObjectKey" where
  "in_ns p name = \<lparr>key_Namespace = DriverNamespace (d_config (p_driver p)), key_Name = name\<rparr>"

definition other_attachments :: "string \<Rightarrow> MachineVolume list \<Rightarrow> MachineVolume list" where
  "other_attachments vid vols = filter (\<lambda>a. mv_Name a \<noteq> attachmentName vid) vols"

definition attachment_patch :: "string \<Rightarrow> Machine \<Rightarrow> Machine \<Rightarrow> bool" where
  "attachment_patch vid m m' \<longleftrightarrow> m' = m\<lparr>m_Volumes := m_Volumes m'\<rparr> \<and>
     other_attachments vid (m_Volumes m') = other_attachments vid (m_Volumes m)"

definition size_patch :: "Volume \<Rightarrow> Volume \<Rightarrow> bool" where
  "size_patch v v' \<longleftrightarrow> (\<exists>q. v' = v\<lparr>vol_Spec := (vol_Spec v)
     \<lparr>Resources := (Resources (vol_Spec v))(ResourceStorage \<mapsto> q)\<rparr>\<rparr>)"

definition mounted_device :: "'w Plugin \<Rightarrow> string \<Rightarrow> 'w \<Rightarrow> string" where
  "mounted_device p path w =
     (case ListMounts (d_mounter (p_driver p)) w of
        (Inl e, w1) \<Rightarrow> ''''
      | (Inr mps, w1) \<Rightarrow>
          (let target = (case fst (EvalSymlinks (p_runtime p) path w1) of Inl e \<Rightarrow> path | Inr t \<Rightarrow> t)
           in case find (\<lambda>mp. Path mp = target) mps of None \<Rightarrow> '''' | Some mp \<Rightarrow> Device mp))"

fun permitted :: "'w Plugin \<Rightarrow> 'w \<Rightarrow> CsiCall \<Rightarrow> Call \<Rightarrow> bool" where
  "permitted p w (Call_CreateVolume req) c =
     (case c of C_GetVolumePool k \<Rightarrow> k = \<lparr>key_Namespace = '''', key_Name = requestedPool req\<rparr>
      | C_GetVolume k \<Rightarrow> k = in_ns p (cv_Name req)
      | C_ApplyVolume a owner force \<Rightarrow> \<lparr>key_Namespace = va_Namespace a, key_Name = va_Name a\<rparr> = in_ns p (cv_Name req)
      | _ \<Rightarrow> False)"
| "permitted p w (Call_DeleteVolume vid) c = (c = C_DeleteVolume (in_ns p vid))"
| "permitted p w (Call_ControllerPublishVolume req) c =
     (case c of C_GetMachine k \<Rightarrow> k = in_ns p (cp_NodeId req)
      | C_GetVolume k \<Rightarrow> k = in_ns p (cp_VolumeId req)
      | C_PatchMachine m m' \<Rightarrow> machine_key m' = in_ns p (cp_NodeId req) \<and>
          fst (GetMachine (d_ironcoreClient (p_driver p)) (in_ns p (cp_NodeId req)) w) = Inr m \<and>
          attachment_patch (cp_VolumeId req) m m'
      | _ \<Rightarrow> False)"
| "permitted p w (Call_ControllerUnpublishVolume req) c =
     (case c of C_GetNode k \<Rightarrow> k = \<lparr>key_Namespace = '''', key_Name = cp_NodeId req\<rparr>
      | C_GetMachine k \<Rightarrow> k = in_ns p (cp_NodeId req)
      | C_PatchMachine m m' \<Rightarrow> machine_key m' = in_ns p (cp_NodeId req) \<and>
          fst (GetMachine (d_ironcoreClient (p_driver p)) (in_ns p (cp_NodeId req))
            (snd (GetNode (d_targetClient (p_driver p)) \<lparr>key_Namespace = '''', key_Name = cp_NodeId req\<rparr> w))) = Inr m \<and>
          attachment_patch (cp_VolumeId req) m m'
      | _ \<Rightarrow> False)"
| "permitted p w (Call_CreateSnapshot req) c =
     (case c of C_GetVolume k \<Rightarrow> k = in_ns p (cs_SourceVolumeId req)
      | C_GetVolumeSnapshot k \<Rightarrow> k = in_ns p (cs_Name req)
      | C_ApplySnapshot a owner force \<Rightarrow> \<lparr>key_Namespace = sa_Namespace a, key_Name = sa_Name a\<rparr> = in_ns p (cs_Name req)
      | _ \<Rightarrow> False)"
| "permitted p w (Call_DeleteSnapshot sid) c = (c = C_DeleteSnapshot (in_ns p sid))"
| "permitted p w (Call_ControllerExpandVolume req) c =
     (case c of C_GetVolume k \<Rightarrow> k = in_ns p (ce_VolumeId req)
      | C_GetVolumeClass k \<Rightarrow>
          (\<exists>v cls. fst (GetVolume (d_ironcoreClient (p_driver p)) (in_ns p (ce_VolumeId req)) w) = Inr v \<and>
             VolumeClassRef (vol_Spec v) = Some cls \<and> k = in_ns p cls)
      | C_PatchVolume v v' \<Rightarrow> volume_key v' = in_ns p (ce_VolumeId req) \<and>
          fst (GetVolume (d_ironcoreClient (p_driver p)) (in_ns p (ce_VolumeId req)) w) = Inr v \<and> size_patch v v'
      | _ \<Rightarrow> False)"
| "permitted p w (Call_ValidateVolumeCapabilities req) c = (c = C_GetVolume (in_ns p (vvc_VolumeId req)))"
| "permitted p w (Call_NodeStageVolume req) c =
     (case c of C_Stat q e \<Rightarrow> q = go_lookup (ns_PublishContext req) ParameterDeviceName
      | C_IsLikelyNotMountPoint q b e \<Rightarrow> q = ns_StagingTargetPath req
      | C_MkdirAll q e \<Rightarrow> q = ns_StagingTargetPath req
      | C_FormatAndMount dev q fs opts fopts e \<Rightarrow>
          dev = go_lookup (ns_PublishContext req) ParameterDeviceName \<and> q = ns_StagingTargetPath req
      | _ \<Rightarrow> False)"
| "permitted p w (Call_NodeUnstageVolume req) c =
     (case c of C_EvalSymlinks q \<Rightarrow> q = nus_StagingTargetPath req
      | C_ListMounts \<Rightarrow> True
      | C_Unmount q e \<Rightarrow> q = nus_StagingTargetPath req
      | C_RemoveAll q e \<Rightarrow> q = nus_StagingTargetPath req
      | _ \<Rightarrow> False)"
| "permitted p w (Call_NodePublishVolume req) c =
     (case c of C_IsLikelyNotMountPoint q b e \<Rightarrow> q = np_TargetPath req
      | C_MkdirAll q e \<Rightarrow> q = np_TargetPath req
      | C_Mount s q fs opts e \<Rightarrow> s = np_StagingTargetPath req \<and> q = np_TargetPath req \<and> ''bind'' \<in> set opts
      | _ \<Rightarrow> False)"
| "permitted p w (Call_NodeUnpublishVolume req) c =
     (case c of C_Stat q e \<Rightarrow> q = nup_TargetPath req
      | C_IsLikelyNotMountPoint q b e \<Rightarrow> q = nup_TargetPath req
      | C_Unmount q e \<Rightarrow> q = nup_TargetPath req
      | C_RemoveAll q e \<Rightarrow> q = nup_TargetPath req
      | _ \<Rightarrow> False)"
| "permitted p w (Call_NodeExpandVolume req) c =
     (case c of C_EvalSymlinks q \<Rightarrow> q = ne_VolumePath req
      | C_ListMounts \<Rightarrow> True | C_NewResizeFs \<Rightarrow> True
      | C_Resize dev q e \<Rightarrow> dev = mounted_device p (ne_VolumePath req) w \<and> q = ne_VolumePath req
      | C_Open dev opened \<Rightarrow> dev = mounted_device p (ne_VolumePath req) w | C_Seek \<Rightarrow> True | C_Close \<Rightarrow> True
      | _ \<Rightarrow> False)"
| "permitted p w (Call_NodeGetVolumeStats req) c =
     (c = C_Exists (nst_VolumePath req) \<or> c = C_Statfs (nst_VolumePath req))"
| "permitted p w Call_NodeGetInfo c =
     (c = C_GetNode \<lparr>key_Namespace = '''', key_Name = cfg_NodeName (d_config (p_driver p))\<rparr>)"
| "permitted p w call c = False"

section \<open>The controller\<close>

text \<open>The API server answers a read with the object that was asked for.\<close>

definition answers_asked :: "'w Client \<Rightarrow> bool" where
  "answers_asked c \<longleftrightarrow> answers_key (GetVolume c) volume_key \<and> answers_key (GetVolumeSnapshot c) snapshot_key \<and>
     answers_key (GetMachine c) machine_key"

lemma confined_create:
  assumes "quiet_backoff eb" and "answers_asked (d_ironcoreClient (p_driver p))"
  shows "confined (permitted p w (Call_CreateVolume req)) (CreateVolume rt eb (traced (p_driver p)) req)"
proof (cases "create_args req")
  case (Inl e)
  then have "CreateVolume rt eb (traced (p_driver p)) req = (\<lambda>w. (Err e, w))" by (simp add: fun_eq_iff CreateVolume_def)
  then show ?thesis by (simp add: confined_pure)
next
  case (Inr a)
  then have run: "CreateVolume rt eb (traced (p_driver p)) req = provisionVolume rt eb (traced (p_driver p)) req a"
    by (simp add: fun_eq_iff CreateVolume_def)
  show ?thesis
    unfolding run provisionVolume_def resolvePool_def traced_unfold
    using assms create_args_pool [OF Inr]
    by (intro confined_rules confined_wait_volume)
      (simp_all add: volumeApplyConfig_def volumeObject_def volume_key_def in_ns_def answers_asked_def)
qed

lemma confined_snapshot:
  assumes "quiet_backoff eb" and "answers_asked (d_ironcoreClient (p_driver p))"
  shows "confined (permitted p w (Call_CreateSnapshot req)) (CreateSnapshot eb (traced (p_driver p)) req)"
  unfolding CreateSnapshot_def checkSourceVolume_def traced_unfold using assms
  by (intro confined_rules confined_wait_snapshot)
    (simp_all add: snapshotApplyConfig_def snapshotObject_def snapshot_key_def in_ns_def answers_asked_def)

lemma confined_deletes:
  "confined (permitted p w (Call_DeleteVolume vid)) (DeleteVolume (traced (p_driver p)) vid)"
  "confined (permitted p w (Call_DeleteSnapshot vid)) (DeleteSnapshot (traced (p_driver p)) vid)"
  "confined (permitted p w (Call_ValidateVolumeCapabilities vreq)) (ValidateVolumeCapabilities (traced (p_driver p)) vreq)"
  unfolding DeleteVolume_def DeleteSnapshot_def ValidateVolumeCapabilities_def traced_unfold
  by (intro confined_rules; simp add: in_ns_def)+

lemma append_patch: "attachment_patch vid m (m\<lparr>m_Volumes := appendAttachment vid (m_Volumes m)\<rparr>)"
  by (simp add: attachment_patch_def other_attachments_def appendAttachment_def)

lemma delete_patch:
  assumes "0 \<le> volumeAttachmentIndex (m_Volumes m) (attachmentName vid)"
  shows "attachment_patch vid m (m\<lparr>m_Volumes :=
    deleteAttachment (nat (volumeAttachmentIndex (m_Volumes m) (attachmentName vid))) (m_Volumes m)\<rparr>)"
  using assms by (rule deleteAttachment_split) (simp add: attachment_patch_def other_attachments_def)

lemma machine_read:
  assumes "answers_asked c" and "fst (GetMachine c k w) = Inr m"
  shows "machine_key (m\<lparr>m_Volumes := vols\<rparr>) = k"
  using assms answers_keyD [of "GetMachine c" machine_key k w m "snd (GetMachine c k w)"]
  by (simp add: answers_asked_def machine_key_def prod_eq_iff)

lemma confined_publish:
  assumes "answers_asked (d_ironcoreClient (p_driver p))"
  shows "confined_from (permitted p w (Call_ControllerPublishVolume req)) w (ControllerPublishVolume (traced (p_driver p)) req)"
  unfolding confined_from_def ControllerPublishVolume_def attachToMachine_def volumeKeyOf_def machineKeyOf_def traced_unfold
  by (auto simp: logged_eq in_ns_def append_patch machine_read [OF assms] split: outcome_splits)

lemma confined_unpublish:
  assumes "answers_asked (d_ironcoreClient (p_driver p))"
  shows "confined_from (permitted p w (Call_ControllerUnpublishVolume req)) w
    (ControllerUnpublishVolume (traced (p_driver p)) req)"
  unfolding confined_from_def ControllerUnpublishVolume_def detachFromMachine_def nodeExists_def machineKeyOf_def traced_unfold
  by (auto simp: logged_eq in_ns_def delete_patch machine_read [OF assms] split: outcome_splits)

lemma confined_expand:
  assumes "answers_asked (d_ironcoreClient (p_driver p))"
  shows "confined_from (permitted p w (Call_ControllerExpandVolume req)) w (ControllerExpandVolume (traced (p_driver p)) req)"
proof -
  have read: "volume_key (resizedVolume v n) = k"
    if "fst (GetVolume (d_ironcoreClient (p_driver p)) k w) = Inr v" for v n k
    using assms that answers_keyD [of "GetVolume (d_ironcoreClient (p_driver p))" volume_key k w v
        "snd (GetVolume (d_ironcoreClient (p_driver p)) k w)"]
    by (simp add: answers_asked_def volume_key_def resizedVolume_def prod_eq_iff)
  have patch: "size_patch v (resizedVolume v n)" for v n
    by (auto simp: size_patch_def resizedVolume_def)
  show ?thesis
    unfolding confined_from_def ControllerExpandVolume_def checkExpandable_def expandPatch_def traced_unfold
    by (auto simp: logged_eq in_ns_def read patch split: outcome_splits)
qed

section \<open>The node\<close>

lemma confined_stage: "confined (permitted p w (Call_NodeStageVolume req)) (NodeStageVolume (traced (p_driver p)) req)"
  unfolding NodeStageVolume_def stageMount_def traced_unfold
  by (intro confined_rules) simp_all

lemma confined_unstage:
  "confined (permitted p w (Call_NodeUnstageVolume req)) (NodeUnstageVolume (traced_runtime (p_runtime p)) (traced (p_driver p)) req)"
  unfolding NodeUnstageVolume_def getMountDeviceName_def traced_unfold
  by (intro confined_rules) simp_all

lemma confined_node_publish:
  "confined (permitted p w (Call_NodePublishVolume req)) (NodePublishVolume (traced (p_driver p)) req)"
  unfolding NodePublishVolume_def publishMount_def traced_unfold
  by (intro confined_rules) (simp_all add: publishOptions_eq Let_def)

lemma confined_node_unpublish:
  "confined (permitted p w (Call_NodeUnpublishVolume req)) (NodeUnpublishVolume (traced (p_driver p)) req)"
  unfolding NodeUnpublishVolume_def removeTarget_def traced_unfold
  by (intro confined_rules) simp_all

lemma confined_block_size:
  assumes "dev = mounted_device p (ne_VolumePath req) w"
  shows "confined (permitted p w (Call_NodeExpandVolume req)) (getBlockSizeBytes (traced (p_driver p)) dev)"
  unfolding getBlockSizeBytes_def traced_unfold
  by (intro confined_object confined_rules confined_discard | simp only: traced_unfold | simp add: assms)+

lemma confined_resize:
  assumes "dev = mounted_device p (ne_VolumePath req) w"
  shows "confined (permitted p w (Call_NodeExpandVolume req)) (resizeDevice (traced (p_driver p)) req dev)"
  unfolding resizeDevice_def traced_unfold
  by (intro confined_object confined_rules confined_block_size [OF assms] | simp only: traced_unfold | simp add: assms)+

lemma deviceAt_find: "deviceAt mps target = (case find (\<lambda>mp. Path mp = target) mps of None \<Rightarrow> [] | Some mp \<Rightarrow> Device mp)"
  by (induction mps) auto

lemma confined_node_expand:
  "confined_from (permitted p w (Call_NodeExpandVolume req)) w
     (NodeExpandVolume (traced_runtime (p_runtime p)) (traced (p_driver p)) req)"
proof (cases "checkNodeExpand req")
  case (Some e)
  then show ?thesis by (simp add: confined_from_def NodeExpandVolume_def)
next
  case None
  let ?P = "permitted p w (Call_NodeExpandVolume req)"
  have found: "list_all ?P tr' \<and> (\<forall>dev. r = Inr dev \<longrightarrow> dev = mounted_device p (ne_VolumePath req) w)"
    if "getMountDeviceName (traced_runtime (p_runtime p)) (traced (p_driver p)) (ne_VolumePath req) (w, tr) = (r, (w', tr'))"
      "list_all ?P tr" for r w' tr tr'
    using that
    by (auto simp: getMountDeviceName_def traced_unfold logged_eq mounted_device_def deviceAt_find
        split: outcome_splits)
  have rest: "list_all ?P (snd (snd (resizeDevice (traced (p_driver p)) req dev (w', tr'))))"
    if "dev = mounted_device p (ne_VolumePath req) w" "list_all ?P tr'" for dev w' tr'
    using confined_resize [OF that(1)] that(2) by (simp add: confined_def)
  show ?thesis
    unfolding confined_from_def NodeExpandVolume_def None
    using found rest by (auto split: prod.splits sum.splits)
qed

lemma confined_reads:
  "confined (permitted p w (Call_NodeGetVolumeStats sreq)) (NodeGetVolumeStats (traced (p_driver p)) sreq)"
  "confined (permitted p w Call_NodeGetInfo) (NodeGetInfo (traced (p_driver p)))"
  unfolding NodeGetVolumeStats_def getDeviceStats_def NodeGetInfo_def getZoneFromNode_def traced_unfold
  by (intro confined_rules; simp)+

lemma confined_serve:
  assumes "quiet_backoff eb" and "quiet_backoff eb'" and "answers_asked (d_ironcoreClient (p_driver p))"
  shows "confined_from (permitted p w call) w (serve (traced_plugin eb eb' p) call)"
proof -
  note from_start = confined_publish [OF assms(3)] confined_unpublish [OF assms(3)] confined_expand [OF assms(3)]
    confined_node_expand
  note anywhere = confined_create [OF assms(1,3)] confined_snapshot [OF assms(2,3)] confined_deletes confined_stage
    confined_unstage confined_node_publish confined_node_unpublish confined_reads
  show ?thesis
    by (cases call)
      (simp_all only: serve.simps traced_plugin_def Plugin.select_convs confined_anywhere [OF confined_reply_pure]
        confined_from_reply [OF confined_anywhere] confined_from_reply from_start anywhere)
qed

section \<open>The two API servers\<close>

text \<open>
  A driver with another client of the target cluster: the handlers do not notice as long as reading a
  node is the same.
\<close>

definition retarget :: "'w Client \<Rightarrow> 'w Plugin \<Rightarrow> 'w Plugin" where
  "retarget c p = p\<lparr>p_driver := (p_driver p)\<lparr>d_targetClient := c\<rparr>\<rparr>"

lemma retarget_simps [simp]:
  "d_targetClient (p_driver (retarget c p)) = c" "d_ironcoreClient (p_driver (retarget c p)) = d_ironcoreClient (p_driver p)"
  "d_mounter (p_driver (retarget c p)) = d_mounter (p_driver p)" "d_os (p_driver (retarget c p)) = d_os (p_driver p)"
  "d_config (p_driver (retarget c p)) = d_config (p_driver p)" "d_name (p_driver (retarget c p)) = d_name (p_driver p)"
  "p_runtime (retarget c p) = p_runtime p" "p_volumeBackoff (retarget c p) = p_volumeBackoff p"
  "p_snapshotBackoff (retarget c p) = p_snapshotBackoff p"
  by (simp_all add: retarget_def)

lemmas handler_bodies = CreateVolume_def provisionVolume_def resolvePool_def volumeObject_def
  volumeApplyConfig_def DeleteVolume_def ControllerPublishVolume_def attachToMachine_def machineKeyOf_def
  volumeKeyOf_def ControllerUnpublishVolume_def detachFromMachine_def nodeExists_def CreateSnapshot_def
  checkSourceVolume_def snapshotObject_def snapshotApplyConfig_def DeleteSnapshot_def
  ControllerExpandVolume_def checkExpandable_def expandPatch_def ValidateVolumeCapabilities_def
  NodeStageVolume_def stageMount_def NodeUnstageVolume_def getMountDeviceName_def NodePublishVolume_def
  publishMount_def NodeUnpublishVolume_def removeTarget_def NodeExpandVolume_def resizeDevice_def
  getBlockSizeBytes_def NodeGetVolumeStats_def getDeviceStats_def NodeGetInfo_def getZoneFromNode_def
  ControllerGetCapabilities_def ControllerGetVolume_def ListVolumes_def ListSnapshots_def GetCapacity_def
  ControllerModifyVolume_def NodeGetCapabilities_def GetPluginInfo_def GetPluginCapabilities_def Probe_def

lemma serve_retarget:
  assumes "GetNode c = GetNode (d_targetClient (p_driver p))"
  shows "serve (retarget c p) call = serve p call"
proof
  fix w
  show "serve (retarget c p) call w = serve p call w"
    by (cases call) (simp_all only: serve.simps reply_def reply_pure_def handler_bodies retarget_simps assms)
qed

text \<open>
  C5: Least privilege: whatever the environment answers, every external call that is made while a call
  is served is one that the call may make.  A controller call never touches the node, and a node call
  never the API server but to read its own node.  Every object that is read, polled, applied, deleted or
  patched is the one the request names, in the namespace of the driver; the pool, the class and the node
  that are read are those of the request and of the volume.  A patch of a machine starts from the machine
  as it was read and may change the attachments of this volume only, a patch of a volume its size only.
  Staging formats and mounts only the device of the publish context, the expansion resizes and opens only
  the device that the mount list shows at the path of the request; directories are made, mounted,
  unmounted and removed only at the path of the request; the calls that only inform write nothing.  And
  of the target cluster nothing is used but reading a node: with any other client that reads nodes in the
  same way every call is the same.
\<close>

theorem least_privilege:
  assumes "quiet_backoff eb" and "quiet_backoff eb'" and "answers_asked (d_ironcoreClient (p_driver p))"
  shows "list_all (permitted p w call) (snd (snd (serve (traced_plugin eb eb' p) call (w, []))))
    \<and> (\<forall>c. GetNode c = GetNode (d_targetClient (p_driver p)) \<longrightarrow> serve (retarget c p) call = serve p call)"
  using confined_serve [OF assms, of w call] serve_retarget by (auto simp: confined_from_def)

section \<open>Witness\<close>

lemma sim_answers_asked: "answers_asked (d_ironcoreClient (p_driver sim_plugin))"
  by (simp add: answers_asked_def sim_plugin_def ready_answers) (simp add: answers_key_def ready_defs)

theorem least_privilege_witness:
  "list_all (permitted sim_plugin () (Call_CreateVolume sim_create))
     (snd (snd (serve (traced_plugin sim_backoff sim_backoff sim_plugin) (Call_CreateVolume sim_create) ((), []))))"
  by (rule least_privilege [OF sim_backoff_quiet sim_backoff_quiet sim_answers_asked, THEN conjunct1])

end
