(* ===== verification/World_Part.thy ===== *)
theory World_Part
  imports Service
begin

text \<open>
  External operations that work on a part of a larger world, as those of a test do that also keeps the
  state of its mocks: run on the whole they answer as they do on the part alone, and leave the rest.
\<close>

section \<open>Operations on a part of the world\<close>

text \<open>
  \<open>at get put f\<close> runs \<open>f\<close> on the part that \<open>get\<close> reads and \<open>put\<close> writes.
\<close>

definition at_part :: "('s \<Rightarrow> 'w) \<Rightarrow> ('w \<Rightarrow> 's \<Rightarrow> 's) \<Rightarrow> ('w \<Rightarrow> 'r \<times> 'w) \<Rightarrow> 's \<Rightarrow> 'r \<times> 's" where
  "at_part get put f s = (case f (get s) of (r, w) \<Rightarrow> (r, put w s))"

definition client_at :: "('s \<Rightarrow> 'w) \<Rightarrow> ('w \<Rightarrow> 's \<Rightarrow> 's) \<Rightarrow> 'w Client \<Rightarrow> 's Client" where
  "client_at get put c =
     \<lparr>GetVolume = (\<lambda>k. at_part get put (GetVolume c k)), GetVolumePool = (\<lambda>k. at_part get put (GetVolumePool c k)),
      GetVolumeClass = (\<lambda>k. at_part get put (GetVolumeClass c k)),
      GetVolumeSnapshot = (\<lambda>k. at_part get put (GetVolumeSnapshot c k)),
      GetMachine = (\<lambda>k. at_part get put (GetMachine c k)), GetNode = (\<lambda>k. at_part get put (GetNode c k)),
      ApplyVolume = (\<lambda>a ow f. at_part get put (ApplyVolume c a ow f)),
      ApplySnapshot = (\<lambda>a ow f. at_part get put (ApplySnapshot c a ow f)),
      DeleteVolumeObject = (\<lambda>k. at_part get put (DeleteVolumeObject c k)),
      DeleteSnapshotObject = (\<lambda>k. at_part get put (DeleteSnapshotObject c k)),
      PatchMachine = (\<lambda>b m. at_part get put (PatchMachine c b m)),
      PatchVolume = (\<lambda>b v. at_part get put (PatchVolume c b v))\<rparr>"

definition file_at :: "('s \<Rightarrow> 'w) \<Rightarrow> ('w \<Rightarrow> 's \<Rightarrow> 's) \<Rightarrow> 'w File \<Rightarrow> 's File" where
  "file_at get put f = \<lparr>Seek = (\<lambda>off wh. at_part get put (Seek f off wh)), Close = at_part get put (Close f)\<rparr>"

definition os_at :: "('s \<Rightarrow> 'w) \<Rightarrow> ('w \<Rightarrow> 's \<Rightarrow> 's) \<Rightarrow> 'w OSWrapper \<Rightarrow> 's OSWrapper" where
  "os_at get put os =
     \<lparr>MkdirAll = (\<lambda>p perm. at_part get put (MkdirAll os p perm)), RemoveAll = (\<lambda>p. at_part get put (RemoveAll os p)),
      Stat = (\<lambda>p. at_part get put (Stat os p)), IsNotExist = IsNotExist os,
      Open = (\<lambda>p s. apfst (map_sum id (file_at get put)) (at_part get put (Open os p) s)),
      Statfs = (\<lambda>p buf. at_part get put (Statfs os p buf)), Exists = (\<lambda>l p. at_part get put (Exists os l p))\<rparr>"

definition resizer_at :: "('s \<Rightarrow> 'w) \<Rightarrow> ('w \<Rightarrow> 's \<Rightarrow> 's) \<Rightarrow> 'w Resizefs \<Rightarrow> 's Resizefs" where
  "resizer_at get put f = \<lparr>Resize = (\<lambda>dev p. at_part get put (Resize f dev p))\<rparr>"

definition mounter_at :: "('s \<Rightarrow> 'w) \<Rightarrow> ('w \<Rightarrow> 's \<Rightarrow> 's) \<Rightarrow> 'w MountWrapper \<Rightarrow> 's MountWrapper" where
  "mounter_at get put m =
     \<lparr>IsLikelyNotMountPoint = (\<lambda>p. at_part get put (IsLikelyNotMountPoint m p)),
      Mount = (\<lambda>src t fs opts. at_part get put (Mount m src t fs opts)), Unmount = (\<lambda>p. at_part get put (Unmount m p)),
      ListMounts = at_part get put (ListMounts m),
      FormatAndMountSensitiveWithFormatOptions = (\<lambda>src t fs opts sens fopts.
        at_part get put (FormatAndMountSensitiveWithFormatOptions m src t fs opts sens fopts)),
      NewResizeFs = (\<lambda>s. apfst (map_sum id (resizer_at get put)) (at_part get put (NewResizeFs m) s))\<rparr>"

definition runtime_at :: "('s \<Rightarrow> 'w) \<Rightarrow> ('w \<Rightarrow> 's \<Rightarrow> 's) \<Rightarrow> 'w Runtime \<Rightarrow> 's Runtime" where
  "runtime_at get put rt =
     \<lparr>EvalSymlinks = (\<lambda>p. at_part get put (EvalSymlinks rt p)), UnixTimeString = UnixTimeString rt,
      ReadBuildInfo = ReadBuildInfo rt\<rparr>"

definition backoff_at :: "('s \<Rightarrow> 'w) \<Rightarrow> ('w \<Rightarrow> 's \<Rightarrow> 's) \<Rightarrow> ('v \<times> 'w) backoff_fn \<Rightarrow> ('v \<times> 's) backoff_fn" where
  "backoff_at get put eb b cond vs =
     (case eb b (\<lambda>(v, w). case cond (v, put w (snd vs)) of (r, (v', s')) \<Rightarrow> (r, (v', get s'))) (fst vs, get (snd vs)) of
        (r, (v', w')) \<Rightarrow> (r, (v', put w' (snd vs))))"

section \<open>A part of the world corresponds to the part alone\<close>

text \<open>Around a fixed rest of the world, the part is all that an operation on it sees and changes.\<close>

definition part_of :: "('w \<Rightarrow> 's) \<Rightarrow> 's \<Rightarrow> 'w \<Rightarrow> bool" where
  "part_of emb s w \<longleftrightarrow> s = emb w"

locale world_part =
  fixes get :: "'s \<Rightarrow> 'w" and put :: "'w \<Rightarrow> 's \<Rightarrow> 's" and emb :: "'w \<Rightarrow> 's"
  assumes get_emb: "get (emb w) = w" and put_emb: "put w' (emb w) = emb w'"
begin

lemmas part_simps = get_emb put_emb

lemma at_related: "acts (part_of emb) (at_part get put f) f"
  by (auto simp: rel_fun_def part_of_def at_part_def part_simps rel_prod_sel split: prod.splits)

lemma at_object_related:
  assumes "\<And>x. Q (t x) x"
  shows "returns (rel_sum (=) Q) (part_of emb) (\<lambda>s. apfst (map_sum id t) (at_part get put f s)) f"
  using assms
  by (auto simp: rel_fun_def part_of_def at_part_def part_simps rel_prod_sel rel_sum_sel isl_map_sum map_sum_sel
      split: prod.splits)

lemma file_part_related: "rel_file (part_of emb) (file_at get put f) f"
  by (simp add: rel_file_def file_at_def at_related rel_fun_def [of "(=)"])

lemma driver_part_related:
  "rel_client (part_of emb) (client_at get put c) c"
  "rel_os (part_of emb) (os_at get put os) os"
  "rel_mounter (part_of emb) (mounter_at get put m) m"
  "rel_runtime (part_of emb) (runtime_at get put rt) rt"
proof -
  have rz: "rel_resizer (part_of emb) (resizer_at get put f) f" for f
    by (simp add: rel_resizer_def resizer_at_def at_related rel_fun_def [of "(=)"])
  show "rel_client (part_of emb) (client_at get put c) c"
    by (simp add: rel_client_def client_at_def at_related rel_fun_def [of "(=)"])
  show "rel_os (part_of emb) (os_at get put os) os"
    by (simp add: rel_os_def os_at_def at_related at_object_related file_part_related rel_fun_def [of "(=)"])
  show "rel_mounter (part_of emb) (mounter_at get put m) m"
    by (simp add: rel_mounter_def mounter_at_def at_related at_object_related rz rel_fun_def [of "(=)"])
  show "rel_runtime (part_of emb) (runtime_at get put rt) rt"
    by (simp add: rel_runtime_def runtime_at_def at_related rel_fun_def [of "(=)"])
qed

lemma backoff_part_related:
  fixes eb :: "('v \<times> 'w) backoff_fn"
  shows "rel_backoff (part_of emb) (backoff_at get put eb) eb"
  unfolding rel_backoff_def
proof (intro rel_funI)
  fix b b' :: Backoff and c :: "'v \<times> 's \<Rightarrow> (bool \<times> ext_error option) \<times> ('v \<times> 's)"
    and e :: "'v \<times> 'w \<Rightarrow> (bool \<times> ext_error option) \<times> ('v \<times> 'w)" and s :: "'v \<times> 's" and t :: "'v \<times> 'w"
  assume b: "b = b'" and ce: "acts (rel_prod (=) (part_of emb)) c e"
    and st: "rel_prod (=) (part_of emb) s t"
  obtain v w where t: "t = (v, w)" by (cases t)
  with st have s: "s = (v, emb w)" by (cases s) (simp add: part_of_def)
  have "(\<lambda>(v, w'). case c (v, put w' (emb w)) of (r, (v', s')) \<Rightarrow> (r, (v', get s'))) = e"
  proof
    fix x :: "'v \<times> 'w"
    obtain v w' where x: "x = (v, w')" by (cases x)
    have "rel_prod (=) (rel_prod (=) (part_of emb)) (c (v, emb w')) (e (v, w'))"
      by (rule rel_funD [OF ce]) (simp add: part_of_def)
    then show "(case x of (v, w') \<Rightarrow> case c (v, put w' (emb w)) of (r, (v', s')) \<Rightarrow> (r, (v', get s'))) = e x"
      by (cases "c (v, emb w')"; cases "e (v, w')") (auto simp: x part_simps part_of_def)
  qed
  then show "rel_prod (=) (rel_prod (=) (part_of emb)) (backoff_at get put eb b c s) (eb b' e t)"
    by (simp add: backoff_at_def s t b part_simps part_of_def split: prod.splits)
qed

end

end
