(* ===== verification/Gomock.thy ===== *)
theory Gomock
  imports Os_Utils Mount_Utils
begin

text \<open>
  What the generated mocks share.  A mock hands each of its calls, by the name of the method and with
  the arguments as values of any type, to a \<^verbatim>\<open>gomock.Controller\<close>, and reads the
  values that come back with type assertions; its recorder hands the controller the expectations.  The
  controller is library code and a parameter.
\<close>

section \<open>Values of any type\<close>

text \<open>Open files and resizers are pointers; all other values are what they are.\<close>

datatype GoType =
    T_bool | T_string | T_strings | T_error | T_FileMode | T_LinkTreatment | T_FileInfo | T_File | T_Statfs
  | T_MountPoints | T_Resizefs

datatype GoValue =
    V_nil | V_bool bool | V_string string | V_strings "string list" | V_error ext_error | V_mode nat
  | V_link LinkTreatment | V_FileInfo | V_File nat | V_statfs Statfs_t | V_MountPoints "MountPoint list"
  | V_Resizefs nat

fun has_type :: "GoValue \<Rightarrow> GoType \<Rightarrow> bool" where
  "has_type V_nil t \<longleftrightarrow> t \<in> {T_strings, T_error, T_FileInfo, T_File, T_Statfs, T_MountPoints, T_Resizefs}"
| "has_type (V_bool b) t \<longleftrightarrow> t = T_bool"
| "has_type (V_string s) t \<longleftrightarrow> t = T_string"
| "has_type (V_strings ss) t \<longleftrightarrow> t = T_strings"
| "has_type (V_error e) t \<longleftrightarrow> t = T_error"
| "has_type (V_mode n) t \<longleftrightarrow> t = T_FileMode"
| "has_type (V_link l) t \<longleftrightarrow> t = T_LinkTreatment"
| "has_type V_FileInfo t \<longleftrightarrow> t = T_FileInfo"
| "has_type (V_File f) t \<longleftrightarrow> t = T_File"
| "has_type (V_statfs b) t \<longleftrightarrow> t = T_Statfs"
| "has_type (V_MountPoints ms) t \<longleftrightarrow> t = T_MountPoints"
| "has_type (V_Resizefs f) t \<longleftrightarrow> t = T_Resizefs"

text \<open>
  The assertions \<^verbatim>\<open>ret0, _ := ret[0].(T)\<close>: a value of another type, or nil, gives the
  zero value of the type.
\<close>

fun as_bool :: "GoValue \<Rightarrow> bool" where
  "as_bool (V_bool b) = b"
| "as_bool _ = False"

fun as_error :: "GoValue \<Rightarrow> ext_error option" where
  "as_error (V_error e) = Some e"
| "as_error _ = None"

fun as_strings :: "GoValue \<Rightarrow> string list" where
  "as_strings (V_strings ss) = ss"
| "as_strings _ = []"

fun as_FileInfo :: "GoValue \<Rightarrow> unit option" where
  "as_FileInfo V_FileInfo = Some ()"
| "as_FileInfo _ = None"

fun as_File :: "GoValue \<Rightarrow> nat option" where
  "as_File (V_File f) = Some f"
| "as_File _ = None"

fun as_MountPoints :: "GoValue \<Rightarrow> MountPoint list" where
  "as_MountPoints (V_MountPoints ms) = ms"
| "as_MountPoints _ = []"

fun as_Resizefs :: "GoValue \<Rightarrow> nat option" where
  "as_Resizefs (V_Resizefs f) = Some f"
| "as_Resizefs _ = None"

text \<open>An error or a pointer as an argument or a result of any type.\<close>

fun of_error :: "ext_error option \<Rightarrow> GoValue" where
  "of_error None = V_nil"
| "of_error (Some e) = V_error e"

definition of_File :: "nat option \<Rightarrow> GoValue" where
  "of_File f = (case f of None \<Rightarrow> V_nil | Some i \<Rightarrow> V_File i)"

definition of_FileInfo :: "unit option \<Rightarrow> GoValue" where
  "of_FileInfo i = (case i of None \<Rightarrow> V_nil | Some _ \<Rightarrow> V_FileInfo)"

definition of_Resizefs :: "nat option \<Rightarrow> GoValue" where
  "of_Resizefs f = (case f of None \<Rightarrow> V_nil | Some i \<Rightarrow> V_Resizefs i)"

lemma as_of_pointer [simp]:
  "as_File (of_File f) = f" "as_FileInfo (of_FileInfo i) = i" "as_Resizefs (of_Resizefs f) = f"
  "has_type (of_File f) T_File" "has_type (of_FileInfo i) T_FileInfo" "has_type (of_Resizefs f) T_Resizefs"
  by (simp_all add: of_File_def of_FileInfo_def of_Resizefs_def split: option.split)

lemma as_of_error [simp]: "as_error (of_error e) = e"
  by (cases e) simp_all

lemma of_error_type [simp]: "has_type (of_error e) T_error"
  by (cases e) simp_all

text \<open>What a pointer argument points to after the call: the second of two arguments is the buffer.\<close>

fun as_Statfs :: "Statfs_t \<Rightarrow> GoValue list \<Rightarrow> Statfs_t" where
  "as_Statfs buf [_, V_statfs b] = b"
| "as_Statfs buf _ = buf"

section \<open>The controller\<close>

text \<open>An argument of an expectation is a value or a matcher.\<close>

datatype GoArg = Val "GoValue" | Matcher "GoValue \<Rightarrow> bool"

record MethodType =
  ins :: "GoType list"
  outs :: "GoType list"

text \<open>
  \<^verbatim>\<open>Call\<close> is given the mock, the name of the method and the arguments.  It returns the
  results, together with what the arguments that are pointers point to afterwards; or it ends the test
  (\<^verbatim>\<open>T.Fatalf\<close>) and does not return.
  \<^verbatim>\<open>RecordCallWithMethodType\<close> returns an expected call, of type \<open>'h\<close>.
\<close>

record ('w, 'h) Controller =
  Helper :: "'w \<Rightarrow> 'w"
  CallMethod :: "nat \<Rightarrow> string \<Rightarrow> GoValue list \<Rightarrow> 'w \<Rightarrow> (GoValue list \<times> GoValue list) option \<times> 'w"
  RecordCallWithMethodType :: "nat \<Rightarrow> string \<Rightarrow> MethodType \<Rightarrow> GoArg list \<Rightarrow> 'w \<Rightarrow> 'h \<times> 'w"

text \<open>The outcome of a call of a mock: it returns, the test ends, or \<^verbatim>\<open>ret[i]\<close> is out of range.\<close>

datatype 'a mocked = Returned 'a | Fatal | IndexOutOfRange

definition ret1 :: "(GoValue \<Rightarrow> 'a) \<Rightarrow> GoValue list \<Rightarrow> 'a mocked" where
  "ret1 f ret = (case ret of r0 # _ \<Rightarrow> Returned (f r0) | _ \<Rightarrow> IndexOutOfRange)"

definition ret2 :: "(GoValue \<Rightarrow> 'a) \<Rightarrow> (GoValue \<Rightarrow> 'b) \<Rightarrow> GoValue list \<Rightarrow> ('a \<times> 'b) mocked" where
  "ret2 f g ret = (case ret of r0 # r1 # _ \<Rightarrow> Returned (f r0, g r1) | _ \<Rightarrow> IndexOutOfRange)"

text \<open>The body every generated method has, up to the assertions, and that of the recorders.\<close>

definition mock_call ::
    "('w, 'h) Controller \<Rightarrow> nat \<Rightarrow> string \<Rightarrow> GoValue list \<Rightarrow>
       (GoValue list \<Rightarrow> GoValue list \<Rightarrow> 'a mocked) \<Rightarrow> 'w \<Rightarrow> 'a mocked \<times> 'w" where
  "mock_call ctrl m name args assertions w =
     (case CallMethod ctrl m name args (Helper ctrl w) of
        (None, w1) \<Rightarrow> (Fatal, w1)
      | (Some (ret, after), w1) \<Rightarrow> (assertions ret after, w1))"

definition record_call ::
    "('w, 'h) Controller \<Rightarrow> nat \<Rightarrow> string \<Rightarrow> MethodType \<Rightarrow> GoArg list \<Rightarrow> 'w \<Rightarrow> 'h \<times> 'w" where
  "record_call ctrl m name ty args w = RecordCallWithMethodType ctrl m name ty args (Helper ctrl w)"

end
