(* ===== verification/Mock_Os.thy ===== *)
theory Mock_Os
  imports Gomock
begin

text \<open>
  \<^verbatim>\<open>pkg/utils/os/mock_osutils_unix.go\<close>: the mock of \<^verbatim>\<open>OSWrapper\<close>.
  The caller's buffer of \<^verbatim>\<open>Statfs\<close> is passed by pointer, so the contents after the
  call are part of the outcome.  Of a \<^verbatim>\<open>FileInfo\<close> only whether there is one is kept.
\<close>

section \<open>The mock and its recorder\<close>

text \<open>
  The field \<^verbatim>\<open>recorder\<close> of a mock points to the recorder whose field
  \<^verbatim>\<open>mock\<close> points back, so the recorder is a function of the mock.
\<close>

record ('w, 'h) MockOSWrapper =
  mos_ctrl :: "('w, 'h) Controller"
  mos_ref :: nat

datatype ('w, 'h) MockOSWrapperMockRecorder = MockOSWrapperMockRecorder (mos_mock: "('w, 'h) MockOSWrapper")

definition NewMockOSWrapper :: "('w, 'h) Controller \<Rightarrow> nat \<Rightarrow> ('w, 'h) MockOSWrapper" where
  "NewMockOSWrapper ctrl ref = \<lparr>mos_ctrl = ctrl, mos_ref = ref\<rparr>"

definition MockOSWrapper_EXPECT :: "('w, 'h) MockOSWrapper \<Rightarrow> ('w, 'h) MockOSWrapperMockRecorder" where
  "MockOSWrapper_EXPECT m = MockOSWrapperMockRecorder m"

section \<open>The methods and what records them\<close>

definition MockOSWrapper_Exists ::
    "('w, 'h) MockOSWrapper \<Rightarrow> LinkTreatment \<Rightarrow> string \<Rightarrow> 'w \<Rightarrow> (bool \<times> ext_error option) mocked \<times> 'w" where
  "MockOSWrapper_Exists m linkBehavior filename w =
     mock_call (mos_ctrl m) (mos_ref m) ''Exists'' [V_link linkBehavior, V_string filename]
       (\<lambda>ret after. ret2 as_bool as_error ret) w"

definition MockOSWrapperMockRecorder_Exists ::
    "('w, 'h) MockOSWrapperMockRecorder \<Rightarrow> GoArg \<Rightarrow> GoArg \<Rightarrow> 'w \<Rightarrow> 'h \<times> 'w" where
  "MockOSWrapperMockRecorder_Exists mr linkBehavior filename w =
     record_call (mos_ctrl (mos_mock mr)) (mos_ref (mos_mock mr)) ''Exists''
       \<lparr>ins = [T_LinkTreatment, T_string], outs = [T_bool, T_error]\<rparr> [linkBehavior, filename] w"

definition MockOSWrapper_IsNotExist ::
    "('w, 'h) MockOSWrapper \<Rightarrow> ext_error option \<Rightarrow> 'w \<Rightarrow> (bool) mocked \<times> 'w" where
  "MockOSWrapper_IsNotExist m err w =
     mock_call (mos_ctrl m) (mos_ref m) ''IsNotExist'' [of_error err]
       (\<lambda>ret after. ret1 as_bool ret) w"

definition MockOSWrapperMockRecorder_IsNotExist ::
    "('w, 'h) MockOSWrapperMockRecorder \<Rightarrow> GoArg \<Rightarrow> 'w \<Rightarrow> 'h \<times> 'w" where
  "MockOSWrapperMockRecorder_IsNotExist mr err w =
     record_call (mos_ctrl (mos_mock mr)) (mos_ref (mos_mock mr)) ''IsNotExist''
       \<lparr>ins = [T_error], outs = [T_bool]\<rparr> [err] w"

definition MockOSWrapper_MkdirAll ::
    "('w, 'h) MockOSWrapper \<Rightarrow> string \<Rightarrow> nat \<Rightarrow> 'w \<Rightarrow> (ext_error option) mocked \<times> 'w" where
  "MockOSWrapper_MkdirAll m arg0 perm w =
     mock_call (mos_ctrl m) (mos_ref m) ''MkdirAll'' [V_string arg0, V_mode perm]
       (\<lambda>ret after. ret1 as_error ret) w"

definition MockOSWrapperMockRecorder_MkdirAll ::
    "('w, 'h) MockOSWrapperMockRecorder \<Rightarrow> GoArg \<Rightarrow> GoArg \<Rightarrow> 'w \<Rightarrow> 'h \<times> 'w" where
  "MockOSWrapperMockRecorder_MkdirAll mr arg0 perm w =
     record_call (mos_ctrl (mos_mock mr)) (mos_ref (mos_mock mr)) ''MkdirAll''
       \<lparr>ins = [T_string, T_FileMode], outs = [T_error]\<rparr> [arg0, perm] w"

definition MockOSWrapper_Open ::
    "('w, 'h) MockOSWrapper \<Rightarrow> string \<Rightarrow> 'w \<Rightarrow> (nat option \<times> ext_error option) mocked \<times> 'w" where
  "MockOSWrapper_Open m arg0 w =
     mock_call (mos_ctrl m) (mos_ref m) ''Open'' [V_string arg0]
       (\<lambda>ret after. ret2 as_File as_error ret) w"

definition MockOSWrapperMockRecorder_Open ::
    "('w, 'h) MockOSWrapperMockRecorder \<Rightarrow> GoArg \<Rightarrow> 'w \<Rightarrow> 'h \<times> 'w" where
  "MockOSWrapperMockRecorder_Open mr arg0 w =
     record_call (mos_ctrl (mos_mock mr)) (mos_ref (mos_mock mr)) ''Open''
       \<lparr>ins = [T_string], outs = [T_File, T_error]\<rparr> [arg0] w"

definition MockOSWrapper_RemoveAll ::
    "('w, 'h) MockOSWrapper \<Rightarrow> string \<Rightarrow> 'w \<Rightarrow> (ext_error option) mocked \<times> 'w" where
  "MockOSWrapper_RemoveAll m arg0 w =
     mock_call (mos_ctrl m) (mos_ref m) ''RemoveAll'' [V_string arg0]
       (\<lambda>ret after. ret1 as_error ret) w"

definition MockOSWrapperMockRecorder_RemoveAll ::
    "('w, 'h) MockOSWrapperMockRecorder \<Rightarrow> GoArg \<Rightarrow> 'w \<Rightarrow> 'h \<times> 'w" where
  "MockOSWrapperMockRecorder_RemoveAll mr arg0 w =
     record_call (mos_ctrl (mos_mock mr)) (mos_ref (mos_mock mr)) ''RemoveAll''
       \<lparr>ins = [T_string], outs = [T_error]\<rparr> [arg0] w"

definition MockOSWrapper_Stat ::
    "('w, 'h) MockOSWrapper \<Rightarrow> string \<Rightarrow> 'w \<Rightarrow> (unit option \<times> ext_error option) mocked \<times> 'w" where
  "MockOSWrapper_Stat m name w =
     mock_call (mos_ctrl m) (mos_ref m) ''Stat'' [V_string name]
       (\<lambda>ret after. ret2 as_FileInfo as_error ret) w"

definition MockOSWrapperMockRecorder_Stat ::
    "('w, 'h) MockOSWrapperMockRecorder \<Rightarrow> GoArg \<Rightarrow> 'w \<Rightarrow> 'h \<times> 'w" where
  "MockOSWrapperMockRecorder_Stat mr name w =
     record_call (mos_ctrl (mos_mock mr)) (mos_ref (mos_mock mr)) ''Stat''
       \<lparr>ins = [T_string], outs = [T_FileInfo, T_error]\<rparr> [name] w"

definition MockOSWrapper_Statfs ::
    "('w, 'h) MockOSWrapper \<Rightarrow> string \<Rightarrow> Statfs_t \<Rightarrow> 'w \<Rightarrow> (ext_error option \<times> Statfs_t) mocked \<times> 'w" where
  "MockOSWrapper_Statfs m arg0 buf w =
     mock_call (mos_ctrl m) (mos_ref m) ''Statfs'' [V_string arg0, V_statfs buf]
       (\<lambda>ret after. map_mocked (\<lambda>err. (err, as_Statfs buf after)) (ret1 as_error ret)) w"

definition MockOSWrapperMockRecorder_Statfs ::
    "('w, 'h) MockOSWrapperMockRecorder \<Rightarrow> GoArg \<Rightarrow> GoArg \<Rightarrow> 'w \<Rightarrow> 'h \<times> 'w" where
  "MockOSWrapperMockRecorder_Statfs mr arg0 buf w =
     record_call (mos_ctrl (mos_mock mr)) (mos_ref (mos_mock mr)) ''Statfs''
       \<lparr>ins = [T_string, T_Statfs], outs = [T_error]\<rparr> [arg0, buf] w"

end
