(* ===== verification/Mock_Mount.thy ===== *)
theory Mock_Mount
  imports Gomock
begin

text \<open>
  \<^verbatim>\<open>pkg/utils/mount/mock_mountutils_unix.go\<close>: the mocks of
  \<^verbatim>\<open>MountWrapper\<close> and \<^verbatim>\<open>Resizefs\<close>.  The embedded
  \<^verbatim>\<open>mount.Interface\<close> stays nil; the mock has a method of its own for each of its
  methods.
\<close>

section \<open>The mock and its recorder\<close>

record ('w, 'h) MockMountWrapper =
  mmw_ctrl :: "('w, 'h) Controller"
  mmw_ref :: nat

datatype ('w, 'h) MockMountWrapperMockRecorder = MockMountWrapperMockRecorder (mmw_mock: "('w, 'h) MockMountWrapper")

definition NewMockMountWrapper :: "('w, 'h) Controller \<Rightarrow> nat \<Rightarrow> ('w, 'h) MockMountWrapper" where
  "NewMockMountWrapper ctrl ref = \<lparr>mmw_ctrl = ctrl, mmw_ref = ref\<rparr>"

definition MockMountWrapper_EXPECT :: "('w, 'h) MockMountWrapper \<Rightarrow> ('w, 'h) MockMountWrapperMockRecorder" where
  "MockMountWrapper_EXPECT m = MockMountWrapperMockRecorder m"

section \<open>The methods and what records them\<close>

definition MockMountWrapper_CanSafelySkipMountPointCheck ::
    "('w, 'h) MockMountWrapper \<Rightarrow> 'w \<Rightarrow> (bool) mocked \<times> 'w" where
  "MockMountWrapper_CanSafelySkipMountPointCheck m w =
     mock_call (mmw_ctrl m) (mmw_ref m) ''CanSafelySkipMountPointCheck'' []
       (\<lambda>ret after. ret1 as_bool ret) w"

definition MockMountWrapperMockRecorder_CanSafelySkipMountPointCheck ::
    "('w, 'h) MockMountWrapperMockRecorder \<Rightarrow> 'w \<Rightarrow> 'h \<times> 'w" where
  "MockMountWrapperMockRecorder_CanSafelySkipMountPointCheck mr w =
     record_call (mmw_ctrl (mmw_mock mr)) (mmw_ref (mmw_mock mr)) ''CanSafelySkipMountPointCheck''
       \<lparr>ins = [], outs = [T_bool]\<rparr> [] w"

definition MockMountWrapper_FormatAndMountSensitiveWithFormatOptions ::
    "('w, 'h) MockMountWrapper \<Rightarrow> string \<Rightarrow> string \<Rightarrow> string \<Rightarrow> string list \<Rightarrow> string list \<Rightarrow> string list \<Rightarrow> 'w \<Rightarrow> (ext_error option) mocked \<times> 'w" where
  "MockMountWrapper_FormatAndMountSensitiveWithFormatOptions m source target fstype options sensitiveOptions formatOptions w =
     mock_call (mmw_ctrl m) (mmw_ref m) ''FormatAndMountSensitiveWithFormatOptions'' [V_string source, V_string target, V_string fstype, V_strings options, V_strings sensitiveOptions, V_strings formatOptions]
       (\<lambda>ret after. ret1 as_error ret) w"

definition MockMountWrapperMockRecorder_FormatAndMountSensitiveWithFormatOptions ::
    "('w, 'h) MockMountWrapperMockRecorder \<Rightarrow> GoArg \<Rightarrow> GoArg \<Rightarrow> GoArg \<Rightarrow> GoArg \<Rightarrow> GoArg \<Rightarrow> GoArg \<Rightarrow> 'w \<Rightarrow> 'h \<times> 'w" where
  "MockMountWrapperMockRecorder_FormatAndMountSensitiveWithFormatOptions mr source target fstype options sensitiveOptions formatOptions w =
     record_call (mmw_ctrl (mmw_mock mr)) (mmw_ref (mmw_mock mr)) ''FormatAndMountSensitiveWithFormatOptions''
       \<lparr>ins = [T_string, T_string, T_string, T_strings, T_strings, T_strings], outs = [T_error]\<rparr> [source, target, fstype, options, sensitiveOptions, formatOptions] w"

definition MockMountWrapper_GetMountRefs ::
    "('w, 'h) MockMountWrapper \<Rightarrow> string \<Rightarrow> 'w \<Rightarrow> (string list \<times> ext_error option) mocked \<times> 'w" where
  "MockMountWrapper_GetMountRefs m pathname w =
     mock_call (mmw_ctrl m) (mmw_ref m) ''GetMountRefs'' [V_string pathname]
       (\<lambda>ret after. ret2 as_strings as_error ret) w"

definition MockMountWrapperMockRecorder_GetMountRefs ::
    "('w, 'h) MockMountWrapperMockRecorder \<Rightarrow> GoArg \<Rightarrow> 'w \<Rightarrow> 'h \<times> 'w" where
  "MockMountWrapperMockRecorder_GetMountRefs mr pathname w =
     record_call (mmw_ctrl (mmw_mock mr)) (mmw_ref (mmw_mock mr)) ''GetMountRefs''
       \<lparr>ins = [T_string], outs = [T_strings, T_error]\<rparr> [pathname] w"

definition MockMountWrapper_IsLikelyNotMountPoint ::
    "('w, 'h) MockMountWrapper \<Rightarrow> string \<Rightarrow> 'w \<Rightarrow> (bool \<times> ext_error option) mocked \<times> 'w" where
  "MockMountWrapper_IsLikelyNotMountPoint m file w =
     mock_call (mmw_ctrl m) (mmw_ref m) ''IsLikelyNotMountPoint'' [V_string file]
       (\<lambda>ret after. ret2 as_bool as_error ret) w"

definition MockMountWrapperMockRecorder_IsLikelyNotMountPoint ::
    "('w, 'h) MockMountWrapperMockRecorder \<Rightarrow> GoArg \<Rightarrow> 'w \<Rightarrow> 'h \<times> 'w" where
  "MockMountWrapperMockRecorder_IsLikelyNotMountPoint mr file w =
     record_call (mmw_ctrl (mmw_mock mr)) (mmw_ref (mmw_mock mr)) ''IsLikelyNotMountPoint''
       \<lparr>ins = [T_string], outs = [T_bool, T_error]\<rparr> [file] w"

definition MockMountWrapper_IsMountPoint ::
    "('w, 'h) MockMountWrapper \<Rightarrow> string \<Rightarrow> 'w \<Rightarrow> (bool \<times> ext_error option) mocked \<times> 'w" where
  "MockMountWrapper_IsMountPoint m file w =
     mock_call (mmw_ctrl m) (mmw_ref m) ''IsMountPoint'' [V_string file]
       (\<lambda>ret after. ret2 as_bool as_error ret) w"

definition MockMountWrapperMockRecorder_IsMountPoint ::
    "('w, 'h) MockMountWrapperMockRecorder \<Rightarrow> GoArg \<Rightarrow> 'w \<Rightarrow> 'h \<times> 'w" where
  "MockMountWrapperMockRecorder_IsMountPoint mr file w =
     record_call (mmw_ctrl (mmw_mock mr)) (mmw_ref (mmw_mock mr)) ''IsMountPoint''
       \<lparr>ins = [T_string], outs = [T_bool, T_error]\<rparr> [file] w"

definition MockMountWrapper_List ::
    "('w, 'h) MockMountWrapper \<Rightarrow> 'w \<Rightarrow> (MountPoint list \<times> ext_error option) mocked \<times> 'w" where
  "MockMountWrapper_List m w =
     mock_call (mmw_ctrl m) (mmw_ref m) ''List'' []
       (\<lambda>ret after. ret2 as_MountPoints as_error ret) w"

definition MockMountWrapperMockRecorder_List ::
    "('w, 'h) MockMountWrapperMockRecorder \<Rightarrow> 'w \<Rightarrow> 'h \<times> 'w" where
  "MockMountWrapperMockRecorder_List mr w =
     record_call (mmw_ctrl (mmw_mock mr)) (mmw_ref (mmw_mock mr)) ''List''
       \<lparr>ins = [], outs = [T_MountPoints, T_error]\<rparr> [] w"

definition MockMountWrapper_Mount ::
    "('w, 'h) MockMountWrapper \<Rightarrow> string \<Rightarrow> string \<Rightarrow> string \<Rightarrow> string list \<Rightarrow> 'w \<Rightarrow> (ext_error option) mocked \<times> 'w" where
  "MockMountWrapper_Mount m source target fstype options w =
     mock_call (mmw_ctrl m) (mmw_ref m) ''Mount'' [V_string source, V_string target, V_string fstype, V_strings options]
       (\<lambda>ret after. ret1 as_error ret) w"

definition MockMountWrapperMockRecorder_Mount ::
    "('w, 'h) MockMountWrapperMockRecorder \<Rightarrow> GoArg \<Rightarrow> GoArg \<Rightarrow> GoArg \<Rightarrow> GoArg \<Rightarrow> 'w \<Rightarrow> 'h \<times> 'w" where
  "MockMountWrapperMockRecorder_Mount mr source target fstype options w =
     record_call (mmw_ctrl (mmw_mock mr)) (mmw_ref (mmw_mock mr)) ''Mount''
       \<lparr>ins = [T_string, T_string, T_string, T_strings], outs = [T_error]\<rparr> [source, target, fstype, options] w"

definition MockMountWrapper_MountSensitive ::
    "('w, 'h) MockMountWrapper \<Rightarrow> string \<Rightarrow> string \<Rightarrow> string \<Rightarrow> string list \<Rightarrow> string list \<Rightarrow> 'w \<Rightarrow> (ext_error option) mocked \<times> 'w" where
  "MockMountWrapper_MountSensitive m source target fstype options sensitiveOptions w =
     mock_call (mmw_ctrl m) (mmw_ref m) ''MountSensitive'' [V_string source, V_string target, V_string fstype, V_strings options, V_strings sensitiveOptions]
       (\<lambda>ret after. ret1 as_error ret) w"

definition MockMountWrapperMockRecorder_MountSensitive ::
    "('w, 'h) MockMountWrapperMockRecorder \<Rightarrow> GoArg \<Rightarrow> GoArg \<Rightarrow> GoArg \<Rightarrow> GoArg \<Rightarrow> GoArg \<Rightarrow> 'w \<Rightarrow> 'h \<times> 'w" where
  "MockMountWrapperMockRecorder_MountSensitive mr source target fstype options sensitiveOptions w =
     record_call (mmw_ctrl (mmw_mock mr)) (mmw_ref (mmw_mock mr)) ''MountSensitive''
       \<lparr>ins = [T_string, T_string, T_string, T_strings, T_strings], outs = [T_error]\<rparr> [source, target, fstype, options, sensitiveOptions] w"

definition MockMountWrapper_MountSensitiveWithoutSystemd ::
    "('w, 'h) MockMountWrapper \<Rightarrow> string \<Rightarrow> string \<Rightarrow> string \<Rightarrow> string list \<Rightarrow> string list \<Rightarrow> 'w \<Rightarrow> (ext_error option) mocked \<times> 'w" where
  "MockMountWrapper_MountSensitiveWithoutSystemd m source target fstype options sensitiveOptions w =
     mock_call (mmw_ctrl m) (mmw_ref m) ''MountSensitiveWithoutSystemd'' [V_string source, V_string target, V_string fstype, V_strings options, V_strings sensitiveOptions]
       (\<lambda>ret after. ret1 as_error ret) w"

definition MockMountWrapperMockRecorder_MountSensitiveWithoutSystemd ::
    "('w, 'h) MockMountWrapperMockRecorder \<Rightarrow> GoArg \<Rightarrow> GoArg \<Rightarrow> GoArg \<Rightarrow> GoArg \<Rightarrow> GoArg \<Rightarrow> 'w \<Rightarrow> 'h \<times> 'w" where
  "MockMountWrapperMockRecorder_MountSensitiveWithoutSystemd mr source target fstype options sensitiveOptions w =
     record_call (mmw_ctrl (mmw_mock mr)) (mmw_ref (mmw_mock mr)) ''MountSensitiveWithoutSystemd''
       \<lparr>ins = [T_string, T_string, T_string, T_strings, T_strings], outs = [T_error]\<rparr> [source, target, fstype, options, sensitiveOptions] w"

definition MockMountWrapper_MountSensitiveWithoutSystemdWithMountFlags ::
    "('w, 'h) MockMountWrapper \<Rightarrow> string \<Rightarrow> string \<Rightarrow> string \<Rightarrow> string list \<Rightarrow> string list \<Rightarrow> string list \<Rightarrow> 'w \<Rightarrow> (ext_error option) mocked \<times> 'w" where
  "MockMountWrapper_MountSensitiveWithoutSystemdWithMountFlags m source target fstype options sensitiveOptions mountFlags w =
     mock_call (mmw_ctrl m) (mmw_ref m) ''MountSensitiveWithoutSystemdWithMountFlags'' [V_string source, V_string target, V_string fstype, V_strings options, V_strings sensitiveOptions, V_strings mountFlags]
       (\<lambda>ret after. ret1 as_error ret) w"

definition MockMountWrapperMockRecorder_MountSensitiveWithoutSystemdWithMountFlags ::
    "('w, 'h) MockMountWrapperMockRecorder \<Rightarrow> GoArg \<Rightarrow> GoArg \<Rightarrow> GoArg \<Rightarrow> GoArg \<Rightarrow> GoArg \<Rightarrow> GoArg \<Rightarrow> 'w \<Rightarrow> 'h \<times> 'w" where
  "MockMountWrapperMockRecorder_MountSensitiveWithoutSystemdWithMountFlags mr source target fstype options sensitiveOptions mountFlags w =
     record_call (mmw_ctrl (mmw_mock mr)) (mmw_ref (mmw_mock mr)) ''MountSensitiveWithoutSystemdWithMountFlags''
       \<lparr>ins = [T_string, T_string, T_string, T_strings, T_strings, T_strings], outs = [T_error]\<rparr> [source, target, fstype, options, sensitiveOptions, mountFlags] w"

definition MockMountWrapper_NewResizeFs ::
    "('w, 'h) MockMountWrapper \<Rightarrow> 'w \<Rightarrow> (nat option \<times> ext_error option) mocked \<times> 'w" where
  "MockMountWrapper_NewResizeFs m w =
     mock_call (mmw_ctrl m) (mmw_ref m) ''NewResizeFs'' []
       (\<lambda>ret after. ret2 as_Resizefs as_error ret) w"

definition MockMountWrapperMockRecorder_NewResizeFs ::
    "('w, 'h) MockMountWrapperMockRecorder \<Rightarrow> 'w \<Rightarrow> 'h \<times> 'w" where
  "MockMountWrapperMockRecorder_NewResizeFs mr w =
     record_call (mmw_ctrl (mmw_mock mr)) (mmw_ref (mmw_mock mr)) ''NewResizeFs''
       \<lparr>ins = [], outs = [T_Resizefs, T_error]\<rparr> [] w"

definition MockMountWrapper_Unmount ::
    "('w, 'h) MockMountWrapper \<Rightarrow> string \<Rightarrow> 'w \<Rightarrow> (ext_error option) mocked \<times> 'w" where
  "MockMountWrapper_Unmount m target w =
     mock_call (mmw_ctrl m) (mmw_ref m) ''Unmount'' [V_string target]
       (\<lambda>ret after. ret1 as_error ret) w"

definition MockMountWrapperMockRecorder_Unmount ::
    "('w, 'h) MockMountWrapperMockRecorder \<Rightarrow> GoArg \<Rightarrow> 'w \<Rightarrow> 'h \<times> 'w" where
  "MockMountWrapperMockRecorder_Unmount mr target w =
     record_call (mmw_ctrl (mmw_mock mr)) (mmw_ref (mmw_mock mr)) ''Unmount''
       \<lparr>ins = [T_string], outs = [T_error]\<rparr> [target] w"

section \<open>The mock of a resizer\<close>

record ('w, 'h) MockResizefs =
  mrf_ctrl :: "('w, 'h) Controller"
  mrf_ref :: nat

datatype ('w, 'h) MockResizefsMockRecorder = MockResizefsMockRecorder (mrf_mock: "('w, 'h) MockResizefs")

definition NewMockResizefs :: "('w, 'h) Controller \<Rightarrow> nat \<Rightarrow> ('w, 'h) MockResizefs" where
  "NewMockResizefs ctrl ref = \<lparr>mrf_ctrl = ctrl, mrf_ref = ref\<rparr>"

definition MockResizefs_EXPECT :: "('w, 'h) MockResizefs \<Rightarrow> ('w, 'h) MockResizefsMockRecorder" where
  "MockResizefs_EXPECT m = MockResizefsMockRecorder m"

definition MockResizefs_Resize ::
    "('w, 'h) MockResizefs \<Rightarrow> string \<Rightarrow> string \<Rightarrow> 'w \<Rightarrow> (bool \<times> ext_error option) mocked \<times> 'w" where
  "MockResizefs_Resize m devicePath deviceMountPath w =
     mock_call (mrf_ctrl m) (mrf_ref m) ''Resize'' [V_string devicePath, V_string deviceMountPath]
       (\<lambda>ret after. ret2 as_bool as_error ret) w"

definition MockResizefsMockRecorder_Resize ::
    "('w, 'h) MockResizefsMockRecorder \<Rightarrow> GoArg \<Rightarrow> GoArg \<Rightarrow> 'w \<Rightarrow> 'h \<times> 'w" where
  "MockResizefsMockRecorder_Resize mr devicePath deviceMountPath w =
     record_call (mrf_ctrl (mrf_mock mr)) (mrf_ref (mrf_mock mr)) ''Resize''
       \<lparr>ins = [T_string, T_string], outs = [T_bool, T_error]\<rparr> [devicePath, deviceMountPath] w"

end
