(* ===== verification/Mock_Props.thy ===== *)
theory Mock_Props
  imports Mock_Os Mock_Mount World_Part
begin

text \<open>
  What the mocks are good for.  An expectation recorded for a method is met by a call of the method
  with the same arguments, which returns exactly the values of the expectation; and a driver that runs
  over mocks whose controller passes every call on to real wrappers does exactly what it does over the
  wrappers.
\<close>

section \<open>Expecting and calling\<close>

text \<open>
  \<open>replay ret rec vals call\<close>: record an expectation, give it its return values, make the call.
\<close>

definition replay ::
    "('h \<Rightarrow> GoValue list \<Rightarrow> 'w \<Rightarrow> 'w) \<Rightarrow> ('w \<Rightarrow> 'h \<times> 'w) \<Rightarrow> GoValue list \<Rightarrow> ('w \<Rightarrow> 'a mocked \<times> 'w) \<Rightarrow> 'w \<Rightarrow> 'a mocked" where
  "replay ret rec vals call w = (case rec w of (h, w1) \<Rightarrow> fst (call (ret h vals w1)))"

text \<open>
  The documented contract of the controller, for \<open>ret\<close>, the method \<^verbatim>\<open>Return\<close> of an
  expected call, and for the expectations that are \<open>pending\<close>:
  \<^verbatim>\<open>Helper\<close> has no effect, and if nothing else is pending for a method of a mock, an
  expectation with values as arguments, of the types of the method, is met by the call of this method
  with these arguments, which returns the values that \<^verbatim>\<open>Return\<close> was given.
\<close>

definition gomock_contract ::
    "('w, 'h) Controller \<Rightarrow> ('h \<Rightarrow> GoValue list \<Rightarrow> 'w \<Rightarrow> 'w) \<Rightarrow> (nat \<Rightarrow> string \<Rightarrow> 'w \<Rightarrow> bool) \<Rightarrow> bool" where
  "gomock_contract c ret pending \<longleftrightarrow> (\<forall>w. Helper c w = w) \<and>
     (\<forall>m name ty vs vals w h w1. RecordCallWithMethodType c m name ty (map Val vs) w = (h, w1) \<longrightarrow>
        \<not> pending m name w \<longrightarrow> list_all2 has_type vs (ins ty) \<longrightarrow> list_all2 has_type vals (outs ty) \<longrightarrow>
        (\<exists>w2. CallMethod c m name vs (ret h vals w1) = (Some (vals, vs), w2)))"

text \<open>Every method of the three mocks replays its expectation.\<close>

definition os_mock_replays :: "('h \<Rightarrow> GoValue list \<Rightarrow> 'w \<Rightarrow> 'w) \<Rightarrow> ('w, 'h) MockOSWrapper \<Rightarrow> 'w \<Rightarrow> bool" where
  "os_mock_replays ret m w \<longleftrightarrow>
     (\<forall>l p b e. replay ret (MockOSWrapperMockRecorder_Exists (MockOSWrapper_EXPECT m) (Val (V_link l)) (Val (V_string p)))
        [V_bool b, of_error e] (MockOSWrapper_Exists m l p) w = Returned (b, e)) \<and>
     (\<forall>err b. replay ret (MockOSWrapperMockRecorder_IsNotExist (MockOSWrapper_EXPECT m) (Val (of_error err)))
        [V_bool b] (MockOSWrapper_IsNotExist m err) w = Returned b) \<and>
     (\<forall>p perm e. replay ret (MockOSWrapperMockRecorder_MkdirAll (MockOSWrapper_EXPECT m) (Val (V_string p)) (Val (V_mode perm)))
        [of_error e] (MockOSWrapper_MkdirAll m p perm) w = Returned e) \<and>
     (\<forall>p x e. replay ret (MockOSWrapperMockRecorder_Open (MockOSWrapper_EXPECT m) (Val (V_string p)))
        [of_File x, of_error e] (MockOSWrapper_Open m p) w = Returned (x, e)) \<and>
     (\<forall>p e. replay ret (MockOSWrapperMockRecorder_RemoveAll (MockOSWrapper_EXPECT m) (Val (V_string p)))
        [of_error e] (MockOSWrapper_RemoveAll m p) w = Returned e) \<and>
     (\<forall>p i e. replay ret (MockOSWrapperMockRecorder_Stat (MockOSWrapper_EXPECT m) (Val (V_string p)))
        [of_FileInfo i, of_error e] (MockOSWrapper_Stat m p) w = Returned (i, e)) \<and>
     (\<forall>p buf e. replay ret (MockOSWrapperMockRecorder_Statfs (MockOSWrapper_EXPECT m) (Val (V_string p)) (Val (V_statfs buf)))
        [of_error e] (MockOSWrapper_Statfs m p buf) w = Returned (e, buf))"

definition mount_mock_replays :: "('h \<Rightarrow> GoValue list \<Rightarrow> 'w \<Rightarrow> 'w) \<Rightarrow> ('w, 'h) MockMountWrapper \<Rightarrow> 'w \<Rightarrow> bool" where
  "mount_mock_replays ret m w \<longleftrightarrow>
     (\<forall>b. replay ret (MockMountWrapperMockRecorder_CanSafelySkipMountPointCheck (MockMountWrapper_EXPECT m))
        [V_bool b] (MockMountWrapper_CanSafelySkipMountPointCheck m) w = Returned b) \<and>
     (\<forall>src t fs os ss fos e. replay ret (MockMountWrapperMockRecorder_FormatAndMountSensitiveWithFormatOptions (MockMountWrapper_EXPECT m) (Val (V_string src)) (Val (V_string t)) (Val (V_string fs)) (Val (V_strings os)) (Val (V_strings ss)) (Val (V_strings fos)))
        [of_error e] (MockMountWrapper_FormatAndMountSensitiveWithFormatOptions m src t fs os ss fos) w = Returned e) \<and>
     (\<forall>p ss e. replay ret (MockMountWrapperMockRecorder_GetMountRefs (MockMountWrapper_EXPECT m) (Val (V_string p)))
        [V_strings ss, of_error e] (MockMountWrapper_GetMountRefs m p) w = Returned (ss, e)) \<and>
     (\<forall>p b e. replay ret (MockMountWrapperMockRecorder_IsLikelyNotMountPoint (MockMountWrapper_EXPECT m) (Val (V_string p)))
        [V_bool b, of_error e] (MockMountWrapper_IsLikelyNotMountPoint m p) w = Returned (b, e)) \<and>
     (\<forall>p b e. replay ret (MockMountWrapperMockRecorder_IsMountPoint (MockMountWrapper_EXPECT m) (Val (V_string p)))
        [V_bool b, of_error e] (MockMountWrapper_IsMountPoint m p) w = Returned (b, e)) \<and>
     (\<forall>ms e. replay ret (MockMountWrapperMockRecorder_List (MockMountWrapper_EXPECT m))
        [V_MountPoints ms, of_error e] (MockMountWrapper_List m) w = Returned (ms, e)) \<and>
     (\<forall>src t fs os e. replay ret (MockMountWrapperMockRecorder_Mount (MockMountWrapper_EXPECT m) (Val (V_string src)) (Val (V_string t)) (Val (V_string fs)) (Val (V_strings os)))
        [of_error e] (MockMountWrapper_Mount m src t fs os) w = Returned e) \<and>
     (\<forall>src t fs os ss e. replay ret (MockMountWrapperMockRecorder_MountSensitive (MockMountWrapper_EXPECT m) (Val (V_string src)) (Val (V_string t)) (Val (V_string fs)) (Val (V_strings os)) (Val (V_strings ss)))
        [of_error e] (MockMountWrapper_MountSensitive m src t fs os ss) w = Returned e) \<and>
     (\<forall>src t fs os ss e. replay ret (MockMountWrapperMockRecorder_MountSensitiveWithoutSystemd (MockMountWrapper_EXPECT m) (Val (V_string src)) (Val (V_string t)) (Val (V_string fs)) (Val (V_strings os)) (Val (V_strings ss)))
        [of_error e] (MockMountWrapper_MountSensitiveWithoutSystemd m src t fs os ss) w = Returned e) \<and>
     (\<forall>src t fs os ss mfs e. replay ret (MockMountWrapperMockRecorder_MountSensitiveWithoutSystemdWithMountFlags (MockMountWrapper_EXPECT m) (Val (V_string src)) (Val (V_string t)) (Val (V_string fs)) (Val (V_strings os)) (Val (V_strings ss)) (Val (V_strings mfs)))
        [of_error e] (MockMountWrapper_MountSensitiveWithoutSystemdWithMountFlags m src t fs os ss mfs) w = Returned e) \<and>
     (\<forall>x e. replay ret (MockMountWrapperMockRecorder_NewResizeFs (MockMountWrapper_EXPECT m))
        [of_Resizefs x, of_error e] (MockMountWrapper_NewResizeFs m) w = Returned (x, e)) \<and>
     (\<forall>t e. replay ret (MockMountWrapperMockRecorder_Unmount (MockMountWrapper_EXPECT m) (Val (V_string t)))
        [of_error e] (MockMountWrapper_Unmount m t) w = Returned e)"

definition resizer_mock_replays :: "('h \<Rightarrow> GoValue list \<Rightarrow> 'w \<Rightarrow> 'w) \<Rightarrow> ('w, 'h) MockResizefs \<Rightarrow> 'w \<Rightarrow> bool" where
  "resizer_mock_replays ret m w \<longleftrightarrow>
     (\<forall>dev p b e. replay ret (MockResizefsMockRecorder_Resize (MockResizefs_EXPECT m) (Val (V_string dev)) (Val (V_string p)))
        [V_bool b, of_error e] (MockResizefs_Resize m dev p) w = Returned (b, e))"

lemma replay_call:
  assumes "gomock_contract c ret pending" and "\<not> pending m name w"
    and "call = mock_call c m name vs k" and "rec = record_call c m name ty (map Val vs)"
    and "list_all2 has_type vs (ins ty)" and "list_all2 has_type vals (outs ty)"
  shows "replay ret rec vals call w = k vals vs"
proof -
  obtain h w1 where rec: "RecordCallWithMethodType c m name ty (map Val vs) w = (h, w1)" by (metis surj_pair)
  then obtain w2 where "CallMethod c m name vs (ret h vals w1) = (Some (vals, vs), w2)"
    using assms(1,2,5,6) unfolding gomock_contract_def by blast
  with rec show ?thesis
    using assms(1) by (simp add: assms(3,4) replay_def record_call_def mock_call_def gomock_contract_def)
qed

lemmas os_calls =
  MockOSWrapper_Exists_def MockOSWrapper_IsNotExist_def MockOSWrapper_MkdirAll_def
  MockOSWrapper_Open_def MockOSWrapper_RemoveAll_def MockOSWrapper_Stat_def MockOSWrapper_Statfs_def

lemmas os_records =
  MockOSWrapperMockRecorder_Exists_def MockOSWrapperMockRecorder_IsNotExist_def
  MockOSWrapperMockRecorder_MkdirAll_def MockOSWrapperMockRecorder_Open_def
  MockOSWrapperMockRecorder_RemoveAll_def MockOSWrapperMockRecorder_Stat_def
  MockOSWrapperMockRecorder_Statfs_def MockOSWrapper_EXPECT_def

lemmas mount_calls =
  MockMountWrapper_CanSafelySkipMountPointCheck_def
  MockMountWrapper_FormatAndMountSensitiveWithFormatOptions_def MockMountWrapper_GetMountRefs_def
  MockMountWrapper_IsLikelyNotMountPoint_def MockMountWrapper_IsMountPoint_def
  MockMountWrapper_List_def MockMountWrapper_Mount_def MockMountWrapper_MountSensitive_def
  MockMountWrapper_MountSensitiveWithoutSystemd_def
  MockMountWrapper_MountSensitiveWithoutSystemdWithMountFlags_def MockMountWrapper_NewResizeFs_def
  MockMountWrapper_Unmount_def

lemmas mount_records =
  MockMountWrapperMockRecorder_CanSafelySkipMountPointCheck_def
  MockMountWrapperMockRecorder_FormatAndMountSensitiveWithFormatOptions_def
  MockMountWrapperMockRecorder_GetMountRefs_def MockMountWrapperMockRecorder_IsLikelyNotMountPoint_def
  MockMountWrapperMockRecorder_IsMountPoint_def MockMountWrapperMockRecorder_List_def
  MockMountWrapperMockRecorder_Mount_def MockMountWrapperMockRecorder_MountSensitive_def
  MockMountWrapperMockRecorder_MountSensitiveWithoutSystemd_def
  MockMountWrapperMockRecorder_MountSensitiveWithoutSystemdWithMountFlags_def
  MockMountWrapperMockRecorder_NewResizeFs_def MockMountWrapperMockRecorder_Unmount_def
  MockMountWrapper_EXPECT_def

lemmas resizer_calls =
  MockResizefs_Resize_def

lemmas resizer_records =
  MockResizefsMockRecorder_Resize_def MockResizefs_EXPECT_def

text \<open>
  C39: The mocks are faithful test doubles: in a state of the controller where nothing is pending for a
  mock, recording an expectation for any of its methods, with any arguments and return values, and then
  calling this method with these arguments returns exactly these values, for each of the twenty methods
  of the three mocks: the name that is recorded is the name that is called, the arguments come in the
  same order, and the assertions read every value back at its type, nil pointers and nil errors included.
\<close>

theorem mocks_replay_expectations:
  assumes "gomock_contract (mos_ctrl mo) ret pending" and "\<And>name. \<not> pending (mos_ref mo) name w"
    and "gomock_contract (mmw_ctrl mm) ret pending" and "\<And>name. \<not> pending (mmw_ref mm) name w"
    and "gomock_contract (mrf_ctrl mr) ret pending" and "\<And>name. \<not> pending (mrf_ref mr) name w"
  shows "os_mock_replays ret mo w \<and> mount_mock_replays ret mm w \<and> resizer_mock_replays ret mr w"
proof (intro conjI)
  note os = replay_call [OF assms(1,2), THEN trans]
    and mount = replay_call [OF assms(3,4), THEN trans]
    and resizer = replay_call [OF assms(5,6), THEN trans]
  show "os_mock_replays ret mo w"
    unfolding os_mock_replays_def
    by (intro conjI allI;
        (rule os, (rule ext, rule os_calls), (rule ext, simp add: os_records, (rule refl)?), simp_all add: ret1_def ret2_def))
  show "mount_mock_replays ret mm w"
    unfolding mount_mock_replays_def
    by (intro conjI allI;
        (rule mount, (rule ext, rule mount_calls), (rule ext, simp add: mount_records, (rule refl)?), simp_all add: ret1_def ret2_def))
  show "resizer_mock_replays ret mr w"
    unfolding resizer_mock_replays_def
    by (intro conjI allI;
        (rule resizer, (rule ext, rule resizer_calls), (rule ext, simp add: resizer_records, (rule refl)?), simp_all add: ret1_def ret2_def))
qed

section \<open>Witness\<close>

text \<open>A controller that keeps its expectations in a list and answers with the first that fits.\<close>

type_synonym expectation = "nat \<times> string \<times> GoArg list \<times> GoValue list"

fun accepts :: "GoArg \<Rightarrow> GoValue \<Rightarrow> bool" where
  "accepts (Val v) x \<longleftrightarrow> v = x"
| "accepts (Matcher f) x \<longleftrightarrow> f x"

definition book :: "(expectation list, nat) Controller" where
  "book =
     \<lparr>Helper = (\<lambda>w. w),
      CallMethod = (\<lambda>m name vs w.
        (map_option (\<lambda>(_, _, _, vals). (vals, vs))
           (find (\<lambda>(m', name', args, _). m' = m \<and> name' = name \<and> list_all2 accepts args vs) w), w)),
      RecordCallWithMethodType = (\<lambda>m name ty args w. (length w, w @ [(m, name, args, [])]))\<rparr>"

definition book_return :: "nat \<Rightarrow> GoValue list \<Rightarrow> expectation list \<Rightarrow> expectation list" where
  "book_return h vals w = w[h := (case w ! h of (m, name, args, _) \<Rightarrow> (m, name, args, vals))]"

definition book_pending :: "nat \<Rightarrow> string \<Rightarrow> expectation list \<Rightarrow> bool" where
  "book_pending m name w \<longleftrightarrow> list_ex (\<lambda>(m', name', _). m' = m \<and> name' = name) w"

lemma find_after: "(\<And>x. x \<in> set xs \<Longrightarrow> \<not> P x) \<Longrightarrow> P y \<Longrightarrow> find P (xs @ [y]) = Some y"
  by (induction xs) auto

lemma accepts_values: "list_all2 accepts (map Val vs) vs"
  by (induction vs) simp_all

lemma book_contract: "gomock_contract book book_return book_pending"
proof -
  have "find (\<lambda>(m', name', args, _). m' = m \<and> name' = name \<and> list_all2 accepts args vs)
      (w @ [(m, name, map Val vs, vals)]) = Some (m, name, map Val vs, vals)"
    if "\<not> book_pending m name w" for m name vs vals w
    using that by (intro find_after) (auto simp: book_pending_def list_ex_iff accepts_values)
  then show ?thesis
    by (auto simp: gomock_contract_def book_def book_return_def nth_append list_update_append)
qed

theorem mocks_replay_expectations_witness:
  "let w = [(7, ''Unmount'', [Matcher (\<lambda>_. True)], [V_nil])] in
     os_mock_replays book_return (NewMockOSWrapper book 0) w \<and> mount_mock_replays book_return (NewMockMountWrapper book 1) w
     \<and> resizer_mock_replays book_return (NewMockResizefs book 2) w"
  unfolding Let_def
  by (rule mocks_replay_expectations [where pending = book_pending])
    (simp_all add: book_contract NewMockOSWrapper_def NewMockMountWrapper_def NewMockResizefs_def book_pending_def)

end
