(* ===== verification/Mock_Driver.thy ===== *)
theory Mock_Driver
  imports Mock_Props Observation
begin

text \<open>
  The driver over the mocks, as the tests of the repository run it: the mocks of the operating system,
  of the mounter and of the resizers are put in the place of the wrappers.  If their controller passes
  every call on to the wrappers, the driver cannot tell the difference.
\<close>

section \<open>Mocks as wrappers\<close>

text \<open>
  The world of a test is \<open>None\<close> once the test has ended, by \<^verbatim>\<open>T.Fatalf\<close> or by a
  panic of the mock; then no call returns, and \<open>z\<close> stands for what it would have returned.
\<close>

fun unmock :: "'a \<Rightarrow> ('w \<Rightarrow> 'a mocked \<times> 'w) \<Rightarrow> 'w option \<Rightarrow> 'a \<times> 'w option" where
  "unmock z call None = (z, None)"
| "unmock z call (Some w) = (case call w of (Returned x, w') \<Rightarrow> (x, Some w') | (_, w') \<Rightarrow> (z, None))"

definition running_put :: "'w \<Rightarrow> 'w option \<Rightarrow> 'w option" where
  "running_put w s = Some w"

interpretation running: world_part the running_put Some
  by unfold_locales (simp_all add: running_put_def)

text \<open>
  Pointers to open files and to the mocks of resizers are looked up in \<open>files\<close> and
  \<open>resizers\<close>.  \<^verbatim>\<open>IsNotExist\<close> is asked in the state \<open>w0\<close>.
\<close>

definition mocked_os :: "(nat option \<Rightarrow> 'w File) \<Rightarrow> 'w \<Rightarrow> ('w, 'h) MockOSWrapper \<Rightarrow> 'w option OSWrapper" where
  "mocked_os files w0 m =
     \<lparr>MkdirAll = (\<lambda>p perm. unmock None (MockOSWrapper_MkdirAll m p perm)),
      RemoveAll = (\<lambda>p. unmock None (MockOSWrapper_RemoveAll m p)),
      Stat = (\<lambda>p s. apfst snd (unmock (None, None) (MockOSWrapper_Stat m p) s)),
      IsNotExist = (\<lambda>err. case MockOSWrapper_IsNotExist m err w0 of (Returned b, _) \<Rightarrow> b | _ \<Rightarrow> False),
      Open = (\<lambda>p s. apfst (\<lambda>(f, e). case e of None \<Rightarrow> Inr (file_at the running_put (files f)) | Some err \<Rightarrow> Inl err)
        (unmock (None, None) (MockOSWrapper_Open m p) s)),
      Statfs = (\<lambda>p buf. unmock (None, buf) (MockOSWrapper_Statfs m p buf)),
      Exists = (\<lambda>l p. unmock (False, None) (MockOSWrapper_Exists m l p))\<rparr>"

definition mocked_resizer :: "('w, 'h) MockResizefs \<Rightarrow> 'w option Resizefs" where
  "mocked_resizer m = \<lparr>Resize = (\<lambda>dev p. unmock (False, None) (MockResizefs_Resize m dev p))\<rparr>"

definition mocked_mounter ::
    "(nat option \<Rightarrow> ('w, 'h) MockResizefs) \<Rightarrow> ('w, 'h) MockMountWrapper \<Rightarrow> 'w option MountWrapper" where
  "mocked_mounter resizers m =
     \<lparr>IsLikelyNotMountPoint = (\<lambda>p. unmock (False, None) (MockMountWrapper_IsLikelyNotMountPoint m p)),
      Mount = (\<lambda>src t fs opts. unmock None (MockMountWrapper_Mount m src t fs opts)),
      Unmount = (\<lambda>p. unmock None (MockMountWrapper_Unmount m p)),
      ListMounts = (\<lambda>s. apfst (\<lambda>(ms, e). case e of None \<Rightarrow> Inr ms | Some err \<Rightarrow> Inl err)
        (unmock ([], None) (MockMountWrapper_List m) s)),
      FormatAndMountSensitiveWithFormatOptions = (\<lambda>src t fs opts sens fopts.
        unmock None (MockMountWrapper_FormatAndMountSensitiveWithFormatOptions m src t fs opts sens fopts)),
      NewResizeFs = (\<lambda>s. apfst (\<lambda>(f, e). case e of None \<Rightarrow> Inr (mocked_resizer (resizers f)) | Some err \<Rightarrow> Inl err)
        (unmock (None, None) (MockMountWrapper_NewResizeFs m) s))\<rparr>"

definition mocked_plugin ::
    "'w option OSWrapper \<Rightarrow> 'w option MountWrapper \<Rightarrow> 'w Plugin \<Rightarrow> 'w option Plugin" where
  "mocked_plugin os mounter p =
     \<lparr>p_driver = \<lparr>d_mounter = mounter, d_os = os,
        d_targetClient = client_at the running_put (d_targetClient (p_driver p)),
        d_ironcoreClient = client_at the running_put (d_ironcoreClient (p_driver p)),
        d_config = d_config (p_driver p), d_name = d_name (p_driver p)\<rparr>,
      p_runtime = runtime_at the running_put (p_runtime p),
      p_volumeBackoff = backoff_at the running_put (p_volumeBackoff p),
      p_snapshotBackoff = backoff_at the running_put (p_snapshotBackoff p)\<rparr>"

section \<open>Controllers that pass the calls on\<close>

text \<open>
  \<open>passes c m name args enc f\<close>: the call of the method \<open>name\<close> with \<open>args\<close> does
  what \<open>f\<close> does, and its results are the values of what \<open>f\<close> returns, as after
  \<^verbatim>\<open>DoAndReturn\<close>.
\<close>

definition passes ::
    "('w, 'h) Controller \<Rightarrow> nat \<Rightarrow> string \<Rightarrow> GoValue list \<Rightarrow> ('r \<Rightarrow> GoValue list) \<Rightarrow> ('w \<Rightarrow> 'r \<times> 'w) \<Rightarrow> bool" where
  "passes c m name args enc f \<longleftrightarrow>
     (\<forall>w. CallMethod c m name args w = (case f w of (r, w') \<Rightarrow> (Some (enc r, args), w')))"

text \<open>The same for a method that returns a pointer to an object, which \<open>Q\<close> relates to it.\<close>

definition passes_object ::
    "('w, 'h) Controller \<Rightarrow> nat \<Rightarrow> string \<Rightarrow> (GoValue \<Rightarrow> 'x \<Rightarrow> bool) \<Rightarrow> GoValue list
       \<Rightarrow> ('w \<Rightarrow> (ext_error + 'x) \<times> 'w) \<Rightarrow> bool" where
  "passes_object c m name Q args f \<longleftrightarrow>
     (\<forall>w. case f w of
        (Inl e, w') \<Rightarrow> CallMethod c m name args w = (Some ([V_nil, V_error e], args), w')
      | (Inr x, w') \<Rightarrow> \<exists>v. Q v x \<and> CallMethod c m name args w = (Some ([v, V_nil], args), w'))"

definition passes_os :: "(nat option \<Rightarrow> 'w File) \<Rightarrow> ('w, 'h) MockOSWrapper \<Rightarrow> 'w OSWrapper \<Rightarrow> bool" where
  "passes_os files m os \<longleftrightarrow> (\<forall>w. Helper (mos_ctrl m) w = w) \<and>
     (\<forall>p perm. passes (mos_ctrl m) (mos_ref m) ''MkdirAll'' [V_string p, V_mode perm] (\<lambda>e. [of_error e]) (MkdirAll os p perm)) \<and>
     (\<forall>p. passes (mos_ctrl m) (mos_ref m) ''RemoveAll'' [V_string p] (\<lambda>e. [of_error e]) (RemoveAll os p)) \<and>
     (\<forall>p. passes (mos_ctrl m) (mos_ref m) ''Stat'' [V_string p]
        (\<lambda>e. [if e = None then V_FileInfo else V_nil, of_error e]) (Stat os p)) \<and>
     (\<forall>err. passes (mos_ctrl m) (mos_ref m) ''IsNotExist'' [of_error err] (\<lambda>b. [V_bool b]) (\<lambda>w. (IsNotExist os err, w))) \<and>
     (\<forall>p. passes_object (mos_ctrl m) (mos_ref m) ''Open'' (\<lambda>v f. \<exists>i. v = V_File i \<and> files (Some i) = f)
        [V_string p] (Open os p)) \<and>
     (\<forall>p buf w. CallMethod (mos_ctrl m) (mos_ref m) ''Statfs'' [V_string p, V_statfs buf] w
        = (case Statfs os p buf w of ((e, buf'), w') \<Rightarrow> (Some ([of_error e], [V_string p, V_statfs buf']), w'))) \<and>
     (\<forall>l p. passes (mos_ctrl m) (mos_ref m) ''Exists'' [V_link l, V_string p]
        (\<lambda>(b, e). [V_bool b, of_error e]) (Exists os l p))"

definition passes_resizer :: "('w, 'h) MockResizefs \<Rightarrow> 'w Resizefs \<Rightarrow> bool" where
  "passes_resizer m f \<longleftrightarrow> (\<forall>w. Helper (mrf_ctrl m) w = w) \<and>
     (\<forall>dev p. passes (mrf_ctrl m) (mrf_ref m) ''Resize'' [V_string dev, V_string p]
        (\<lambda>(b, e). [V_bool b, of_error e]) (Resize f dev p))"

definition passes_mounter ::
    "(nat option \<Rightarrow> ('w, 'h) MockResizefs) \<Rightarrow> ('w, 'h) MockMountWrapper \<Rightarrow> 'w MountWrapper \<Rightarrow> bool" where
  "passes_mounter resizers m mounter \<longleftrightarrow> (\<forall>w. Helper (mmw_ctrl m) w = w) \<and>
     (\<forall>p. passes (mmw_ctrl m) (mmw_ref m) ''IsLikelyNotMountPoint'' [V_string p]
        (\<lambda>(b, e). [V_bool b, of_error e]) (IsLikelyNotMountPoint mounter p)) \<and>
     (\<forall>src t fs opts. passes (mmw_ctrl m) (mmw_ref m) ''Mount'' [V_string src, V_string t, V_string fs, V_strings opts]
        (\<lambda>e. [of_error e]) (Mount mounter src t fs opts)) \<and>
     (\<forall>p. passes (mmw_ctrl m) (mmw_ref m) ''Unmount'' [V_string p] (\<lambda>e. [of_error e]) (Unmount mounter p)) \<and>
     passes (mmw_ctrl m) (mmw_ref m) ''List'' []
       (\<lambda>r. case r of Inl e \<Rightarrow> [V_nil, V_error e] | Inr ms \<Rightarrow> [V_MountPoints ms, V_nil]) (ListMounts mounter) \<and>
     (\<forall>src t fs opts sens fopts. passes (mmw_ctrl m) (mmw_ref m) ''FormatAndMountSensitiveWithFormatOptions''
        [V_string src, V_string t, V_string fs, V_strings opts, V_strings sens, V_strings fopts]
        (\<lambda>e. [of_error e]) (FormatAndMountSensitiveWithFormatOptions mounter src t fs opts sens fopts)) \<and>
     passes_object (mmw_ctrl m) (mmw_ref m) ''NewResizeFs''
       (\<lambda>v f. \<exists>i. v = V_Resizefs i \<and> passes_resizer (resizers (Some i)) f) [] (NewResizeFs mounter)"

section \<open>The mocks correspond to what they pass their calls on to\<close>

definition running :: "'w option \<Rightarrow> 'w \<Rightarrow> bool" where
  "running = part_of Some"

lemma mock_object_related:
  fixes call :: "'w \<Rightarrow> 'a mocked \<times> 'w"
  assumes "\<And>w. case f w of (r, w') \<Rightarrow> \<exists>x. call w = (Returned x, w') \<and> Q (g x) r"
  shows "returns Q running (\<lambda>s. apfst g (unmock z call s)) f"
proof (rule rel_funI)
  fix s :: "'w option" and w
  assume "running s w"
  then have s: "s = Some w" by (simp add: running_def part_of_def)
  obtain r w' where r: "f w = (r, w')" by (metis surj_pair)
  with assms [of w] obtain x where "call w = (Returned x, w')" "Q (g x) r" by auto
  then show "rel_prod Q running (apfst g (unmock z call s)) (f w)" by (simp add: s r running_def part_of_def)
qed

lemma mock_op_related:
  assumes "\<And>w. call w = (case f w of (r, w') \<Rightarrow> (Returned (k r), w'))" and "\<And>r. g (k r) = r"
  shows "acts running (\<lambda>s. apfst g (unmock z call s)) f"
  using assms by (intro mock_object_related) (simp split: prod.split)

lemma mock_plain_related:
  assumes "\<And>w. call w = (case f w of (r, w') \<Rightarrow> (Returned r, w'))"
  shows "acts running (unmock z call) f"
  using mock_op_related [where k = id and g = id, of call f z] assms by (simp add: apfst_id)

lemmas mock_bodies = mock_call_def ret1_def ret2_def passes_def

lemma passes_object_call:
  fixes g :: "GoValue \<Rightarrow> 'b"
  assumes "passes_object c m name Q args f" and "\<And>w. Helper c w = w"
  shows "case f w of (r, w') \<Rightarrow> \<exists>y. mock_call c m name args (\<lambda>ret after. ret2 g as_error ret) w = (Returned y, w') \<and>
    (case r of Inl e \<Rightarrow> snd y = Some e | Inr x \<Rightarrow> snd y = None \<and> (\<exists>v. fst y = g v \<and> Q v x))"
proof -
  obtain r w' where r: "f w = (r, w')" by (metis surj_pair)
  have "case f w of
      (Inl e, w') \<Rightarrow> CallMethod c m name args w = (Some ([V_nil, V_error e], args), w')
    | (Inr x, w') \<Rightarrow> \<exists>v. Q v x \<and> CallMethod c m name args w = (Some ([v, V_nil], args), w')"
    using assms(1) by (simp add: passes_object_def)
  then show ?thesis by (cases r) (auto simp: r mock_call_def ret2_def assms(2))
qed

lemma mocked_os_related:
  assumes "passes_os files m os"
  shows "rel_os running (mocked_os files w0 m) os"
proof -
  note p = assms [unfolded passes_os_def]
  have opens: "returns (rel_sum (=) (rel_file running)) running (Open (mocked_os files w0 m) path) (Open os path)" for path
    unfolding mocked_os_def OSWrapper.simps
  proof (rule mock_object_related)
    fix w
    have "passes_object (mos_ctrl m) (mos_ref m) ''Open'' (\<lambda>v f. \<exists>i. v = V_File i \<and> files (Some i) = f) [V_string path] (Open os path)"
      and "\<And>w. Helper (mos_ctrl m) w = w" using p by blast+
    from passes_object_call [where g = as_File and w = w, OF this]
    show "case Open os path w of (r, w') \<Rightarrow> \<exists>x. MockOSWrapper_Open m path w = (Returned x, w') \<and>
        rel_sum (=) (rel_file running) (case x of (f, e) \<Rightarrow>
          case e of None \<Rightarrow> Inr (file_at the running_put (files f)) | Some err \<Rightarrow> Inl err) r"
      by (cases "fst (Open os path w)")
        (auto simp: MockOSWrapper_Open_def running_def running.file_part_related split: prod.splits)
  qed
  note p' = p [unfolded passes_def]
  have exists: "IsNotExist (mocked_os files w0 m) = IsNotExist os"
    by (rule ext) (simp add: mocked_os_def MockOSWrapper_IsNotExist_def mock_bodies p')
  have stat: "acts running (Stat (mocked_os files w0 m) path) (Stat os path)" for path
    unfolding mocked_os_def OSWrapper.simps
    by (rule mock_op_related [where k = "\<lambda>e. (if e = None then Some () else None, e)"])
      (auto simp: MockOSWrapper_Stat_def mock_bodies p' split: prod.split)
  from opens exists stat show ?thesis
    unfolding rel_os_def rel_fun_def [of "(=)"]
    by (auto simp: mocked_os_def os_calls mock_bodies p' intro!: mock_plain_related split: prod.split)
qed

lemma mocked_resizer_related:
  assumes "passes_resizer m f"
  shows "rel_resizer running (mocked_resizer m) f"
  using assms
  by (auto simp: rel_resizer_def rel_fun_def [of "(=)"] mocked_resizer_def passes_resizer_def resizer_calls mock_bodies
      intro!: mock_plain_related split: prod.split)

lemma mocked_mounter_related:
  assumes "passes_mounter resizers m mounter"
  shows "rel_mounter running (mocked_mounter resizers m) mounter"
proof -
  note p = assms [unfolded passes_mounter_def]
  have resizer: "returns (rel_sum (=) (rel_resizer running)) running
      (NewResizeFs (mocked_mounter resizers m)) (NewResizeFs mounter)"
    unfolding mocked_mounter_def MountWrapper.simps
  proof (rule mock_object_related)
    fix w
    have "passes_object (mmw_ctrl m) (mmw_ref m) ''NewResizeFs''
        (\<lambda>v f. \<exists>i. v = V_Resizefs i \<and> passes_resizer (resizers (Some i)) f) [] (NewResizeFs mounter)"
      and "\<And>w. Helper (mmw_ctrl m) w = w" using p by blast+
    from passes_object_call [where g = as_Resizefs and w = w, OF this]
    show "case NewResizeFs mounter w of (r, w') \<Rightarrow> \<exists>x. MockMountWrapper_NewResizeFs m w = (Returned x, w') \<and>
        rel_sum (=) (rel_resizer running) (case x of (f, e) \<Rightarrow>
          case e of None \<Rightarrow> Inr (mocked_resizer (resizers f)) | Some err \<Rightarrow> Inl err) r"
      by (cases "fst (NewResizeFs mounter w)")
        (auto simp: MockMountWrapper_NewResizeFs_def mocked_resizer_related split: prod.splits)
  qed
  note p' = p [unfolded passes_def]
  have mounts: "acts running (ListMounts (mocked_mounter resizers m)) (ListMounts mounter)"
    unfolding mocked_mounter_def MountWrapper.simps
    by (rule mock_op_related [where k = "\<lambda>r. case r of Inl e \<Rightarrow> ([], Some e) | Inr ms \<Rightarrow> (ms, None)"])
      (auto simp: MockMountWrapper_List_def mock_bodies p' split: prod.split sum.split)
  from resizer mounts show ?thesis
    unfolding rel_mounter_def rel_fun_def [of "(=)"]
    by (auto simp: mocked_mounter_def mount_calls mock_bodies p' intro!: mock_plain_related split: prod.split)
qed

lemma mocked_plugin_related:
  assumes "passes_os files mo (d_os (p_driver p))" and "passes_mounter resizers mm (d_mounter (p_driver p))"
  shows "rel_plugin running (mocked_plugin (mocked_os files w0 mo) (mocked_mounter resizers mm) p) p"
  using mocked_os_related [OF assms(1)] mocked_mounter_related [OF assms(2)]
  by (simp add: rel_plugin_def rel_driver_def mocked_plugin_def running_def
      running.driver_part_related running.backoff_part_related)

text \<open>
  C17: The driver over the mocks is the driver: put the generated mocks in the place of the operating
  system, of the mounter and of its resizers, with a controller that answers the call of each method by
  what the real wrapper does when it is called with the same arguments.  Then every sequence of calls
  gets the replies it gets from the driver over the wrappers, and leaves the same world; no call ends
  the test and no assertion on a result fails.
\<close>

theorem mocked_driver_is_the_driver:
  assumes "passes_os files mo (d_os (p_driver p))" and "passes_mounter resizers mm (d_mounter (p_driver p))"
  shows "serve_all (mocked_plugin (mocked_os files w0 mo) (mocked_mounter resizers mm) p) calls (Some w)
    = apsnd Some (serve_all p calls w)"
proof -
  have "rel_prod (=) running (serve_all (mocked_plugin (mocked_os files w0 mo) (mocked_mounter resizers mm) p) calls (Some w))
      (serve_all p calls w)"
    by (rule serve_all_related [OF mocked_plugin_related [OF assms]]) (simp add: running_def part_of_def)
  then show ?thesis by (auto simp: rel_prod_sel running_def part_of_def prod_eq_iff)
qed

section \<open>Witness\<close>

text \<open>A controller for all three mocks that passes the calls on to given wrappers.\<close>

definition pass_on ::
    "('r \<Rightarrow> GoValue list) \<Rightarrow> GoValue list \<Rightarrow> ('w \<Rightarrow> 'r \<times> 'w) \<Rightarrow> 'w \<Rightarrow> (GoValue list \<times> GoValue list) option \<times> 'w" where
  "pass_on enc args f w = (case f w of (r, w') \<Rightarrow> (Some (enc r, args), w'))"

fun the_string :: "GoValue \<Rightarrow> string" where
  "the_string (V_string s) = s"
| "the_string _ = ''''"

definition pass_error :: "ext_error option \<Rightarrow> GoValue list" where
  "pass_error e = [of_error e]"

definition pass_flag :: "bool \<times> ext_error option \<Rightarrow> GoValue list" where
  "pass_flag r = [V_bool (fst r), of_error (snd r)]"

definition forward_os ::
    "'w OSWrapper \<Rightarrow> string \<Rightarrow> GoValue list \<Rightarrow> 'w \<Rightarrow> (GoValue list \<times> GoValue list) option \<times> 'w" where
  "forward_os os name args w =
     (let p = the_string (args ! 0) in
      if name = ''MkdirAll'' then
        (case args ! 1 of V_mode perm \<Rightarrow> pass_on pass_error args (MkdirAll os p perm) w | _ \<Rightarrow> (None, w))
      else if name = ''RemoveAll'' then pass_on pass_error args (RemoveAll os p) w
      else if name = ''Stat'' then
        pass_on (\<lambda>e. [if e = None then V_FileInfo else V_nil, of_error e]) args (Stat os p) w
      else if name = ''IsNotExist'' then
        pass_on (\<lambda>b. [V_bool b]) args (\<lambda>w. (IsNotExist os (as_error (args ! 0)), w)) w
      else if name = ''Open'' then
        pass_on (\<lambda>r. case r of Inl e \<Rightarrow> [V_nil, V_error e] | Inr f \<Rightarrow> [V_File 0, V_nil]) args (Open os p) w
      else if name = ''Statfs'' then
        (case args ! 1 of
           V_statfs buf \<Rightarrow> (case Statfs os p buf w of ((e, b), w') \<Rightarrow> (Some ([of_error e], [args ! 0, V_statfs b]), w'))
         | _ \<Rightarrow> (None, w))
      else if name = ''Exists'' then
        (case args ! 0 of V_link l \<Rightarrow> pass_on pass_flag args (Exists os l (the_string (args ! 1))) w | _ \<Rightarrow> (None, w))
      else (None, w))"

definition forward_mounter ::
    "'w MountWrapper \<Rightarrow> 'w Resizefs \<Rightarrow> string \<Rightarrow> GoValue list \<Rightarrow> 'w \<Rightarrow> (GoValue list \<times> GoValue list) option \<times> 'w" where
  "forward_mounter mt f name args w =
     (let str = (\<lambda>i. the_string (args ! i)); strs = (\<lambda>i. as_strings (args ! i)) in
      if name = ''IsLikelyNotMountPoint'' then pass_on pass_flag args (IsLikelyNotMountPoint mt (str 0)) w
      else if name = ''Mount'' then pass_on pass_error args (Mount mt (str 0) (str 1) (str 2) (strs 3)) w
      else if name = ''Unmount'' then pass_on pass_error args (Unmount mt (str 0)) w
      else if name = ''List'' then
        pass_on (\<lambda>r. case r of Inl e \<Rightarrow> [V_nil, V_error e] | Inr ms \<Rightarrow> [V_MountPoints ms, V_nil]) args (ListMounts mt) w
      else if name = ''FormatAndMountSensitiveWithFormatOptions'' then
        pass_on pass_error args
          (FormatAndMountSensitiveWithFormatOptions mt (str 0) (str 1) (str 2) (strs 3) (strs 4) (strs 5)) w
      else if name = ''NewResizeFs'' then
        pass_on (\<lambda>r. case r of Inl e \<Rightarrow> [V_nil, V_error e] | Inr x \<Rightarrow> [V_Resizefs 0, V_nil]) args (NewResizeFs mt) w
      else if name = ''Resize'' then pass_on pass_flag args (Resize f (str 0) (str 1)) w
      else (None, w))"

definition forwarder :: "'w OSWrapper \<Rightarrow> 'w MountWrapper \<Rightarrow> 'w Resizefs \<Rightarrow> ('w, unit) Controller" where
  "forwarder os mt f =
     \<lparr>Helper = (\<lambda>w. w), CallMethod = (\<lambda>m. if m = 0 then forward_os os else forward_mounter mt f),
      RecordCallWithMethodType = (\<lambda>m name ty args w. ((), w))\<rparr>"

lemmas forwarder_defs = forwarder_def forward_os_def forward_mounter_def pass_on_def pass_error_def pass_flag_def

text \<open>A file system with one file that is always open, and a mounter with one resizer.\<close>

definition one_file :: "'w File" where
  "one_file = \<lparr>Seek = (\<lambda>off wh w. ((7, None), w)), Close = (\<lambda>w. (None, w))\<rparr>"

definition one_resizer :: "'w Resizefs" where
  "one_resizer = \<lparr>Resize = (\<lambda>dev p w. ((True, None), w))\<rparr>"

definition device_plugin :: "unit Plugin" where
  "device_plugin = sim_plugin\<lparr>p_driver := (p_driver sim_plugin)\<lparr>d_os := nop_os\<lparr>Open := (\<lambda>p w. (Inr one_file, w))\<rparr>\<rparr>\<rparr>"

lemma forwarder_passes:
  assumes "\<And>p w. Open os p w = (Inr x, w)" and "\<And>w. NewResizeFs mt w = (Inr f, w)"
  shows "passes_os (\<lambda>_. x) (NewMockOSWrapper (forwarder os mt f) 0) os"
    and "passes_mounter (\<lambda>_. NewMockResizefs (forwarder os mt f) 2) (NewMockMountWrapper (forwarder os mt f) 1) mt"
  by (simp_all add: passes_os_def passes_mounter_def passes_resizer_def passes_def passes_object_def assms
      NewMockOSWrapper_def NewMockMountWrapper_def NewMockResizefs_def forwarder_defs case_prod_beta)

lemma device_environment:
  "Open (d_os (p_driver device_plugin)) p w = (Inr one_file, w)" "d_mounter (p_driver device_plugin) = nop_mounter"
  "NewResizeFs nop_mounter v = (Inr one_resizer, v)"
  by (simp_all add: device_plugin_def sim_plugin_def ready_driver_def nop_driver_def nop_mounter_def one_resizer_def)

definition mocked_device_plugin :: "unit option Plugin" where
  "mocked_device_plugin =
     (let c = forwarder (d_os (p_driver device_plugin)) nop_mounter one_resizer in
      mocked_plugin (mocked_os (\<lambda>_. one_file) () (NewMockOSWrapper c 0))
        (mocked_mounter (\<lambda>_. NewMockResizefs c 2) (NewMockMountWrapper c 1)) device_plugin)"

definition mock_calls :: "CsiCall list" where
  "mock_calls =
     [Call_CreateVolume sim_create,
      Call_NodeExpandVolume \<lparr>ne_VolumeId = ''volume'', ne_VolumePath = ''/data'', ne_CapacityRange = None, ne_VolumeCapability = None\<rparr>,
      Call_NodeGetVolumeStats \<lparr>nst_VolumeId = ''volume'', nst_VolumePath = ''/data''\<rparr>]"

theorem mocked_driver_is_the_driver_witness:
  "serve_all mocked_device_plugin mock_calls (Some ()) = apsnd Some (serve_all device_plugin mock_calls ())"
  unfolding mocked_device_plugin_def Let_def
  by (rule mocked_driver_is_the_driver; (unfold device_environment(2))?; rule forwarder_passes [OF device_environment(1,3)])

end
