(* ===== verification/Spec2Isabelle.thy ===== *)
theory Spec2Isabelle
  imports Process Controller_Volume_Props Controller_Publish_Props Controller_Snapshot_Props
    Controller_Expand_Props Node_Expand_Props Observation Controller_Concurrency Volume_Store
    Node_Isolation Progress Work_Bounds Answers Snapshot_Store Privileges World_Part Mock_Props Mock_Driver
begin

text \<open>
  The ironcore CSI driver: a model of the Go program under \<^verbatim>\<open>cmd/\<close> and
  \<^verbatim>\<open>pkg/\<close> and the properties that make it correct.

  The program.  One binary runs either as the controller or, on every worker, as the node plugin of
  the Container Storage Interface.  The controller turns CSI calls into objects of the ironcore API
  (volumes, snapshots, the volume list of a machine) through a Kubernetes client; the node plugin
  formats, mounts, resizes and unmounts the devices that appear on the machine.  The driver keeps no
  state of its own between calls: everything it knows is in the API servers and on the node.

  The model.  Every call is a function that takes the driver (theory \<^verbatim>\<open>Driver\<close>: the
  record of \<^verbatim>\<open>pkg/driver/driver.go\<close>, holding two clients, the mounter and the operating
  system), the request and a world, and returns a result and the next world.  The world is a type
  variable, and all code outside the repository (\<^verbatim>\<open>client.Client\<close>, the packages
  \<^verbatim>\<open>os\<close>, \<^verbatim>\<open>unix\<close> and \<^verbatim>\<open>k8s.io/mount-utils\<close>,
  \<^verbatim>\<open>wait.ExponentialBackoffWithContext\<close>) is an arbitrary function on it, so a theorem
  without a hypothesis on them holds whatever servers, kernel and other parties do.  What some theorems
  assume of them is stated by named predicates: \<^verbatim>\<open>backoff_legal\<close> (theory Wait),
  \<^verbatim>\<open>answers_key\<close> (Driver), \<^verbatim>\<open>machine_server\<close> and
  \<^verbatim>\<open>node_server\<close> (Controller_Publish_Props),
  \<^verbatim>\<open>merging_server\<close> and \<^verbatim>\<open>watching_nodes\<close> (Controller_Concurrency),
  \<^verbatim>\<open>volume_server\<close> (Volume_Store) and \<^verbatim>\<open>snapshot_server\<close>
  (Snapshot_Store), in which an object is live, under deletion or gone and an apply to one under deletion
  succeeds without bringing it back, \<^verbatim>\<open>mount_host\<close> (Node_Lifecycle: a mount table with stacked mounts; a path
  that \<^verbatim>\<open>IsLikelyNotMountPoint\<close> reports as no mount point may still be a bind mount from the same
  file system, as the library documents), \<^verbatim>\<open>answers_asked\<close> (Privileges),
  \<^verbatim>\<open>patient_backoff\<close>, \<^verbatim>\<open>provisions_volumes\<close> and
  \<^verbatim>\<open>healthy_host\<close> (Progress), \<^verbatim>\<open>gomock_contract\<close> (Mock_Props),
  \<^verbatim>\<open>passes_os\<close> and \<^verbatim>\<open>passes_mounter\<close> (Mock_Driver).
  Go's \<^verbatim>\<open>int64\<close> is a 64-bit word, a pointer that may be nil an
  \<^verbatim>\<open>option\<close>, a map a partial function, an error a value (theory Errors), and a nil
  dereference the result \<^verbatim>\<open>Panic\<close>.

  The theories, in the order of the code:
  Prelude (64-bit integers, Go's maps, strings and slices);
  Sizes (\<^verbatim>\<open>pkg/utils/util.go\<close>);
  Csi_Types and Kube_Types (constants, CSI messages, API objects, the client), Errors;
  Os_Utils and Mount_Utils (\<^verbatim>\<open>pkg/utils/os\<close>, \<^verbatim>\<open>pkg/utils/mount\<close>);
  Driver (\<^verbatim>\<open>driver.go\<close>, \<^verbatim>\<open>identity.go\<close>, \<^verbatim>\<open>version.go\<close>,
  \<^verbatim>\<open>options.go\<close>);
  Wait, Controller_Volume, Controller_Publish, Controller_Snapshot and Controller_Expand
  (\<^verbatim>\<open>controller.go\<close>);
  Node_Stage, Node_Publish and Node_Expand (\<^verbatim>\<open>node.go\<close>);
  Service (the interface \<^verbatim>\<open>Driver\<close> of \<^verbatim>\<open>driver.go\<close>: all calls of the
  three services as one function, and sequences of calls);
  Bootstrap (\<^verbatim>\<open>cmd/main.go\<close>: configuration, clients and the driver that is served) and
  Process (the rest of that file: API types, command line, signals and \<^verbatim>\<open>main\<close> as a whole);
  Gomock, Mock_Os and Mock_Mount (the generated mocks of the operating system, of the mounter and of a
  resizer with their recorders; \<^verbatim>\<open>gomock.Controller\<close> is a parameter).
  The names of functions, constants and messages are those of the code; a function is cut where the
  text says so, each piece with the lines it models.

  The proofs.  Trace runs any call over an instrumented driver that records the external calls, and
  Observation shows that this changes nothing; Sim holds the test doubles of the witnesses.
  Controller_Volume_Props: size, calls and success of CreateVolume, idempotence of DeleteVolume.
  Controller_Publish_Props: the calls of publish and unpublish, the invariant of the attachment lists
  under any interleaving of calls and other parties, and that unpublish undoes publish.
  Controller_Snapshot_Props and Controller_Expand_Props: the same for snapshots and expansion.
  Node_Stage_Props, Node_Publish_Props, Node_Expand_Props: calls, order, options, sizes and statistics.
  Node_Lifecycle: the mount table and the contents of the file systems under any sequence of node calls;
  paths where only volumes are mounted are safe, and a path where the node's own files were bind-mounted
  loses them when it is unpublished, which a lemma shows.
  Labelled_Runs: runs of a step relation with labels, their invariants and simulations.
  Bootstrap_Props and Process: the accepted configurations and command lines, and how the process ends.

  The abstract specifications and what refines them.
  Controller_Concurrency: the attachments of the machines with the operations attach and detach; each
  publish and unpublish call is one atomic abstract operation, although it reads first and patches
  later and any other controller and any other party may act between its client calls.
  Volume_Store: one volume with the operations put, delete and raise.  Each call of the controller is
  a run of at most the one operation that belongs to it, with the size and class it asks for, and a call
  that is not about the volume leaves it alone; so stored volumes stay well typed, only grow between a
  creation and a deletion, answers are true up to a deletion under way, and a creation can be retried.
  Snapshot_Store: one snapshot with the operations take, of an available volume, and drop, each attributed
  to the call that makes it.
  Node_Isolation: the mount table of a node on which every path belongs to one device; each call shows
  or clears its own path only.

  Across all calls.  Relational: every call is parametric in the world, that is, it gives the same
  answer in two environments whose operations correspond; Service extends this to sequences of calls of
  the whole plugin, and the following theories are its applications.  Observation: recording the calls
  changes nothing.  World_Part: a call whose operations work on a part of a larger world, as those of a
  test do that also keeps the state of its mocks.  Mock_Driver: the driver over the mocks is the driver
  over the wrappers.
  Privileges: which external calls each call may make, with which arguments.  Work_Bounds: every call
  ends after a fixed number of external calls.  Answers: the kinds of answer each call can give.
  Progress: the calls succeed when the servers and the node do their part.  Mock_Props: the mocks replay
  what their recorders are told.
  This theory: the properties that tie the parts together.

  The interfaces between the parts are locales, each interpreted on the model: \<^verbatim>\<open>rounding\<close>
  (Sizes), \<^verbatim>\<open>os_wrapper\<close> and \<^verbatim>\<open>mount_wrapper\<close>,
  \<^verbatim>\<open>wait_loop\<close> (both wait functions), \<^verbatim>\<open>checked_call\<close> (every call that
  checks its request first), \<^verbatim>\<open>attachment_list\<close>,
  \<^verbatim>\<open>world_part\<close> (a part of a larger world: a running test).

  Bounds.  There is no fuel: the only loop that waits is the backoff loop, a parameter, which by its
  documented contract tries its condition at most \<^verbatim>\<open>waitActiveSteps\<close> = 5 times and
  sleeps 4.641 seconds in all; its runs are the inductive relation \<^verbatim>\<open>poll_run\<close>
  (\<^verbatim>\<open>patient_run\<close> when it is not interrupted), so all answers, interruptions and
  changes by other parties between two tries are covered.  No call makes more than seven external
  calls.  All other loops run over lists.

  Interference.  In the theories about attachments other parties act between any two client calls of a
  call (the relation \<^verbatim>\<open>rely\<close>), while it waits they act everywhere.  Volume_Store and
  Node_Lifecycle take the calls for one volume one after the other, as the driver asks of the CSI
  server (\<^verbatim>\<open>serveEnv\<close>); what other parties do to objects under deletion may happen at any
  client call.

  Not modelled: logging; contexts, except that an interrupted wait is modelled and that a signal
  cancels the context; the gRPC server, its request validation and its locks (gocsi); the matching
  of expectations inside gomock; the tests and the deployment files.  Of the standard library, flag parsing is written out for
  flags that take a string, the kind this program registers; flags of other packages are a parameter.
\<close>

section \<open>From the controller to the node\<close>

text \<open>
  The device path that a publication answers: made of the device of the attachment on the machine that
  was read, or that the server returned for the patch, and of the handle of the volume that was read.
\<close>

lemma ControllerPublishVolume_path:
  assumes "ControllerPublishVolume d req w = (Ok ctx, w')"
  shows "\<exists>served machine w1 w2 volume access device.
    GetMachine (d_ironcoreClient d) (machineKeyOf d req) w = (Inr machine, w1) \<and>
    (served = machine \<and> w2 = w1 \<or> (\<exists>new. PatchMachine (d_ironcoreClient d) machine new w1 = (Inr served, w2))) \<and>
    GetVolume (d_ironcoreClient d) (volumeKeyOf d req) w2 = (Inr volume, w') \<and>
    vol_State volume = VolumeStateAvailable \<and> vol_Access volume = Some access \<and>
    attachedDevice (m_Volumes served) (attachmentName (cp_VolumeId req)) = Some device \<and>
    ctx = [ParameterNodeID \<mapsto> cp_NodeId req, ParameterVolumeID \<mapsto> cp_VolumeId req,
      ParameterDeviceName \<mapsto> devicePrefix @ take 20 (device @ ''-'' @ Handle access)]"
proof -
  obtain served w2 where at: "attachToMachine d req w = (Inr served, w2)"
    using assms by (auto simp: ControllerPublishVolume_def split: outcome_splits)
  then obtain machine w1 where "GetMachine (d_ironcoreClient d) (machineKeyOf d req) w = (Inr machine, w1)"
      "served = machine \<and> w2 = w1 \<or> (\<exists>new. PatchMachine (d_ironcoreClient d) machine new w1 = (Inr served, w2))"
    by (auto simp: attachToMachine_def Let_def split: outcome_splits)
  moreover have "\<exists>volume access device.
      GetVolume (d_ironcoreClient d) (volumeKeyOf d req) w2 = (Inr volume, w') \<and>
      vol_State volume = VolumeStateAvailable \<and> vol_Access volume = Some access \<and>
      attachedDevice (m_Volumes served) (attachmentName (cp_VolumeId req)) = Some device \<and>
      ctx = [ParameterNodeID \<mapsto> cp_NodeId req, ParameterVolumeID \<mapsto> cp_VolumeId req,
        ParameterDeviceName \<mapsto> devicePrefix @ take 20 (device @ ''-'' @ Handle access)]"
    using assms at
    by (auto simp: ControllerPublishVolume_def validateDeviceName_def deviceName_take Let_def split: outcome_splits)
  ultimately show ?thesis by blast
qed

lemma stage_format_call:
  assumes "NodeStageVolume (traced d) s (x, []) = (r, (x', tr))"
    and "C_FormatAndMount dev p fs opts fopts e \<in> set tr"
  shows "dev = go_lookup (ns_PublishContext s) ParameterDeviceName \<and> p = ns_StagingTargetPath s \<and>
    fs = go_lookup (ns_VolumeContext s) ParameterFSType \<and> opts = stageOptions s \<and> fopts = stageFormatOptions s"
proof -
  let ?dev = "go_lookup (ns_PublishContext s) ParameterDeviceName" and ?p = "ns_StagingTargetPath s"
  obtain e0 w1 where st: "Stat (d_os d) ?dev x = (e0, w1)" by (metis surj_pair)
  obtain b e1 w2 where mp: "IsLikelyNotMountPoint (d_mounter d) ?p w1 = ((b, e1), w2)" by (metis surj_pair)
  have "tr = [C_Stat ?dev e0] \<or> tr = [C_Stat ?dev e0, C_IsLikelyNotMountPoint ?p b e1] \<or>
      stageMount (traced d) s (w2, [C_Stat ?dev e0, C_IsLikelyNotMountPoint ?p b e1]) = (r, (x', tr))"
    using assms(1) st mp
    by (auto simp: NodeStageVolume_def logged_eq Let_def split: option.splits if_splits)
  then have "stageMount (traced d) s (w2, [C_Stat ?dev e0, C_IsLikelyNotMountPoint ?p b e1]) = (r, (x', tr))"
    using assms(2) by auto
  from stageMount_trace [OF this] obtain e1' e2 where "prefix tr ([C_Stat ?dev e0, C_IsLikelyNotMountPoint ?p b e1] @
      [C_MkdirAll ?p e1', C_FormatAndMount ?dev ?p (go_lookup (ns_VolumeContext s) ParameterFSType)
        (stageOptions s) (stageFormatOptions s) e2])"
    by blast
  from set_mono_prefix [OF this] assms(2) show ?thesis by auto
qed

text \<open>
  C18: The file system that the storage class asks for is made on the device that was attached.  When a
  volume was created and published and its contexts reach the node unchanged, a formatting mount of the
  staging is of the device path of the publication: the by-id path made of the device that the machine's
  attachment of this volume has, as it was read or as the server answered the patch, and of the handle of
  the available volume that was read.  It goes to the staging path, with the file system of the class
  (ext4 by default) and its mkfs options cut at blanks.  The readOnly parameter of the class, however, has
  no effect: the context of a created volume never carries the key, so it is mounted writable, with the
  mount flags of the request.
\<close>

theorem created_volume_is_staged:
  assumes "CreateVolume rt eb dc req w = (Ok vol, w')"
    and "ControllerPublishVolume dc \<lparr>cp_VolumeId = VolumeId vol, cp_NodeId = node\<rparr> u = (Ok ctx, u')"
    and "ns_VolumeContext s = VolumeContext vol" and "ns_PublishContext s = ctx"
    and "NodeStageVolume (traced dn) s (x, []) = (r, (x', tr))"
    and "C_FormatAndMount dev p fs opts fopts e \<in> set tr"
  shows "(\<exists>served machine u1 u2 volume access device.
      GetMachine (d_ironcoreClient dc) (machineKeyOf dc \<lparr>cp_VolumeId = cv_Name req, cp_NodeId = node\<rparr>) u = (Inr machine, u1) \<and>
      (served = machine \<and> u2 = u1 \<or> (\<exists>new. PatchMachine (d_ironcoreClient dc) machine new u1 = (Inr served, u2))) \<and>
      GetVolume (d_ironcoreClient dc) (volumeKeyOf dc \<lparr>cp_VolumeId = cv_Name req, cp_NodeId = node\<rparr>) u2 = (Inr volume, u') \<and>
      vol_State volume = VolumeStateAvailable \<and> vol_Access volume = Some access \<and>
      attachedDevice (m_Volumes served) (attachmentName (cv_Name req)) = Some device \<and>
      dev = devicePrefix @ take 20 (device @ ''-'' @ Handle access))
    \<and> ctx ParameterDeviceName = Some dev
    \<and> p = ns_StagingTargetPath s
    \<and> fs = (case cv_Parameters req ParameterFSType of None \<Rightarrow> ''ext4'' | Some t \<Rightarrow> t)
    \<and> opts = ''rw'' # GetMountFlags (GetMount (ns_VolumeCapability s))
    \<and> fopts = (let o' = go_lookup (cv_Parameters req) ParameterMkfsOptions
               in if o' = '''' then [] else go_split (CHR '' '') o')"
proof -
  obtain a pool v where args: "create_args req = Inr a" and vol: "vol = createResponse rt req a pool v"
    using assms(1) by (rule CreateVolume_okE)
  have params: "ca_fstype a = (case cv_Parameters req ParameterFSType of None \<Rightarrow> ''ext4'' | Some t \<Rightarrow> t)"
      "ca_mkfsOptions a = go_lookup (cv_Parameters req) ParameterMkfsOptions"
    using args by (auto simp: create_args_def go_lookup_def FSTypeExt4_def Let_def split: outcome_splits)
  have ctxs: "VolumeContext vol ParameterFSType = Some (ca_fstype a)"
      "VolumeContext vol ParameterMkfsOptions = Some (ca_mkfsOptions a)"
      "VolumeContext vol ParameterReadOnly = None" "VolumeId vol = cv_Name req"
    by (simp_all add: vol createResponse_def parameter_defs)
  note call = stage_format_call [OF assms(5,6)]
  obtain served machine u1 u2 volume access device where
    path: "GetMachine (d_ironcoreClient dc) (machineKeyOf dc \<lparr>cp_VolumeId = VolumeId vol, cp_NodeId = node\<rparr>) u = (Inr machine, u1)"
      "served = machine \<and> u2 = u1 \<or> (\<exists>new. PatchMachine (d_ironcoreClient dc) machine new u1 = (Inr served, u2))"
      "GetVolume (d_ironcoreClient dc) (volumeKeyOf dc \<lparr>cp_VolumeId = VolumeId vol, cp_NodeId = node\<rparr>) u2 = (Inr volume, u')"
      "vol_State volume = VolumeStateAvailable" "vol_Access volume = Some access"
      "attachedDevice (m_Volumes served) (attachmentName (VolumeId vol)) = Some device"
    and ctx: "ctx ParameterDeviceName = Some (devicePrefix @ take 20 (device @ ''-'' @ Handle access))"
    using ControllerPublishVolume_path [OF assms(2)] by force
  have dev: "dev = devicePrefix @ take 20 (device @ ''-'' @ Handle access)"
    using call assms(4) ctx by simp
  show ?thesis
  proof (intro conjI)
    show "\<exists>served machine u1 u2 volume access device.
      GetMachine (d_ironcoreClient dc) (machineKeyOf dc \<lparr>cp_VolumeId = cv_Name req, cp_NodeId = node\<rparr>) u = (Inr machine, u1) \<and>
      (served = machine \<and> u2 = u1 \<or> (\<exists>new. PatchMachine (d_ironcoreClient dc) machine new u1 = (Inr served, u2))) \<and>
      GetVolume (d_ironcoreClient dc) (volumeKeyOf dc \<lparr>cp_VolumeId = cv_Name req, cp_NodeId = node\<rparr>) u2 = (Inr volume, u') \<and>
      vol_State volume = VolumeStateAvailable \<and> vol_Access volume = Some access \<and>
      attachedDevice (m_Volumes served) (attachmentName (cv_Name req)) = Some device \<and>
      dev = devicePrefix @ take 20 (device @ ''-'' @ Handle access)"
      using path dev unfolding ctxs(4) by blast
  qed (use call assms(3,4) ctxs(1-3) params ctx dev in \<open>simp_all add: stageOptions_eq stageFormatOptions_eq Let_def\<close>)
qed

text \<open>
  C38: The zone comes around: the topology a node reports, given to CreateVolume as the first preferred
  topology of a request that names no pool, makes the node's zone the pool that is asked for, and a
  volume that is created is accessible from exactly the topology the node reported.
\<close>

theorem zone_roundtrip:
  assumes "NodeGetInfo dn u = (Ok info, u')" and "ni_AccessibleTopology info = Some t"
    and "cv_AccessibilityRequirements req = Some \<lparr>Requisite = rs, Preferred = t # ts\<rparr>"
    and "go_lookup (cv_Parameters req) ParameterVolumePool = ''''"
    and "CreateVolume rt eb dc req w = (Ok vol, w')"
  shows "AccessibleTopology vol = [t] \<and>
    (\<exists>zone. Segments t = [topologyKey \<mapsto> zone] \<and> zone \<noteq> '''' \<and>
       VolumeContext vol ParameterVolumePool = Some
         (case fst (GetVolumePool (d_ironcoreClient dc) \<lparr>key_Namespace = '''', key_Name = zone\<rparr> w) of
            Inr pool \<Rightarrow> zone | Inl err \<Rightarrow> ''''))"
proof -
  obtain zone where t: "t = \<lparr>Segments = [topologyKey \<mapsto> zone]\<rparr>" "zone \<noteq> ''''"
    using assms(1,2) by (auto simp: NodeGetInfo_def split: outcome_splits)
  then have pool: "requestedPool req = zone"
    using assms(3,4) by (simp add: requestedPool_def getAZFromTopology_def)
  obtain a p w1 w2 v where "create_args req = Inr a" "resolvePool dc (ca_volumePoolName a) w = (Inr p, w1)"
      "vol = createResponse rt req a p v"
    using assms(5) by (rule CreateVolume_okE)
  then have "AccessibleTopology vol = [t]" "VolumeContext vol ParameterVolumePool = Some p"
      "resolvePool dc zone w = (Inr p, w1)"
    using create_args_pool [of req a] pool t assms(4) by (auto simp: createResponse_def parameter_defs)
  then show ?thesis
    by (intro conjI exI [of _ zone]) (auto simp: t resolvePool_def split: outcome_splits)
qed

text \<open>
  C22: An expansion reaches the file system: if the controller expanded the volume and the node then
  expanded to the size the controller answered, the device on the node has at least the size the user
  required, and the expansion on the node was announced.
\<close>

theorem expansion_end_to_end:
  assumes "ControllerExpandVolume dc req w = (Ok resp, w')"
    and "ce_CapacityRange req = Some cap" and "round_fits (RequiredBytes cap)"
    and "ne_CapacityRange nreq = Some \<lparr>RequiredBytes = ce_CapacityBytes resp, LimitBytes = l\<rparr>"
    and "NodeExpandVolume rt dn nreq x = (Ok n, x')"
  shows "NodeExpansionRequired resp \<and> sint (RequiredBytes cap) \<le> sint n"
proof -
  obtain volume w2 old where "expandPatch dc volume old cap w2 = (Ok resp, w')"
    using assms(1,2) by (auto elim: ControllerExpandVolume_okE)
  then have "ce_CapacityBytes resp = RoundUpBytes (RequiredBytes cap)" "NodeExpansionRequired resp"
    by (auto elim: expandPatch_okE)
  moreover have "sint (ce_CapacityBytes resp) \<le> sint n"
    using assms(4,5) by (auto simp: NodeExpandVolume_def resizeDevice_def GetRequiredBytes_def Let_def
        split: outcome_splits)
  ultimately show ?thesis using gib.rnd_ge [OF assms(3)] by simp
qed

section \<open>Rejected requests\<close>

text \<open>
  Requests that fail their checks leave no trace: for every call of the driver that checks its
  request first, any batch of requests that all fail their checks leaves the API server and the node
  exactly as they were.
\<close>

lemma rejected_requests_do_nothing:
  "(list_all (\<lambda>r. checkCreate r \<noteq> None) creates \<longrightarrow> snd (run_all (CreateVolume rt eb d) creates w) = w)
   \<and> (list_all (\<lambda>r. checkSnapshot r \<noteq> None) snaps \<longrightarrow> snd (run_all (CreateSnapshot eb' d) snaps w) = w)
   \<and> (list_all (\<lambda>r. checkExpand r \<noteq> None) exps \<longrightarrow> snd (run_all (ControllerExpandVolume d) exps w) = w)
   \<and> (list_all (\<lambda>r. checkValidate r \<noteq> None) vals \<longrightarrow> snd (run_all (ValidateVolumeCapabilities d) vals w) = w)
   \<and> (list_all (\<lambda>r. checkNodePublish r \<noteq> None) pubs \<longrightarrow> snd (run_all (NodePublishVolume d) pubs w) = w)
   \<and> (list_all (\<lambda>r. checkUnpublish r \<noteq> None) unpubs \<longrightarrow> snd (run_all (NodeUnpublishVolume d) unpubs w) = w)
   \<and> (list_all (\<lambda>r. checkUnstage r \<noteq> None) unstgs \<longrightarrow> snd (run_all (NodeUnstageVolume rt d) unstgs w) = w)
   \<and> (list_all (\<lambda>r. checkNodeExpand r \<noteq> None) nexps \<longrightarrow> snd (run_all (NodeExpandVolume rt d) nexps w) = w)"
  unfolding list_all_iff
  by (intro conjI impI create_check.rejected_run snapshot_check.rejected_run expand_check.rejected_run
      validate_check.rejected_run publish_check.rejected_run unpublish_check.rejected_run
      unstage_check.rejected_run node_expand_check.rejected_run)

section \<open>Witnesses\<close>

definition sim_create_v :: CreateVolumeRequest where
  "sim_create_v = sim_create\<lparr>cv_Name := ''v''\<rparr>"

lemma sim_create_v_args: "create_args sim_create_v = create_args sim_create"
  unfolding sim_create_args
  by (simp add: create_args_def getVolSizeBytes_def sim_create_v_def sim_create_def parameter_defs Let_def
      RoundUpBytes_def roundUpSize_def GiB_def go_div_def signed_divide_int_def FSTypeExt4_def)

lemma sim_created: "is_ok (fst (CreateVolume nop_runtime sim_backoff store_driver sim_create_v w))"
  by (simp add: create_run sim_create_v_args store_driver_def store_client_def)

theorem created_volume_is_staged_witness:
  "\<exists>vol w' ctx u' r x' tr e.
     CreateVolume nop_runtime sim_backoff store_driver sim_create_v sim_store = (Ok vol, w') \<and>
     ControllerPublishVolume store_driver sim_publish sim_store = (Ok ctx, u') \<and>
     NodeStageVolume (traced nop_driver) \<lparr>ns_VolumeId = ''v'', ns_PublishContext = ctx, ns_StagingTargetPath = ''/stage'',
       ns_VolumeCapability = None, ns_VolumeContext = VolumeContext vol\<rparr> ((), []) = (r, (x', tr)) \<and>
     C_FormatAndMount (go_lookup ctx ParameterDeviceName) ''/stage'' ''ext4'' [''rw''] [] e \<in> set tr"
proof -
  obtain vol w' where create: "CreateVolume nop_runtime sim_backoff store_driver sim_create_v sim_store = (Ok vol, w')"
    using sim_created [of sim_store] by (metis is_ok_iff prod.collapse)
  obtain ctx u' where publish: "ControllerPublishVolume store_driver sim_publish sim_store = (Ok ctx, u')"
    using sim_published by blast
  let ?s = "\<lparr>ns_VolumeId = ''v'', ns_PublishContext = ctx, ns_StagingTargetPath = ''/stage'',
      ns_VolumeCapability = None, ns_VolumeContext = VolumeContext vol\<rparr>"
  obtain r x' tr where stage: "NodeStageVolume (traced nop_driver) ?s ((), []) = (r, (x', tr))"
    by (metis surj_pair)
  obtain dev p fs opts fopts e where call: "C_FormatAndMount dev p fs opts fopts e \<in> set tr"
    using stage by (auto simp: NodeStageVolume_def stageMount_def sim_defs logged_eq Let_def)
  have "VolumeId vol = ''v''"
    using create by (rule CreateVolume_okE) (simp add: createResponse_def sim_create_v_def)
  then have request: "\<lparr>cp_VolumeId = VolumeId vol, cp_NodeId = ''node''\<rparr> = sim_publish"
    by (simp add: sim_publish_def)
  have ctxs: "ns_VolumeContext ?s = VolumeContext vol" "ns_PublishContext ?s = ctx" by simp_all
  note spec = created_volume_is_staged [OF create publish [folded request] ctxs stage call]
  have "p = ''/stage''" "fs = ''ext4''" "opts = [''rw'']" "fopts = []"
    using spec by (simp_all add: sim_create_v_def sim_create_def parameter_defs GetMount_def GetMountFlags_def Let_def)
  moreover have "dev = go_lookup ctx ParameterDeviceName"
    using stage_format_call [OF stage call] by simp
  ultimately show ?thesis using create publish stage call by blast
qed

definition sim_zone_create :: CreateVolumeRequest where
  "sim_zone_create = sim_create\<lparr>cv_Parameters := [ParameterType \<mapsto> ''expand-only''],
     cv_AccessibilityRequirements := Some \<lparr>Requisite = [], Preferred = [\<lparr>Segments = [topologyKey \<mapsto> ''foo'']\<rparr>]\<rparr>\<rparr>"

lemma sim_zone_args: "\<exists>a. create_args sim_zone_create = Inr a"
  by (simp add: create_args_def getVolSizeBytes_def sim_zone_create_def sim_create_def parameter_defs Let_def
      RoundUpBytes_def roundUpSize_def GiB_def go_div_def signed_divide_int_def)

lemma sim_zone_created: "is_ok (fst (CreateVolume nop_runtime sim_backoff ready_driver sim_zone_create w))"
  using sim_zone_args by (auto simp: create_run)

theorem zone_roundtrip_witness:
  "\<exists>info u' vol w'. NodeGetInfo ready_driver () = (Ok info, u') \<and>
     CreateVolume nop_runtime sim_backoff ready_driver sim_zone_create () = (Ok vol, w') \<and>
     ni_AccessibleTopology info = Some \<lparr>Segments = [topologyKey \<mapsto> ''foo'']\<rparr> \<and>
     AccessibleTopology vol = [\<lparr>Segments = [topologyKey \<mapsto> ''foo'']\<rparr>]"
proof -
  have info: "NodeGetInfo ready_driver () =
      (Ok \<lparr>NodeId = ''node'', ni_AccessibleTopology = Some \<lparr>Segments = [topologyKey \<mapsto> ''foo'']\<rparr>\<rparr>, ())"
    by (simp add: NodeGetInfo_def getZoneFromNode_def zoneOfLabels_def ready_defs LabelTopologyZone_def
        LabelFailureDomainBetaZone_def)
  obtain vol w' where create: "CreateVolume nop_runtime sim_backoff ready_driver sim_zone_create () = (Ok vol, w')"
    using sim_zone_created [of "()"] by (metis is_ok_iff prod.collapse)
  have "AccessibleTopology vol = [\<lparr>Segments = [topologyKey \<mapsto> ''foo'']\<rparr>]"
    using zone_roundtrip [OF info _ _ _ create, of "\<lparr>Segments = [topologyKey \<mapsto> ''foo'']\<rparr>" "[]" "[]"]
    by (simp add: sim_zone_create_def parameter_defs)
  with info create show ?thesis by auto
qed

definition sim_node_grow :: NodeExpandRequest where
  "sim_node_grow = sim_node_expand\<lparr>ne_CapacityRange := Some \<lparr>RequiredBytes = 6442450944, LimitBytes = 0\<rparr>\<rparr>"

definition sim_grow :: ControllerExpandRequest where
  "sim_grow = \<lparr>ce_VolumeId = ''v'', ce_CapacityRange = Some \<lparr>RequiredBytes = 6442450000, LimitBytes = 0\<rparr>\<rparr>"

theorem expansion_end_to_end_witness:
  "\<exists>resp w' n x'. ControllerExpandVolume ready_driver sim_grow () = (Ok resp, w')
     \<and> NodeExpandVolume nop_runtime sim_disk sim_node_grow () = (Ok n, x') \<and> 6442450000 \<le> sint n"
proof -
  have rounded: "RoundUpBytes 6442450000 = 6442450944"
    by (simp add: RoundUpBytes_def roundUpSize_def GiB_def go_div_def signed_divide_int_def)
  have ctl: "ControllerExpandVolume ready_driver sim_grow () =
      (Ok \<lparr>ce_CapacityBytes = 6442450944, NodeExpansionRequired = True\<rparr>, ())"
    by (simp add: ControllerExpandVolume_def checkExpandable_def expandPatch_def sim_grow_def rounded
        GetRequiredBytes_def ready_defs Let_def)
  have node: "NodeExpandVolume nop_runtime sim_disk sim_node_grow () = (Ok 6442450944, ())"
    by (simp add: sim_node_grow_def disk_run)
  have "6442450000 \<le> sint (6442450944 :: int64)"
    using expansion_end_to_end [OF ctl _ _ _ node, of "\<lparr>RequiredBytes = 6442450000, LimitBytes = 0\<rparr>" 0]
    by (simp add: sim_grow_def sim_node_grow_def round_fits_def)
  with ctl node show ?thesis by auto
qed

theorem rejected_requests_do_nothing_witness:
  "snd (run_all (CreateVolume nop_runtime sim_backoff ready_driver)
     [sim_create\<lparr>cv_Parameters := Map.empty\<rparr>, sim_create\<lparr>cv_Parameters := Map.empty\<rparr>] ()) = ()
   \<and> snd (run_all (NodeUnpublishVolume nop_driver) [\<lparr>nup_VolumeId = '''', nup_TargetPath = ''/pod''\<rparr>] (7 :: nat)) = 7"
proof -
  have "list_all (\<lambda>r. checkUnpublish r \<noteq> None) [\<lparr>nup_VolumeId = '''', nup_TargetPath = ''/pod''\<rparr>]"
    by (simp add: checkUnpublish_def)
  then have "snd (run_all (NodeUnpublishVolume nop_driver) [\<lparr>nup_VolumeId = '''', nup_TargetPath = ''/pod''\<rparr>] (7 :: nat)) = 7"
    using rejected_requests_do_nothing [where unpubs = "[\<lparr>nup_VolumeId = '''', nup_TargetPath = ''/pod''\<rparr>]"
        and d = nop_driver and w = "7 :: nat"] by blast
  then show ?thesis by simp
qed

end
